(* ===== verification/Prelude.thy ===== *)
theory Prelude
  imports Main "HOL-Library.Multiset"
begin

text \<open>
  What every component shares: the names of the model's basic types, the JavaScript
  operators on absent values the code leans on (\<open>??\<close>, \<open>||\<close>), the string
  primitives of the language (trim, lower case, split, includes), and the generic
  lemmas on lists, multisets and errors the component proofs use.

  Conventions of the whole development: a moment or a duration is an \<open>int\<close> in
  milliseconds; an identifier is a \<open>string\<close>; \<open>undefined\<close> and \<open>null\<close> are
  both \<open>None\<close> unless a component says otherwise; an exception is the \<open>Inl\<close> of a sum.
\<close>

type_synonym time = int
type_synonym oid = string

named_theorems inv_intros \<open>invariant preservation, one fact per operation\<close>

subsection \<open>Absent values\<close>

definition nullish :: "'a option \<Rightarrow> 'a \<Rightarrow> 'a" where
  "nullish x d = (case x of None \<Rightarrow> d | Some v \<Rightarrow> v)"

lemma nullish_simps [simp]:
  "nullish None d = d"
  "nullish (Some v) d = v"
  by (simp_all add: nullish_def)

text \<open>\<open>x || d\<close> on a string: an absent or empty string is falsy.\<close>

definition str_or :: "string option \<Rightarrow> string \<Rightarrow> string" where
  "str_or x d = (case x of None \<Rightarrow> d | Some v \<Rightarrow> if v = [] then d else v)"

text \<open>\<open>x || d\<close> on a number: an absent number or zero is falsy.\<close>

definition num_or :: "('a::zero) option \<Rightarrow> 'a \<Rightarrow> 'a" where
  "num_or x d = (case x of None \<Rightarrow> d | Some v \<Rightarrow> if v = 0 then d else v)"

lemma str_or_simps [simp]:
  "str_or None d = d"
  "str_or (Some []) d = d"
  "str_or (Some (c # cs)) d = c # cs"
  by (simp_all add: str_or_def)

lemma num_or_simps [simp]:
  "num_or None d = d"
  "num_or (Some 0) d = d"
  "v \<noteq> 0 \<Longrightarrow> num_or (Some v) d = v"
  by (simp_all add: num_or_def)

text \<open>A later object spread wins, key by key.\<close>

definition later :: "'a option \<Rightarrow> 'a option \<Rightarrow> 'a option" where
  "later old new = (case new of None \<Rightarrow> old | Some v \<Rightarrow> Some v)"

lemma later_simps [simp]:
  "later old None = old"
  "later old (Some v) = Some v"
  by (simp_all add: later_def)

definition is_Inl :: "'a + 'b \<Rightarrow> bool" where
  "is_Inl x = (case x of Inl _ \<Rightarrow> True | Inr _ \<Rightarrow> False)"

lemma is_Inl_simps [simp]: "is_Inl (Inl a)" "\<not> is_Inl (Inr b)"
  by (simp_all add: is_Inl_def)

text \<open>Case analysis of nested tuples, as state-passing functions return them.\<close>

lemma pair_pair_cases: obtains a b c where "x = ((a, b), c)"
  by (cases x; cases "fst x") simp

lemma pair_triple_cases: obtains a b c d where "x = ((a, b, c), d)"
  by (cases x; cases "fst x"; cases "snd (fst x)") simp

subsection \<open>Strings\<close>

text \<open>White space and case of ASCII text; other characters are bytes of UTF-8 and are left alone.\<close>

definition is_space :: "char \<Rightarrow> bool" where
  "is_space c = (c \<in> {CHR '' '', CHR 0x09, CHR 0x0A, CHR 0x0B, CHR 0x0C, CHR 0x0D})"

definition trim :: "string \<Rightarrow> string" where
  "trim s = rev (dropWhile is_space (rev (dropWhile is_space s)))"

lemma dropWhile_idem: "dropWhile P (dropWhile P s) = dropWhile P s"
  by (induction s) auto

lemma dropWhile_rev_dropWhile:
  "dropWhile P (rev (dropWhile P (rev (dropWhile P s)))) = rev (dropWhile P (rev (dropWhile P s)))"
proof (cases "dropWhile P s")
  case (Cons c r)
  then have "\<not> P c" by (metis hd_dropWhile list.distinct(1) list.sel(1))
  moreover have "dropWhile P (rev (c # r)) = dropWhile P (rev r @ [c])" by simp
  moreover have "dropWhile P (rev r @ [c]) = dropWhile P (rev r) @ [c]" using \<open>\<not> P c\<close>
    by (induction "rev r" arbitrary: r) (auto simp: dropWhile_append3 dropWhile_append)
  ultimately show ?thesis using Cons by simp
next
  case Nil
  show ?thesis unfolding Nil by simp
qed

lemma trim_idem [simp]: "trim (trim s) = trim s"
  by (simp add: trim_def dropWhile_rev_dropWhile dropWhile_idem)

definition lower_char :: "char \<Rightarrow> char" where
  "lower_char c =
     (let n = of_char c :: nat in if 65 \<le> n \<and> n \<le> 90 then char_of (n + 32) else c)"

definition to_lower :: "string \<Rightarrow> string" where
  "to_lower s = map lower_char s"

lemma lower_char_idem [simp]: "lower_char (lower_char c) = lower_char c"
  by (auto simp: lower_char_def Let_def)

lemma to_lower_idem [simp]: "to_lower (to_lower s) = to_lower s"
  by (simp add: to_lower_def)

definition starts_with :: "string \<Rightarrow> string \<Rightarrow> bool" where
  "starts_with p s = (take (length p) s = p)"

fun str_includes :: "string \<Rightarrow> string \<Rightarrow> bool" where
  "str_includes p [] = (p = [])"
| "str_includes p (c # s) = (starts_with p (c # s) \<or> str_includes p s)"

fun split_on :: "char \<Rightarrow> string \<Rightarrow> string list" where
  "split_on d [] = [[]]"
| "split_on d (c # s) =
     (if c = d then [] # split_on d s
      else (case split_on d s of [] \<Rightarrow> [[c]] | w # ws \<Rightarrow> (c # w) # ws))"

fun join_with :: "char \<Rightarrow> string list \<Rightarrow> string" where
  "join_with d [] = []"
| "join_with d [w] = w"
| "join_with d (w # ws) = w @ d # join_with d ws"

lemma split_on_nonempty [simp]: "split_on d s \<noteq> []"
  by (induction d s rule: split_on.induct) (auto split: list.splits)

lemma split_on_append_sep: "d \<notin> set w \<Longrightarrow> split_on d (w @ d # s) = w # split_on d s"
  by (induction w) auto

lemma split_on_no_sep: "d \<notin> set w \<Longrightarrow> split_on d w = [w]"
  by (induction w) auto

text \<open>Splitting a joined list gives the list back when no part holds the separator.\<close>

lemma split_on_join:
  "ws \<noteq> [] \<Longrightarrow> (\<And>w. w \<in> set ws \<Longrightarrow> d \<notin> set w) \<Longrightarrow> split_on d (join_with d ws) = ws"
  by (induction d ws rule: join_with.induct) (simp_all add: split_on_no_sep split_on_append_sep)

subsection \<open>Numbers as text\<close>

text \<open>\<open>String(n)\<close> of a whole number.\<close>

fun show_nat :: "nat \<Rightarrow> string" where
  "show_nat n =
     (if n < 10 then [char_of (48 + n)] else show_nat (n div 10) @ [char_of (48 + n mod 10)])"

declare show_nat.simps [simp del]

definition show_int :: "int \<Rightarrow> string" where
  "show_int i = (if i < 0 then CHR ''-'' # show_nat (nat (- i)) else show_nat (nat i))"

lemma show_nat_nonempty [simp]: "show_nat n \<noteq> []"
  by (subst show_nat.simps) simp

text \<open>\<open>x && \<dots>\<close> on a string: present and not empty.\<close>

definition truthy_str :: "string option \<Rightarrow> bool" where
  "truthy_str x = (case x of None \<Rightarrow> False | Some v \<Rightarrow> v \<noteq> [])"

lemma truthy_str_simps [simp]:
  "\<not> truthy_str None" "truthy_str (Some v) \<longleftrightarrow> v \<noteq> []"
  by (simp_all add: truthy_str_def)

subsection \<open>Lists and multisets\<close>

text \<open>\<open>Array.find\<close> followed by an update in place: the first match only.\<close>

fun update_first :: "('a \<Rightarrow> bool) \<Rightarrow> ('a \<Rightarrow> 'a) \<Rightarrow> 'a list \<Rightarrow> 'a list" where
  "update_first P f [] = []"
| "update_first P f (x # xs) = (if P x then f x # xs else x # update_first P f xs)"

lemma length_update_first [simp]: "length (update_first P f xs) = length xs"
  by (induction xs) auto

lemma update_first_none [simp]: "(\<And>x. x \<in> set xs \<Longrightarrow> \<not> P x) \<Longrightarrow> update_first P f xs = xs"
  by (induction xs) auto

text \<open>\<open>Set.add\<close>, and a guarded \<open>push\<close>: insertion order is kept, duplicates are not.\<close>

definition push_new :: "'a list \<Rightarrow> 'a \<Rightarrow> 'a list" where
  "push_new xs x = (if x \<in> set xs then xs else xs @ [x])"

lemma set_push_new [simp]: "set (push_new xs x) = insert x (set xs)"
  by (auto simp: push_new_def)

lemma distinct_push_new [simp]: "distinct (push_new xs x) = distinct xs"
  by (auto simp: push_new_def)

lemma set_foldl_push_new: "set (foldl push_new xs ys) = set xs \<union> set ys"
  by (induction ys arbitrary: xs) auto

lemma distinct_foldl_push_new: "distinct xs \<Longrightarrow> distinct (foldl push_new xs ys)"
  by (induction ys arbitrary: xs) auto

lemma find_none_filter: "find P xs = None \<longleftrightarrow> filter P xs = []"
  by (auto simp: find_None_iff filter_empty_conv)

lemma map_update_first:
  "(\<And>x. g (f x) = g x) \<Longrightarrow> map g (update_first P f xs) = map g xs"
  by (induction xs) auto

lemma update_first_mset:
  "find P xs = Some x \<Longrightarrow> mset (update_first P f xs) = add_mset (f x) (mset xs - {#x#})"
  by (induction xs) (auto split: if_splits simp: find_Some_iff add_mset_commute
      dest!: multi_member_split in_multiset_in_set [THEN iffD2, OF nth_mem])

lemma find_SomeD: "find P xs = Some x \<Longrightarrow> x \<in> set xs \<and> P x"
  by (auto simp: find_Some_iff)

lemma size_filter_mono: "A \<subseteq># B \<Longrightarrow> size (filter_mset P A) \<le> size (filter_mset P B)"
  by (intro size_mset_mono multiset_filter_mono)

lemma filter_mset_le_one_unique:
  assumes "size (filter_mset P M) \<le> 1" and "x \<in># M" and "P x" and "y \<in># M" and "P y"
  shows "x = y"
proof (rule ccontr)
  assume "x \<noteq> y"
  with assms have "{#x, y#} \<subseteq># filter_mset P M"
    by (simp add: insert_subset_eq_iff in_diff_count)
  then have "size {#x, y#} \<le> size (filter_mset P M)" by (rule size_mset_mono)
  with assms(1) show False by simp
qed

end
