(* ===== verification/Monitor_Model.thy ===== *)
theory Monitor_Model
  imports Prelude Complex_Main
begin

text \<open>
  The monitor document, \<open>Backend/src/models/monitor.model.js\<close>: what a user configures, and
  the state the scheduler persists on it (schedule, flap counters, circuit breaker). A
  field that a document may lack is an \<open>option\<close>. Intervals and timeouts are JavaScript
  numbers of seconds, possibly fractional, hence \<open>rat\<close>.
\<close>

datatype status = UP | DOWN

datatype breaker_state = CLOSED | OPEN | HALF_OPEN

record monitor =
  m_id :: oid
  m_userId :: oid
  m_title :: string
  m_name :: "string option"
  m_description :: string
  m_type :: string
  m_url :: string
  m_interval :: "rat option"
  m_timeout :: "rat option"
  m_status :: "status option"
  lastCheckStatus :: "status option"
  lastChecked :: "time option"
  lastStatusCode :: "int option"
  m_timestamp :: time
  m_active :: "bool option"
  nextCheckAt :: "time option"
  authHeaders :: "string option"
  ignoreTlsErrors :: "bool option"
  failureThreshold :: "int option"
  successThreshold :: "int option"
  consecutiveFailures :: "nat option"
  consecutiveSuccesses :: "nat option"
  breakerState :: "breaker_state option"
  breakerOpenedAt :: "time option"
  breakerRetryAt :: "time option"
  breakerConsecutiveOpens :: "nat option"

text \<open>The setter of \<open>title\<close>: \<open>value?.trim() || 'Untitled monitor'\<close>.\<close>

definition set_title :: "string option \<Rightarrow> string" where
  "set_title v = str_or (map_option trim v) ''Untitled monitor''"

definition monitor_types :: "string list" where
  "monitor_types =
     [''website'', ''api'', ''HTTP/HTTPS'', ''Ping'', ''TCP'', ''DNS'', ''http'', ''ping'', ''tcp'', ''dns'']"

text \<open>A document built by Mongoose from an owner and a URL alone: every schema default.\<close>

definition monitor_defaults :: "oid \<Rightarrow> oid \<Rightarrow> string \<Rightarrow> time \<Rightarrow> monitor" where
  "monitor_defaults i owner u now =
     \<lparr>m_id = i, m_userId = owner, m_title = set_title (Some ''Untitled monitor''), m_name = None,
      m_description = '''', m_type = ''website'', m_url = u,
      m_interval = Some 60, m_timeout = Some 10,
      m_status = Some UP, lastCheckStatus = None, lastChecked = None, lastStatusCode = None,
      m_timestamp = now, m_active = Some True, nextCheckAt = Some now, authHeaders = None,
      ignoreTlsErrors = Some False, failureThreshold = Some 3, successThreshold = Some 2,
      consecutiveFailures = Some 0, consecutiveSuccesses = Some 0,
      breakerState = Some CLOSED, breakerOpenedAt = None, breakerRetryAt = None,
      breakerConsecutiveOpens = Some 0\<rparr>"

lemma monitor_defaults_simps [simp]:
  "m_id (monitor_defaults i w u t) = i" "m_userId (monitor_defaults i w u t) = w"
  "m_url (monitor_defaults i w u t) = u" "m_interval (monitor_defaults i w u t) = Some 60"
  "m_timeout (monitor_defaults i w u t) = Some 10"
  "m_status (monitor_defaults i w u t) = Some UP" "m_active (monitor_defaults i w u t) = Some True"
  "nextCheckAt (monitor_defaults i w u t) = Some t" "lastChecked (monitor_defaults i w u t) = None"
  "authHeaders (monitor_defaults i w u t) = None"
  "ignoreTlsErrors (monitor_defaults i w u t) = Some False"
  "failureThreshold (monitor_defaults i w u t) = Some 3"
  "successThreshold (monitor_defaults i w u t) = Some 2"
  "consecutiveFailures (monitor_defaults i w u t) = Some 0"
  "consecutiveSuccesses (monitor_defaults i w u t) = Some 0"
  "breakerState (monitor_defaults i w u t) = Some CLOSED"
  "breakerRetryAt (monitor_defaults i w u t) = None"
  "breakerOpenedAt (monitor_defaults i w u t) = None"
  "breakerConsecutiveOpens (monitor_defaults i w u t) = Some 0"
  by (simp_all add: monitor_defaults_def)

end
