(* ===== verification/Incident_Model.thy ===== *)
theory Incident_Model
  imports Monitor_Model
begin

text \<open>
  The incident document, \<open>Backend/src/models/incidents.model.js\<close>: its fields, the partial
  unique index that allows one ongoing incident per monitor, and the hook that derives the
  duration when a document is saved.
\<close>

datatype incident_status = ONGOING | RESOLVED

record incident =
  i_id :: oid
  i_monitorId :: oid
  i_userId :: "oid option"
  i_status :: incident_status
  startTime :: time
  endTime :: "time option"
  duration :: int
  reason :: "string option"
  aiSummary :: "string option"

text \<open>The index \<open>one_ongoing_incident_per_monitor\<close>, and the unique \<open>_id\<close>.\<close>

definition incident_clash :: "incident \<Rightarrow> incident \<Rightarrow> bool" where
  "incident_clash a b \<longleftrightarrow>
     i_id a = i_id b \<or> i_status a = ONGOING \<and> i_status b = ONGOING \<and> i_monitorId a = i_monitorId b"

text \<open>The pre-save hook: whole seconds, when both ends are known.\<close>

definition incident_pre_save :: "incident \<Rightarrow> incident" where
  "incident_pre_save d =
     (case endTime d of
        None \<Rightarrow> d
      | Some e \<Rightarrow> d\<lparr>duration := (e - startTime d) div 1000\<rparr>)"

end
