(* ===== verification/User_Model.thy ===== *)
theory User_Model
  imports Prelude
begin

text \<open>
  The user document, \<open>Backend/src/models/user.model.js\<close>: its fields and the defaults of the
  schema. A password is present for local accounts only, and is a hash.
\<close>

datatype provider = Local | Google

record user =
  u_id :: oid
  username :: string
  fullname :: string
  u_email :: string
  password :: "string option"
  u_provider :: provider
  googleId :: "string option"
  forgotPasswordToken :: "string option"
  forgotPasswordExpire :: "time option"
  isVerified :: bool
  otp :: "string option"
  otpExpire :: "time option"
  u_role :: string
  avatar :: string
  incidentAlerts :: bool
  weeklyDigest :: bool
  securityAlerts :: bool
  isBan :: bool

text \<open>The default of \<open>otpExpire\<close>, and the lifetime of a code: twenty minutes.\<close>

definition OTP_MS :: int where
  "OTP_MS = 20 * 60 * 1000"

text \<open>A document built from the required fields: every schema default and setter.\<close>

definition user_defaults :: "oid \<Rightarrow> string \<Rightarrow> string \<Rightarrow> string \<Rightarrow> time \<Rightarrow> user" where
  "user_defaults i uname full mail now =
     \<lparr>u_id = i, username = to_lower (trim uname), fullname = trim full, u_email = trim (to_lower mail),
      password = None, u_provider = Local, googleId = None, forgotPasswordToken = None,
      forgotPasswordExpire = None, isVerified = False, otp = None, otpExpire = Some (now + OTP_MS),
      u_role = ''user'', avatar = '''', incidentAlerts = True, weeklyDigest = False, securityAlerts = True,
      isBan = False\<rparr>"

end
