(* ===== verification/Templates.thy ===== *)
theory Templates
  imports Incident_Model User_Model
begin

text \<open>
  The incident emails, \<open>Backend/src/notifications/templates.js\<close>. Text is a list of bytes
  (UTF-8); a template literal is the list of its lines. Number and date formatting belong
  to the platform and are arguments (\<open>format_api\<close>).
\<close>

subsection \<open>Escaping\<close>

definition replace_char :: "char \<Rightarrow> string \<Rightarrow> string \<Rightarrow> string" where
  "replace_char c r s = concat (map (\<lambda>x. if x = c then r else [x]) s)"

definition quote :: char where
  "quote = CHR 0x22"

definition apos :: char where
  "apos = CHR 0x27"

definition escapeHtml :: "string option \<Rightarrow> string" where
  "escapeHtml value =
     replace_char apos ''&#39;''
      (replace_char quote ''&quot;''
        (replace_char CHR ''>'' ''&gt;''
          (replace_char CHR ''<'' ''&lt;''
            (replace_char CHR ''&'' ''&amp;'' (nullish value [])))))"

subsection \<open>The templates\<close>

definition lines :: "string list \<Rightarrow> string" where
  "lines ls = join_with CHR 0x0A ls"

definition shell :: "string \<Rightarrow> string \<Rightarrow> string \<Rightarrow> string" where
  \<open>shell accent heading body = lines
    [''<!DOCTYPE html>'',
     ''<html>'',
     ''<head><meta charset="UTF-8" /><title>'' @ escapeHtml (Some heading) @ ''</title></head>'',
     ''<body style="margin:0; padding:0; font-family: Arial, sans-serif; background-color:#f4f6f8;">'',
     ''  <table width="100%" cellpadding="0" cellspacing="0" style="padding:20px;">'',
     ''    <tr><td align="center">'',
     ''      <table width="600" cellpadding="0" cellspacing="0" style="background:#ffffff; border-radius:10px; overflow:hidden; box-shadow:0 4px 12px rgba(0,0,0,0.1);">'',
     ''        <tr>'',
     ''          <td style="background:'' @ accent @ ''; color:#ffffff; padding:20px; text-align:center;">'',
     ''            <h2 style="margin:0;">'' @ escapeHtml (Some heading) @ ''</h2>'',
     ''          </td>'',
     ''        </tr>'',
     ''        <tr><td style="padding:20px; color:#333;">'' @ body @ ''</td></tr>'',
     ''        <tr>'',
     ''          <td style="background:#f4f6f8; padding:15px; text-align:center; font-size:12px; color:#888;">'',
     ''            WatchTower Monitoring System<br/>'',
     ''            This is an automated alert. Please do not reply.'',
     ''          </td>'',
     ''        </tr>'',
     ''      </table>'',
     ''    </td></tr>'',
     ''  </table>'',
     ''</body>'',
     ''</html>'']\<close>

definition row :: "string \<Rightarrow> string option \<Rightarrow> string" where
  \<open>row label value = lines
    [[], ''  <tr>'', ''    <td style="font-weight:bold;">'' @ label @ ''</td>'',
     ''    <td>'' @ escapeHtml value @ ''</td>'', ''  </tr>'']\<close>

text \<open>The pictographs of the labels, as UTF-8.\<close>

definition pin :: string where "pin = [CHR 0xF0, CHR 0x9F, CHR 0x93, CHR 0x8D]"
definition globe :: string where "globe = [CHR 0xF0, CHR 0x9F, CHR 0x8C, CHR 0x90]"
definition warning :: string where "warning = [CHR 0xE2, CHR 0x9A, CHR 0xA0, CHR 0xEF, CHR 0xB8, CHR 0x8F]"
definition repeat_sign :: string where "repeat_sign = [CHR 0xF0, CHR 0x9F, CHR 0x94, CHR 0x81]"
definition clock_sign :: string where "clock_sign = [CHR 0xF0, CHR 0x9F, CHR 0x95, CHR 0x92]"
definition stopwatch :: string where "stopwatch = [CHR 0xE2, CHR 0x8F, CHR 0xB1, CHR 0xEF, CHR 0xB8, CHR 0x8F]"
definition siren :: string where "siren = [CHR 0xF0, CHR 0x9F, CHR 0x9A, CHR 0xA8]"
definition robot :: string where "robot = [CHR 0xF0, CHR 0x9F, CHR 0xA4, CHR 0x96]"
definition check_mark :: string where "check_mark = [CHR 0xE2, CHR 0x9C, CHR 0x85]"
definition em_dash :: string where "em_dash = [CHR 0xE2, CHR 0x80, CHR 0x94]"

record format_api =
  show_date :: "time \<Rightarrow> string" \<comment> \<open>\<open>toLocaleString()\<close>\<close>
  iso_date :: "time \<Rightarrow> string" \<comment> \<open>\<open>toISOString()\<close>\<close>
  to_fixed_1 :: "rat \<Rightarrow> string" \<comment> \<open>\<open>toFixed(1)\<close>\<close>

text \<open>What a notifier is handed.\<close>

record payload =
  p_event :: string
  p_incident :: incident
  p_monitor :: monitor
  p_user :: user
  occurredAt :: time

definition monitor_title :: "payload \<Rightarrow> string \<Rightarrow> string" where
  "monitor_title p d = str_or (Some (m_title (p_monitor p))) d"

definition opened_body :: "format_api \<Rightarrow> payload \<Rightarrow> string" where
  \<open>opened_body fmt p = lines
    [[],
     ''    <p style="font-size:16px;">Hello <strong>'' @ escapeHtml (Some (str_or (Some (username (p_user p))) ''User'')) @ ''</strong>,</p>'',
     ''    <p style="font-size:15px;">An issue has been detected with your monitored service:</p>'',
     ''    <table width="100%" cellpadding="10" cellspacing="0" style="margin:15px 0; border:1px solid #eee; border-radius:6px;">'',
     ''      '' @ row (pin @ '' Title:'') (Some (monitor_title p ''Untitled monitor'')),
     ''      '' @ row (globe @ '' URL:'') (Some (m_url (p_monitor p))),
     ''      '' @ row (warning @ '' Reason:'') (Some (str_or (reason (p_incident p)) ''Monitor is down'')),
     ''      '' @ row (repeat_sign @ '' Failed checks:'')
       (Some (show_int (nullish (failureThreshold (p_monitor p)) 3) @ '' consecutive'')),
     ''      '' @ row (clock_sign @ '' Time:'') (Some (show_date fmt (occurredAt p))),
     ''    </table>'',
     ''    '' @ (if truthy_str (aiSummary (p_incident p)) then lines
       [''<div style="background:#f9fafb; border-left:4px solid #6366f1; padding:15px; border-radius:6px;">'',
        ''             <p style="margin:0; font-weight:bold;">'' @ robot @ '' AI Analysis</p>'',
        ''             <p style="margin-top:8px; font-size:14px; color:#555;">'' @ escapeHtml (aiSummary (p_incident p)) @ ''</p>'',
        ''           </div>''] else []),
     ''    <p style="margin-top:20px; font-size:14px; color:#666;">'',
     ''      Please check your system as soon as possible to minimize downtime.'',
     ''    </p>'']\<close>

definition incidentOpenedEmail :: "format_api \<Rightarrow> payload \<Rightarrow> string \<times> string" where
  "incidentOpenedEmail fmt p =
     (siren @ '' Incident: '' @ monitor_title p ''your monitor'' @ '' is DOWN'',
      shell ''#ef4444'' (siren @ '' Incident Detected'') (opened_body fmt p))"

definition readable_downtime :: "format_api \<Rightarrow> int \<Rightarrow> string" where
  "readable_downtime fmt seconds =
     (if seconds \<ge> 3600 then to_fixed_1 fmt (rat_of_int seconds / 3600) @ '' hours''
      else if seconds \<ge> 60 then to_fixed_1 fmt (rat_of_int seconds / 60) @ '' minutes''
      else show_int seconds @ '' seconds'')"

definition closed_body :: "format_api \<Rightarrow> payload \<Rightarrow> string" where
  \<open>closed_body fmt p = lines
    [[],
     ''    <p style="font-size:16px;">Hello <strong>'' @ escapeHtml (Some (str_or (Some (username (p_user p))) ''User'')) @ ''</strong>,</p>'',
     ''    <p style="font-size:15px;">Good news '' @ em_dash @ '' your monitored service is back online.</p>'',
     ''    <table width="100%" cellpadding="10" cellspacing="0" style="margin:15px 0; border:1px solid #eee; border-radius:6px;">'',
     ''      '' @ row (pin @ '' Title:'') (Some (monitor_title p ''Untitled monitor'')),
     ''      '' @ row (globe @ '' URL:'') (Some (m_url (p_monitor p))),
     ''      '' @ row (clock_sign @ '' Downtime:'') (Some (readable_downtime fmt (duration (p_incident p)))),
     ''      '' @ row (stopwatch @ '' Resolved at:'') (Some (show_date fmt (occurredAt p))),
     ''    </table>'',
     ''    <div style="margin-top:15px; padding:15px; background:#ecfdf5; border-left:4px solid #22c55e; border-radius:6px;">'',
     ''      <p style="margin:0; font-weight:bold;">Status</p>'',
     ''      <p style="margin-top:8px; font-size:14px; color:#065f46;">Your service is now operating normally.</p>'',
     ''    </div>'']\<close>

definition incidentClosedEmail :: "format_api \<Rightarrow> payload \<Rightarrow> string \<times> string" where
  "incidentClosedEmail fmt p =
     (check_mark @ '' Resolved: '' @ monitor_title p ''your monitor'' @ '' is back UP'',
      shell ''#22c55e'' (check_mark @ '' Issue Resolved'') (closed_body fmt p))"

subsection \<open>Nothing interpolated is markup\<close>

text \<open>One pass over the text: what the five replacements amount to.\<close>

definition escape_char :: "char \<Rightarrow> string" where
  "escape_char c =
     (if c = CHR ''&'' then ''&amp;'' else if c = CHR ''<'' then ''&lt;'' else if c = CHR ''>'' then ''&gt;''
      else if c = quote then ''&quot;'' else if c = apos then ''&#39;'' else [c])"

lemma replace_char_Nil [simp]: "replace_char c r [] = []"
  by (simp add: replace_char_def)

lemma replace_char_append [simp]: "replace_char c r (s @ t) = replace_char c r s @ replace_char c r t"
  by (simp add: replace_char_def)

lemma replace_char_absent: "c \<notin> set s \<Longrightarrow> replace_char c r s = s"
  by (induction s) (auto simp: replace_char_def)

lemma escapeHtml_append: "escapeHtml (Some (s @ t)) = escapeHtml (Some s) @ escapeHtml (Some t)"
  by (simp add: escapeHtml_def)

lemma escapeHtml_char: "escapeHtml (Some [c]) = escape_char c"
  by (simp add: escapeHtml_def escape_char_def quote_def apos_def replace_char_def)

lemma escapeHtml_one_pass: "escapeHtml (Some s) = concat (map escape_char s)"
proof (induction s)
  case Nil
  then show ?case by (simp add: escapeHtml_def)
next
  case (Cons c s)
  then show ?case using escapeHtml_append [of "[c]" s] by (simp add: escapeHtml_char)
qed

definition markup_chars :: "char set" where
  "markup_chars = {CHR ''<'', CHR ''>'', quote, apos}"

definition markup :: "string \<Rightarrow> string" where
  "markup s = filter (\<lambda>c. c \<in> markup_chars) s"

lemma markup_append [simp]: "markup (s @ t) = markup s @ markup t"
  by (simp add: markup_def)

lemma markup_escape_char: "markup (escape_char c) = []"
  by (auto simp: markup_def escape_char_def markup_chars_def quote_def apos_def)

lemma markup_concat: "(\<And>x. x \<in> set xs \<Longrightarrow> markup x = []) \<Longrightarrow> markup (concat xs) = []"
  by (induction xs) (auto simp: markup_def)

lemma markup_escapeHtml [simp]: "markup (escapeHtml v) = []"
proof (cases v)
  case (Some s)
  have "markup (concat (map escape_char s)) = []" by (rule markup_concat) (auto simp: markup_escape_char)
  with Some show ?thesis by (simp add: escapeHtml_one_pass)
qed (simp add: escapeHtml_def markup_def)

lemma markup_lines: "markup (lines ls) = concat (map markup ls)"
proof -
  have "markup (join_with CHR 0x0A ls) = concat (map markup ls)"
    by (induction "CHR 0x0A" ls rule: join_with.induct)
      (auto simp: markup_def markup_chars_def quote_def apos_def)
  then show ?thesis by (simp add: lines_def)
qed

lemma markup_row: "markup (row label v) = markup (row label w)"
  by (simp only: row_def markup_lines list.map concat.simps markup_append markup_escapeHtml)

lemma markup_body:
  assumes "markup b = markup b'"
  shows "markup (shell accent heading b) = markup (shell accent heading b')"
  by (simp only: shell_def markup_lines list.map concat.simps markup_append markup_escapeHtml assms)

lemma markup_summary:
  assumes "truthy_str v = truthy_str w"
  shows "markup (if truthy_str v then lines [a, b, c @ escapeHtml v @ d, e] else []) =
    markup (if truthy_str w then lines [a, b, c @ escapeHtml w @ d, e] else [])"
  using assms by (simp only: markup_lines list.map concat.simps markup_append markup_escapeHtml split: if_split) simp

lemma markup_opened_body:
  assumes "truthy_str (aiSummary (p_incident p)) = truthy_str (aiSummary (p_incident q))"
  shows "markup (opened_body fmt p) = markup (opened_body fmt q)"
  unfolding opened_body_def markup_lines list.map concat.simps markup_append markup_escapeHtml
  by (intro arg_cong2 [where f = append] refl markup_row markup_summary assms)

lemma markup_closed_body: "markup (closed_body fmt p) = markup (closed_body fmt q)"
  unfolding closed_body_def markup_lines list.map concat.simps markup_append markup_escapeHtml
  by (intro arg_cong2 [where f = append] refl markup_row)

text \<open>
  C40. The alert emails cannot be injected into: whatever the monitor's title and URL, the
  failure's reason, the owner's name, the AI summary and the formatted dates are, the
  tags and quotes of the generated HTML are the template's own; they depend on the
  incident only through whether there is a summary to show.
\<close>

theorem alert_emails_not_injectable:
  "(truthy_str (aiSummary (p_incident p)) = truthy_str (aiSummary (p_incident q)) \<longrightarrow>
     markup (snd (incidentOpenedEmail fmt p)) = markup (snd (incidentOpenedEmail fmt q))) \<and>
   markup (snd (incidentClosedEmail fmt p)) = markup (snd (incidentClosedEmail fmt q))"
  unfolding incidentOpenedEmail_def incidentClosedEmail_def snd_conv
  by (intro conjI impI markup_body markup_opened_body markup_closed_body)

definition example_payload :: "string \<Rightarrow> string option \<Rightarrow> payload" where
  "example_payload title summary =
     \<lparr>p_event = ''incident.opened'',
      p_incident = \<lparr>i_id = ''i'', i_monitorId = ''m'', i_userId = Some ''u'', i_status = ONGOING, startTime = 0,
        endTime = None, duration = 0, reason = Some ''HTTP 500'', aiSummary = summary\<rparr>,
      p_monitor = (monitor_defaults ''m'' ''u'' ''https://a/'' 0)\<lparr>m_title := title\<rparr>,
      p_user = user_defaults ''u'' ''ann'' ''Ann'' ''Ann@x.io'' 0, occurredAt = 0\<rparr>"

theorem alert_emails_not_injectable_witness:
  "\<forall>fmt. markup (snd (incidentOpenedEmail fmt (example_payload ''<script>'' (Some ''<b>'')))) =
   markup (snd (incidentOpenedEmail fmt (example_payload ''Shop'' (Some ''disk full''))))"
  using alert_emails_not_injectable [of "example_payload ''<script>'' (Some ''<b>'')"
      "example_payload ''Shop'' (Some ''disk full'')"]
  by (simp add: example_payload_def)

text \<open>Decoding the five entities.\<close>

fun unescape :: "string \<Rightarrow> string" where
  "unescape [] = []"
| "unescape (c # s) =
     (if c = CHR ''&'' then
        if take 4 s = ''amp;'' then CHR ''&'' # unescape (drop 4 s)
        else if take 3 s = ''lt;'' then CHR ''<'' # unescape (drop 3 s)
        else if take 3 s = ''gt;'' then CHR ''>'' # unescape (drop 3 s)
        else if take 5 s = ''quot;'' then quote # unescape (drop 5 s)
        else if take 4 s = ''#39;'' then apos # unescape (drop 4 s)
        else c # unescape s
      else c # unescape s)"

lemma unescape_escape_char: "unescape (escape_char c @ s) = c # unescape s"
  by (cases "c = CHR ''&''"; cases "c = CHR ''<''"; cases "c = CHR ''>''"; cases "c = quote"; cases "c = apos")
    (simp_all add: escape_char_def quote_def apos_def)

text \<open>
  Escaping loses nothing and leaves no markup: the escaped text has no angle bracket and
  no quote, and decoding its entities gives the text back, so the five replacements do
  not interfere with each other.
\<close>

theorem escapeHtml_round_trip:
  "unescape (escapeHtml (Some s)) = s \<and> markup (escapeHtml (Some s)) = []"
proof -
  have "unescape (concat (map escape_char s)) = s"
    by (induction s) (simp_all add: unescape_escape_char)
  then show ?thesis by (simp add: escapeHtml_one_pass [symmetric])
qed

end
