(* ===== verification/Config.thy ===== *)
theory Config
  imports Prelude
begin

text \<open>
  The scheduler's tunables, \<open>Backend/src/config/scheduler.config.js\<close>: every value is read
  from the environment with a safe fallback, and the module never throws. The tunables
  are whole numbers of milliseconds, attempts or days. The language's string-to-number
  conversion \<open>Number(raw)\<close> is an argument (\<open>to_number\<close>): the guard around it does not
  depend on how it parses.
\<close>

type_synonym env = "string \<Rightarrow> string option"

datatype js_number = NaN | Infinite | Finite int

definition num :: "(string option \<Rightarrow> js_number) \<Rightarrow> string option \<Rightarrow> int \<Rightarrow> int" where
  "num to_number raw fallback =
     (case to_number raw of
        Finite parsed \<Rightarrow> if parsed \<ge> 0 then parsed else fallback
      | NaN \<Rightarrow> fallback
      | Infinite \<Rightarrow> fallback)"

definition js_bool :: "string option \<Rightarrow> bool \<Rightarrow> bool" where
  "js_bool raw fallback =
     (case raw of
        None \<Rightarrow> fallback
      | Some v \<Rightarrow> if v = '''' then fallback else to_lower v = ''true'' \<or> v = ''1'')"

record sched_config =
  ENABLED :: bool
  TICK_MS :: int
  CONCURRENCY :: int
  SHUTDOWN_GRACE_MS :: int
  LOCK_ID :: string
  LOCK_TTL_MS :: int
  MAX_RETRIES :: int
  RETRY_BASE_MS :: int
  RETRY_CAP_MS :: int
  BREAKER_FAILURE_THRESHOLD :: int
  BREAKER_COOLDOWN_MS :: int
  BREAKER_MAX_COOLDOWN_MS :: int
  LOG_RETENTION_DAYS :: int

definition schedulerConfig :: "(string option \<Rightarrow> js_number) \<Rightarrow> env \<Rightarrow> sched_config" where
  "schedulerConfig to_number env =
     \<lparr>ENABLED = js_bool (env ''SCHEDULER_ENABLED'') True,
      TICK_MS = num to_number (env ''SCHEDULER_TICK_MS'') 5000,
      CONCURRENCY = max 1 (num to_number (env ''SCHEDULER_CONCURRENCY'') 10),
      SHUTDOWN_GRACE_MS = num to_number (env ''SCHEDULER_SHUTDOWN_GRACE_MS'') 10000,
      LOCK_ID = ''monitor-scheduler'',
      LOCK_TTL_MS = num to_number (env ''SCHEDULER_LOCK_TTL_MS'') 30000,
      MAX_RETRIES = num to_number (env ''CHECK_MAX_RETRIES'') 2,
      RETRY_BASE_MS = num to_number (env ''CHECK_RETRY_BASE_MS'') 250,
      RETRY_CAP_MS = num to_number (env ''CHECK_RETRY_CAP_MS'') 4000,
      BREAKER_FAILURE_THRESHOLD = max 1 (num to_number (env ''BREAKER_FAILURE_THRESHOLD'') 5),
      BREAKER_COOLDOWN_MS = num to_number (env ''BREAKER_COOLDOWN_MS'') 60000,
      BREAKER_MAX_COOLDOWN_MS = num to_number (env ''BREAKER_MAX_COOLDOWN_MS'') 900000,
      LOG_RETENTION_DAYS = max 1 (num to_number (env ''LOG_RETENTION_DAYS'') 30)\<rparr>"

text \<open>The environment with nothing set, under any conversion that reads absence as not a number.\<close>

definition default_config :: sched_config where
  "default_config = schedulerConfig (\<lambda>_. NaN) (\<lambda>_. None)"

lemma num_nonneg [simp]: "0 \<le> fallback \<Longrightarrow> 0 \<le> num to_number raw fallback"
  by (auto simp: num_def split: js_number.splits)

text \<open>What every consumer of the configuration relies on.\<close>

definition config_ok :: "sched_config \<Rightarrow> bool" where
  "config_ok cfg \<longleftrightarrow>
     0 \<le> TICK_MS cfg \<and> 1 \<le> CONCURRENCY cfg \<and> 0 \<le> SHUTDOWN_GRACE_MS cfg \<and>
     0 \<le> LOCK_TTL_MS cfg \<and> 0 \<le> MAX_RETRIES cfg \<and> 0 \<le> RETRY_BASE_MS cfg \<and>
     0 \<le> RETRY_CAP_MS cfg \<and> 1 \<le> BREAKER_FAILURE_THRESHOLD cfg \<and>
     0 \<le> BREAKER_COOLDOWN_MS cfg \<and> 0 \<le> BREAKER_MAX_COOLDOWN_MS cfg \<and>
     1 \<le> LOG_RETENTION_DAYS cfg"

text \<open>
  Whatever the environment holds, and however its strings convert to numbers, the
  scheduler's configuration is usable: no duration is negative, at least one worker runs,
  and the breaker threshold and the retention are at least one.
\<close>

theorem schedulerConfig_ok: "config_ok (schedulerConfig to_number env)"
  by (simp add: config_ok_def schedulerConfig_def)

lemma config_ok_default [simp]: "config_ok default_config"
  by (simp add: config_ok_def schedulerConfig_def default_config_def)

lemma default_config_simps [simp]:
  "TICK_MS default_config = 5000" "CONCURRENCY default_config = 10"
  "LOCK_ID default_config = ''monitor-scheduler''" "LOCK_TTL_MS default_config = 30000"
  "MAX_RETRIES default_config = 2" "RETRY_BASE_MS default_config = 250"
  "RETRY_CAP_MS default_config = 4000" "BREAKER_FAILURE_THRESHOLD default_config = 5"
  "BREAKER_COOLDOWN_MS default_config = 60000" "BREAKER_MAX_COOLDOWN_MS default_config = 900000"
  "ENABLED default_config" "SHUTDOWN_GRACE_MS default_config = 10000"
  "LOG_RETENTION_DAYS default_config = 30"
  by (simp_all add: default_config_def schedulerConfig_def num_def js_bool_def)

end
