(* ===== verification/App_Config.thy ===== *)
theory App_Config
  imports Config
begin

text \<open>
  The application's configuration, \<open>Backend/src/config/config.js\<close>: what the process refuses
  to start without, and the values it derives. The module's top level is one function from
  the environment to an error or a configuration; the WHATWG parser's host name of a URL is
  an argument (\<open>hostname\<close>, \<open>None\<close> when the parser throws).
\<close>

subsection \<open>The code\<close>

definition required_vars :: "string list" where
  "required_vars =
     [''PORT'', ''MONGO_URL'', ''NODE_ENV'', ''CORS_ORIGIN'', ''SMTP_HOST'', ''SMTP_USER'', ''SMTP_PASS'',
      ''JWT_SECRET'', ''JWT_EXPIRY'', ''FRONTEND_URL'']"

definition LOOPBACK_HOSTS :: "string list" where
  "LOOPBACK_HOSTS = [''localhost'', ''127.0.0.1'', ''0.0.0.0'', ''[::1]'']"

definition dev_origins :: "string list" where
  "dev_origins = [''http://localhost:5173'', ''http://localhost:5174'', ''http://localhost:5180'']"

definition parseOrigins :: "string \<Rightarrow> string option \<Rightarrow> string list" where
  "parseOrigins node_env raw =
     (let xs = filter (\<lambda>x. x \<noteq> []) (map trim (split_on CHR '','' (str_or raw [])))
      in if node_env \<noteq> ''production'' then foldl push_new xs dev_origins else xs)"

record app_config =
  AUTH_COOKIE :: string
  PORT :: string
  MONGO_URL :: string
  NODE_ENV :: string
  CORS_ORIGIN :: string
  CORS_ORIGINS :: "string list"
  SMTP_HOST :: string
  SMTP_USER :: string
  SMTP_PASS :: string
  BREVO_API_KEY :: string
  MAIL_FROM :: string
  MAIL_FROM_NAME :: string
  JWT_SECRET :: string
  JWT_EXPIRY :: string
  FRONTEND_URL :: string
  MISTRAL_API_KEY :: "string option"
  CREDENTIALS_ENCRYPTION_KEY :: "string option"
  GOOGLE_CLIENT_ID :: string
  AUTO_VERIFY_USERS :: bool

definition app_config_of :: "env \<Rightarrow> app_config" where
  "app_config_of env =
     \<lparr>AUTH_COOKIE = ''uptimeaitoken'',
      PORT = str_or (env ''PORT'') ''3000'',
      MONGO_URL = str_or (env ''MONGO_URL'') [],
      NODE_ENV = str_or (env ''NODE_ENV'') [],
      CORS_ORIGIN = str_or (env ''CORS_ORIGIN'') [],
      CORS_ORIGINS = parseOrigins (str_or (env ''NODE_ENV'') []) (env ''CORS_ORIGIN''),
      SMTP_HOST = str_or (env ''SMTP_HOST'') [],
      SMTP_USER = str_or (env ''SMTP_USER'') [],
      SMTP_PASS = str_or (env ''SMTP_PASS'') [],
      BREVO_API_KEY = str_or (env ''BREVO_API_KEY'') [],
      MAIL_FROM = str_or (env ''MAIL_FROM'') (str_or (env ''SMTP_USER'') []),
      MAIL_FROM_NAME = str_or (env ''MAIL_FROM_NAME'') ''WatchTower'',
      JWT_SECRET = str_or (env ''JWT_SECRET'') [],
      JWT_EXPIRY = str_or (env ''JWT_EXPIRY'') [],
      FRONTEND_URL = str_or (env ''FRONTEND_URL'') [],
      MISTRAL_API_KEY = env ''MISTRAL_API_KEY'',
      CREDENTIALS_ENCRYPTION_KEY = env ''CREDENTIALS_ENCRYPTION_KEY'',
      GOOGLE_CLIENT_ID = str_or (env ''GOOGLE_CLIENT_ID'') [],
      AUTO_VERIFY_USERS = (env ''AUTO_VERIFY_USERS'' \<noteq> Some ''false'')\<rparr>"

definition frontendUrlIsLoopback :: "(string \<Rightarrow> string option) \<Rightarrow> env \<Rightarrow> bool" where
  "frontendUrlIsLoopback hostname env =
     (case hostname (str_or (env ''FRONTEND_URL'') []) of
        None \<Rightarrow> False
      | Some h \<Rightarrow> h \<in> set LOOPBACK_HOSTS)"

text \<open>The module's top level: the first failing check throws.\<close>

definition loadConfig :: "(string \<Rightarrow> string option) \<Rightarrow> env \<Rightarrow> string + app_config" where
  "loadConfig hostname env =
     (case find (\<lambda>v. \<not> truthy_str (env v)) required_vars of
        Some v \<Rightarrow> Inl (v @ '' is not defined in environment variables'')
      | None \<Rightarrow>
          let cfg = app_config_of env
          in if hostname (FRONTEND_URL cfg) = None
             then Inl (''FRONTEND_URL is not a valid absolute URL'')
             else if ''*'' \<in> set (CORS_ORIGINS cfg)
             then Inl ''CORS_ORIGIN must be an explicit allow-list; \"*\" is not permitted''
             else if NODE_ENV cfg = ''production'' \<and> CORS_ORIGINS cfg = []
             then Inl ''CORS_ORIGIN must list at least one origin in production''
             else Inr cfg)"

subsection \<open>What a process that started can rely on\<close>

lemma set_parseOrigins:
  "set (parseOrigins node_env raw) =
     {x \<in> trim ` set (split_on CHR '','' (str_or raw [])). x \<noteq> []} \<union>
     (if node_env = ''production'' then {} else set dev_origins)"
  by (auto simp: parseOrigins_def Let_def set_foldl_push_new)

lemma app_config_of_simps [simp]:
  "NODE_ENV (app_config_of env) = str_or (env ''NODE_ENV'') []"
  "CORS_ORIGINS (app_config_of env) = parseOrigins (str_or (env ''NODE_ENV'') []) (env ''CORS_ORIGIN'')"
  "FRONTEND_URL (app_config_of env) = str_or (env ''FRONTEND_URL'') []"
  "JWT_SECRET (app_config_of env) = str_or (env ''JWT_SECRET'') []"
  "AUTH_COOKIE (app_config_of env) = ''uptimeaitoken''"
  by (simp_all add: app_config_of_def)

lemma loadConfig_Inr:
  assumes "loadConfig hostname env = Inr cfg"
  shows "cfg = app_config_of env \<and> (\<forall>v \<in> set required_vars. truthy_str (env v)) \<and>
    hostname (FRONTEND_URL cfg) \<noteq> None \<and> ''*'' \<notin> set (CORS_ORIGINS cfg) \<and>
    (NODE_ENV cfg = ''production'' \<longrightarrow> CORS_ORIGINS cfg \<noteq> [])"
  using assms
  by (auto simp: loadConfig_def Let_def find_None_iff split: option.splits if_splits)

text \<open>
  A process that starts has a usable configuration: every required variable is set to
  a non-empty value, the allow-list of origins never holds a wildcard or an empty origin,
  is not empty (production included), and outside production holds the local development
  origins; the session secret is not empty.
\<close>

theorem loadConfig_sound:
  assumes "loadConfig hostname env = Inr cfg"
  shows "(\<forall>v \<in> set required_vars. truthy_str (env v)) \<and> JWT_SECRET cfg \<noteq> [] \<and>
    ''*'' \<notin> set (CORS_ORIGINS cfg) \<and> [] \<notin> set (CORS_ORIGINS cfg) \<and> CORS_ORIGINS cfg \<noteq> [] \<and>
    (NODE_ENV cfg \<noteq> ''production'' \<longrightarrow> set dev_origins \<subseteq> set (CORS_ORIGINS cfg)) \<and>
    hostname (FRONTEND_URL cfg) \<noteq> None"
proof -
  from loadConfig_Inr [OF assms] have cfg: "cfg = app_config_of env"
    and req: "\<forall>v \<in> set required_vars. truthy_str (env v)" and rest: "hostname (FRONTEND_URL cfg) \<noteq> None"
      "''*'' \<notin> set (CORS_ORIGINS cfg)" "NODE_ENV cfg = ''production'' \<longrightarrow> CORS_ORIGINS cfg \<noteq> []"
    by blast+
  have "truthy_str (env ''JWT_SECRET'')" using req by (simp add: required_vars_def)
  then have "JWT_SECRET cfg \<noteq> []" by (auto simp: cfg truthy_str_def str_or_def split: option.splits)
  moreover have "[] \<notin> set (CORS_ORIGINS cfg)" by (auto simp: cfg set_parseOrigins dev_origins_def)
  moreover have dev: "NODE_ENV cfg \<noteq> ''production'' \<longrightarrow> set dev_origins \<subseteq> set (CORS_ORIGINS cfg)"
    by (auto simp: cfg set_parseOrigins)
  moreover have "CORS_ORIGINS cfg \<noteq> []"
  proof (cases "NODE_ENV cfg = ''production''")
    case False
    with dev show ?thesis by (auto simp: dev_origins_def)
  qed (use rest in simp)
  ultimately show ?thesis using req rest by blast
qed

definition example_env :: "string \<Rightarrow> env" where
  "example_env node_env v =
     (if v = ''NODE_ENV'' then Some node_env
      else if v = ''CORS_ORIGIN'' then Some ''https://w.example''
      else if v \<in> set required_vars then Some ''http://localhost'' else None)"

definition any_host :: "string \<Rightarrow> string option" where
  "any_host u = Some ''localhost''"

lemma example_env_loads:
  "loadConfig any_host (example_env ''production'') = Inr (app_config_of (example_env ''production''))"
  by (simp add: loadConfig_def example_env_def required_vars_def any_host_def parseOrigins_def
      trim_def is_space_def)

theorem loadConfig_sound_witness:
  "loadConfig any_host (example_env ''production'') = Inr (app_config_of (example_env ''production'')) \<and>
   CORS_ORIGINS (app_config_of (example_env ''production'')) \<noteq> []"
  using loadConfig_sound [OF example_env_loads] example_env_loads by blast

text \<open>
  A loopback front-end address does not stop a production process: it starts, and the
  links it emails point at the machine itself.
\<close>

theorem production_boots_with_loopback:
  "\<exists>env cfg. loadConfig any_host env = Inr cfg \<and> NODE_ENV cfg = ''production'' \<and>
     frontendUrlIsLoopback any_host env"
  using example_env_loads
  by (intro exI [of _ "example_env ''production''"] exI [of _ "app_config_of (example_env ''production'')"])
    (simp add: example_env_def frontendUrlIsLoopback_def any_host_def LOOPBACK_HOSTS_def)

end
