(* ===== verification/Mail.thy ===== *)
theory Mail
  imports App_Config
begin

text \<open>
  Outbound email: the Brevo HTTP provider (\<open>Backend/src/services/brevo.provider.js\<close>), the
  SMTP options (\<open>Backend/src/config/mail.js\<close>) and the single entry point that chooses
  between them (\<open>Backend/src/services/sendEmail.js\<close>). What the network answers (\<open>fetch\<close>,
  nodemailer's \<open>sendMail\<close>) is an argument.
\<close>

record email =
  to_addr :: string
  subject :: string
  message :: "string option"
  html :: "string option"

subsection \<open>Brevo\<close>

definition ENDPOINT :: string where
  "ENDPOINT = ''https://api.brevo.com/v3/smtp/email''"

definition REQUEST_TIMEOUT_MS :: nat where
  "REQUEST_TIMEOUT_MS = 15000"

definition isBrevoConfigured :: "app_config \<Rightarrow> bool" where
  "isBrevoConfigured cfg = (BREVO_API_KEY cfg \<noteq> [])"

record brevo_request =
  api_key :: string
  sender :: "string \<times> string"
  recipient :: string
  b_subject :: string
  htmlContent :: "string option"
  textContent :: "string option"

text \<open>
  The answer of \<open>fetch\<close>: aborted by the timer, failed, or a response with its JSON body,
  which is absent when it does not parse; a rejected response may have a plain text.
\<close>

datatype brevo_answer =
    Aborted
  | Fetch_failed string
  | Accepted "string option option" \<comment> \<open>the body, if it parses, and its message id\<close>
  | Refused nat "(string option \<times> string option) option" "string option"
      \<comment> \<open>the status, the body's message and code, the text\<close>

definition brevo_body :: "app_config \<Rightarrow> email \<Rightarrow> brevo_request" where
  "brevo_body cfg m =
     \<lparr>api_key = BREVO_API_KEY cfg, sender = (MAIL_FROM cfg, MAIL_FROM_NAME cfg), recipient = to_addr m,
      b_subject = subject m,
      htmlContent = (if truthy_str (html m) then html m else None),
      textContent = (if truthy_str (message m) then message m
                     else if truthy_str (html m) then None else Some '' '')\<rparr>"

definition sendViaBrevo ::
    "app_config \<Rightarrow> (brevo_request \<Rightarrow> brevo_answer) \<Rightarrow> email \<Rightarrow> string + string" where
  "sendViaBrevo cfg fetch m =
     (if BREVO_API_KEY cfg = [] then Inl ''BREVO_API_KEY is not configured''
      else if MAIL_FROM cfg = [] then Inl ''MAIL_FROM (or SMTP_USER) must be set to a verified sender''
      else case fetch (brevo_body cfg m) of
             Aborted \<Rightarrow> Inl (''Brevo request timed out after '' @ show_nat REQUEST_TIMEOUT_MS @ ''ms'')
           | Fetch_failed e \<Rightarrow> Inl e
           | Refused code body plain \<Rightarrow>
               let detail = (case body of
                               Some (msg, ecode) \<Rightarrow> str_or msg (str_or ecode [])
                             | None \<Rightarrow> nullish plain [])
               in Inl (''Brevo rejected the message (HTTP '' @ show_nat code @ '')'' @
                       (if detail \<noteq> [] then '': '' @ detail else []))
           | Accepted body \<Rightarrow> Inr (nullish (nullish body None) ''unknown''))"

subsection \<open>SMTP\<close>

record smtp_options =
  smtp_host :: string
  smtp_port :: nat
  smtp_secure :: bool
  smtp_auth :: "string \<times> string"
  smtp_pool :: bool
  maxConnections :: nat
  maxMessages :: nat
  connectionTimeout :: nat
  greetingTimeout :: nat
  socketTimeout :: nat
  family :: nat
  dnsTimeout :: nat

definition smtpOptions :: "app_config \<Rightarrow> smtp_options" where
  "smtpOptions cfg =
     \<lparr>smtp_host = SMTP_HOST cfg, smtp_port = 587, smtp_secure = False,
      smtp_auth = (SMTP_USER cfg, SMTP_PASS cfg), smtp_pool = True, maxConnections = 3, maxMessages = 50,
      connectionTimeout = 8000, greetingTimeout = 8000, socketTimeout = 15000, family = 4,
      dnsTimeout = 5000\<rparr>"

record mail_options =
  from_addr :: "string option"
  mo_message :: email

definition mailOptions :: "app_config \<Rightarrow> email \<Rightarrow> mail_options" where
  "mailOptions cfg m =
     \<lparr>from_addr = (if MAIL_FROM cfg \<noteq> []
                   then Some (CHR 0x22 # MAIL_FROM_NAME cfg @ CHR 0x22 # '' <'' @ MAIL_FROM cfg @ ''>'') else None),
      mo_message = m\<rparr>"

subsection \<open>The entry point\<close>

text \<open>The two networks a message can leave by.\<close>

record network =
  post_brevo :: "brevo_request \<Rightarrow> brevo_answer"
  smtp_send :: "mail_options \<Rightarrow> string + string" \<comment> \<open>the error, or the message id\<close>

definition activeMailProvider :: "app_config \<Rightarrow> string" where
  "activeMailProvider cfg = (if isBrevoConfigured cfg then ''brevo'' else ''smtp'')"

definition sendEmail :: "app_config \<Rightarrow> network \<Rightarrow> email \<Rightarrow> string + string" where
  "sendEmail cfg net m =
     (if to_addr m = [] then Inl ''A recipient address is required''
      else if isBrevoConfigured cfg then sendViaBrevo cfg (post_brevo net) m
      else smtp_send net (mailOptions cfg m))"

lemma smtpOptions_ports [simp]: "smtp_port (smtpOptions cfg) = 587" "\<not> smtp_secure (smtpOptions cfg)"
  by (simp_all add: smtpOptions_def)

lemma brevo_body_has_content: "htmlContent (brevo_body cfg m) \<noteq> None \<or> textContent (brevo_body cfg m) \<noteq> None"
  by (auto simp: brevo_body_def truthy_str_def split: option.splits)

lemma app_config_sender: "MAIL_FROM (app_config_of env) = str_or (env ''MAIL_FROM'') (str_or (env ''SMTP_USER'') [])"
  by (simp add: app_config_of_def)

lemma loaded_sender:
  assumes "loadConfig hostname env = Inr cfg"
  shows "MAIL_FROM cfg \<noteq> []"
proof -
  have "truthy_str (env ''SMTP_USER'')" and "cfg = app_config_of env"
    using loadConfig_Inr [OF assms] by (auto simp: required_vars_def)
  then show ?thesis by (auto simp: app_config_sender str_or_def truthy_str_def split: option.splits)
qed

text \<open>
  Sending: with the configuration of a process that started, exactly one transport is
  used, the one the configuration names; a message to Brevo always has a sender and a
  body; and the call succeeds if and only if there is a recipient and that transport
  accepted the message.
\<close>

theorem sendEmail_transport:
  assumes "loadConfig hostname env = Inr cfg"
  shows "(isBrevoConfigured cfg \<longrightarrow>
      sendEmail cfg net m = sendEmail cfg (net\<lparr>smtp_send := other\<rparr>) m \<and>
      (\<not> is_Inl (sendEmail cfg net m) \<longleftrightarrow>
        to_addr m \<noteq> [] \<and> (\<exists>body. post_brevo net (brevo_body cfg m) = Accepted body))) \<and>
    (\<not> isBrevoConfigured cfg \<longrightarrow>
      sendEmail cfg net m = sendEmail cfg (net\<lparr>post_brevo := another\<rparr>) m \<and>
      (\<not> is_Inl (sendEmail cfg net m) \<longleftrightarrow>
        to_addr m \<noteq> [] \<and> \<not> is_Inl (smtp_send net (mailOptions cfg m)))) \<and>
    fst (sender (brevo_body cfg m)) \<noteq> [] \<and> from_addr (mailOptions cfg m) \<noteq> None \<and>
    (htmlContent (brevo_body cfg m) \<noteq> None \<or> textContent (brevo_body cfg m) \<noteq> None)"
  using loaded_sender [OF assms] brevo_body_has_content [of cfg m]
  by (auto simp: sendEmail_def sendViaBrevo_def isBrevoConfigured_def Let_def mailOptions_def
      brevo_body_def [of cfg m, THEN arg_cong [of _ _ sender]] split: brevo_answer.splits)

theorem sendEmail_transport_witness:
  "\<not> is_Inl (sendEmail (app_config_of (example_env ''production''))
     \<lparr>post_brevo = (\<lambda>_. Aborted), smtp_send = (\<lambda>_. Inr ''id'')\<rparr>
     \<lparr>to_addr = ''a@b.c'', subject = [], message = None, html = None\<rparr>)"
proof -
  have "\<not> isBrevoConfigured (app_config_of (example_env ''production''))"
    by (simp add: isBrevoConfigured_def app_config_of_def example_env_def required_vars_def)
  then show ?thesis
    using sendEmail_transport [OF example_env_loads, of "\<lparr>post_brevo = (\<lambda>_. Aborted), smtp_send = (\<lambda>_. Inr ''id'')\<rparr>"]
    by simp
qed

end
