(* ===== verification/Mongo.thy ===== *)
theory Mongo
  imports Prelude
begin

text \<open>
  MongoDB, through Mongoose, is not part of the repository. Every definition that talks
  to it takes the operations it calls as an argument (a \<open>coll\<close>), over an unknown
  collection state \<open>'c\<close>; what the code relies on is the locale \<open>mongo\<close>: the
  documented behaviour of a collection with unique indexes, stated through the multiset
  of documents it holds. A query object of the source is translated to the predicate on
  documents it denotes, an update object to a function on documents.

  An operation may also fail (\<open>DbFailure\<close>); the contract says nothing of the
  collection's contents after such a failure, since the write may have been applied
  before the connection was lost.

  \<open>list_coll\<close> is an in-memory collection with the documented behaviour, the
  counterpart of the in-memory server the repository's own tests run against; it shows
  that the contract can be met and gives the witnesses their concrete runs.
\<close>

datatype db_error = DuplicateKey | DbFailure string

definition db_message :: "db_error \<Rightarrow> string" where
  "db_message e = (case e of DuplicateKey \<Rightarrow> ''E11000 duplicate key error'' | DbFailure m \<Rightarrow> m)"

record ('c, 'd) coll =
  find_many :: "'c \<Rightarrow> ('d \<Rightarrow> bool) \<Rightarrow> ('d \<Rightarrow> int) \<Rightarrow> nat option \<Rightarrow> db_error + 'd list"
    \<comment> \<open>find(query).sort(key ascending).limit(n)\<close>
  create_doc :: "'c \<Rightarrow> 'd \<Rightarrow> 'c \<times> (db_error + 'd)"
  update_one :: "'c \<Rightarrow> ('d \<Rightarrow> bool) \<Rightarrow> ('d \<Rightarrow> 'd) \<Rightarrow> 'c \<times> (db_error + 'd option)"
    \<comment> \<open>findOneAndUpdate / updateOne / save: the updated document, if one matched\<close>
  upsert_one :: "'c \<Rightarrow> ('d \<Rightarrow> bool) \<Rightarrow> ('d \<Rightarrow> 'd) \<Rightarrow> 'd \<Rightarrow> 'c \<times> (db_error + ('d \<times> bool))"
    \<comment> \<open>findOneAndUpdate with upsert: the document and whether it already existed\<close>
  delete_one :: "'c \<Rightarrow> ('d \<Rightarrow> bool) \<Rightarrow> 'c \<times> (db_error + 'd option)"

text \<open>\<open>clash x y\<close>: a unique index forbids holding \<open>x\<close> and \<open>y\<close> at once.\<close>

locale mongo =
  fixes ops :: "('c, 'd) coll"
    and docs :: "'c \<Rightarrow> 'd multiset"
    and clash :: "'d \<Rightarrow> 'd \<Rightarrow> bool"
  assumes find_contract:
      "find_many ops c P key n = Inr ds \<Longrightarrow>
        \<exists>full. mset full = filter_mset P (docs c) \<and> sorted (map key full) \<and>
          ds = (case n of None \<Rightarrow> full | Some k \<Rightarrow> take k full)"
    and create_contract:
      "create_doc ops c d = (c', Inr d') \<Longrightarrow>
        d' = d \<and> docs c' = add_mset d (docs c) \<and> (\<forall>x \<in># docs c. \<not> clash d x)"
    and create_dup: "create_doc ops c d = (c', Inl DuplicateKey) \<Longrightarrow> docs c' = docs c"
    and update_contract:
      "update_one ops c P u = (c', Inr (Some d')) \<Longrightarrow>
        \<exists>d M. docs c = add_mset d M \<and> P d \<and> d' = u d \<and> docs c' = add_mset (u d) M \<and>
          (\<forall>x \<in># M. \<not> clash (u d) x)"
    and update_none:
      "update_one ops c P u = (c', Inr None) \<Longrightarrow> docs c' = docs c \<and> (\<forall>d \<in># docs c. \<not> P d)"
    and update_dup: "update_one ops c P u = (c', Inl DuplicateKey) \<Longrightarrow> docs c' = docs c"
    and upsert_existing:
      "upsert_one ops c P u ins = (c', Inr (d', True)) \<Longrightarrow>
        \<exists>d M. docs c = add_mset d M \<and> P d \<and> d' = u d \<and> docs c' = add_mset (u d) M \<and>
          (\<forall>x \<in># M. \<not> clash (u d) x)"
    and upsert_inserted:
      "upsert_one ops c P u ins = (c', Inr (d', False)) \<Longrightarrow>
        (\<forall>d \<in># docs c. \<not> P d) \<and> d' = ins \<and> docs c' = add_mset ins (docs c) \<and>
          (\<forall>x \<in># docs c. \<not> clash ins x)"
    and upsert_dup:
      "upsert_one ops c P u ins = (c', Inl DuplicateKey) \<Longrightarrow>
        docs c' = docs c \<and>
        ((\<exists>d M. docs c = add_mset d M \<and> P d \<and> (\<exists>x \<in># M. clash (u d) x)) \<or> (\<exists>x \<in># docs c. clash ins x))"
    and delete_contract:
      "delete_one ops c P = (c', Inr (Some d)) \<Longrightarrow> \<exists>M. docs c = add_mset d M \<and> P d \<and> docs c' = M"
    and delete_none:
      "delete_one ops c P = (c', Inr None) \<Longrightarrow> docs c' = docs c \<and> (\<forall>d \<in># docs c. \<not> P d)"
begin

lemma upsert_answered:
  assumes "upsert_one ops c P u ins = (c', Inr (x, ex))"
  shows "(\<exists>d M. docs c = add_mset d M \<and> P d \<and> x = u d \<and> docs c' = add_mset (u d) M \<and> (\<forall>y \<in># M. \<not> clash (u d) y)) \<or>
    ((\<forall>d \<in># docs c. \<not> P d) \<and> x = ins \<and> docs c' = add_mset ins (docs c) \<and> (\<forall>y \<in># docs c. \<not> clash ins y))"
proof (cases ex)
  case True
  with assms upsert_existing [of c P u ins c' x] show ?thesis by simp
next
  case False
  with assms upsert_inserted [of c P u ins c' x] show ?thesis by simp
qed

lemma find_members:
  assumes "find_many ops c P key n = Inr ds" and "d \<in> set ds"
  shows "d \<in># docs c \<and> P d"
proof -
  from find_contract [OF assms(1)] obtain full where
    full: "mset full = filter_mset P (docs c)" "set ds \<subseteq> set full"
    by (auto split: option.splits dest: in_set_takeD)
  from full(2) assms(2) have "d \<in> set full" by blast
  then have "d \<in># filter_mset P (docs c)" unfolding full(1) [symmetric] by simp
  then show ?thesis by simp
qed

lemma find_all:
  assumes "find_many ops c P key None = Inr ds"
  shows "set ds = {d. d \<in># docs c \<and> P d}"
proof -
  from find_contract [OF assms] have "mset ds = filter_mset P (docs c)" by auto
  then show ?thesis by (metis set_mset_filter set_mset_mset)
qed

lemma find_empty:
  assumes "find_many ops c P key (Some 1) = Inr []" and "d \<in># docs c"
  shows "\<not> P d"
proof -
  from find_contract [OF assms(1)] obtain full where
    full: "mset full = filter_mset P (docs c)" "take 1 full = []" by auto
  then have "filter_mset P (docs c) = {#}" by simp
  with assms(2) show ?thesis by (metis empty_iff mem_Collect_eq set_mset_empty set_mset_filter)
qed

end

text \<open>
  A write is atomic also when it fails: after any error, the document-level effect has
  either happened or not.
\<close>

locale mongo_atomic = mongo ops docs clash
  for ops :: "('c, 'd) coll" and docs :: "'c \<Rightarrow> 'd multiset" and clash :: "'d \<Rightarrow> 'd \<Rightarrow> bool" +
  assumes upsert_failed:
      "upsert_one ops c P u ins = (c', Inl e) \<Longrightarrow>
        docs c' = docs c \<or>
        (\<exists>d M. docs c = add_mset d M \<and> P d \<and> docs c' = add_mset (u d) M \<and> (\<forall>x \<in># M. \<not> clash (u d) x)) \<or>
        ((\<forall>d \<in># docs c. \<not> P d) \<and> docs c' = add_mset ins (docs c) \<and> (\<forall>x \<in># docs c. \<not> clash ins x))"
    and update_failed:
      "update_one ops c P u = (c', Inl e) \<Longrightarrow>
        docs c' = docs c \<or>
        (\<exists>d M. docs c = add_mset d M \<and> P d \<and> docs c' = add_mset (u d) M \<and> (\<forall>x \<in># M. \<not> clash (u d) x))"
    and create_failed:
      "create_doc ops c d = (c', Inl e) \<Longrightarrow>
        docs c' = docs c \<or> (docs c' = add_mset d (docs c) \<and> (\<forall>x \<in># docs c. \<not> clash d x))"
    and delete_failed:
      "delete_one ops c P = (c', Inl e) \<Longrightarrow>
        docs c' = docs c \<or> (\<exists>d. P d \<and> docs c = add_mset d (docs c'))"
begin

text \<open>What an upsert may do to the collection, whatever it returns.\<close>

lemma upsert_effect:
  assumes "upsert_one ops c P u ins = (c', r)"
  shows "docs c' = docs c \<or>
    (\<exists>d M. docs c = add_mset d M \<and> P d \<and> docs c' = add_mset (u d) M \<and> (\<forall>x \<in># M. \<not> clash (u d) x)) \<or>
    ((\<forall>d \<in># docs c. \<not> P d) \<and> docs c' = add_mset ins (docs c) \<and> (\<forall>x \<in># docs c. \<not> clash ins x))"
proof (cases r)
  case (Inl e)
  with assms show ?thesis using upsert_failed by blast
next
  case (Inr p)
  then obtain d ex where r: "r = Inr (d, ex)" by (cases p) auto
  show ?thesis
    using assms r upsert_answered [of c P u ins c' d ex] by auto
qed

text \<open>
  A document that does not match, and that clashes with anything the upsert could write,
  blocks it: the operation fails and leaves the collection as it was.
\<close>

lemma upsert_blocked:
  assumes "upsert_one ops c P u ins = (c', r)" and d: "d \<in># docs c" "\<not> P d"
    and clash: "\<And>x. P x \<Longrightarrow> clash (u x) d" "clash ins d"
  shows "is_Inl r \<and> docs c' = docs c"
proof -
  have no_update: "\<not> (docs c = add_mset x M \<and> P x \<and> (\<forall>y \<in># M. \<not> clash (u x) y))" for x M
    using d clash(1) by (intro notI) auto
  have "docs c' = docs c" using upsert_effect [OF assms(1)] no_update d clash(2) by blast
  moreover have "is_Inl r"
  proof (rule ccontr)
    assume "\<not> is_Inl r"
    then obtain x ex where "r = Inr (x, ex)" by (cases r) (auto split: prod.splits)
    with assms(1) show False
      using upsert_answered [of c P u ins c' x ex] no_update d clash(2) by blast
  qed
  ultimately show ?thesis by simp
qed

lemma update_effect:
  assumes "update_one ops c P u = (c', r)"
  shows "docs c' = docs c \<or>
    (\<exists>d M. docs c = add_mset d M \<and> P d \<and> docs c' = add_mset (u d) M \<and> (\<forall>x \<in># M. \<not> clash (u d) x))"
proof (cases r)
  case (Inl e)
  with assms show ?thesis using update_failed by blast
next
  case (Inr q)
  with assms show ?thesis using update_contract [of c P u c'] update_none [of c P u c'] by (cases q) blast+
qed

lemma create_effect:
  assumes "create_doc ops c d = (c', r)"
  shows "docs c' = docs c \<or> (docs c' = add_mset d (docs c) \<and> (\<forall>x \<in># docs c. \<not> clash d x))"
proof (cases r)
  case (Inl e)
  with assms show ?thesis using create_failed by blast
next
  case (Inr q)
  with assms show ?thesis using create_contract [of c d c' q] by blast
qed

lemma delete_effect:
  assumes "delete_one ops c P = (c', r)"
  shows "docs c' = docs c \<or> (\<exists>d. P d \<and> docs c = add_mset d (docs c'))"
proof (cases r)
  case (Inl e)
  with assms show ?thesis using delete_failed by blast
next
  case (Inr q)
  with assms show ?thesis using delete_contract [of c P c'] delete_none [of c P c'] by (cases q) blast+
qed

end

subsection \<open>An in-memory collection\<close>

definition first_match :: "('d \<Rightarrow> bool) \<Rightarrow> 'd list \<Rightarrow> 'd option" where
  "first_match P ds = find P ds"

definition list_find :: "'d list \<Rightarrow> ('d \<Rightarrow> bool) \<Rightarrow> ('d \<Rightarrow> int) \<Rightarrow> nat option \<Rightarrow> db_error + 'd list" where
  "list_find ds P key n =
     (let full = sort_key key (filter P ds)
      in Inr (case n of None \<Rightarrow> full | Some k \<Rightarrow> take k full))"

definition list_create :: "('d \<Rightarrow> 'd \<Rightarrow> bool) \<Rightarrow> 'd list \<Rightarrow> 'd \<Rightarrow> 'd list \<times> (db_error + 'd)" where
  "list_create clash ds d =
     (if list_ex (clash d) ds then (ds, Inl DuplicateKey) else (ds @ [d], Inr d))"

definition list_update_one ::
    "('d \<Rightarrow> 'd \<Rightarrow> bool) \<Rightarrow> 'd list \<Rightarrow> ('d \<Rightarrow> bool) \<Rightarrow> ('d \<Rightarrow> 'd) \<Rightarrow> 'd list \<times> (db_error + 'd option)" where
  "list_update_one clash ds P u =
     (case find P ds of
        None \<Rightarrow> (ds, Inr None)
      | Some d \<Rightarrow>
          if list_ex (clash (u d)) (remove1 d ds) then (ds, Inl DuplicateKey)
          else (update_first P u ds, Inr (Some (u d))))"

definition list_upsert ::
    "('d \<Rightarrow> 'd \<Rightarrow> bool) \<Rightarrow> 'd list \<Rightarrow> ('d \<Rightarrow> bool) \<Rightarrow> ('d \<Rightarrow> 'd) \<Rightarrow> 'd \<Rightarrow> 'd list \<times> (db_error + ('d \<times> bool))" where
  "list_upsert clash ds P u ins =
     (case list_update_one clash ds P u of
        (ds', Inl e) \<Rightarrow> (ds', Inl e)
      | (ds', Inr (Some d)) \<Rightarrow> (ds', Inr (d, True))
      | (ds', Inr None) \<Rightarrow>
          if list_ex (clash ins) ds then (ds, Inl DuplicateKey) else (ds @ [ins], Inr (ins, False)))"

definition list_delete :: "'d list \<Rightarrow> ('d \<Rightarrow> bool) \<Rightarrow> 'd list \<times> (db_error + 'd option)" where
  "list_delete ds P =
     (case find P ds of None \<Rightarrow> (ds, Inr None) | Some d \<Rightarrow> (remove1 d ds, Inr (Some d)))"

definition list_coll :: "('d \<Rightarrow> 'd \<Rightarrow> bool) \<Rightarrow> ('d list, 'd) coll" where
  "list_coll clash =
     \<lparr>find_many = list_find, create_doc = list_create clash, update_one = list_update_one clash,
      upsert_one = list_upsert clash, delete_one = list_delete\<rparr>"

lemma list_coll_simps [simp]:
  "find_many (list_coll clash) = list_find"
  "create_doc (list_coll clash) = list_create clash"
  "update_one (list_coll clash) = list_update_one clash"
  "upsert_one (list_coll clash) = list_upsert clash"
  "delete_one (list_coll clash) = list_delete"
  by (simp_all add: list_coll_def)

lemma list_update_one_Some:
  assumes "list_update_one clash ds P u = (ds', Inr (Some d'))"
  shows "\<exists>d M. mset ds = add_mset d M \<and> P d \<and> d' = u d \<and> mset ds' = add_mset (u d) M \<and>
    (\<forall>x \<in># M. \<not> clash (u d) x)"
proof -
  from assms obtain d where d: "find P ds = Some d" "d' = u d" "ds' = update_first P u ds"
    "\<not> list_ex (clash (u d)) (remove1 d ds)"
    by (auto simp: list_update_one_def split: option.splits if_splits)
  let ?M = "mset ds - {#d#}"
  from d(1) have "d \<in> set ds" "P d" by (auto dest: find_SomeD)
  moreover from d(4) have "\<forall>x \<in># ?M. \<not> clash (u d) x"
    by (metis list_ex_iff mset_remove1 set_mset_mset)
  ultimately show ?thesis
    using d update_first_mset [OF d(1), of u] by (intro exI [of _ d] exI [of _ ?M]) auto
qed

lemma list_upsert_dup:
  assumes "list_upsert clash ds P u ins = (ds', Inl DuplicateKey)"
  shows "ds' = ds \<and> ((\<exists>d M. mset ds = add_mset d M \<and> P d \<and> (\<exists>x \<in># M. clash (u d) x)) \<or> (\<exists>x \<in> set ds. clash ins x))"
proof (cases "find P ds")
  case None
  with assms show ?thesis by (auto simp: list_upsert_def list_update_one_def list_ex_iff split: if_splits)
next
  case (Some d)
  then have d: "d \<in> set ds" "P d" by (auto dest: find_SomeD)
  from assms Some have ex: "ds' = ds" "list_ex (clash (u d)) (remove1 d ds)"
    by (auto simp: list_upsert_def list_update_one_def split: if_splits)
  then obtain x where "x \<in> set (remove1 d ds)" "clash (u d) x" by (auto simp: list_ex_iff)
  then have "x \<in># mset ds - {#d#}" "clash (u d) x" by (metis mset_remove1 set_mset_mset)+
  with ex(1) d show ?thesis by (intro conjI disjI1 exI [of _ d] exI [of _ "mset ds - {#d#}"]) auto
qed

interpretation mem: mongo "list_coll clash" mset clash for clash :: "'d \<Rightarrow> 'd \<Rightarrow> bool"
proof unfold_locales
  show "\<exists>full. mset full = filter_mset P (mset c) \<and> sorted (map key full) \<and>
      ds = (case n of None \<Rightarrow> full | Some k \<Rightarrow> take k full)"
    if "find_many (list_coll clash) c P key n = Inr ds" for c P key n and ds :: "'d list"
    using that by (intro exI [of _ "sort_key key (filter P c)"]) (auto simp: list_find_def Let_def mset_filter)
  show "mset c' = mset c \<and>
      ((\<exists>d M. mset c = add_mset d M \<and> P d \<and> (\<exists>x \<in># M. clash (u d) x)) \<or> (\<exists>x \<in># mset c. clash ins x))"
    if "upsert_one (list_coll clash) c P u ins = (c', Inl DuplicateKey)" for c P u ins and c' :: "'d list"
    using that list_upsert_dup [of clash c P u ins c'] by auto
qed (auto simp: list_create_def list_upsert_def list_delete_def list_ex_iff find_None_iff
    dest!: find_SomeD list_update_one_Some
    dest: sym [of _ "Inr None"]
    split: if_splits option.splits prod.splits sum.splits;
    auto simp: list_update_one_def find_None_iff split: option.splits if_splits)+

interpretation mem_atomic: mongo_atomic "list_coll clash" mset clash for clash :: "'d \<Rightarrow> 'd \<Rightarrow> bool"
  by unfold_locales
    (auto simp: list_create_def list_upsert_def list_update_one_def list_delete_def
       split: if_splits option.splits prod.splits sum.splits)

end
