(* ===== verification/Notify.thy ===== *)
theory Notify
  imports Templates Mail Mongo
begin

text \<open>
  Notification delivery: the registry and its dispatcher
  (\<open>Backend/src/notifications/notifier.js\<close>), the email and webhook notifiers
  (\<open>email.notifier.js\<close>, \<open>webhook.notifier.js\<close>) and the default wiring (\<open>index.js\<close>).
  A notifier's \<open>send\<close> returns what it returned or the message it threw; the channel and
  audit-log collections are arguments, and so is what each receiver answers.
\<close>

subsection \<open>Data\<close>

datatype notif_status = Delivered | Failed | Skipped

record notif_result =
  n_channel :: "string option"
  n_status :: notif_status
  n_target :: "string option"
  n_detail :: "string option"

definition OPENED :: string where "OPENED = ''incident.opened''"
definition CLOSED_EVENT :: string where "CLOSED_EVENT = ''incident.closed''"

definition event_label :: "string \<Rightarrow> string" where
  "event_label e =
     (if e = OPENED then ''CRITICAL_OUTAGE'' else if e = CLOSED_EVENT then ''HEALTH_RECOVERY'' else e)"

text \<open>What a notifier may return: one outcome or several, some of them absent.\<close>

datatype outcomes = One "notif_result option" | Many "notif_result option list"

record notifier =
  nt_name :: string
  nt_supports :: "(string \<Rightarrow> bool) option"
  nt_send :: "(payload \<Rightarrow> string + outcomes) option"

text \<open>A row of the audit log, \<open>Backend/src/models/notificationLog.model.js\<close>.\<close>

record log_row =
  nl_userId :: oid
  nl_monitorId :: oid
  nl_event :: string
  nl_channel :: string
  nl_target :: "string option"
  nl_status :: notif_status
  nl_detail :: "string option"

subsection \<open>The registry\<close>

definition register :: "notifier \<Rightarrow> notifier list \<Rightarrow> string + notifier list" where
  "register nt ns =
     (if nt_name nt = [] \<or> nt_send nt = None
      then Inl ''Notifier must have a name and a send() function''
      else let nt' = (if nt_supports nt = None then nt\<lparr>nt_supports := Some (\<lambda>_. True)\<rparr> else nt)
           in Inr (filter (\<lambda>n. nt_name n \<noteq> nt_name nt) ns @ [nt']))"

definition unregister :: "string \<Rightarrow> notifier list \<Rightarrow> notifier list" where
  "unregister name ns = filter (\<lambda>n. nt_name n \<noteq> name) ns"

definition supports :: "notifier \<Rightarrow> string \<Rightarrow> bool" where
  "supports nt e = (case nt_supports nt of None \<Rightarrow> True | Some f \<Rightarrow> f e)"

definition normalise :: "string \<Rightarrow> outcomes \<Rightarrow> notif_result list" where
  "normalise name oc =
     (let xs = (case oc of One x \<Rightarrow> [x] | Many xs \<Rightarrow> xs)
      in map (\<lambda>r. r\<lparr>n_channel := later (Some name) (n_channel r)\<rparr>)
           (map the (filter (\<lambda>x. x \<noteq> None) xs)))"

text \<open>What one settled notifier adds to the results.\<close>

definition settle :: "payload \<Rightarrow> notifier \<Rightarrow> notif_result list \<Rightarrow> notif_result list" where
  "settle p nt results =
     (case (case nt_send nt of None \<Rightarrow> Inl [] | Some f \<Rightarrow> f p) of
        Inr oc \<Rightarrow> results @ normalise (nt_name nt) oc
      | Inl msg \<Rightarrow> results @ [\<lparr>n_channel = Some (nt_name nt), n_status = Failed, n_target = None,
                              n_detail = Some (str_or (Some msg) ''Notifier threw'')\<rparr>])"

definition row_of :: "payload \<Rightarrow> notif_result \<Rightarrow> log_row" where
  "row_of p r =
     \<lparr>nl_userId = u_id (p_user p), nl_monitorId = m_id (p_monitor p), nl_event = event_label (p_event p),
      nl_channel = str_or (n_channel r) ''Email'', nl_target = n_target r, nl_status = n_status r,
      nl_detail = n_detail r\<rparr>"

text \<open>\<open>#record\<close>: a failed write is swallowed.\<close>

definition record_result :: "('c, log_row) coll \<Rightarrow> payload \<Rightarrow> notif_result \<Rightarrow> 'c \<Rightarrow> 'c" where
  "record_result ops p r c = fst (create_doc ops c (row_of p r))"

definition opted_out :: "payload \<Rightarrow> notif_result" where
  "opted_out p =
     \<lparr>n_channel = Some ''Email'', n_status = Skipped, n_target = Some (u_email (p_user p)),
      n_detail = Some ''Incident alerts are disabled in preferences''\<rparr>"

text \<open>The results, the labels counted in \<open>notificationsTotal\<close>, and the audit log after.\<close>

definition dispatch ::
    "('c, log_row) coll \<Rightarrow> notifier list \<Rightarrow> payload \<Rightarrow> 'c \<Rightarrow>
     notif_result list \<times> (string \<times> notif_status) list \<times> 'c" where
  "dispatch ops notifiers p c =
     (if \<not> incidentAlerts (p_user p)
      then ([opted_out p], [], record_result ops p (opted_out p) c)
      else let applicable = filter (\<lambda>n. supports n (p_event p)) notifiers;
               results = foldl (\<lambda>rs n. settle p n rs) [] applicable;
               counted = map (\<lambda>r. (str_or (n_channel r) ''unknown'', n_status r)) results
           in (results, counted, foldl (\<lambda>c r. record_result ops p r c) c results))"

subsection \<open>The email notifier\<close>

text \<open>A destination, \<open>Backend/src/models/channel.model.js\<close>.\<close>

record channel =
  ch_id :: oid
  ch_userId :: oid
  ch_type :: string
  ch_target :: string
  ch_active :: bool

definition incident_event :: "string \<Rightarrow> bool" where
  "incident_event e \<longleftrightarrow> e = OPENED \<or> e = CLOSED_EVENT"

definition email_recipients :: "('c, channel) coll \<Rightarrow> 'c \<Rightarrow> user \<Rightarrow> string list" where
  "email_recipients chs c u =
     (let base = (if u_email u \<noteq> [] then [u_email u] else []);
          found = (case find_many chs c
                      (\<lambda>ch. ch_userId ch = u_id u \<and> ch_type ch = ''Email'' \<and> ch_active ch) (\<lambda>_. 0) None of
                     Inl _ \<Rightarrow> []
                   | Inr cs \<Rightarrow> cs)
      in foldl (\<lambda>rs ch. if ch_target ch \<noteq> [] then push_new rs (ch_target ch) else rs) base found)"

definition email_one :: "app_config \<Rightarrow> network \<Rightarrow> string \<times> string \<Rightarrow> string \<Rightarrow> notif_result" where
  "email_one cfg net mail addr =
     (case sendEmail cfg net \<lparr>to_addr = addr, subject = fst mail, message = None, html = Some (snd mail)\<rparr> of
        Inr _ \<Rightarrow> \<lparr>n_channel = None, n_status = Delivered, n_target = Some addr, n_detail = Some ''Incident email''\<rparr>
      | Inl msg \<Rightarrow> \<lparr>n_channel = None, n_status = Failed, n_target = Some addr,
                   n_detail = Some (str_or (Some msg) ''SMTP delivery failed'')\<rparr>)"

definition email_send ::
    "format_api \<Rightarrow> app_config \<Rightarrow> network \<Rightarrow> ('c, channel) coll \<Rightarrow> 'c \<Rightarrow> payload \<Rightarrow> string + outcomes" where
  "email_send fmt cfg net chs c p =
     (let mail = (if p_event p = OPENED then incidentOpenedEmail fmt p else incidentClosedEmail fmt p);
          rs = email_recipients chs c (p_user p)
      in if rs = []
         then Inr (Many [Some \<lparr>n_channel = None, n_status = Skipped, n_target = None,
                           n_detail = Some ''No email address on file for this account''\<rparr>])
         else Inr (Many (map (\<lambda>a. Some (email_one cfg net mail a)) rs)))"

definition emailNotifier ::
    "format_api \<Rightarrow> app_config \<Rightarrow> network \<Rightarrow> ('c, channel) coll \<Rightarrow> 'c \<Rightarrow> notifier" where
  "emailNotifier fmt cfg net chs c =
     \<lparr>nt_name = ''Email'', nt_supports = Some incident_event, nt_send = Some (email_send fmt cfg net chs c)\<rparr>"

subsection \<open>The webhook notifier\<close>

record webhook_body =
  w_text :: string
  w_event :: string
  w_status :: string
  w_monitor :: "oid \<times> string \<times> string"
  w_incident :: "oid \<times> string option \<times> time \<times> time option \<times> int"
  w_occurredAt :: string

definition buildBody :: "format_api \<Rightarrow> payload \<Rightarrow> webhook_body" where
  "buildBody fmt p =
     (let opened = (p_event p = OPENED); title = monitor_title p ''Untitled monitor''
      in \<lparr>w_text =
            (if opened
             then siren @ '' *'' @ title @ ''* is DOWN '' @ em_dash @ '' '' @
                  str_or (reason (p_incident p)) ''monitor is down''
             else check_mark @ '' *'' @ title @ ''* is back UP after '' @ show_int (duration (p_incident p)) @ ''s''),
          w_event = p_event p, w_status = (if opened then ''DOWN'' else ''UP''),
          w_monitor = (m_id (p_monitor p), title, m_url (p_monitor p)),
          w_incident = (i_id (p_incident p), reason (p_incident p), startTime (p_incident p),
            endTime (p_incident p), duration (p_incident p)),
          w_occurredAt = iso_date fmt (occurredAt p)\<rparr>)"

text \<open>The receiver's answer to the POST: a response, or an error (the 5 s timeout included).\<close>

datatype post_answer = Answered nat | Post_failed string

definition response_ok :: "nat \<Rightarrow> bool" where
  "response_ok code \<longleftrightarrow> 200 \<le> code \<and> code \<le> 299"

definition webhook_one :: "(string \<Rightarrow> webhook_body \<Rightarrow> post_answer) \<Rightarrow> webhook_body \<Rightarrow> channel \<Rightarrow> notif_result" where
  "webhook_one post body ch =
     (case post (ch_target ch) body of
        Answered code \<Rightarrow>
          if \<not> response_ok code
          then \<lparr>n_channel = Some (ch_type ch), n_status = Failed, n_target = Some (ch_target ch),
                n_detail = Some (''Receiver returned HTTP '' @ show_nat code)\<rparr>
          else \<lparr>n_channel = Some (ch_type ch), n_status = Delivered, n_target = Some (ch_target ch),
                n_detail = None\<rparr>
      | Post_failed msg \<Rightarrow>
          \<lparr>n_channel = Some (ch_type ch), n_status = Failed, n_target = Some (ch_target ch),
           n_detail = Some (str_or (Some msg) ''Webhook delivery failed'')\<rparr>)"

definition webhook_send ::
    "format_api \<Rightarrow> (string \<Rightarrow> webhook_body \<Rightarrow> post_answer) \<Rightarrow> ('c, channel) coll \<Rightarrow> 'c \<Rightarrow> payload \<Rightarrow>
     string + outcomes" where
  "webhook_send fmt post chs c p =
     (case find_many chs c
         (\<lambda>ch. ch_userId ch = u_id (p_user p) \<and> ch_type ch \<in> {''Webhook'', ''Slack''} \<and> ch_active ch)
         (\<lambda>_. 0) None of
        Inl _ \<Rightarrow> Inr (Many [])
      | Inr cs \<Rightarrow> Inr (Many (map (\<lambda>ch. Some (webhook_one post (buildBody fmt p) ch)) cs)))"

definition webhookNotifier ::
    "format_api \<Rightarrow> (string \<Rightarrow> webhook_body \<Rightarrow> post_answer) \<Rightarrow> ('c, channel) coll \<Rightarrow> 'c \<Rightarrow> notifier" where
  "webhookNotifier fmt post chs c =
     \<lparr>nt_name = ''Webhook'', nt_supports = Some incident_event, nt_send = Some (webhook_send fmt post chs c)\<rparr>"

text \<open>The default wiring: both notifiers, in this order.\<close>

definition default_notifiers ::
    "format_api \<Rightarrow> app_config \<Rightarrow> network \<Rightarrow> (string \<Rightarrow> webhook_body \<Rightarrow> post_answer) \<Rightarrow>
     ('c, channel) coll \<Rightarrow> 'c \<Rightarrow> string + notifier list" where
  "default_notifiers fmt cfg net post chs c =
     (case register (emailNotifier fmt cfg net chs c) [] of
        Inl e \<Rightarrow> Inl e
      | Inr ns \<Rightarrow> register (webhookNotifier fmt post chs c) ns)"

subsection \<open>The registry's names\<close>

lemma register_distinct:
  "register nt ns = Inr ns' \<Longrightarrow> distinct (map nt_name ns) \<Longrightarrow> distinct (map nt_name ns')"
  by (auto simp: register_def Let_def distinct_map_filter split: if_splits)

lemma default_notifiers_names:
  "\<exists>ns. default_notifiers fmt cfg net post chs c = Inr ns \<and> map nt_name ns = [''Email'', ''Webhook'']"
  by (simp add: default_notifiers_def register_def emailNotifier_def webhookNotifier_def)

subsection \<open>Dispatch\<close>

lemma settle_append: "settle p nt rs = rs @ settle p nt []"
  by (simp add: settle_def split: sum.splits)

lemma foldl_settle: "foldl (\<lambda>rs n. settle p n rs) rs ns = rs @ concat (map (\<lambda>n. settle p n []) ns)"
proof (induction ns arbitrary: rs)
  case (Cons n ns)
  then show ?case using settle_append [of p n rs] by simp
qed simp

lemma dispatch_results:
  "incidentAlerts (p_user p) \<Longrightarrow>
    fst (dispatch ops ns p c) =
      concat (map (\<lambda>n. settle p n []) (filter (\<lambda>n. supports n (p_event p)) ns))"
  by (simp add: dispatch_def Let_def foldl_settle)

text \<open>
  Notifiers are isolated: when the owner wants alerts, the results are, notifier by
  notifier in the order of registration, the outcomes of each one that supports the
  event, and a single Failed result for one that throws; so a broken notifier changes
  nothing of what the others deliver. When the owner opted out, no notifier runs and the
  one result says so.
\<close>

theorem dispatch_isolates:
  "(incidentAlerts (p_user p) \<longrightarrow>
     fst (dispatch ops (as @ n # bs) p c) =
       fst (dispatch ops as p c) @ fst (dispatch ops [n] p c) @ fst (dispatch ops bs p c)) \<and>
   (incidentAlerts (p_user p) \<and> supports n (p_event p) \<and> nt_send n = Some f \<and> f p = Inl msg \<longrightarrow>
     (\<exists>r. fst (dispatch ops [n] p c) = [r] \<and> n_status r = Failed \<and> n_channel r = Some (nt_name n))) \<and>
   (incidentAlerts (p_user p) \<and> supports n (p_event p) \<and> nt_send n = Some f \<and> f p = Inr oc \<longrightarrow>
     fst (dispatch ops [n] p c) = normalise (nt_name n) oc) \<and>
   (\<not> incidentAlerts (p_user p) \<longrightarrow>
     fst (dispatch ops ns p c) = [opted_out p] \<and> dispatch ops ns p c = dispatch ops [] p c)"
proof (intro conjI impI)
  assume "incidentAlerts (p_user p)"
  then show "fst (dispatch ops (as @ n # bs) p c) =
      fst (dispatch ops as p c) @ fst (dispatch ops [n] p c) @ fst (dispatch ops bs p c)"
    by (simp add: dispatch_results)
qed (auto simp: dispatch_results settle_def, auto simp: dispatch_def)

definition broken_notifier :: notifier where
  "broken_notifier = \<lparr>nt_name = ''Broken'', nt_supports = None, nt_send = Some (\<lambda>_. Inl ''boom'')\<rparr>"

theorem dispatch_isolates_witness:
  "\<exists>r. fst (dispatch (list_coll (\<lambda>_ _. False)) [broken_notifier] (example_payload ''Shop'' None) []) = [r] \<and>
     n_status r = Failed"
  using dispatch_isolates [of "example_payload ''Shop'' None" "list_coll (\<lambda>_ _. False)" "[]" broken_notifier "[]" "[]"
      "\<lambda>_. Inl ''boom''" "''boom''" undefined "[]"]
  by (auto simp: broken_notifier_def supports_def example_payload_def user_defaults_def)

subsection \<open>The audit log\<close>

lemma record_result_docs:
  assumes "mongo_atomic ops docs clash"
  shows "docs (record_result ops p r c) = docs c \<or> docs (record_result ops p r c) = add_mset (row_of p r) (docs c)"
proof -
  obtain c' a where "create_doc ops c (row_of p r) = (c', a)" by fastforce
  with mongo_atomic.create_effect [OF assms this] show ?thesis by (auto simp: record_result_def)
qed

lemma record_all_docs:
  assumes "mongo_atomic ops docs clash"
  shows "\<exists>rows. rows \<subseteq># mset (map (row_of p) rs) \<and>
    docs (foldl (\<lambda>c r. record_result ops p r c) c rs) = docs c + rows"
proof (induction rs arbitrary: c)
  case (Cons r rs)
  let ?c = "record_result ops p r c"
  from Cons.IH [of ?c] obtain rows where
    rows: "rows \<subseteq># mset (map (row_of p) rs)" "docs (foldl (\<lambda>c r. record_result ops p r c) ?c rs) = docs ?c + rows"
    by blast
  from record_result_docs [OF assms, of p r c] show ?case
  proof
    assume "docs ?c = docs c"
    with rows show ?thesis by (intro exI [of _ rows]) (auto intro: subset_mset.order_trans)
  next
    assume "docs ?c = add_mset (row_of p r) (docs c)"
    with rows show ?thesis by (intro exI [of _ "add_mset (row_of p r) rows"]) simp
  qed
qed simp

lemma record_all_reliable:
  assumes "mongo ops docs clash" and "\<And>c d. snd (create_doc ops c d) = Inr d"
  shows "docs (foldl (\<lambda>c r. record_result ops p r c) c rs) = docs c + mset (map (row_of p) rs)"
proof (induction rs arbitrary: c)
  case (Cons r rs)
  have "create_doc ops c (row_of p r) = (record_result ops p r c, Inr (row_of p r))"
    by (simp add: record_result_def assms(2) prod_eq_iff)
  from mongo.create_contract [OF assms(1) this] Cons show ?case by simp
qed simp

text \<open>
  The audit log is faithful: a dispatch adds to it only rows of its own results, opt-outs
  and failures included; no failed write stops the others; and when the log accepts
  writes, it gains exactly one row for every result.
\<close>

theorem audit_log_complete:
  assumes "mongo_atomic ops docs clash" and "dispatch ops ns p c = (rs, counted, c')"
  shows "(\<exists>rows. rows \<subseteq># mset (map (row_of p) rs) \<and> docs c' = docs c + rows) \<and>
    ((\<forall>c d. snd (create_doc ops c d) = Inr d) \<longrightarrow> docs c' = docs c + mset (map (row_of p) rs))"
proof -
  have "c' = foldl (\<lambda>c r. record_result ops p r c) c rs"
    using assms(2) by (auto simp: dispatch_def Let_def split: if_splits)
  then show ?thesis
    using record_all_docs [OF assms(1), of p rs c] record_all_reliable [OF mongo_atomic.axioms(1) [OF assms(1)], of p c rs]
    by auto
qed

theorem audit_log_complete_witness:
  "\<exists>rs counted c'. dispatch (list_coll (\<lambda>_ _. False)) [broken_notifier] (example_payload ''Shop'' None) [] =
     (rs, counted, c') \<and> mset c' = mset (map (row_of (example_payload ''Shop'' None)) rs)"
proof -
  obtain rs counted c' where
    d: "dispatch (list_coll (\<lambda>_ _. False)) [broken_notifier] (example_payload ''Shop'' None) [] = (rs, counted, c')"
    using prod_cases3 by blast
  with audit_log_complete [OF mem_atomic.mongo_atomic_axioms this] show ?thesis
    by (simp add: list_create_def list_ex_iff)
qed

subsection \<open>Recipients\<close>

lemma foldl_recipients:
  "foldl (\<lambda>rs ch. if ch_target ch \<noteq> [] then push_new rs (ch_target ch) else rs) rs cs =
    foldl push_new rs (filter (\<lambda>t. t \<noteq> []) (map ch_target cs))"
  by (induction cs arbitrary: rs) auto

lemma email_recipients_foldl:
  "\<exists>ts. email_recipients chs c u = foldl push_new (if u_email u \<noteq> [] then [u_email u] else []) ts"
  unfolding email_recipients_def Let_def foldl_recipients by blast

lemma email_one_simps:
  "n_target (email_one cfg net mail a) = Some a"
  "n_status (email_one cfg net mail a) = Delivered \<longleftrightarrow>
    \<not> is_Inl (sendEmail cfg net \<lparr>to_addr = a, subject = fst mail, message = None, html = Some (snd mail)\<rparr>)"
  by (simp_all add: email_one_def is_Inl_def split: sum.splits)

text \<open>
  Nobody is left out and nobody is told twice: the recipients of an alert are the
  account's address and the targets of the owner's active email channels, each once, or
  the account's address alone when the channels cannot be loaded; each recipient gets
  its own outcome, Delivered exactly if the message to that address was sent, whatever
  happened to the others.
\<close>

theorem email_recipients_complete:
  assumes "mongo chs docs clash" and "u_email (p_user p) \<noteq> []"
  shows "distinct (email_recipients chs c (p_user p)) \<and> u_email (p_user p) \<in> set (email_recipients chs c (p_user p)) \<and>
    (\<forall>cs. find_many chs c (\<lambda>ch. ch_userId ch = u_id (p_user p) \<and> ch_type ch = ''Email'' \<and> ch_active ch)
        (\<lambda>_. 0) None = Inr cs \<longrightarrow>
      set (email_recipients chs c (p_user p)) = insert (u_email (p_user p))
        {ch_target ch | ch. ch \<in># docs c \<and> ch_userId ch = u_id (p_user p) \<and> ch_type ch = ''Email'' \<and>
          ch_active ch \<and> ch_target ch \<noteq> []}) \<and>
    (\<exists>outs. email_send fmt cfg net chs c p = Inr (Many (map Some outs)) \<and>
      map n_target outs = map Some (email_recipients chs c (p_user p)) \<and>
      (\<forall>r \<in> set outs. \<exists>m. to_addr m = the (n_target r) \<and> (n_status r = Delivered \<longleftrightarrow> \<not> is_Inl (sendEmail cfg net m))))"
proof -
  let ?rs = "email_recipients chs c (p_user p)"
  let ?mail = "if p_event p = OPENED then incidentOpenedEmail fmt p else incidentClosedEmail fmt p"
  obtain ts where ts: "?rs = foldl push_new [u_email (p_user p)] ts"
    using email_recipients_foldl [of chs c "p_user p"] assms(2) by auto
  have "set ?rs = insert (u_email (p_user p))
        {ch_target ch | ch. ch \<in># docs c \<and> ch_userId ch = u_id (p_user p) \<and> ch_type ch = ''Email'' \<and>
          ch_active ch \<and> ch_target ch \<noteq> []}"
    if "find_many chs c (\<lambda>ch. ch_userId ch = u_id (p_user p) \<and> ch_type ch = ''Email'' \<and> ch_active ch)
        (\<lambda>_. 0) None = Inr cs" for cs
    using mongo.find_all [OF assms(1) that] that assms(2)
    unfolding email_recipients_def Let_def foldl_recipients by (auto simp: set_foldl_push_new)
  moreover have mem: "distinct ?rs" "u_email (p_user p) \<in> set ?rs"
    unfolding ts by (simp_all add: distinct_foldl_push_new set_foldl_push_new)
  moreover have "email_send fmt cfg net chs c p = Inr (Many (map Some (map (email_one cfg net ?mail) ?rs)))"
    using mem(2) by (auto simp: email_send_def Let_def)
  moreover have "map n_target (map (email_one cfg net ?mail) ?rs) = map Some ?rs"
    by (simp add: email_one_simps)
  moreover have "\<exists>m. to_addr m = the (n_target r) \<and> (n_status r = Delivered \<longleftrightarrow> \<not> is_Inl (sendEmail cfg net m))"
    if "r \<in> set (map (email_one cfg net ?mail) ?rs)" for r
  proof -
    from that obtain a where "r = email_one cfg net ?mail a" by auto
    then show ?thesis
      by (intro exI [of _ "\<lparr>to_addr = a, subject = fst ?mail, message = None, html = Some (snd ?mail)\<rparr>"])
        (simp add: email_one_simps)
  qed
  ultimately show ?thesis by blast
qed

definition example_channel :: channel where
  "example_channel = \<lparr>ch_id = ''c'', ch_userId = ''u'', ch_type = ''Email'', ch_target = ''Ann@x.io'', ch_active = True\<rparr>"

lemma example_lower: "to_lower ''Ann@x.io'' = ''ann@x.io''" "to_lower ''ann@x.io'' = ''ann@x.io''"
  "trim ''ann@x.io'' = ''ann@x.io''"
  by code_simp+

lemma example_user_email [simp]: "u_email (p_user (example_payload t s)) = ''ann@x.io''"
  by (simp add: example_payload_def user_defaults_def example_lower)

lemma example_user_id [simp]: "u_id (p_user (example_payload t s)) = ''u''"
  by (simp add: example_payload_def user_defaults_def)

lemma example_recipients:
  "email_recipients (list_coll (\<lambda>_ _. False)) [example_channel] (p_user (example_payload t s)) =
     [''ann@x.io'', ''Ann@x.io'']"
  by (simp add: email_recipients_def list_find_def example_channel_def push_new_def)

theorem email_recipients_complete_witness:
  "u_email (p_user (example_payload ''Shop'' None)) \<in>
     set (email_recipients (list_coll (\<lambda>_ _. False)) [example_channel] (p_user (example_payload ''Shop'' None)))"
  using email_recipients_complete [OF mem.mongo_axioms, of "example_payload ''Shop'' None" "\<lambda>_ _. False" "[example_channel]"]
  by simp

text \<open>
  Addresses are compared as written: a channel that names the account's own mailbox in
  another case is a second recipient, and the owner is told twice.
\<close>

theorem mailbox_told_twice:
  "\<exists>rs. email_recipients (list_coll (\<lambda>_ _. False)) [example_channel] (p_user (example_payload ''Shop'' None)) = rs \<and>
     length rs = 2 \<and> map to_lower rs = [''ann@x.io'', ''ann@x.io'']"
  unfolding example_recipients by (simp add: example_lower)

end
