(* ===== verification/Incident.thy ===== *)
theory Incident
  imports Notify
begin

text \<open>
  The incident lifecycle, \<open>Backend/src/services/incident.service.js\<close>: opening and closing an
  incident on a threshold crossing, over a collection with the partial unique index of
  \<open>incidents.model.js\<close>. First the two operations as the code has them, then what they do
  to the collection, alone and in any interleaving of any number of callers.
\<close>

subsection \<open>The code\<close>

text \<open>
  The collections and collaborators the module reaches: incidents, users, the audit log,
  the registered notifiers, and the AI summary (\<open>None\<close> when there is none).
\<close>

record ('i, 'u, 'l) services =
  inc_ops :: "('i, incident) coll"
  user_ops :: "('u, user) coll"
  audit_ops :: "('l, log_row) coll"
  notifiers :: "notifier list"
  analyze :: "string \<Rightarrow> string option"

record ('i, 'u, 'l) stores =
  inc_st :: 'i
  user_st :: 'u
  audit_st :: 'l

definition ongoing_of :: "oid \<Rightarrow> incident \<Rightarrow> bool" where
  "ongoing_of m d \<longleftrightarrow> i_monitorId d = m \<and> i_status d = ONGOING"

definition loadOwner :: "('i, 'u, 'l) services \<Rightarrow> ('i, 'u, 'l) stores \<Rightarrow> monitor \<Rightarrow> user option" where
  "loadOwner sv st m =
     (if m_userId m = [] then None
      else case find_many (user_ops sv) (user_st st) (\<lambda>u. u_id u = m_userId m) (\<lambda>_. 0) (Some 1) of
             Inr (u # _) \<Rightarrow> Some u
           | _ \<Rightarrow> None)"

definition notify_owner ::
    "('i, 'u, 'l) services \<Rightarrow> string \<Rightarrow> incident \<Rightarrow> monitor \<Rightarrow> time \<Rightarrow> ('i, 'u, 'l) stores \<Rightarrow>
     ('i, 'u, 'l) stores \<times> payload list" where
  "notify_owner sv event inc m tm st =
     (case loadOwner sv st m of
        None \<Rightarrow> (st, [])
      | Some u \<Rightarrow>
          let p = \<lparr>p_event = event, p_incident = inc, p_monitor = m, p_user = u, occurredAt = tm\<rparr>;
              (rs, counted, l) = dispatch (audit_ops sv) (notifiers sv) p (audit_st st)
          in (st\<lparr>audit_st := l\<rparr>, [p]))"

text \<open>\<open>$setOnInsert\<close>: the document a new outage is recorded as.\<close>

definition new_incident :: "oid \<Rightarrow> monitor \<Rightarrow> string \<Rightarrow> time \<Rightarrow> incident" where
  "new_incident new_id m why now =
     \<lparr>i_id = new_id, i_monitorId = m_id m, i_userId = Some (m_userId m), i_status = ONGOING,
      startTime = now, endTime = None, duration = 0, reason = Some why, aiSummary = None\<rparr>"

definition add_summary :: "('i, 'u, 'l) services \<Rightarrow> string \<Rightarrow> incident \<Rightarrow> 'i \<Rightarrow> 'i \<times> incident" where
  "add_summary sv why inc c =
     (case analyze sv why of
        Some s \<Rightarrow>
          if s = [] then (c, inc)
          else (fst (update_one (inc_ops sv) c (\<lambda>d. i_id d = i_id inc) (\<lambda>d. d\<lparr>aiSummary := Some s\<rparr>)),
                inc\<lparr>aiSummary := Some s\<rparr>)
      | None \<Rightarrow> (c, inc))"

text \<open>
  The stores after, the payloads handed to the notifiers, and the error thrown or the
  incident and whether this call opened it.
\<close>

definition openIncident ::
    "('i, 'u, 'l) services \<Rightarrow> oid \<Rightarrow> time \<Rightarrow> monitor \<Rightarrow> string \<Rightarrow> ('i, 'u, 'l) stores \<Rightarrow>
     ('i, 'u, 'l) stores \<times> payload list \<times> (db_error + incident option \<times> bool)" where
  "openIncident sv new_id now m why st =
     (case upsert_one (inc_ops sv) (inc_st st) (ongoing_of (m_id m)) (\<lambda>d. d) (new_incident new_id m why now) of
        (c1, Inl DuplicateKey) \<Rightarrow>
          (st\<lparr>inc_st := c1\<rparr>, [],
           case find_many (inc_ops sv) c1 (ongoing_of (m_id m)) (\<lambda>_. 0) (Some 1) of
             Inl e \<Rightarrow> Inl e
           | Inr [] \<Rightarrow> Inr (None, False)
           | Inr (x # _) \<Rightarrow> Inr (Some x, False))
      | (c1, Inl e) \<Rightarrow> (st\<lparr>inc_st := c1\<rparr>, [], Inl e)
      | (c1, Inr (inc, True)) \<Rightarrow> (st\<lparr>inc_st := c1\<rparr>, [], Inr (Some inc, False))
      | (c1, Inr (inc, False)) \<Rightarrow>
          let (c2, inc2) = add_summary sv why inc c1;
              (st2, told) = notify_owner sv OPENED inc2 m now (st\<lparr>inc_st := c2\<rparr>)
          in (st2, told, Inr (Some inc2, True)))"

text \<open>Saving the closed document: only a changed duration is written; a vanished document throws.\<close>

definition save_duration :: "('i, incident) coll \<Rightarrow> incident \<Rightarrow> int \<Rightarrow> 'i \<Rightarrow> 'i \<times> (db_error + unit)" where
  "save_duration ops inc dur c =
     (if dur = duration inc then (c, Inr ())
      else case update_one ops c (\<lambda>d. i_id d = i_id inc) (\<lambda>d. d\<lparr>duration := dur\<rparr>) of
             (c', Inl e) \<Rightarrow> (c', Inl e)
           | (c', Inr None) \<Rightarrow> (c', Inl (DbFailure ''No document found''))
           | (c', Inr (Some _)) \<Rightarrow> (c', Inr ()))"

definition closed_at :: "time \<Rightarrow> incident \<Rightarrow> incident" where
  "closed_at now d = d\<lparr>i_status := RESOLVED, endTime := Some now\<rparr>"

text \<open>
  The duration is clamped at zero and then saved; the pre-save hook derives it again.
\<close>

definition closeIncident ::
    "('i, 'u, 'l) services \<Rightarrow> time \<Rightarrow> monitor \<Rightarrow> ('i, 'u, 'l) stores \<Rightarrow>
     ('i, 'u, 'l) stores \<times> payload list \<times> (db_error + incident option \<times> bool)" where
  "closeIncident sv now m st =
     (case update_one (inc_ops sv) (inc_st st) (ongoing_of (m_id m)) (closed_at now) of
        (c1, Inl e) \<Rightarrow> (st\<lparr>inc_st := c1\<rparr>, [], Inl e)
      | (c1, Inr None) \<Rightarrow> (st\<lparr>inc_st := c1\<rparr>, [], Inr (None, False))
      | (c1, Inr (Some inc)) \<Rightarrow>
          let clamped = inc\<lparr>duration := max 0 ((now - startTime inc) div 1000)\<rparr>;
              saved = incident_pre_save clamped
          in case save_duration (inc_ops sv) inc (duration saved) c1 of
               (c2, Inl e) \<Rightarrow> (st\<lparr>inc_st := c2\<rparr>, [], Inl e)
             | (c2, Inr _) \<Rightarrow>
                 let (st2, told) = notify_owner sv CLOSED_EVENT saved m now (st\<lparr>inc_st := c2\<rparr>)
                 in (st2, told, Inr (Some saved, True)))"

subsection \<open>One call\<close>

lemma notify_owner_frame:
  "notify_owner sv e inc m tm st = (st2, told) \<Longrightarrow> inc_st st2 = inc_st st \<and> length told \<le> 1"
  by (auto simp: notify_owner_def Let_def split: option.splits prod.splits)

lemma openIncident_opened:
  assumes "openIncident sv i now m why st = (st', told, Inr (x, True))"
  obtains inc c1 where
    "upsert_one (inc_ops sv) (inc_st st) (ongoing_of (m_id m)) (\<lambda>d. d) (new_incident i m why now) =
       (c1, Inr (inc, False))"
    and "add_summary sv why inc c1 = (inc_st st', the x)" and "length told \<le> 1"
  using assms notify_owner_frame
  by (force simp: openIncident_def Let_def split: prod.splits sum.splits db_error.splits bool.splits list.splits)

lemma openIncident_quiet:
  assumes "openIncident sv i now m why st = (st', told, r)" and "\<And>x. r \<noteq> Inr (x, True)"
  shows "told = [] \<and> (\<exists>a. upsert_one (inc_ops sv) (inc_st st) (ongoing_of (m_id m)) (\<lambda>d. d) (new_incident i m why now) =
    (inc_st st', a) \<and> (\<forall>inc. a \<noteq> Inr (inc, False)))"
  using assms
  by (auto simp: openIncident_def Let_def split: prod.splits sum.splits db_error.splits bool.splits list.splits)

lemma upsert_same_docs:
  assumes "mongo ops docs incident_clash" and "upsert_one ops c P (\<lambda>d. d) ins = (c', Inr (d, True))"
  shows "docs c' = docs c \<and> d \<in># docs c \<and> P d"
  using mongo.upsert_existing [OF assms] by auto

text \<open>The summary is the only field an opening changes afterwards.\<close>

definition core_of :: "incident \<Rightarrow> incident" where
  "core_of d = d\<lparr>aiSummary := None\<rparr>"

lemma add_summary_core:
  assumes "mongo_atomic ops docs clash" and "inc_ops sv = ops" and "add_summary sv why inc c = (c', inc')"
  shows "core_of inc' = core_of inc \<and> image_mset core_of (docs c') = image_mset core_of (docs c)"
proof -
  have "image_mset core_of (docs (fst (update_one ops c P (\<lambda>d. d\<lparr>aiSummary := v\<rparr>)))) = image_mset core_of (docs c)" for P v
  proof -
    obtain c1 r where u: "update_one ops c P (\<lambda>d. d\<lparr>aiSummary := v\<rparr>) = (c1, r)" by fastforce
    have core: "core_of (d\<lparr>aiSummary := v\<rparr>) = core_of d" for d by (simp add: core_of_def)
    from mongo_atomic.update_effect [OF assms(1) u] show ?thesis by (auto simp: u core)
  qed
  with assms show ?thesis
    by (auto simp: add_summary_def core_of_def split: option.splits if_splits)
qed

text \<open>
  Opening is idempotent: a call reports that it opened an incident exactly when it
  inserted one, and it can only have done so when the monitor had none in progress; then
  the owner is told at most once. In every other case nobody is told, and an incident in
  progress keeps its reason and its start.
\<close>

theorem openIncident_edge_triggered:
  assumes "mongo_atomic ops docs incident_clash" and "inc_ops sv = ops"
    and "openIncident sv i now m why st = (st', told, Inr (x, opened))"
  shows "(opened \<longrightarrow> (\<forall>d \<in># docs (inc_st st). \<not> ongoing_of (m_id m) d) \<and> length told \<le> 1 \<and>
      image_mset core_of (docs (inc_st st')) =
        add_mset (new_incident i m why now) (image_mset core_of (docs (inc_st st)))) \<and>
    (\<not> opened \<longrightarrow> told = [] \<and>
      (docs (inc_st st') = docs (inc_st st)))"
proof (cases opened)
  case True
  with assms(3) obtain inc c1 where
    up: "upsert_one (inc_ops sv) (inc_st st) (ongoing_of (m_id m)) (\<lambda>d. d) (new_incident i m why now) = (c1, Inr (inc, False))"
    and sum: "add_summary sv why inc c1 = (inc_st st', the x)" and told: "length told \<le> 1"
    using openIncident_opened by metis
  note ins = mongo.upsert_inserted [OF mongo_atomic.axioms(1) [OF assms(1)] up [unfolded assms(2)]]
  have "core_of (new_incident i m why now) = new_incident i m why now"
    by (simp add: core_of_def new_incident_def)
  with ins add_summary_core [OF assms(1,2) sum] told True show ?thesis by simp
next
  case False
  with openIncident_quiet [OF assms(3)] obtain a where
    told: "told = []" and
    a: "upsert_one ops (inc_st st) (ongoing_of (m_id m)) (\<lambda>d. d) (new_incident i m why now) = (inc_st st', a)"
       "\<forall>inc. a \<noteq> Inr (inc, False)" using assms(2) by auto
  note mongo = mongo_atomic.axioms(1) [OF assms(1)]
  have "docs (inc_st st') = docs (inc_st st)"
  proof (cases a)
    case (Inl e)
    then have "e = DuplicateKey"
      using assms(3) a(1) assms(2) False
      by (auto simp: openIncident_def Let_def split: db_error.splits)
    with Inl a(1) mongo.upsert_dup [OF mongo] show ?thesis by blast
  next
    case (Inr p)
    with a obtain inc where "a = Inr (inc, True)" by (cases p) auto
    with a(1) upsert_same_docs [OF mongo] show ?thesis by blast
  qed
  with told False show ?thesis by simp
qed

text \<open>A run of the in-memory store: one owner, no notifier, no AI.\<close>

definition example_services :: "(incident list, user list, log_row list) services" where
  "example_services =
     \<lparr>inc_ops = list_coll incident_clash, user_ops = list_coll (\<lambda>a b. u_id a = u_id b),
      audit_ops = list_coll (\<lambda>_ _. False), notifiers = [], analyze = (\<lambda>_. None)\<rparr>"

definition example_stores :: "incident list \<Rightarrow> (incident list, user list, log_row list) stores" where
  "example_stores is = \<lparr>inc_st = is, user_st = [p_user (example_payload [] None)], audit_st = []\<rparr>"

definition example_monitor :: monitor where
  "example_monitor = monitor_defaults ''m'' ''u'' ''https://a/'' 0"

lemma example_open:
  "\<exists>st' told x. openIncident example_services ''i'' 0 example_monitor ''down'' (example_stores []) =
     (st', told, Inr (x, True)) \<and> length told = 1"
  by (simp add: openIncident_def example_services_def example_stores_def example_monitor_def list_upsert_def
      list_update_one_def add_summary_def notify_owner_def loadOwner_def list_find_def example_payload_def
      user_defaults_def dispatch_def Let_def)

theorem openIncident_edge_triggered_witness:
  "\<exists>st' told x. openIncident example_services ''i'' 0 example_monitor ''down'' (example_stores []) =
     (st', told, Inr (x, True)) \<and> image_mset core_of (mset (inc_st st')) = {#new_incident ''i'' example_monitor ''down'' 0#}"
proof -
  from example_open obtain st' told x where
    o: "openIncident example_services ''i'' 0 example_monitor ''down'' (example_stores []) = (st', told, Inr (x, True))"
    by blast
  from openIncident_edge_triggered [OF mem_atomic.mongo_atomic_axioms _ o] o show ?thesis
    by (simp add: example_services_def example_stores_def)
qed

subsection \<open>The abstract state: how many incidents each monitor has in progress\<close>

definition lives :: "incident multiset \<Rightarrow> oid \<Rightarrow> nat" where
  "lives D m = size (filter_mset (ongoing_of m) D)"

lemma ongoing_of_simps [simp]:
  "\<not> ongoing_of m (closed_at now d)"
  "ongoing_of m (d\<lparr>duration := x\<rparr>) = ongoing_of m d"
  "ongoing_of m (d\<lparr>aiSummary := v\<rparr>) = ongoing_of m d"
  "ongoing_of m (new_incident i mon why now) \<longleftrightarrow> m_id mon = m"
  by (auto simp: ongoing_of_def closed_at_def new_incident_def)

lemma lives_add [simp]: "lives (add_mset d M) m = (if ongoing_of m d then Suc (lives M m) else lives M m)"
  by (simp add: lives_def)

lemma lives_empty [simp]: "lives {#} m = 0"
  by (simp add: lives_def)

lemma lives_zero: "lives D m = 0 \<longleftrightarrow> (\<forall>d \<in># D. \<not> ongoing_of m d)"
  by (auto simp: lives_def filter_mset_eq_mempty_iff)

lemma lives_clash:
  assumes "\<forall>x \<in># M. \<not> incident_clash d x" and "ongoing_of m d"
  shows "lives M m = 0"
  using assms by (auto simp: lives_zero incident_clash_def ongoing_of_def)

lemma lives_update_same:
  assumes "mongo_atomic ops docs clash" and "update_one ops c P u = (c', r)"
    and "\<And>d. ongoing_of m (u d) = ongoing_of m d"
  shows "lives (docs c') m = lives (docs c) m"
  using mongo_atomic.update_effect [OF assms(1,2)] assms(3) by auto

lemma lives_save_duration:
  assumes "mongo_atomic ops docs clash" and "save_duration ops inc dur c = (c', r)"
  shows "lives (docs c') m = lives (docs c) m"
proof (cases "dur = duration inc")
  case False
  obtain c1 a where "update_one ops c (\<lambda>d. i_id d = i_id inc) (\<lambda>d. d\<lparr>duration := dur\<rparr>) = (c1, a)" by fastforce
  with assms False lives_update_same [OF assms(1) this] show ?thesis
    by (auto simp: save_duration_def split: sum.splits option.splits)
qed (use assms in \<open>auto simp: save_duration_def\<close>)

lemma lives_add_summary:
  assumes "mongo_atomic (inc_ops sv) docs clash" and "add_summary sv why inc c = (c', inc')"
  shows "lives (docs c') m = lives (docs c) m"
proof -
  have "lives (docs (fst (update_one (inc_ops sv) c P (\<lambda>d. d\<lparr>aiSummary := v\<rparr>)))) m = lives (docs c) m" for P v
  proof -
    obtain c1 r where "update_one (inc_ops sv) c P (\<lambda>d. d\<lparr>aiSummary := v\<rparr>) = (c1, r)" by fastforce
    with lives_update_same [OF assms(1) this] show ?thesis by simp
  qed
  with assms(2) show ?thesis by (auto simp: add_summary_def split: option.splits if_splits)
qed

lemma lives_open:
  assumes "mongo ops docs incident_clash"
    and "upsert_one ops c (ongoing_of (m_id m)) (\<lambda>d. d) (new_incident i m why now) = (c', Inr (x, existed))"
  shows "lives (docs c') k = (if k = m_id m \<and> \<not> existed then Suc (lives (docs c) k) else lives (docs c) k) \<and>
    (\<not> existed \<longrightarrow> lives (docs c) (m_id m) = 0) \<and> lives (docs c') (m_id m) > 0"
proof (cases existed)
  case True
  with assms(2) have "upsert_one ops c (ongoing_of (m_id m)) (\<lambda>d. d) (new_incident i m why now) = (c', Inr (x, True))"
    by simp
  from upsert_same_docs [OF assms(1) this] have "docs c' = docs c" "x \<in># docs c" "ongoing_of (m_id m) x" by auto
  moreover from this have "lives (docs c) (m_id m) \<noteq> 0" by (auto simp: lives_zero)
  ultimately show ?thesis using True by simp
next
  case False
  with assms(2) have "upsert_one ops c (ongoing_of (m_id m)) (\<lambda>d. d) (new_incident i m why now) = (c', Inr (x, False))"
    by simp
  from mongo.upsert_inserted [OF assms(1) this]
  have "\<forall>d \<in># docs c. \<not> ongoing_of (m_id m) d" "docs c' = add_mset (new_incident i m why now) (docs c)" by auto
  with False show ?thesis by (auto simp: lives_zero)
qed

lemma lives_close:
  assumes "mongo ops docs clash" and "update_one ops c (ongoing_of m) (closed_at now) = (c', Inr (Some x))"
  shows "lives (docs c) k = (if k = m then Suc (lives (docs c') k) else lives (docs c') k) \<and>
    (\<exists>d. d \<in># docs c \<and> ongoing_of m d \<and> x = closed_at now d)"
proof -
  from mongo.update_contract [OF assms] obtain d M where
    d: "docs c = add_mset d M" "ongoing_of m d" "x = closed_at now d" "docs c' = add_mset (closed_at now d) M"
    by blast
  have "ongoing_of k d \<longleftrightarrow> k = m" using d(2) by (auto simp: ongoing_of_def)
  with d show ?thesis by auto
qed

subsection \<open>Closing\<close>

lemma closeIncident_closed:
  assumes "mongo_atomic ops docs clash" and "inc_ops sv = ops"
    and "closeIncident sv now m st = (st', told, Inr (x, True))"
  shows "lives (docs (inc_st st)) k =
      (if k = m_id m then Suc (lives (docs (inc_st st')) k) else lives (docs (inc_st st')) k) \<and> length told \<le> 1 \<and>
    (\<exists>d. d \<in># docs (inc_st st) \<and> ongoing_of (m_id m) d \<and>
      x = Some ((closed_at now d)\<lparr>duration := (now - startTime d) div 1000\<rparr>))"
proof -
  from assms(2,3) obtain inc c1 where
    u: "update_one ops (inc_st st) (ongoing_of (m_id m)) (closed_at now) = (c1, Inr (Some inc))"
    by (auto simp: closeIncident_def Let_def split: prod.splits sum.splits option.splits)
  let ?s = "incident_pre_save (inc\<lparr>duration := max 0 ((now - startTime inc) div 1000)\<rparr>)"
  from assms(2,3) u obtain c2 where
    s: "save_duration ops inc (duration ?s) c1 = (c2, Inr ())" "x = Some ?s"
    and n: "notify_owner sv CLOSED_EVENT ?s m now (st\<lparr>inc_st := c2\<rparr>) = (st', told)"
    by (auto simp: closeIncident_def Let_def split: prod.splits sum.splits)
  from lives_close [OF mongo_atomic.axioms(1) [OF assms(1)] u] obtain d where
    d: "d \<in># docs (inc_st st)" "ongoing_of (m_id m) d" "inc = closed_at now d" by blast
  have "?s = (closed_at now d)\<lparr>duration := (now - startTime d) div 1000\<rparr>"
    by (simp add: d(3) incident_pre_save_def closed_at_def)
  moreover have "inc_st st' = c2" "length told \<le> 1" using notify_owner_frame [OF n] by auto
  ultimately show ?thesis
    using lives_close [OF mongo_atomic.axioms(1) [OF assms(1)] u, of k] d s(2)
      lives_save_duration [OF assms(1) s(1), of k] by auto
qed

lemma closeIncident_quiet:
  assumes "mongo ops docs clash" and "inc_ops sv = ops"
    and "closeIncident sv now m st = (st', told, Inr (x, False))"
  shows "told = [] \<and> docs (inc_st st') = docs (inc_st st) \<and> lives (docs (inc_st st)) (m_id m) = 0"
proof -
  from assms(2,3) have u: "update_one ops (inc_st st) (ongoing_of (m_id m)) (closed_at now) = (inc_st st', Inr None)"
    and t: "told = []"
    by (auto simp: closeIncident_def Let_def split: prod.splits sum.splits option.splits)
  from mongo.update_none [OF assms(1) u] t show ?thesis by (auto simp: lives_zero)
qed

text \<open>
  Closing is a single transition: a call reports that it closed an incident exactly when
  it took one from in progress to resolved, then the owner is told at most once and the
  monitor has one incident less in progress; a call that finds none changes nothing and
  tells nobody. The duration is the whole seconds between start and end.
\<close>

theorem closeIncident_edge_triggered:
  assumes "mongo_atomic ops docs clash" and "inc_ops sv = ops"
    and "closeIncident sv now m st = (st', told, Inr (x, did))"
  shows "(did \<longrightarrow> lives (docs (inc_st st)) (m_id m) = Suc (lives (docs (inc_st st')) (m_id m)) \<and> length told \<le> 1 \<and>
      (\<exists>d. d \<in># docs (inc_st st) \<and> ongoing_of (m_id m) d \<and>
        x = Some ((closed_at now d)\<lparr>duration := (now - startTime d) div 1000\<rparr>))) \<and>
    (\<not> did \<longrightarrow> told = [] \<and> docs (inc_st st') = docs (inc_st st) \<and> lives (docs (inc_st st)) (m_id m) = 0)"
proof (cases did)
  case True
  with closeIncident_closed [OF assms(1,2), of now m st st' told x "m_id m"] assms(3) show ?thesis by simp
next
  case False
  with closeIncident_quiet [OF mongo_atomic.axioms(1) [OF assms(1)] assms(2)] assms(3) show ?thesis by simp
qed

definition example_ongoing :: "time \<Rightarrow> incident" where
  "example_ongoing t = new_incident ''i'' example_monitor ''down'' t"

lemma example_close:
  "\<exists>st' told x. closeIncident example_services 0 example_monitor (example_stores [example_ongoing 5000]) =
     (st', told, Inr (x, True))"
  by (simp add: closeIncident_def example_services_def example_stores_def example_ongoing_def example_monitor_def
      list_update_one_def new_incident_def ongoing_of_def closed_at_def incident_pre_save_def
      save_duration_def notify_owner_def loadOwner_def list_find_def example_payload_def
      user_defaults_def dispatch_def Let_def)

text \<open>
  The witness is also the edge the clamp does not cover: the clock went back five seconds
  between start and end, and the stored duration is negative, since the save hook
  derives it again after it was clamped.
\<close>

theorem closeIncident_edge_triggered_witness:
  "\<exists>st' told inc. closeIncident example_services 0 example_monitor (example_stores [example_ongoing 5000]) =
     (st', told, Inr (Some inc, True)) \<and> duration inc = - 5"
proof -
  from example_close obtain st' told x where
    o: "closeIncident example_services 0 example_monitor (example_stores [example_ongoing 5000]) =
      (st', told, Inr (x, True))" by blast
  from closeIncident_edge_triggered [OF mem_atomic.mongo_atomic_axioms _ o, of incident_clash] o show ?thesis
    by (auto simp: example_services_def example_stores_def example_ongoing_def new_incident_def)
qed

subsection \<open>Any number of callers\<close>

text \<open>
  The writes the two operations make to the collection, interleaved in any way: each is one
  atomic step of the server. \<open>Began\<close> and \<open>Ended\<close> are what callers observe: the insertions
  and closings reported to them. With \<open>clean\<close>, a write that fails has not been applied;
  without it, it may have been.
\<close>

datatype life_event = Began oid | Ended oid

inductive life_run :: "bool \<Rightarrow> ('i, incident) coll \<Rightarrow> ('i \<Rightarrow> incident multiset) \<Rightarrow> life_event list \<Rightarrow> 'i \<Rightarrow> bool"
  for clean ops docs where
  life_start: "docs c = {#} \<Longrightarrow> life_run clean ops docs [] c"
| life_open: "life_run clean ops docs es c \<Longrightarrow>
    upsert_one ops c (ongoing_of (m_id m)) (\<lambda>d. d) (new_incident i m why now) = (c', r) \<Longrightarrow>
    clean \<and> is_Inl r \<longrightarrow> docs c' = docs c \<Longrightarrow>
    life_run clean ops docs (es @ (case r of Inr (_, False) \<Rightarrow> [Began (m_id m)] | _ \<Rightarrow> [])) c'"
| life_close: "life_run clean ops docs es c \<Longrightarrow>
    update_one ops c (ongoing_of k) (closed_at now) = (c', s) \<Longrightarrow>
    clean \<and> is_Inl s \<longrightarrow> docs c' = docs c \<Longrightarrow>
    life_run clean ops docs (es @ (case s of Inr (Some _) \<Rightarrow> [Ended k] | _ \<Rightarrow> [])) c'"
| life_summary: "life_run clean ops docs es c \<Longrightarrow>
    update_one ops c P (\<lambda>d. d\<lparr>aiSummary := v\<rparr>) = (c', s) \<Longrightarrow> life_run clean ops docs es c'"
| life_duration: "life_run clean ops docs es c \<Longrightarrow>
    update_one ops c P (\<lambda>d. d\<lparr>duration := n\<rparr>) = (c', s) \<Longrightarrow> life_run clean ops docs es c'"

text \<open>Reading one monitor's events: the outages in progress, \<open>None\<close> if they do not alternate.\<close>

fun outages :: "oid \<Rightarrow> nat \<Rightarrow> life_event list \<Rightarrow> nat option" where
  "outages m n [] = Some n"
| "outages m n (Began k # es) = (if k \<noteq> m then outages m n es else if n = 0 then outages m 1 es else None)"
| "outages m n (Ended k # es) = (if k \<noteq> m then outages m n es else if n = 1 then outages m 0 es else None)"

lemma outages_append:
  "outages m n (es @ fs) = (case outages m n es of None \<Rightarrow> None | Some n' \<Rightarrow> outages m n' fs)"
  by (induction m n es rule: outages.induct) auto

definition life_inv :: "bool \<Rightarrow> (oid \<Rightarrow> nat) \<Rightarrow> life_event list \<Rightarrow> bool" where
  "life_inv clean n es \<longleftrightarrow> (\<forall>m. n m \<le> 1 \<and> (clean \<longrightarrow> outages m 0 es = Some (n m)))"

lemma life_inv_same: "life_inv clean n es \<Longrightarrow> (\<And>m. n' m = n m) \<Longrightarrow> life_inv clean n' es"
  by (simp add: life_inv_def)

lemma life_inv_open_step:
  assumes atomic: "mongo_atomic ops docs incident_clash"
    and inv: "life_inv clean (lives (docs c)) es"
    and up: "upsert_one ops c (ongoing_of (m_id m)) (\<lambda>d. d) (new_incident i m why now) = (c', r)"
    and ok: "clean \<and> is_Inl r \<longrightarrow> docs c' = docs c"
  shows "life_inv clean (lives (docs c')) (es @ (case r of Inr (_, False) \<Rightarrow> [Began (m_id m)] | _ \<Rightarrow> []))"
proof (cases r)
  case (Inl e)
  have le: "lives (docs c') k \<le> 1" for k
    using mongo_atomic.upsert_effect [OF atomic up] inv lives_clash [of "docs c" "new_incident i m why now" k]
    by (auto simp: life_inv_def)
  show ?thesis
  proof (cases clean)
    case True
    with ok Inl inv show ?thesis by simp
  qed (use Inl le in \<open>simp add: life_inv_def\<close>)
next
  case (Inr p)
  then obtain x ex where r: "r = Inr (x, ex)" by (cases p) auto
  note step = lives_open [OF mongo_atomic.axioms(1) [OF atomic] up [unfolded r]]
  show ?thesis
  proof (cases ex)
    case True
    with step r inv show ?thesis by (simp add: life_inv_def)
  next
    case False
    then have "lives (docs c') k = (if k = m_id m then 1 else lives (docs c) k)" for k using step [of k] by simp
    moreover have "lives (docs c) (m_id m) = 0" using step False by simp
    ultimately show ?thesis using r False inv by (auto simp: life_inv_def outages_append)
  qed
qed

lemma life_inv_close_step:
  assumes atomic: "mongo_atomic ops docs incident_clash"
    and inv: "life_inv clean (lives (docs c)) es"
    and up: "update_one ops c (ongoing_of k) (closed_at now) = (c', s)"
    and ok: "clean \<and> is_Inl s \<longrightarrow> docs c' = docs c"
  shows "life_inv clean (lives (docs c')) (es @ (case s of Inr (Some _) \<Rightarrow> [Ended k] | _ \<Rightarrow> []))"
proof (cases s)
  case (Inl e)
  have "lives (docs c') m \<le> lives (docs c) m" for m
    using mongo_atomic.update_effect [OF atomic up] by auto
  with inv have le: "lives (docs c') m \<le> 1" for m unfolding life_inv_def by (meson order_trans)
  show ?thesis
  proof (cases clean)
    case True
    with ok Inl inv show ?thesis by simp
  qed (use Inl le in \<open>simp add: life_inv_def\<close>)
next
  case (Inr p)
  show ?thesis
  proof (cases p)
    case None
    with Inr up mongo.update_none [OF mongo_atomic.axioms(1) [OF atomic]] inv show ?thesis by fastforce
  next
    case (Some x)
    have step: "lives (docs c) m = (if m = k then Suc (lives (docs c') m) else lives (docs c') m)" for m
      using lives_close [OF mongo_atomic.axioms(1) [OF atomic], of c k now c' x m] up Inr Some by simp
    have "lives (docs c) k \<le> 1" using inv by (simp add: life_inv_def)
    then have "lives (docs c) k = 1" "lives (docs c') k = 0" using step [of k] by auto
    moreover have "lives (docs c') m = lives (docs c) m" if "m \<noteq> k" for m using step [of m] that by simp
    ultimately have after: "lives (docs c') m = (if m = k then 0 else lives (docs c) m)" for m by simp
    show ?thesis using inv Inr Some \<open>lives (docs c) k = 1\<close> by (auto simp: life_inv_def outages_append after)
  qed
qed

lemma life_run_inv:
  assumes "mongo_atomic ops docs incident_clash" and "life_run clean ops docs es c"
  shows "life_inv clean (lives (docs c)) es"
  using assms(2)
proof (induction rule: life_run.induct)
  case (life_start c)
  then show ?case by (simp add: life_inv_def)
next
  case life_open
  then show ?case by (intro life_inv_open_step [OF assms(1)])
next
  case life_close
  then show ?case by (intro life_inv_close_step [OF assms(1)])
next
  case (life_summary es c P v c' s)
  then show ?case by (elim life_inv_same) (simp add: lives_update_same [OF assms(1)])
next
  case (life_duration es c P n c' s)
  then show ?case by (elim life_inv_same) (simp add: lives_update_same [OF assms(1)])
qed

text \<open>
  C2. Exactly-once transitions: however the calls of any number of instances interleave, a
  monitor never has two incidents in progress, even when failed writes may have been
  applied; and when they are not, the openings and closings that callers are told of
  alternate strictly, monitor by monitor, the last one saying whether an incident is in
  progress.
\<close>

theorem incident_transitions_alternate:
  assumes "mongo_atomic ops docs incident_clash" and "life_run clean ops docs es c"
  shows "lives (docs c) m \<le> 1 \<and> (clean \<longrightarrow> outages m 0 es = Some (lives (docs c) m))"
  using life_run_inv [OF assms] by (simp add: life_inv_def)

lemma example_life:
  "life_run True (list_coll incident_clash) mset [Began ''m''] [new_incident ''i'' example_monitor ''down'' 0]"
proof -
  let ?ops = "list_coll incident_clash"
  have "upsert_one ?ops [] (ongoing_of (m_id example_monitor)) (\<lambda>d. d) (new_incident ''i'' example_monitor ''down'' 0) =
      ([new_incident ''i'' example_monitor ''down'' 0], Inr (new_incident ''i'' example_monitor ''down'' 0, False))"
    by (simp add: list_upsert_def list_update_one_def)
  from life_open [OF life_start this] show ?thesis by (simp add: example_monitor_def)
qed

theorem incident_transitions_alternate_witness:
  "lives {#new_incident ''i'' example_monitor ''down'' 0#} ''m'' = 1"
  using incident_transitions_alternate [OF mem_atomic.mongo_atomic_axioms example_life, of "''m''"] by simp

end
