(* ===== verification/Probe.thy ===== *)
theory Probe
  imports Config Monitor_Model "HOL-Library.AList"
begin

text \<open>
  The HTTP probe and its retry ladder, \<open>Backend/src/services/monitor.service.js\<close>. A probe is
  a state machine driven by Node's events (the deadline timer, the socket's phases, the
  response and its body, errors): each handler of the source is a function on the probe's
  state, and a run is any sequence of events Node may deliver, at moments that never go
  back. Two things are arguments: the URL parser and the header check of Node
  (\<open>node_api\<close>), and the outcome of the events.
\<close>

subsection \<open>What the probe uses of the runtime\<close>

record url_parts =
  protocol :: string
  origin :: string

type_synonym headers = "(string \<times> string) list"

record node_api =
  parse_url :: "string \<Rightarrow> url_parts option" \<comment> \<open>\<open>new URL(u)\<close>, \<open>None\<close> when it throws\<close>
  resolve_url :: "string \<Rightarrow> string \<Rightarrow> string option" \<comment> \<open>\<open>new URL(location, base).toString()\<close>\<close>
  valid_headers :: "headers \<Rightarrow> bool" \<comment> \<open>\<open>http.request\<close> throws on an invalid name or value\<close>
  show_number :: "rat \<Rightarrow> string"

subsection \<open>Constants and helpers\<close>

definition MAX_BODY_BYTES :: nat where
  "MAX_BODY_BYTES = 512 * 1024"

definition MS :: int where
  "MS = 1000000"

text \<open>Milliseconds between two readings of the monotonic nanosecond clock.\<close>

definition msSince :: "int \<Rightarrow> int \<Rightarrow> int" where
  "msSince t from_ns = (t - from_ns) div MS"

definition RETRYABLE_CODES :: "string list" where
  "RETRYABLE_CODES =
     [''ECONNRESET'', ''ECONNREFUSED'', ''ECONNABORTED'', ''ETIMEDOUT'', ''EAI_AGAIN'', ''EPIPE'',
      ''EHOSTUNREACH'', ''ENETUNREACH'', ''ENETRESET'', ''ESOCKETTIMEDOUT'', ''ERR_CHECK_TIMEOUT'']"

definition isRetryableStatus :: "int \<Rightarrow> bool" where
  "isRetryableStatus statusCode \<longleftrightarrow> statusCode = 408 \<or> statusCode = 429 \<or> statusCode \<ge> 500"

definition originOf :: "node_api \<Rightarrow> string \<Rightarrow> string option" where
  "originOf node url = map_option origin (parse_url node url)"

subsection \<open>The state of a probe\<close>

record timings =
  t_dns :: "int option"
  t_tcp :: "int option"
  t_tls :: "int option"
  t_ttfb :: "int option"
  t_total :: "int option"

text \<open>What \<open>finish\<close> is called with, and the result it resolves to.\<close>

record verdict =
  r_status :: status
  r_statusCode :: "int option"
  r_error :: "string option"
  r_errorCode :: "string option"
  r_retryable :: bool

record probe_result = verdict +
  r_redirects :: nat
  r_responseTime :: "int option"
  r_timings :: timings
  r_attempts :: "nat option"

record probe_error =
  err_message :: "string option"
  err_code :: "string option"

record probe_opts =
  timeoutMs :: rat
  opt_ignoreTls :: bool
  maxRedirects :: nat
  opt_headers :: headers

text \<open>A request handed to the transport.\<close>

record outbound =
  to_url :: string
  sent_headers :: headers
  rejectUnauthorized :: bool

record probe =
  started :: int
  initialOrigin :: "string option"
  p_timings :: timings
  p_redirects :: nat
  target :: string
  hopStart :: int
  hopDns :: "int option"
  hopTcp :: "int option"
  answered :: "int option" \<comment> \<open>the status whose body is being drained\<close>
  body_bytes :: nat
  body_destroyed :: bool
  settled :: "probe_result option"
  threw :: bool \<comment> \<open>an exception left a callback\<close>
  sent :: "outbound list" \<comment> \<open>every request made, oldest first\<close>

definition base_headers :: headers where
  "base_headers =
     [(''User-Agent'', ''WatchTower/1.0 (+uptime monitoring)''), (''Accept'', ''*/*''),
      (''Accept-Encoding'', ''identity'')]"

text \<open>\<open>{ ...base, ...over }\<close>\<close>

definition spread_headers :: "headers \<Rightarrow> headers \<Rightarrow> headers" where
  "spread_headers base over = foldl (\<lambda>h (k, v). AList.update k v h) base over"

subsection \<open>The handlers\<close>

definition finish :: "verdict \<Rightarrow> int \<Rightarrow> probe \<Rightarrow> probe" where
  "finish v t p =
     (if settled p \<noteq> None then p
      else let total = msSince t (started p);
               tm = (p_timings p)\<lparr>t_total := Some total\<rparr>
           in p\<lparr>p_timings := tm,
                settled := Some \<lparr>r_status = r_status v, r_statusCode = r_statusCode v, r_error = r_error v,
                  r_errorCode = r_errorCode v, r_retryable = r_retryable v, r_redirects = p_redirects p,
                  r_responseTime = Some total, r_timings = tm, r_attempts = None\<rparr>\<rparr>)"

definition down :: "int option \<Rightarrow> string \<Rightarrow> string \<Rightarrow> bool \<Rightarrow> verdict" where
  "down code msg ecode again =
     \<lparr>r_status = DOWN, r_statusCode = code, r_error = Some msg, r_errorCode = Some ecode,
      r_retryable = again\<rparr>"

definition on_deadline :: "node_api \<Rightarrow> probe_opts \<Rightarrow> int \<Rightarrow> probe \<Rightarrow> probe" where
  "on_deadline node opts t p =
     finish (down None (''Check exceeded '' @ show_number node (timeoutMs opts) @ ''ms deadline'')
       ''ERR_CHECK_TIMEOUT'' True) t p"

definition fail_with :: "probe_error \<Rightarrow> int \<Rightarrow> probe \<Rightarrow> probe" where
  "fail_with err t p =
     finish (down None (str_or (err_message err) ''Request failed'') (str_or (err_code err) ''ERR_UNKNOWN'')
       (case err_code err of None \<Rightarrow> False | Some c \<Rightarrow> c \<in> set RETRYABLE_CODES)) t p"

definition request :: "node_api \<Rightarrow> probe_opts \<Rightarrow> string \<Rightarrow> int \<Rightarrow> probe \<Rightarrow> probe" where
  "request node opts targetUrl t p =
     (case parse_url node targetUrl of
        None \<Rightarrow> finish (down None (''Invalid URL: '' @ targetUrl) ''ERR_INVALID_URL'' False) t p
      | Some parsed \<Rightarrow>
          let isHttps = (protocol parsed = ''https:'');
              sameOrigin = (originOf node targetUrl = initialOrigin p);
              outboundAuth = (if sameOrigin then opt_headers opts else []);
              hs = spread_headers base_headers outboundAuth
          in if \<not> isHttps \<and> protocol parsed \<noteq> ''http:''
             then finish (down None (''Unsupported protocol: '' @ protocol parsed)
                    ''ERR_UNSUPPORTED_PROTOCOL'' False) t p
             else if \<not> valid_headers node hs then p\<lparr>threw := True\<rparr>
             else p\<lparr>target := targetUrl, hopStart := t, hopDns := None, hopTcp := None, answered := None,
                    body_bytes := 0, body_destroyed := False,
                    sent := sent p @ [\<lparr>to_url = targetUrl, sent_headers = hs,
                                       rejectUnauthorized = (\<not> opt_ignoreTls opts)\<rparr>]\<rparr>)"

definition on_response :: "node_api \<Rightarrow> probe_opts \<Rightarrow> int \<Rightarrow> string option \<Rightarrow> int \<Rightarrow> probe \<Rightarrow> probe" where
  "on_response node opts statusCode location t p0 =
     (let p = p0\<lparr>p_timings := (p_timings p0)\<lparr>t_ttfb := Some (msSince t (started p0))\<rparr>\<rparr>
      in if truthy_str location \<and> statusCode \<ge> 300 \<and> statusCode < 400 \<and> p_redirects p < maxRedirects opts
         then let p' = p\<lparr>p_redirects := p_redirects p + 1\<rparr>
              in case resolve_url node (the location) (target p) of
                   None \<Rightarrow> p'\<lparr>threw := True\<rparr>
                 | Some u \<Rightarrow> request node opts u t p'
         else if truthy_str location \<and> p_redirects p \<ge> maxRedirects opts
         then finish (down (Some statusCode) (''Exceeded '' @ show_nat (maxRedirects opts) @ '' redirects'')
                ''ERR_TOO_MANY_REDIRECTS'' False) t p
         else p\<lparr>answered := Some statusCode\<rparr>)"

definition settleWithStatus :: "int \<Rightarrow> int \<Rightarrow> probe \<Rightarrow> probe" where
  "settleWithStatus statusCode t p =
     (let up = (statusCode \<ge> 200 \<and> statusCode < 400)
      in finish \<lparr>r_status = (if up then UP else DOWN), r_statusCode = Some statusCode,
           r_error = (if up then None else Some (''HTTP '' @ show_int statusCode)),
           r_errorCode = (if up then None else Some (''HTTP_'' @ show_int statusCode)),
           r_retryable = (if up then False else isRetryableStatus statusCode)\<rparr> t p)"

definition on_chunk :: "nat \<Rightarrow> probe \<Rightarrow> probe" where
  "on_chunk len p =
     (let b = body_bytes p + len
      in p\<lparr>body_bytes := b, body_destroyed := (body_destroyed p \<or> b > MAX_BODY_BYTES)\<rparr>)"

definition on_lookup :: "int \<Rightarrow> probe \<Rightarrow> probe" where
  "on_lookup t p =
     (let d = msSince t (hopStart p)
      in p\<lparr>hopDns := Some d, p_timings := (p_timings p)\<lparr>t_dns := Some (nullish (t_dns (p_timings p)) 0 + d)\<rparr>\<rparr>)"

definition on_connect :: "int \<Rightarrow> probe \<Rightarrow> probe" where
  "on_connect t p =
     (let d = max 0 (msSince t (hopStart p) - nullish (hopDns p) 0)
      in p\<lparr>hopTcp := Some d, p_timings := (p_timings p)\<lparr>t_tcp := Some (nullish (t_tcp (p_timings p)) 0 + d)\<rparr>\<rparr>)"

definition on_secureConnect :: "int \<Rightarrow> probe \<Rightarrow> probe" where
  "on_secureConnect t p =
     (let d = max 0 (msSince t (hopStart p) - nullish (hopDns p) 0 - nullish (hopTcp p) 0)
      in p\<lparr>p_timings := (p_timings p)\<lparr>t_tls := Some (nullish (t_tls (p_timings p)) 0 + d)\<rparr>\<rparr>)"

datatype net_event =
    Deadline
  | Error_event probe_error
  | Lookup | Connect | Secure_connect
  | Response int "string option"
  | Chunk nat
  | Body_over \<comment> \<open>the body's error, end or close\<close>

definition handle :: "node_api \<Rightarrow> probe_opts \<Rightarrow> net_event \<Rightarrow> int \<Rightarrow> probe \<Rightarrow> probe" where
  "handle node opts e t p =
     (case e of
        Deadline \<Rightarrow> on_deadline node opts t p
      | Error_event err \<Rightarrow> fail_with err t p
      | Lookup \<Rightarrow> on_lookup t p
      | Connect \<Rightarrow> on_connect t p
      | Secure_connect \<Rightarrow> on_secureConnect t p
      | Response statusCode location \<Rightarrow> on_response node opts statusCode location t p
      | Chunk len \<Rightarrow> on_chunk len p
      | Body_over \<Rightarrow> (case answered p of Some statusCode \<Rightarrow> settleWithStatus statusCode t p | None \<Rightarrow> p))"

definition probe_blank :: "node_api \<Rightarrow> string \<Rightarrow> int \<Rightarrow> probe" where
  "probe_blank node url t =
     \<lparr>started = t, initialOrigin = originOf node url,
      p_timings = \<lparr>t_dns = None, t_tcp = None, t_tls = None, t_ttfb = None, t_total = None\<rparr>,
      p_redirects = 0, target = url, hopStart = t, hopDns = None, hopTcp = None, answered = None,
      body_bytes = 0, body_destroyed = False, settled = None, threw = False, sent = []\<rparr>"

definition probeOnce :: "node_api \<Rightarrow> probe_opts \<Rightarrow> string \<Rightarrow> int \<Rightarrow> probe" where
  "probeOnce node opts url t = request node opts url t (probe_blank node url t)"

text \<open>
  What Node may deliver: the timer unless it was cleared; socket phases and one response
  while a request is open; the body of a graded response; an error at any time, since a
  socket of an earlier hop keeps its listener. \<open>finish\<close> destroys the current request, so
  nothing but errors and the end of the body follows it.
\<close>

definition deliverable :: "probe \<Rightarrow> net_event \<Rightarrow> bool" where
  "deliverable p e \<longleftrightarrow> \<not> threw p \<and>
     (case e of
        Deadline \<Rightarrow> settled p = None
      | Error_event _ \<Rightarrow> sent p \<noteq> []
      | Chunk _ \<Rightarrow> answered p \<noteq> None \<and> settled p = None \<and> \<not> body_destroyed p
      | Body_over \<Rightarrow> answered p \<noteq> None
      | _ \<Rightarrow> sent p \<noteq> [] \<and> settled p = None \<and> answered p = None)"

inductive probe_reaches :: "node_api \<Rightarrow> probe_opts \<Rightarrow> string \<Rightarrow> probe \<Rightarrow> int \<Rightarrow> bool"
  for node opts url where
  probe_begins: "probe_reaches node opts url (probeOnce node opts url t) t"
| probe_event: "probe_reaches node opts url p t \<Longrightarrow> t \<le> t' \<Longrightarrow> deliverable p e \<Longrightarrow>
    probe_reaches node opts url (handle node opts e t' p) t'"

subsection \<open>What each handler keeps\<close>

lemma finish_frame [simp]:
  "sent (finish v t p) = sent p" "p_redirects (finish v t p) = p_redirects p"
  "initialOrigin (finish v t p) = initialOrigin p" "started (finish v t p) = started p"
  "hopStart (finish v t p) = hopStart p" "threw (finish v t p) = threw p"
  "answered (finish v t p) = answered p" "hopDns (finish v t p) = hopDns p" "hopTcp (finish v t p) = hopTcp p"
  by (simp_all add: finish_def Let_def)

lemma finish_settled: "settled p = Some r \<Longrightarrow> finish v t p = p"
  by (simp add: finish_def)

lemma settled_finish [simp]: "settled (finish v t p) \<noteq> None"
  by (simp add: finish_def Let_def)

lemma spread_headers_Nil [simp]: "spread_headers base [] = base"
  by (simp add: spread_headers_def)

lemmas handler_defs = handle_def on_deadline_def fail_with_def on_response_def settleWithStatus_def
  on_chunk_def on_lookup_def on_connect_def on_secureConnect_def

text \<open>The headers a request may carry: the configured credentials, on the configured origin only.\<close>

definition headers_for :: "node_api \<Rightarrow> probe_opts \<Rightarrow> string \<Rightarrow> string \<Rightarrow> headers" where
  "headers_for node opts url u =
     (if originOf node u = originOf node url then spread_headers base_headers (opt_headers opts) else base_headers)"

definition outbound_ok :: "node_api \<Rightarrow> probe_opts \<Rightarrow> string \<Rightarrow> outbound \<Rightarrow> bool" where
  "outbound_ok node opts url r \<longleftrightarrow>
     sent_headers r = headers_for node opts url (to_url r) \<and>
     rejectUnauthorized r = (\<not> opt_ignoreTls opts) \<and>
     (\<exists>u. parse_url node (to_url r) = Some u \<and> (protocol u = ''http:'' \<or> protocol u = ''https:''))"

definition requests_ok :: "node_api \<Rightarrow> probe_opts \<Rightarrow> string \<Rightarrow> probe \<Rightarrow> bool" where
  "requests_ok node opts url p \<longleftrightarrow>
     initialOrigin p = originOf node url \<and> p_redirects p \<le> maxRedirects opts \<and>
     length (sent p) \<le> Suc (p_redirects p) \<and> (\<forall>r \<in> set (sent p). outbound_ok node opts url r)"

lemma requests_ok_finish [simp]: "requests_ok node opts url (finish v t p) = requests_ok node opts url p"
  by (simp add: requests_ok_def)

lemma requests_ok_request:
  assumes "initialOrigin p = originOf node url" and "p_redirects p \<le> maxRedirects opts"
    and "length (sent p) \<le> p_redirects p" and "\<forall>r \<in> set (sent p). outbound_ok node opts url r"
  shows "requests_ok node opts url (request node opts u t p)"
  using assms
  by (cases "parse_url node u")
    (auto simp: request_def Let_def requests_ok_def outbound_ok_def headers_for_def)

lemma requests_ok_handle:
  assumes "requests_ok node opts url p"
  shows "requests_ok node opts url (handle node opts e t p)"
proof (cases e)
  case (Response code loc)
  let ?q = "p\<lparr>p_timings := (p_timings p)\<lparr>t_ttfb := Some (msSince t (started p))\<rparr>\<rparr>"
  let ?q' = "?q\<lparr>p_redirects := p_redirects p + 1\<rparr>"
  have "requests_ok node opts url (request node opts u t ?q')" if "p_redirects p < maxRedirects opts" for u
    using assms that by (intro requests_ok_request) (auto simp: requests_ok_def)
  with assms Response show ?thesis
    by (auto simp: handle_def on_response_def Let_def requests_ok_def split: option.splits)
qed (use assms in \<open>auto simp: handler_defs Let_def requests_ok_def split: option.splits\<close>)

lemma probe_reaches_requests_ok: "probe_reaches node opts url p t \<Longrightarrow> requests_ok node opts url p"
proof (induction rule: probe_reaches.induct)
  case (probe_begins t)
  then show ?case by (auto simp: probeOnce_def probe_blank_def intro!: requests_ok_request)
qed (simp add: requests_ok_handle)

text \<open>
  C14. Credentials stay on the configured origin: in every run of a probe, whatever it is
  redirected to, each request to another origin than the monitor's carries the fixed
  default headers and nothing else, only http and https URLs are requested, and the
  certificate check is off only if the monitor asked for it.
\<close>

theorem probe_credentials_stay_home:
  assumes "probe_reaches node opts url p t" and "r \<in> set (sent p)"
  shows "(originOf node (to_url r) \<noteq> originOf node url \<longrightarrow> sent_headers r = base_headers) \<and>
    (originOf node (to_url r) = originOf node url \<longrightarrow>
      sent_headers r = spread_headers base_headers (opt_headers opts)) \<and>
    rejectUnauthorized r = (\<not> opt_ignoreTls opts) \<and>
    (\<exists>u. parse_url node (to_url r) = Some u \<and> (protocol u = ''http:'' \<or> protocol u = ''https:''))"
  using probe_reaches_requests_ok [OF assms(1)] assms(2)
  by (auto simp: requests_ok_def outbound_ok_def headers_for_def)

text \<open>
  A probe is bounded: it follows at most the allowed number of redirects and makes at
  most one request more than that.
\<close>

theorem probe_requests_bounded:
  assumes "probe_reaches node opts url p t"
  shows "p_redirects p \<le> maxRedirects opts \<and> length (sent p) \<le> Suc (maxRedirects opts)"
  using probe_reaches_requests_ok [OF assms] by (auto simp: requests_ok_def)

subsection \<open>Results\<close>

definition result_ok :: "probe_opts \<Rightarrow> probe_result \<Rightarrow> bool" where
  "result_ok opts r \<longleftrightarrow>
     (r_status r = UP \<longleftrightarrow> r_error r = None) \<and> (r_error r = None \<longleftrightarrow> r_errorCode r = None) \<and>
     (r_status r = UP \<longrightarrow> (\<exists>c. r_statusCode r = Some c \<and> 200 \<le> c \<and> c < 400) \<and> \<not> r_retryable r) \<and>
     r_redirects r \<le> maxRedirects opts \<and>
     r_responseTime r = t_total (r_timings r) \<and> (\<exists>ms \<ge> 0. t_total (r_timings r) = Some ms)"

definition clock_ok :: "probe_opts \<Rightarrow> probe \<Rightarrow> int \<Rightarrow> bool" where
  "clock_ok opts p t \<longleftrightarrow>
     started p \<le> t \<and> p_redirects p \<le> maxRedirects opts \<and> (\<forall>r. settled p = Some r \<longrightarrow> result_ok opts r)"

lemma msSince_nonneg: "s \<le> t \<Longrightarrow> 0 \<le> msSince t s"
  by (simp add: msSince_def MS_def pos_imp_zdiv_nonneg_iff)

definition verdict_ok :: "verdict \<Rightarrow> bool" where
  "verdict_ok v \<longleftrightarrow>
     (r_status v = UP \<longleftrightarrow> r_error v = None) \<and> (r_error v = None \<longleftrightarrow> r_errorCode v = None) \<and>
     (r_status v = UP \<longrightarrow> (\<exists>c. r_statusCode v = Some c \<and> 200 \<le> c \<and> c < 400) \<and> \<not> r_retryable v)"

lemma verdict_ok_down [simp]: "verdict_ok (down code msg ecode again)"
  by (simp add: verdict_ok_def down_def)

lemma clock_ok_finish: "clock_ok opts p t \<Longrightarrow> verdict_ok v \<Longrightarrow> clock_ok opts (finish v t p) t"
  by (auto simp: clock_ok_def finish_def Let_def result_ok_def verdict_ok_def msSince_nonneg)

lemma clock_ok_later: "clock_ok opts p t \<Longrightarrow> t \<le> t' \<Longrightarrow> clock_ok opts p t'"
  by (auto simp: clock_ok_def)

lemma clock_ok_cong:
  "clock_ok opts p t \<Longrightarrow> started q = started p \<Longrightarrow> p_redirects q \<le> maxRedirects opts \<Longrightarrow>
    settled q = settled p \<Longrightarrow> clock_ok opts q t"
  by (simp add: clock_ok_def)

lemma clock_ok_request:
  assumes ok: "clock_ok opts p t"
  shows "clock_ok opts (request node opts u t p) t"
proof -
  have "p_redirects p \<le> maxRedirects opts" using ok by (simp add: clock_ok_def)
  with ok show ?thesis
    by (auto simp: request_def Let_def clock_ok_finish split: option.splits elim: clock_ok_cong)
qed

lemma clock_ok_handle:
  assumes "clock_ok opts p t"
  shows "clock_ok opts (handle node opts e t p) t"
proof (cases e)
  case (Response code loc)
  let ?q = "p\<lparr>p_timings := (p_timings p)\<lparr>t_ttfb := Some (msSince t (started p))\<rparr>\<rparr>"
  let ?q' = "?q\<lparr>p_redirects := p_redirects p + 1\<rparr>"
  have q: "clock_ok opts ?q t" using assms by (simp add: clock_ok_def)
  have q': "clock_ok opts ?q' t" if "p_redirects p < maxRedirects opts"
    using assms that by (simp add: clock_ok_def)
  then have "clock_ok opts (?q'\<lparr>threw := True\<rparr>) t" if "p_redirects p < maxRedirects opts"
    using that by (simp add: clock_ok_def)
  with q' have "clock_ok opts (request node opts u t ?q') t \<and> clock_ok opts (?q'\<lparr>threw := True\<rparr>) t"
    if "p_redirects p < maxRedirects opts" for u
    using that by (blast intro: clock_ok_request)
  moreover have "clock_ok opts (?q\<lparr>answered := Some code\<rparr>) t" using q by (simp add: clock_ok_def)
  ultimately show ?thesis using q Response
    by (auto simp: handle_def on_response_def Let_def clock_ok_finish split: option.splits)
next
  case Body_over
  then show ?thesis using assms
    by (auto simp: handle_def settleWithStatus_def verdict_ok_def Let_def split: option.splits
        intro!: clock_ok_finish)
qed (use assms in \<open>auto simp: handler_defs Let_def clock_ok_finish\<close>, auto simp: clock_ok_def)

lemma probe_reaches_clock_ok: "probe_reaches node opts url p t \<Longrightarrow> clock_ok opts p t"
proof (induction rule: probe_reaches.induct)
  case (probe_begins t)
  have "clock_ok opts (probe_blank node url t) t" by (simp add: clock_ok_def probe_blank_def)
  then show ?case unfolding probeOnce_def by (rule clock_ok_request)
qed (blast intro: clock_ok_handle clock_ok_later)

lemma settled_kept: "settled p = Some r \<Longrightarrow> settled (handle node opts e t p) = Some r"
  by (auto simp: handler_defs request_def Let_def finish_settled split: net_event.splits option.splits)

text \<open>
  A probe resolves at most once and to a consistent result: a settled result is never
  replaced by any later event, it is UP exactly when it carries no error, an UP result has
  a final status in 200..399 and is never retried, and its total time is known and not
  negative. The deadline timer settles any probe that has not settled.
\<close>

theorem probe_settles_once:
  assumes "probe_reaches node opts url p t"
  shows "(\<forall>r. settled p = Some r \<longrightarrow>
      result_ok opts r \<and> settled (handle node opts e t' p) = Some r) \<and>
    (settled p = None \<longrightarrow> settled (handle node opts Deadline t' p) \<noteq> None)"
proof -
  have "settled (handle node opts Deadline t' p) \<noteq> None"
    unfolding handle_def on_deadline_def net_event.case by (rule settled_finish)
  with probe_reaches_clock_ok [OF assms] show ?thesis
    unfolding clock_ok_def using settled_kept by blast
qed

text \<open>A concrete run: a redirect to another host, then an answer.\<close>

definition example_node :: node_api where
  "example_node =
     \<lparr>parse_url = (\<lambda>u. if starts_with ''https://a/'' u then Some \<lparr>protocol = ''https:'', origin = ''https://a''\<rparr>
                   else if starts_with ''http://b/'' u then Some \<lparr>protocol = ''http:'', origin = ''http://b''\<rparr>
                   else None),
      resolve_url = (\<lambda>loc base. if loc = ''http://['' then None else Some loc),
      valid_headers = (\<lambda>_. True), show_number = (\<lambda>_. ''10000'')\<rparr>"

definition example_opts :: probe_opts where
  "example_opts = \<lparr>timeoutMs = 10000, opt_ignoreTls = False, maxRedirects = 5,
     opt_headers = [(''Authorization'', ''s'')]\<rparr>"

lemma request_sends:
  assumes "parse_url node u = Some w" and "protocol w = ''http:'' \<or> protocol w = ''https:''"
    and "\<And>hs. valid_headers node hs"
  shows "settled (request node opts u t p) = settled p" "answered (request node opts u t p) = None"
    "threw (request node opts u t p) = threw p" "target (request node opts u t p) = u"
    "p_redirects (request node opts u t p) = p_redirects p" "started (request node opts u t p) = started p"
    "map to_url (sent (request node opts u t p)) = map to_url (sent p) @ [u]"
  using assms by (auto simp: request_def Let_def)

lemma example_parse:
  "parse_url example_node ''https://a/'' = Some \<lparr>protocol = ''https:'', origin = ''https://a''\<rparr>"
  "parse_url example_node ''http://b/'' = Some \<lparr>protocol = ''http:'', origin = ''http://b''\<rparr>"
  "resolve_url example_node ''http://b/'' u = Some ''http://b/''"
  "resolve_url example_node ''http://['' u = None"
  "valid_headers example_node hs"
  by (simp_all add: example_node_def starts_with_def)

lemmas example_sends =
  request_sends [OF example_parse(1) _ example_parse(5), simplified]
  request_sends [OF example_parse(2) _ example_parse(5), simplified]

definition example_start :: probe where
  "example_start = probeOnce example_node example_opts ''https://a/'' 0"

lemma example_start_simps [simp]:
  "settled example_start = None" "answered example_start = None" "\<not> threw example_start"
  "target example_start = ''https://a/''" "p_redirects example_start = 0" "started example_start = 0"
  "map to_url (sent example_start) = [''https://a/'']"
  unfolding example_start_def probeOnce_def example_sends by (simp_all add: probe_blank_def)

definition example_probe :: probe where
  "example_probe = handle example_node example_opts (Response 302 (Some ''http://b/'')) 2000000 example_start"

lemma example_probe_simps:
  "settled example_probe = None" "map to_url (sent example_probe) = [''https://a/'', ''http://b/'']"
  by (simp_all add: example_probe_def handle_def on_response_def example_opts_def example_parse
      example_sends [simplified example_opts_def] Let_def)

lemma example_probe_reached:
  "probe_reaches example_node example_opts ''https://a/'' example_probe 2000000"
proof -
  have "sent example_start \<noteq> []" using example_start_simps(7) by (cases "sent example_start") simp_all
  then have "deliverable example_start (Response 302 (Some ''http://b/''))" by (simp add: deliverable_def)
  from probe_event [OF probe_begins _ this [unfolded example_start_def]]
  show ?thesis by (simp add: example_probe_def example_start_def)
qed

theorem probe_credentials_stay_home_witness:
  "\<exists>r. r \<in> set (sent example_probe) \<and> to_url r = ''http://b/'' \<and>
     sent_headers r = base_headers"
proof -
  let ?p = example_probe
  have "''http://b/'' \<in> set (map to_url (sent ?p))" unfolding example_probe_simps(2) by simp
  then obtain r where r: "r \<in> set (sent ?p)" "to_url r = ''http://b/''" by (auto simp: image_iff)
  moreover have "originOf example_node ''http://b/'' \<noteq> originOf example_node ''https://a/''"
    by (simp add: originOf_def example_node_def starts_with_def)
  ultimately have "sent_headers r = base_headers"
    using probe_credentials_stay_home [OF example_probe_reached r(1)] by simp
  with r show ?thesis by blast
qed

theorem probe_requests_bounded_witness:
  "length (sent example_probe) \<le> 6"
  using probe_requests_bounded [OF example_probe_reached] by (simp add: example_opts_def)

theorem probe_settles_once_witness:
  "settled (handle example_node example_opts Deadline 2000000
     example_probe) \<noteq> None"
  using probe_settles_once [OF example_probe_reached] example_probe_simps(1) by blast

text \<open>
  Two ways a probe departs from "a failed probe is a result". A redirect whose
  Location does not parse makes the response callback throw, and the probe stays
  unsettled with no deadline result of its own; and a response that is no redirect at all
  but carries a Location header is graded DOWN once the redirects are used up.
\<close>

theorem probe_location_edge_cases:
  "(300 \<le> code \<and> code < 400 \<and> loc \<noteq> [] \<and> p_redirects p < maxRedirects opts \<and>
      resolve_url node loc (target p) = None \<longrightarrow>
      threw (handle node opts (Response code (Some loc)) t p) \<and>
      settled (handle node opts (Response code (Some loc)) t p) = settled p) \<and>
   (loc \<noteq> [] \<and> maxRedirects opts \<le> p_redirects p \<and> settled p = None \<longrightarrow>
      (\<exists>r. settled (handle node opts (Response 200 (Some loc)) t p) = Some r \<and> r_status r = DOWN \<and>
        r_statusCode r = Some 200 \<and> r_errorCode r = Some ''ERR_TOO_MANY_REDIRECTS''))"
  by (simp add: handle_def on_response_def Let_def finish_def down_def)

theorem probe_location_edge_cases_witness:
  "threw (handle example_node example_opts (Response 302 (Some ''http://['')) 2000000 example_start)"
  using probe_location_edge_cases [of 302 "''http://[''" example_start example_opts example_node 2000000]
    example_parse(4) by (simp add: example_opts_def)

subsection \<open>The retry ladder\<close>

text \<open>\<open>random\<close> is one draw of \<open>Math.random()\<close>, in [0, 1).\<close>

definition backoffDelay :: "rat \<Rightarrow> nat \<Rightarrow> int \<Rightarrow> int \<Rightarrow> int" where
  "backoffDelay random attempt base cap =
     (let ceiling = min (base * 2 ^ attempt) cap in \<lfloor>random * of_int ceiling\<rfloor>)"

text \<open>
  \<open>probe k\<close> is the result of the attempt numbered \<open>k\<close> from 0, \<open>draw k\<close> the random draw
  before the next one. The second component lists the sleeps.
\<close>

function check_loop ::
    "sched_config \<Rightarrow> (nat \<Rightarrow> probe_result) \<Rightarrow> (nat \<Rightarrow> rat) \<Rightarrow> int \<Rightarrow> nat \<Rightarrow> probe_result option \<Rightarrow>
     probe_result option \<times> int list" where
  "check_loop cfg probe draw maxRetries attempt result =
     (if int attempt \<le> maxRetries then
        let r = (probe attempt)\<lparr>r_attempts := Some (attempt + 1)\<rparr>
        in if r_status r = UP \<or> \<not> r_retryable r then (Some r, [])
           else if int attempt < maxRetries then
             let d = backoffDelay (draw attempt) attempt (RETRY_BASE_MS cfg) (RETRY_CAP_MS cfg);
                 (res, sleeps) = check_loop cfg probe draw maxRetries (attempt + 1) (Some r)
             in (res, d # sleeps)
           else check_loop cfg probe draw maxRetries (attempt + 1) (Some r)
      else (result, []))"
  by pat_completeness auto
termination by (relation "measure (\<lambda>(_, _, _, m, a, _). nat (m + 1 - int a))") auto

declare check_loop.simps [simp del]

definition checkMonitor ::
    "sched_config \<Rightarrow> (nat \<Rightarrow> probe_result) \<Rightarrow> (nat \<Rightarrow> rat) \<Rightarrow> int option \<Rightarrow> probe_result option \<times> int list" where
  "checkMonitor cfg probe draw maxRetries =
     check_loop cfg probe draw (nullish maxRetries (MAX_RETRIES cfg)) 0 None"

lemma backoffDelay_bounds:
  assumes "0 \<le> random" and "random < 1" and "0 \<le> base" and "0 \<le> cap"
  shows "0 \<le> backoffDelay random attempt base cap \<and> backoffDelay random attempt base cap \<le> cap \<and>
    backoffDelay random attempt base cap \<le> base * 2 ^ attempt"
proof -
  let ?c = "min (base * 2 ^ attempt) cap"
  have c: "0 \<le> ?c" using assms by simp
  have "random * of_int ?c \<le> of_int ?c" using assms(2) c by (intro mult_left_le_one_le) (use assms(1) in auto)
  then have "\<lfloor>random * of_int ?c\<rfloor> \<le> ?c" using floor_mono [of "random * of_int ?c" "of_int ?c"] by (simp del: of_int_min)
  moreover have "0 \<le> \<lfloor>random * of_int ?c\<rfloor>" using assms(1) c by (simp del: of_int_min)
  ultimately show ?thesis by (simp add: backoffDelay_def Let_def)
qed

text \<open>An attempt that ends the check: UP, or a failure that is not transient.\<close>

definition conclusive :: "probe_result \<Rightarrow> bool" where
  "conclusive r \<longleftrightarrow> r_status r = UP \<or> \<not> r_retryable r"

lemma check_loop_result:
  assumes "int a \<le> m"
  shows "\<exists>n sleeps. check_loop cfg probe draw m a res = (Some ((probe n)\<lparr>r_attempts := Some (n + 1)\<rparr>), sleeps) \<and>
    a \<le> n \<and> int n \<le> m \<and> (\<forall>k. a \<le> k \<and> k < n \<longrightarrow> \<not> conclusive (probe k)) \<and>
    (conclusive (probe n) \<or> int n = m) \<and>
    sleeps = map (\<lambda>k. backoffDelay (draw k) k (RETRY_BASE_MS cfg) (RETRY_CAP_MS cfg)) [a..<n]"
  using assms
proof (induction cfg probe draw m a res rule: check_loop.induct)
  case (1 cfg probe draw m a res)
  let ?r = "(probe a)\<lparr>r_attempts := Some (a + 1)\<rparr>"
  note unfold = check_loop.simps [of cfg probe draw m a res]
  have con: "conclusive (probe a) \<longleftrightarrow> r_status ?r = UP \<or> \<not> r_retryable ?r" by (simp add: conclusive_def)
  consider (stop) "conclusive (probe a)" | (last) "\<not> conclusive (probe a)" "int a = m"
    | (again) "\<not> conclusive (probe a)" "int a < m" using 1(3) by linarith
  then show ?case
  proof cases
    case stop
    with 1(3) con show ?thesis unfolding unfold by (intro exI [of _ a]) (auto simp: Let_def)
  next
    case last
    with con show ?thesis unfolding unfold
      by (intro exI [of _ a]) (auto simp: Let_def check_loop.simps [of cfg probe draw m "Suc a"])
  next
    case again
    with 1(3) con 1(1) [of ?r] obtain n sleeps where
      n: "check_loop cfg probe draw m (a + 1) (Some ?r) = (Some ((probe n)\<lparr>r_attempts := Some (n + 1)\<rparr>), sleeps)"
        "a + 1 \<le> n" "int n \<le> m" "\<forall>k. a + 1 \<le> k \<and> k < n \<longrightarrow> \<not> conclusive (probe k)"
        "conclusive (probe n) \<or> int n = m"
        "sleeps = map (\<lambda>k. backoffDelay (draw k) k (RETRY_BASE_MS cfg) (RETRY_CAP_MS cfg)) [a + 1..<n]"
      by auto
    have "\<not> conclusive (probe k)" if "a \<le> k" "k < n" for k
      using again(1) n(4) that by (cases "k = a") auto
    with n again con 1(3) show ?thesis unfolding unfold
      by (intro exI [of _ n]) (auto simp: Let_def upt_conv_Cons)
  qed
qed

text \<open>
  The retry ladder: a check with a retry budget m returns the result of its first
  conclusive attempt (UP, or a failure that is not transient), or of attempt m + 1 when
  none is; it makes no attempt after that one, records how many it made, sleeps exactly
  once between two attempts, and never longer than the cap.
\<close>

theorem checkMonitor_first_conclusive:
  assumes "0 \<le> m" and "config_ok cfg" and "\<forall>k. 0 \<le> draw k \<and> draw k < 1"
  shows "\<exists>n sleeps. checkMonitor cfg probe draw (Some m) =
      (Some ((probe n)\<lparr>r_attempts := Some (n + 1)\<rparr>), sleeps) \<and>
    int n \<le> m \<and> (\<forall>k < n. \<not> conclusive (probe k)) \<and> (conclusive (probe n) \<or> int n = m) \<and>
    length sleeps = n \<and> (\<forall>d \<in> set sleeps. 0 \<le> d \<and> d \<le> RETRY_CAP_MS cfg)"
proof -
  from check_loop_result [of 0 m cfg probe draw None] assms(1) obtain n sleeps where
    n: "check_loop cfg probe draw m 0 None = (Some ((probe n)\<lparr>r_attempts := Some (n + 1)\<rparr>), sleeps)"
      "int n \<le> m" "\<forall>k < n. \<not> conclusive (probe k)" "conclusive (probe n) \<or> int n = m"
      "sleeps = map (\<lambda>k. backoffDelay (draw k) k (RETRY_BASE_MS cfg) (RETRY_CAP_MS cfg)) [0..<n]"
    by auto
  have "0 \<le> d \<and> d \<le> RETRY_CAP_MS cfg" if "d \<in> set sleeps" for d
    using that n(5) backoffDelay_bounds assms(2,3) by (auto simp: config_ok_def)
  with n show ?thesis unfolding checkMonitor_def by (intro exI [of _ n] exI [of _ sleeps]) auto
qed

definition example_result :: "status \<Rightarrow> bool \<Rightarrow> probe_result" where
  "example_result st again =
     \<lparr>r_status = st, r_statusCode = None, r_error = None, r_errorCode = None, r_retryable = again,
      r_redirects = 0, r_responseTime = Some 1,
      r_timings = \<lparr>t_dns = None, t_tcp = None, t_tls = None, t_ttfb = None, t_total = Some 1\<rparr>,
      r_attempts = None\<rparr>"

theorem checkMonitor_first_conclusive_witness:
  "\<exists>sleeps. checkMonitor default_config
      (\<lambda>k. if k = 1 then example_result UP False else example_result DOWN True) (\<lambda>_. 1 / 2) (Some 2) =
      (Some ((example_result UP False)\<lparr>r_attempts := Some 2\<rparr>), sleeps) \<and> length sleeps = 1"
proof -
  let ?p = "\<lambda>k::nat. if k = 1 then example_result UP False else example_result DOWN True"
  from checkMonitor_first_conclusive [of 2 default_config "\<lambda>_. 1 / 2" ?p] obtain n sleeps where
    n: "checkMonitor default_config ?p (\<lambda>_. 1 / 2) (Some 2) = (Some ((?p n)\<lparr>r_attempts := Some (n + 1)\<rparr>), sleeps)"
      "int n \<le> 2" "\<forall>k < n. \<not> conclusive (?p k)" "conclusive (?p n) \<or> int n = 2" "length sleeps = n"
    by auto
  have c: "conclusive (?p 1)" "\<not> conclusive (?p 0)" by (simp_all add: conclusive_def example_result_def)
  have "n = 1"
  proof (rule linorder_cases [of n 1])
    assume "1 < n" then show ?thesis using n(3) c(1) by blast
  next
    assume "n < 1" then show ?thesis using n(4) c(2) by simp
  qed
  with n show ?thesis by auto
qed

end
