(* ===== verification/Crypto.thy ===== *)
theory Crypto
  imports Probe
begin

text \<open>
  Envelope encryption of outbound credentials, \<open>Backend/src/utils/crypto.js\<close>. The
  primitives (AES-256-GCM, scrypt, base64, the random nonce) and the JSON parser belong to
  the platform: they are the record \<open>crypto_api\<close>, and the locale \<open>aead\<close> states the
  documented behaviour the module leans on. The derived key is cached in the module; the
  cache is explicit state here.
\<close>

subsection \<open>The platform\<close>

datatype json_value = JObject headers | JArray "string list" | JString string | JNull | JNumber int

record ('k, 'b) crypto_api =
  from_hex :: "string \<Rightarrow> 'k"
  scrypt :: "string \<Rightarrow> 'k"
  gcm_encrypt :: "'k \<Rightarrow> 'b \<Rightarrow> string \<Rightarrow> 'b \<times> 'b" \<comment> \<open>ciphertext and authentication tag\<close>
  gcm_decrypt :: "'k \<Rightarrow> 'b \<Rightarrow> 'b \<Rightarrow> 'b \<Rightarrow> string option" \<comment> \<open>iv, tag, ciphertext; \<open>None\<close> when it throws\<close>
  b64 :: "'b \<Rightarrow> string"
  unb64 :: "string \<Rightarrow> 'b"
  json_parse :: "string \<Rightarrow> json_value option"

text \<open>
  What Node documents: decryption with the key, nonce and tag of an encryption returns
  the plaintext; base64 decoding inverts encoding, whose alphabet has no colon.
\<close>

locale aead =
  fixes api :: "('k, 'b) crypto_api"
  assumes decrypt_encrypt: "gcm_encrypt api k iv p = (c, tag) \<Longrightarrow> gcm_decrypt api k iv tag c = Some p"
    and unb64_b64: "unb64 api (b64 api x) = x"
    and b64_no_colon: "CHR '':'' \<notin> set (b64 api x)"

subsection \<open>The code\<close>

definition VERSION :: string where
  "VERSION = ''v1''"

definition hex_digit :: "char \<Rightarrow> bool" where
  "hex_digit c =
     (let n = of_char c :: nat in 48 \<le> n \<and> n \<le> 57 \<or> 97 \<le> n \<and> n \<le> 102 \<or> 65 \<le> n \<and> n \<le> 70)"

definition is_hex_key :: "string \<Rightarrow> bool" where
  "is_hex_key raw \<longleftrightarrow> length raw = 64 \<and> list_all hex_digit raw"

text \<open>\<open>getKey\<close>, with the module's \<open>cachedKey\<close> before and after.\<close>

definition getKey :: "('k, 'b) crypto_api \<Rightarrow> string option \<Rightarrow> 'k option \<Rightarrow> 'k option \<times> 'k option" where
  "getKey api raw cachedKey =
     (case cachedKey of
        Some k \<Rightarrow> (Some k, cachedKey)
      | None \<Rightarrow>
          if \<not> truthy_str raw then (None, None)
          else let k = (if is_hex_key (the raw) then from_hex api (the raw) else scrypt api (the raw))
               in (Some k, Some k))"

definition isEncryptionConfigured :: "('k, 'b) crypto_api \<Rightarrow> string option \<Rightarrow> 'k option \<Rightarrow> bool" where
  "isEncryptionConfigured api raw cachedKey = (fst (getKey api raw cachedKey) \<noteq> None)"

definition hasCredentials :: "json_value option \<Rightarrow> bool" where
  "hasCredentials v =
     (case v of
        None \<Rightarrow> False
      | Some JNull \<Rightarrow> False
      | Some (JString s) \<Rightarrow> trim s \<noteq> []
      | Some (JObject hs) \<Rightarrow> hs \<noteq> []
      | Some (JArray xs) \<Rightarrow> xs \<noteq> []
      | Some (JNumber _) \<Rightarrow> False)"

text \<open>\<open>iv\<close> is the nonce drawn for this call.\<close>

definition encryptSecret ::
    "('k, 'b) crypto_api \<Rightarrow> string option \<Rightarrow> 'k option \<Rightarrow> 'b \<Rightarrow> string \<Rightarrow> string + string" where
  "encryptSecret api raw cachedKey iv plaintext =
     (case fst (getKey api raw cachedKey) of
        None \<Rightarrow> Inl ''Cannot store credentials: CREDENTIALS_ENCRYPTION_KEY is not configured''
      | Some key \<Rightarrow>
          let (ciphertext, authTag) = gcm_encrypt api key iv plaintext
          in Inr (join_with CHR '':'' [VERSION, b64 api iv, b64 api authTag, b64 api ciphertext]))"

definition decryptSecret ::
    "('k, 'b) crypto_api \<Rightarrow> string option \<Rightarrow> 'k option \<Rightarrow> string option \<Rightarrow> string option" where
  "decryptSecret api raw cachedKey envelope =
     (case fst (getKey api raw cachedKey) of
        None \<Rightarrow> None
      | Some key \<Rightarrow>
          if \<not> truthy_str envelope then None
          else case split_on CHR '':'' (the envelope) of
                 version # ivB64 # tagB64 # dataB64 # _ \<Rightarrow>
                   if version \<noteq> VERSION then None
                   else gcm_decrypt api key (unb64 api ivB64) (unb64 api tagB64) (unb64 api dataB64)
               | _ \<Rightarrow> None)"

text \<open>The entries of a parsed object; an array's keys are its indices.\<close>

definition object_entries :: "json_value \<Rightarrow> headers" where
  "object_entries v =
     (case v of
        JObject hs \<Rightarrow> hs
      | JArray xs \<Rightarrow> zip (map show_nat [0..<length xs]) xs
      | _ \<Rightarrow> [])"

definition decryptAuthHeaders ::
    "('k, 'b) crypto_api \<Rightarrow> string option \<Rightarrow> 'k option \<Rightarrow> string option \<Rightarrow> headers" where
  "decryptAuthHeaders api raw cachedKey envelope =
     (let plaintext = decryptSecret api raw cachedKey envelope
      in if \<not> truthy_str plaintext then []
         else case json_parse api (the plaintext) of
                None \<Rightarrow> []
              | Some v \<Rightarrow> object_entries v)"

subsection \<open>The cache and the round trip\<close>

text \<open>The cache holds nothing, or what the configured key derives to.\<close>

definition cache_ok :: "('k, 'b) crypto_api \<Rightarrow> string option \<Rightarrow> 'k option \<Rightarrow> bool" where
  "cache_ok api raw cachedKey \<longleftrightarrow> cachedKey = None \<or> cachedKey = fst (getKey api raw None)"

lemma getKey_cache_ok:
  "cache_ok api raw cached \<Longrightarrow> cache_ok api raw (snd (getKey api raw cached))"
  by (cases "truthy_str raw"; cases cached) (auto simp: cache_ok_def getKey_def Let_def)

lemma getKey_cached: "cache_ok api raw cached \<Longrightarrow> fst (getKey api raw cached) = fst (getKey api raw None)"
  by (cases "truthy_str raw"; cases cached) (auto simp: cache_ok_def getKey_def Let_def)

context aead begin

lemma envelope_parts:
  "split_on CHR '':'' (join_with CHR '':'' [VERSION, b64 api iv, b64 api t, b64 api c]) =
     [VERSION, b64 api iv, b64 api t, b64 api c]"
proof (rule split_on_join)
  fix w assume "w \<in> set [VERSION, b64 api iv, b64 api t, b64 api c]"
  then show "CHR '':'' \<notin> set w" using b64_no_colon by (auto simp: VERSION_def)
qed simp

lemma decrypt_envelope:
  assumes "encryptSecret api raw cached iv p = Inr e" and "cache_ok api raw cached" and "cache_ok api raw cached'"
  shows "decryptSecret api raw cached' (Some e) = Some p"
proof -
  from assms(1) obtain key c t where
    key: "fst (getKey api raw cached) = Some key" and enc: "gcm_encrypt api key iv p = (c, t)"
    and e: "e = join_with CHR '':'' [VERSION, b64 api iv, b64 api t, b64 api c]"
    by (auto simp: encryptSecret_def split: option.splits prod.splits)
  have "e \<noteq> []" by (simp add: e VERSION_def)
  moreover have "fst (getKey api raw cached') = Some key"
    using key getKey_cached [OF assms(2)] getKey_cached [OF assms(3)] by simp
  moreover have "split_on CHR '':'' e = [VERSION, b64 api iv, b64 api t, b64 api c]"
    using envelope_parts e by simp
  ultimately show ?thesis
    using decrypt_encrypt [OF enc] by (simp add: decryptSecret_def unb64_b64)
qed

end

text \<open>A platform that meets the contract: text as bytes, base16 as the encoding.\<close>

definition hex16 :: "char list" where
  "hex16 = ''0123456789abcdef''"

definition enc16 :: "string \<Rightarrow> string" where
  "enc16 s = concat (map (\<lambda>c. [hex16 ! (of_char c div 16), hex16 ! (of_char c mod 16)]) s)"

fun index_of :: "char \<Rightarrow> char list \<Rightarrow> nat" where
  "index_of c [] = 0"
| "index_of c (d # ds) = (if c = d then 0 else Suc (index_of c ds))"

fun dec16 :: "string \<Rightarrow> string" where
  "dec16 (a # b # s) = char_of (index_of a hex16 * 16 + index_of b hex16) # dec16 s"
| "dec16 s = []"

definition plain_api :: "(string, string) crypto_api" where
  "plain_api =
     \<lparr>from_hex = id, scrypt = id, gcm_encrypt = (\<lambda>k iv p. (p, k @ iv)),
      gcm_decrypt = (\<lambda>k iv tag c. if tag = k @ iv then Some c else None),
      b64 = enc16, unb64 = dec16,
      json_parse = (\<lambda>s. if s = ''{}'' then Some (JObject []) else None)\<rparr>"

lemma of_char_div: "(of_char c :: nat) div 16 < 16"
  using nat_of_char_less_256 [of c] by (simp add: less_mult_imp_div_less)

lemma index_of_nth: "distinct xs \<Longrightarrow> n < length xs \<Longrightarrow> index_of (xs ! n) xs = n"
proof (induction xs arbitrary: n)
  case (Cons x xs)
  then show ?case by (cases n) (auto simp: nth_mem)
qed simp

lemma index_of_hex16: "n < 16 \<Longrightarrow> index_of (hex16 ! n) hex16 = n"
  by (rule index_of_nth) (simp_all add: hex16_def)

lemma hex16_no_colon: "CHR '':'' \<notin> set hex16"
  by (simp add: hex16_def)

lemma dec16_enc16: "dec16 (enc16 s) = s"
proof (induction s)
  case (Cons c s)
  have "(of_char c :: nat) div 16 < 16" using of_char_div [of c] .
  with Cons show ?case by (simp add: enc16_def index_of_hex16)
qed (simp add: enc16_def)

lemma enc16_no_colon: "CHR '':'' \<notin> set (enc16 s)"
proof -
  have "hex16 ! n \<in> set hex16" if "n < 16" for n using that by (intro nth_mem) (simp add: hex16_def)
  moreover have "(of_char c :: nat) mod 16 < 16" for c :: char by simp
  ultimately show ?thesis using hex16_no_colon of_char_div by (fastforce simp: enc16_def)
qed

interpretation plain: aead plain_api
  by unfold_locales (auto simp: plain_api_def dec16_enc16 enc16_no_colon)

text \<open>
  Credentials survive storage and are never stored in the clear: with a key configured,
  encrypting a text and decrypting the envelope gives the text back, whatever either
  call found in the key cache; without one, encryption refuses and decryption yields
  nothing.
\<close>

theorem secret_round_trip:
  assumes "aead api" and "cache_ok api raw cached" and "cache_ok api raw cached'"
  shows "(truthy_str raw \<longrightarrow> (\<exists>e. encryptSecret api raw cached iv p = Inr e \<and>
      decryptSecret api raw cached' (Some e) = Some p)) \<and>
    (\<not> truthy_str raw \<longrightarrow> is_Inl (encryptSecret api raw cached iv p) \<and> decryptSecret api raw cached' env = None)"
proof -
  have none: "\<not> truthy_str raw \<Longrightarrow> fst (getKey api raw None) = None" by (simp add: getKey_def)
  have some: "truthy_str raw \<Longrightarrow> fst (getKey api raw None) \<noteq> None" by (simp add: getKey_def Let_def)
  have "\<exists>e. encryptSecret api raw cached iv p = Inr e" if "truthy_str raw"
    using some [OF that] getKey_cached [OF assms(2)]
    by (auto simp: encryptSecret_def split: option.splits prod.splits)
  moreover have "decryptSecret api raw cached' (Some e) = Some p" if "encryptSecret api raw cached iv p = Inr e" for e
    using aead.decrypt_envelope [OF assms(1) that assms(2,3)] .
  moreover have "is_Inl (encryptSecret api raw cached iv p) \<and> decryptSecret api raw cached' env = None"
    if "\<not> truthy_str raw"
    using none [OF that] getKey_cached [OF assms(2)] getKey_cached [OF assms(3)]
    by (simp add: encryptSecret_def decryptSecret_def)
  ultimately show ?thesis by blast
qed

theorem secret_round_trip_witness:
  "\<exists>e. encryptSecret plain_api (Some ''key'') None ''iv'' ''{}'' = Inr e \<and>
     decryptSecret plain_api (Some ''key'') (Some ''key'') (Some e) = Some ''{}''"
proof -
  have "cache_ok plain_api (Some ''key'') None" "cache_ok plain_api (Some ''key'') (Some ''key'')"
    by (simp_all add: cache_ok_def getKey_def plain_api_def is_hex_key_def Let_def)
  from secret_round_trip [OF plain.aead_axioms this] show ?thesis by simp
qed

text \<open>An absent or undecryptable envelope sends no credentials.\<close>

lemma decryptAuthHeaders_none [simp]: "decryptAuthHeaders api raw cached None = []"
  by (simp add: decryptAuthHeaders_def decryptSecret_def Let_def split: option.splits)

end
