(* ===== verification/Breaker.thy ===== *)
theory Breaker
  imports Config Monitor_Model
begin

text \<open>
  The per-monitor circuit breaker, \<open>Backend/src/services/circuitBreaker.js\<close>: pure functions
  over the breaker fields persisted on the monitor. They return a decision or a patch; the
  scheduler persists it. The locale \<open>circuit_breaker\<close> is what the scheduler relies on.
\<close>

subsection \<open>The code\<close>

definition cooldownFor :: "sched_config \<Rightarrow> nat \<Rightarrow> int" where
  "cooldownFor cfg consecutiveOpens =
     (let growth = BREAKER_COOLDOWN_MS cfg * 2 ^ consecutiveOpens
      in min growth (BREAKER_MAX_COOLDOWN_MS cfg))"

text \<open>A patch: the breaker fields to set, each present or not. \<open>Some None\<close> sets \<open>null\<close>.\<close>

record breaker_patch =
  set_state :: "breaker_state option"
  set_openedAt :: "time option option"
  set_retryAt :: "time option option"
  set_opens :: "nat option"

definition no_patch :: breaker_patch where
  "no_patch = \<lparr>set_state = None, set_openedAt = None, set_retryAt = None, set_opens = None\<rparr>"

record decision =
  allowed :: bool
  mode :: breaker_state
  patch :: "breaker_patch option"

definition breaker_state_of :: "monitor \<Rightarrow> breaker_state" where
  "breaker_state_of m = nullish (breakerState m) CLOSED"

definition evaluateBreaker :: "monitor \<Rightarrow> time \<Rightarrow> decision" where
  "evaluateBreaker m nowMs =
     (case breaker_state_of m of
        CLOSED \<Rightarrow> \<lparr>allowed = True, mode = CLOSED, patch = None\<rparr>
      | HALF_OPEN \<Rightarrow> \<lparr>allowed = True, mode = HALF_OPEN, patch = None\<rparr>
      | OPEN \<Rightarrow>
          let retryAt = nullish (breakerRetryAt m) 0
          in if nowMs \<ge> retryAt
             then \<lparr>allowed = True, mode = HALF_OPEN,
                   patch = Some (no_patch\<lparr>set_state := Some HALF_OPEN\<rparr>)\<rparr>
             else \<lparr>allowed = False, mode = OPEN, patch = None\<rparr>)"

definition onCheckSuccess :: "monitor \<Rightarrow> breaker_patch" where
  "onCheckSuccess m =
     (if breaker_state_of m = CLOSED then no_patch
      else \<lparr>set_state = Some CLOSED, set_openedAt = Some None, set_retryAt = Some None,
            set_opens = Some 0\<rparr>)"

definition onCheckFailure :: "sched_config \<Rightarrow> monitor \<Rightarrow> nat \<Rightarrow> time \<Rightarrow> breaker_patch" where
  "onCheckFailure cfg m failures nowMs =
     (if breaker_state_of m = HALF_OPEN then
        let opens = nullish (breakerConsecutiveOpens m) 0 + 1
        in \<lparr>set_state = Some OPEN, set_openedAt = Some (Some nowMs),
            set_retryAt = Some (Some (nowMs + cooldownFor cfg opens)), set_opens = Some opens\<rparr>
      else if breaker_state_of m = CLOSED \<and> int failures \<ge> BREAKER_FAILURE_THRESHOLD cfg then
        \<lparr>set_state = Some OPEN, set_openedAt = Some (Some nowMs),
         set_retryAt = Some (Some (nowMs + cooldownFor cfg 0)), set_opens = Some 1\<rparr>
      else no_patch)"

subsection \<open>Applying a patch\<close>

definition spread_patch :: "breaker_patch \<Rightarrow> breaker_patch \<Rightarrow> breaker_patch" where
  "spread_patch p q =
     \<lparr>set_state = later (set_state p) (set_state q),
      set_openedAt = later (set_openedAt p) (set_openedAt q),
      set_retryAt = later (set_retryAt p) (set_retryAt q),
      set_opens = later (set_opens p) (set_opens q)\<rparr>"

definition apply_patch :: "breaker_patch \<Rightarrow> monitor \<Rightarrow> monitor" where
  "apply_patch p m =
     m\<lparr>breakerState := later (breakerState m) (set_state p),
       breakerOpenedAt := nullish (set_openedAt p) (breakerOpenedAt m),
       breakerRetryAt := nullish (set_retryAt p) (breakerRetryAt m),
       breakerConsecutiveOpens := later (breakerConsecutiveOpens m) (set_opens p)\<rparr>"

lemma no_patch_simps [simp]:
  "set_state no_patch = None" "set_openedAt no_patch = None"
  "set_retryAt no_patch = None" "set_opens no_patch = None"
  by (simp_all add: no_patch_def)

lemma apply_no_patch [simp]: "apply_patch no_patch m = m"
  by (simp add: apply_patch_def)

lemma spread_no_patch [simp]: "spread_patch p no_patch = p" "spread_patch no_patch p = p"
  by (cases p; simp add: spread_patch_def later_def split: option.splits)+

lemma breaker_state_of_apply [simp]:
  "breaker_state_of (apply_patch p m) = nullish (set_state p) (breaker_state_of m)"
  by (simp add: breaker_state_of_def apply_patch_def later_def nullish_def split: option.splits)

lemma apply_patch_frame [simp]:
  "m_id (apply_patch p m) = m_id m" "m_status (apply_patch p m) = m_status m"
  "consecutiveFailures (apply_patch p m) = consecutiveFailures m"
  "nextCheckAt (apply_patch p m) = nextCheckAt m" "m_active (apply_patch p m) = m_active m"
  by (simp_all add: apply_patch_def)

lemma evaluateBreaker_simps:
  "breaker_state_of m = CLOSED \<Longrightarrow> evaluateBreaker m t = \<lparr>allowed = True, mode = CLOSED, patch = None\<rparr>"
  "breaker_state_of m = HALF_OPEN \<Longrightarrow> evaluateBreaker m t = \<lparr>allowed = True, mode = HALF_OPEN, patch = None\<rparr>"
  by (simp_all add: evaluateBreaker_def)

subsection \<open>Cooldowns\<close>

lemma cooldownFor_le_max: "cooldownFor cfg n \<le> BREAKER_MAX_COOLDOWN_MS cfg"
  by (simp add: cooldownFor_def Let_def)

lemma cooldownFor_nonneg: "config_ok cfg \<Longrightarrow> 0 \<le> cooldownFor cfg n"
  by (simp add: cooldownFor_def config_ok_def)

lemma cooldownFor_mono:
  assumes "config_ok cfg" and "n \<le> k"
  shows "cooldownFor cfg n \<le> cooldownFor cfg k"
proof -
  have "(2::int) ^ n \<le> 2 ^ k" using assms(2) by (simp add: power_increasing)
  then have "BREAKER_COOLDOWN_MS cfg * 2 ^ n \<le> BREAKER_COOLDOWN_MS cfg * 2 ^ k"
    using assms(1) by (simp add: config_ok_def mult_left_mono)
  then show ?thesis by (simp add: cooldownFor_def Let_def min.coboundedI1)
qed

lemma cooldownFor_Suc:
  "config_ok cfg \<Longrightarrow>
    cooldownFor cfg (Suc n) = min (2 * cooldownFor cfg n) (BREAKER_MAX_COOLDOWN_MS cfg)"
  by (auto simp: cooldownFor_def Let_def min_def config_ok_def)

lemma cooldownFor_reaches_cap:
  assumes pos: "0 < BREAKER_COOLDOWN_MS cfg" and n: "nat (BREAKER_MAX_COOLDOWN_MS cfg) \<le> n"
  shows "cooldownFor cfg n = BREAKER_MAX_COOLDOWN_MS cfg"
proof -
  have "int n < 2 ^ n" by (metis of_nat_less_two_power)
  with n have "BREAKER_MAX_COOLDOWN_MS cfg \<le> 2 ^ n" by linarith
  also have "\<dots> \<le> BREAKER_COOLDOWN_MS cfg * 2 ^ n" using pos by simp
  finally show ?thesis by (simp add: cooldownFor_def Let_def)
qed

text \<open>
  The breaker's cooldown is exponential and capped: it never exceeds the configured
  maximum and is never negative, it grows with the number of consecutive opens, one more
  open doubles it as long as the cap allows, and enough opens reach the cap exactly.
\<close>

theorem cooldown_exponential_capped:
  assumes "config_ok cfg"
  shows "0 \<le> cooldownFor cfg n \<and> cooldownFor cfg n \<le> BREAKER_MAX_COOLDOWN_MS cfg \<and>
    (n \<le> k \<longrightarrow> cooldownFor cfg n \<le> cooldownFor cfg k) \<and>
    cooldownFor cfg (Suc n) = min (2 * cooldownFor cfg n) (BREAKER_MAX_COOLDOWN_MS cfg) \<and>
    (0 < BREAKER_COOLDOWN_MS cfg \<and> nat (BREAKER_MAX_COOLDOWN_MS cfg) \<le> n \<longrightarrow>
      cooldownFor cfg n = BREAKER_MAX_COOLDOWN_MS cfg)"
  using assms
  by (simp add: cooldownFor_le_max cooldownFor_nonneg cooldownFor_mono cooldownFor_Suc
      cooldownFor_reaches_cap)

theorem cooldown_exponential_capped_witness:
  "cooldownFor (default_config\<lparr>BREAKER_MAX_COOLDOWN_MS := 9\<rparr>) 10 = 9 \<and>
   cooldownFor default_config 4 = 900000 \<and>
   cooldownFor default_config 1 \<le> cooldownFor default_config 3"
  using cooldown_exponential_capped [of "default_config\<lparr>BREAKER_MAX_COOLDOWN_MS := 9\<rparr>" 10 10]
    cooldown_exponential_capped [of default_config 1 3]
  by (simp add: cooldownFor_def config_ok_def)

subsection \<open>The interface of the breaker\<close>

text \<open>
  What the scheduler needs: an admission decision, and a patch for each outcome that it
  applies to the monitor. A closed breaker always admits; a refused check is an open
  breaker whose retry time lies ahead; success always leaves the breaker closed.
\<close>

locale circuit_breaker =
  fixes evaluate :: "monitor \<Rightarrow> time \<Rightarrow> decision"
    and success :: "monitor \<Rightarrow> breaker_patch"
    and failure :: "monitor \<Rightarrow> nat \<Rightarrow> time \<Rightarrow> breaker_patch"
  assumes closed_admits: "breaker_state_of m = CLOSED \<Longrightarrow> allowed (evaluate m t) \<and> mode (evaluate m t) = CLOSED"
    and refused: "\<not> allowed (evaluate m t) \<Longrightarrow> breaker_state_of m = OPEN \<and> t < nullish (breakerRetryAt m) 0"
    and probe_mode: "allowed (evaluate m t) \<Longrightarrow> breaker_state_of m \<noteq> CLOSED \<Longrightarrow> mode (evaluate m t) = HALF_OPEN"
    and success_closes: "breaker_state_of (apply_patch (success m) m) = CLOSED"
    and failure_never_closes:
      "breaker_state_of m \<noteq> CLOSED \<Longrightarrow> breaker_state_of (apply_patch (failure m n t) m) \<noteq> CLOSED"
begin

lemma success_admits: "allowed (evaluate (apply_patch (success m) m) t)"
  using closed_admits success_closes by blast

lemma admitted_after_retry: "nullish (breakerRetryAt m) 0 \<le> t \<Longrightarrow> allowed (evaluate m t)"
  using refused by fastforce

end

interpretation cb: circuit_breaker evaluateBreaker onCheckSuccess "onCheckFailure cfg" for cfg
  by unfold_locales
    (auto simp: evaluateBreaker_def onCheckSuccess_def onCheckFailure_def Let_def
       split: breaker_state.splits if_splits)

text \<open>
  An admission decision of the breaker is exactly this: the check is refused if and
  only if the breaker is open and its retry time has not come; an admitted check of a
  closed breaker runs with the full retry ladder, any other admitted check is a probe.
\<close>

theorem evaluateBreaker_decision:
  "(allowed (evaluateBreaker m t) \<longleftrightarrow> \<not> (breaker_state_of m = OPEN \<and> t < nullish (breakerRetryAt m) 0)) \<and>
   mode (evaluateBreaker m t) =
     (if breaker_state_of m = CLOSED then CLOSED
      else if breaker_state_of m = OPEN \<and> t < nullish (breakerRetryAt m) 0 then OPEN else HALF_OPEN)"
  by (auto simp: evaluateBreaker_def Let_def split: breaker_state.splits)

text \<open>
  A half-open probe that fails reopens the breaker at once, with one more consecutive
  open and no admission before the cooldown for that number of opens has passed; a closed
  breaker opens exactly when the failure streak reaches the threshold.
\<close>

theorem onCheckFailure_transitions:
  assumes "config_ok cfg"
  shows "(breaker_state_of m = HALF_OPEN \<longrightarrow>
      (let m' = apply_patch (onCheckFailure cfg m n t) m in
       breaker_state_of m' = OPEN \<and>
       breakerConsecutiveOpens m' = Some (nullish (breakerConsecutiveOpens m) 0 + 1) \<and>
       (\<forall>t'. t' < t + cooldownFor cfg (nullish (breakerConsecutiveOpens m) 0 + 1) \<longleftrightarrow>
             \<not> allowed (evaluateBreaker m' t')))) \<and>
    (breaker_state_of m = CLOSED \<longrightarrow>
      (breaker_state_of (apply_patch (onCheckFailure cfg m n t) m) = OPEN \<longleftrightarrow>
       BREAKER_FAILURE_THRESHOLD cfg \<le> int n))"
  by (auto simp: onCheckFailure_def Let_def evaluateBreaker_def breaker_state_of_def apply_patch_def)

theorem onCheckFailure_transitions_witness:
  "breaker_state_of (apply_patch (onCheckFailure default_config (monitor_defaults ''m'' ''u'' ''x'' 0) 5 0)
     (monitor_defaults ''m'' ''u'' ''x'' 0)) = OPEN \<and>
   breaker_state_of (apply_patch (onCheckFailure default_config
     ((monitor_defaults ''m'' ''u'' ''x'' 0)\<lparr>breakerState := Some HALF_OPEN\<rparr>) 6 0)
     ((monitor_defaults ''m'' ''u'' ''x'' 0)\<lparr>breakerState := Some HALF_OPEN\<rparr>)) = OPEN"
  using onCheckFailure_transitions [of default_config "monitor_defaults ''m'' ''u'' ''x'' 0" 5 0]
    onCheckFailure_transitions [of default_config
      "(monitor_defaults ''m'' ''u'' ''x'' 0)\<lparr>breakerState := Some HALF_OPEN\<rparr>" 6 0]
  by (simp add: breaker_state_of_def Let_def)

end
