(* ===== verification/Pool.thy ===== *)
theory Pool
  imports Prelude
begin

text \<open>
  The bounded-concurrency task runner, \<open>Backend/src/utils/pool.js\<close>. JavaScript runs one
  worker at a time and switches at each \<open>await\<close>, in an order that depends on when tasks
  finish; the model is a step relation in which any worker may move next. A worker is
  between two iterations of its loop (\<open>Idle\<close>), awaiting a task (\<open>Running\<close>), or returned
  (\<open>Done\<close>).
\<close>

subsection \<open>The code\<close>

datatype 'v outcome = Fulfilled 'v | Rejected string

datatype worker = Idle | Running nat | Done

record 'v pool =
  results :: "'v outcome option list"
  cursor :: nat
  workers :: "worker list"

definition width :: "nat \<Rightarrow> nat \<Rightarrow> nat" where
  "width limit n = max 1 (min limit n)"

definition pool_start :: "nat \<Rightarrow> nat \<Rightarrow> 'v pool" where
  "pool_start limit n =
     \<lparr>results = replicate n None, cursor = 0, workers = replicate (width limit n) Idle\<rparr>"

text \<open>\<open>task i\<close> is what awaiting the \<open>i\<close>-th task gives: its value, or the error it threw.\<close>

inductive pool_step :: "nat \<Rightarrow> (nat \<Rightarrow> 'v outcome) \<Rightarrow> 'v pool \<Rightarrow> 'v pool \<Rightarrow> bool"
  for n task where
  claim_task: "w < length (workers s) \<Longrightarrow> workers s ! w = Idle \<Longrightarrow> cursor s < n \<Longrightarrow>
    pool_step n task s (s\<lparr>workers := (workers s)[w := Running (cursor s)], cursor := Suc (cursor s)\<rparr>)"
| finish_task: "w < length (workers s) \<Longrightarrow> workers s ! w = Running i \<Longrightarrow>
    pool_step n task s (s\<lparr>results := (results s)[i := Some (task i)], workers := (workers s)[w := Idle]\<rparr>)"
| leave_loop: "w < length (workers s) \<Longrightarrow> workers s ! w = Idle \<Longrightarrow> n \<le> cursor s \<Longrightarrow>
    pool_step n task s (s\<lparr>workers := (workers s)[w := Done]\<rparr>)"

inductive_cases pool_stepE: "pool_step n task s t"

inductive pool_reaches :: "nat \<Rightarrow> nat \<Rightarrow> (nat \<Rightarrow> 'v outcome) \<Rightarrow> 'v pool \<Rightarrow> bool"
  for limit n task where
  pool_init: "pool_reaches limit n task (pool_start limit n)"
| pool_next: "pool_reaches limit n task s \<Longrightarrow> pool_step n task s t \<Longrightarrow> pool_reaches limit n task t"

definition running :: "'v pool \<Rightarrow> nat list" where
  "running s = concat (map (\<lambda>w. case w of Running i \<Rightarrow> [i] | _ \<Rightarrow> []) (workers s))"

definition pool_finished :: "'v pool \<Rightarrow> bool" where
  "pool_finished s = list_all (\<lambda>w. w = Done) (workers s)"

subsection \<open>The invariant\<close>

lemma set_running: "i \<in> set (running s) \<longleftrightarrow> Running i \<in> set (workers s)"
  by (auto simp: running_def split: worker.splits)

text \<open>
  Each index below the cursor is being run by exactly one worker or has its task's
  result; no index at or above it has been touched.
\<close>

definition one_worker_each :: "worker list \<Rightarrow> bool" where
  "one_worker_each ws \<longleftrightarrow>
     (\<forall>u v i. u < length ws \<and> v < length ws \<and> ws ! u = Running i \<and> ws ! v = Running i \<longrightarrow> u = v)"

lemma one_worker_each_update:
  assumes "one_worker_each ws" and "\<And>i. x = Running i \<Longrightarrow> Running i \<notin> set ws"
  shows "one_worker_each (ws[w := x])"
  unfolding one_worker_each_def
proof (intro allI impI, elim conjE)
  fix u v i
  assume h: "u < length (ws[w := x])" "v < length (ws[w := x])"
    "ws[w := x] ! u = Running i" "ws[w := x] ! v = Running i"
  show "u = v"
  proof (cases "x = Running i")
    case True
    with assms(2) have "Running i \<notin> set ws" by blast
    with h show ?thesis by (metis length_list_update nth_list_update_neq nth_mem)
  next
    case False
    with h have "u \<noteq> w" "v \<noteq> w" by (metis length_list_update nth_list_update_eq)+
    with h assms(1) show ?thesis by (auto simp: one_worker_each_def)
  qed
qed

definition pool_inv :: "nat \<Rightarrow> nat \<Rightarrow> (nat \<Rightarrow> 'v outcome) \<Rightarrow> 'v pool \<Rightarrow> bool" where
  "pool_inv limit n task s \<longleftrightarrow>
     length (results s) = n \<and> cursor s \<le> n \<and> length (workers s) = width limit n \<and>
     one_worker_each (workers s) \<and>
     (\<forall>i. Running i \<in> set (workers s) \<longrightarrow> i < cursor s) \<and>
     (\<forall>i < cursor s. (if Running i \<in> set (workers s) then results s ! i = None
                      else results s ! i = Some (task i))) \<and>
     (\<forall>i < n. cursor s \<le> i \<longrightarrow> results s ! i = None) \<and>
     (Done \<in> set (workers s) \<longrightarrow> cursor s = n)"

lemma pool_inv_start [inv_intros]: "pool_inv limit n task (pool_start limit n)"
  by (auto simp: pool_inv_def pool_start_def one_worker_each_def)

lemma Running_update:
  assumes "one_worker_each ws" and "w < length ws" and "ws ! w = Running i" and "x \<noteq> Running i"
  shows "Running i \<notin> set (ws[w := x])"
proof
  assume "Running i \<in> set (ws[w := x])"
  then obtain v where v: "v < length ws" "ws[w := x] ! v = Running i" by (auto simp: in_set_conv_nth)
  with assms(2,4) have "v \<noteq> w" by auto
  with v assms show False by (auto simp: one_worker_each_def)
qed

lemma other_update:
  "w < length ws \<Longrightarrow> ws ! w \<noteq> y \<Longrightarrow> x \<noteq> y \<Longrightarrow> y \<in> set (ws[w := x]) \<longleftrightarrow> y \<in> set ws"
  by (auto simp: in_set_conv_nth nth_list_update)

lemma pool_inv_step [inv_intros]:
  assumes "pool_step n task s t" and inv: "pool_inv limit n task s"
  shows "pool_inv limit n task t"
  using assms(1)
proof cases
  case (claim_task w)
  note c = this
  from c inv have fresh: "Running (cursor s) \<notin> set (workers s)" by (auto simp: pool_inv_def)
  have new: "Running i \<in> set (workers t) \<longleftrightarrow> i = cursor s \<or> Running i \<in> set (workers s)" for i
    using c other_update [of w "workers s" "Running i" "Running (cursor s)"]
    by (cases "i = cursor s") (auto simp: set_update_memI)
  have done_: "Done \<in> set (workers t) \<longleftrightarrow> Done \<in> set (workers s)"
    using c other_update [of w "workers s" Done "Running (cursor s)"] by auto
  have uniq: "one_worker_each (workers t)"
    using c inv fresh by (auto simp: pool_inv_def intro!: one_worker_each_update)
  show ?thesis
    using inv c new done_ uniq by (auto simp: pool_inv_def less_Suc_eq)
next
  case (finish_task w i)
  note c = this
  have mem: "Running i \<in> set (workers s)" using c by (metis nth_mem)
  with inv have i: "i < cursor s" "i < n" "results s ! i = None" by (auto simp: pool_inv_def)
  have gone: "Running i \<notin> set (workers t)"
    using c inv by (auto simp: pool_inv_def Running_update)
  have new: "j \<noteq> i \<Longrightarrow> Running j \<in> set (workers t) \<longleftrightarrow> Running j \<in> set (workers s)" for j
    using c other_update [of w "workers s" "Running j" Idle] by auto
  have done_: "Done \<in> set (workers t) \<longleftrightarrow> Done \<in> set (workers s)"
    using c other_update [of w "workers s" Done Idle] by auto
  have uniq: "one_worker_each (workers t)"
    using c inv by (auto simp: pool_inv_def intro!: one_worker_each_update)
  have run: "Running j \<in> set (workers t) \<Longrightarrow> j < cursor s" for j
    using new [of j] gone inv by (cases "j = i") (auto simp: pool_inv_def)
  have res: "j < cursor s \<Longrightarrow> if Running j \<in> set (workers t) then results t ! j = None
      else results t ! j = Some (task j)" for j
    using new [of j] gone inv c i by (cases "j = i") (auto simp: pool_inv_def)
  have f: "length (results t) = n" "cursor t = cursor s" "length (workers t) = width limit n"
    using c inv by (auto simp: pool_inv_def)
  have rest: "\<forall>j < n. cursor s \<le> j \<longrightarrow> results t ! j = None" using c inv i by (auto simp: pool_inv_def)
  have "Done \<in> set (workers t) \<longrightarrow> cursor s = n" and "cursor s \<le> n"
    using done_ inv by (auto simp: pool_inv_def)
  then show ?thesis unfolding pool_inv_def f(2) using f uniq run res rest by blast
next
  case (leave_loop w)
  note c = this
  have new: "Running j \<in> set (workers t) \<longleftrightarrow> Running j \<in> set (workers s)" for j
    using c other_update [of w "workers s" "Running j" Done] by auto
  have uniq: "one_worker_each (workers t)"
    using c inv by (auto simp: pool_inv_def intro!: one_worker_each_update)
  show ?thesis
    using inv c new uniq by (auto simp: pool_inv_def)
qed

lemma pool_reaches_inv: "pool_reaches limit n task s \<Longrightarrow> pool_inv limit n task s"
  by (induction rule: pool_reaches.induct) (auto intro: inv_intros)

subsection \<open>Concurrency, completeness, termination\<close>

lemma length_running_le: "length (running s) \<le> length (workers s)"
proof -
  have "length (concat (map (\<lambda>w. case w of Running i \<Rightarrow> [i] | _ \<Rightarrow> []) ws)) \<le> length ws" for ws
    by (induction ws) (auto split: worker.splits)
  then show ?thesis by (simp add: running_def)
qed

lemma distinct_running_aux:
  "one_worker_each ws \<Longrightarrow> distinct (concat (map (\<lambda>w. case w of Running i \<Rightarrow> [i] | _ \<Rightarrow> []) ws))"
proof (induction ws)
  case Nil
  then show ?case by simp
next
  case (Cons x ws)
  from Cons.prems have tl: "one_worker_each ws"
    unfolding one_worker_each_def by (metis Suc_inject Suc_less_eq length_Cons nth_Cons_Suc)
  have "Running i \<notin> set ws" if "x = Running i" for i
  proof
    assume "Running i \<in> set ws"
    then obtain v where "v < length ws" "ws ! v = Running i" by (auto simp: in_set_conv_nth)
    with Cons.prems that show False
      unfolding one_worker_each_def by (metis Suc_less_eq length_Cons nat.distinct(1) nth_Cons_0 nth_Cons_Suc zero_less_Suc)
  qed
  with Cons.IH [OF tl] show ?case
    by (auto split: worker.splits)
qed

text \<open>
  However the tasks interleave, no more than the configured number of them run at
  once (at least one worker exists, and never more than there are tasks), no task runs
  on two workers at once, and every running task is one of the submitted ones.
\<close>

theorem pool_concurrency_bounded:
  assumes "pool_reaches limit n task s"
  shows "length (running s) \<le> max 1 (min limit n) \<and> distinct (running s) \<and>
    (\<forall>i \<in> set (running s). i < n \<and> results s ! i = None)"
proof -
  from assms have inv: "pool_inv limit n task s" by (rule pool_reaches_inv)
  have "distinct (running s)"
    using inv unfolding running_def by (auto simp: pool_inv_def intro!: distinct_running_aux)
  moreover have "length (running s) \<le> max 1 (min limit n)"
    using length_running_le [of s] inv by (simp add: pool_inv_def width_def)
  ultimately show ?thesis
    using inv by (auto simp: set_running pool_inv_def)
qed

text \<open>Two tasks on two workers, both started.\<close>

definition pool_example :: "nat pool" where
  "pool_example = \<lparr>results = [None, None], cursor = 2, workers = [Running 0, Running 1]\<rparr>"

lemma pool_example_reached: "pool_reaches 10 2 (\<lambda>i. Fulfilled i) pool_example"
proof -
  let ?s1 = "\<lparr>results = [None, None], cursor = 1, workers = [Running 0, Idle]\<rparr> :: nat pool"
  have s0: "pool_start 10 2 = (\<lparr>results = [None, None], cursor = 0, workers = [Idle, Idle]\<rparr> :: nat pool)"
    by (simp add: pool_start_def width_def numeral_2_eq_2)
  have "pool_step 2 (\<lambda>i. Fulfilled i) (pool_start 10 2) ?s1"
    using pool_step.claim_task [of 0 "pool_start 10 2" 2 "\<lambda>i. Fulfilled i"] by (simp add: s0)
  moreover have "pool_step 2 (\<lambda>i. Fulfilled i) ?s1 pool_example"
    using pool_step.claim_task [of 1 ?s1 2 "\<lambda>i. Fulfilled i"]
    by (simp add: pool_example_def numeral_2_eq_2)
  ultimately show ?thesis by (blast intro: pool_reaches.intros)
qed

theorem pool_concurrency_bounded_witness:
  "length (running pool_example) = 2 \<and> length (running pool_example) \<le> max 1 (min 10 2)"
  using pool_concurrency_bounded [OF pool_example_reached] by (simp add: running_def pool_example_def)

text \<open>A step of the pool strictly decreases this; a pool that is not finished has a step.\<close>

fun weight :: "worker \<Rightarrow> nat" where
  "weight (Running _) = 2"
| "weight Idle = 1"
| "weight Done = 0"

definition pool_measure :: "nat \<Rightarrow> 'v pool \<Rightarrow> nat" where
  "pool_measure n s = 3 * (n - cursor s) + sum_list (map weight (workers s))"

lemma sum_list_update_nat:
  "w < length ws \<Longrightarrow> sum_list (map f (ws[w := x])) + f (ws ! w) = sum_list (map f ws) + (f x :: nat)"
  by (induction ws arbitrary: w) (auto split: nat.splits simp: nth_Cons)

lemma pool_step_measure: "pool_step n task s t \<Longrightarrow> pool_measure n t < pool_measure n s"
proof (erule pool_stepE, goal_cases)
  case (1 w)
  then show ?case
    using sum_list_update_nat [of w "workers s" weight "Running (cursor s)"]
    by (simp add: pool_measure_def)
next
  case (2 w i)
  then show ?case
    using sum_list_update_nat [of w "workers s" weight Idle] by (simp add: pool_measure_def)
next
  case (3 w)
  then show ?case
    using sum_list_update_nat [of w "workers s" weight Done] by (simp add: pool_measure_def)
qed

lemma pool_progress: "\<not> pool_finished s \<Longrightarrow> \<exists>t. pool_step n task s t"
proof -
  assume "\<not> pool_finished s"
  then obtain w where w: "w < length (workers s)" "workers s ! w \<noteq> Done"
    by (auto simp: pool_finished_def list_all_iff in_set_conv_nth)
  show ?thesis
  proof (cases "workers s ! w")
    case Idle
    with w show ?thesis
      using claim_task [of w s n task] leave_loop [of w s n task] by (meson not_le)
  next
    case (Running i)
    with w show ?thesis using finish_task [of w s i n task] by blast
  next
    case Done
    with w show ?thesis by simp
  qed
qed

lemma pool_finished_results:
  assumes "pool_reaches limit n task s" and "pool_finished s"
  shows "results s = map (\<lambda>i. Some (task i)) [0..<n]"
proof -
  from assms(1) have inv: "pool_inv limit n task s" by (rule pool_reaches_inv)
  then have "workers s \<noteq> []" by (auto simp: pool_inv_def width_def)
  with assms(2) have all: "\<forall>i. Running i \<notin> set (workers s)" and d: "Done \<in> set (workers s)"
    by (auto simp: pool_finished_def list_all_iff neq_Nil_conv)
  from inv d have "cursor s = n" by (simp add: pool_inv_def)
  with inv all show ?thesis by (auto simp: pool_inv_def list_eq_iff_nth_eq)
qed

text \<open>
  C34. The pool returns, and returns everything: from any state it can be in, every run
  is finite, some run reaches the end, and at every end it reaches the result list holds,
  at each index, exactly the outcome of the task submitted there, failures included, so
  that no failing task aborts the batch.
\<close>

theorem pool_returns_every_outcome:
  assumes "pool_reaches limit n task s"
  shows "wfP (\<lambda>t s. pool_step n task s t) \<and>
    (\<exists>t. pool_reaches limit n task t \<and> pool_finished t) \<and>
    (\<forall>t. pool_reaches limit n task t \<and> pool_finished t \<longrightarrow>
       results t = map (\<lambda>i. Some (task i)) [0..<n])"
proof (intro conjI allI impI)
  have "wfP (\<lambda>t s. pool_measure n t < pool_measure n (s :: 'a pool))"
    by (rule wfp_if_convertible_to_nat [of _ "pool_measure n"])
  then show "wfP (\<lambda>t s. pool_step n task s t)"
    by (rule wfp_subset) (auto dest: pool_step_measure)
  show "\<exists>t. pool_reaches limit n task t \<and> pool_finished t"
    using assms
  proof (induction "pool_measure n s" arbitrary: s rule: less_induct)
    case less
    show ?case
    proof (cases "pool_finished s")
      case True
      with less.prems show ?thesis by blast
    next
      case False
      then obtain t where "pool_step n task s t" using pool_progress by blast
      with less show ?thesis using pool_step_measure pool_reaches.pool_next by blast
    qed
  qed
qed (use pool_finished_results in blast)

theorem pool_returns_every_outcome_witness:
  "\<exists>t :: nat pool. pool_reaches 10 2 (\<lambda>i. Fulfilled i) t \<and>
     results t = [Some (Fulfilled 0), Some (Fulfilled 1)]"
  using pool_returns_every_outcome [OF pool_example_reached] by (auto simp: numeral_2_eq_2)

end
