(* ===== verification/Lock.thy ===== *)
theory Lock
  imports Mongo Config
begin

text \<open>
  The lease lock behind the scheduler's leader election,
  \<open>Backend/src/services/lock.service.js\<close>, over the collection of
  \<open>Backend/src/models/schedulerLock.model.js\<close>. First the two operations of one instance, then
  any number of instances sharing the collection, in any interleaving of their operations
  with the passing of time and the server's sweep of expired documents.
\<close>

subsection \<open>The code\<close>

record lease =
  lock_id :: string
  owner :: string
  expiresAt :: time
  acquiredAt :: time
  heartbeatAt :: time

record lock =
  lockId :: string
  ttlMs :: int
  lock_owner :: string
  isLeader :: bool

definition new_lock :: "sched_config \<Rightarrow> string \<Rightarrow> lock" where
  "new_lock cfg own = \<lparr>lockId = LOCK_ID cfg, ttlMs = LOCK_TTL_MS cfg, lock_owner = own, isLeader = False\<rparr>"

text \<open>The query of \<open>acquire\<close>: the lease is expired, or already ours.\<close>

definition lease_free_or_ours :: "lock \<Rightarrow> time \<Rightarrow> lease \<Rightarrow> bool" where
  "lease_free_or_ours lk now d \<longleftrightarrow>
     lock_id d = lockId lk \<and> (expiresAt d \<le> now \<or> owner d = lock_owner lk)"

definition lease_renewed :: "lock \<Rightarrow> time \<Rightarrow> lease \<Rightarrow> lease" where
  "lease_renewed lk now d =
     d\<lparr>owner := lock_owner lk, expiresAt := now + ttlMs lk, heartbeatAt := now\<rparr>"

definition lease_inserted :: "lock \<Rightarrow> time \<Rightarrow> lease" where
  "lease_inserted lk now =
     \<lparr>lock_id = lockId lk, owner = lock_owner lk, expiresAt = now + ttlMs lk, acquiredAt = now,
      heartbeatAt = now\<rparr>"

definition acquire :: "('c, lease) coll \<Rightarrow> lock \<Rightarrow> time \<Rightarrow> 'c \<Rightarrow> 'c \<times> lock \<times> bool" where
  "acquire ops lk now c =
     (case upsert_one ops c (lease_free_or_ours lk now) (lease_renewed lk now) (lease_inserted lk now) of
        (c', Inr (doc, _)) \<Rightarrow>
          let held = (owner doc = lock_owner lk) in (c', lk\<lparr>isLeader := held\<rparr>, held)
      | (c', Inl e) \<Rightarrow> (c', lk\<lparr>isLeader := False\<rparr>, False))"

definition release :: "('c, lease) coll \<Rightarrow> lock \<Rightarrow> 'c \<Rightarrow> 'c \<times> lock" where
  "release ops lk c =
     (if \<not> isLeader lk then (c, lk)
      else case delete_one ops c (\<lambda>d. lock_id d = lockId lk \<and> owner d = lock_owner lk) of
             (c', r) \<Rightarrow> (c', lk\<lparr>isLeader := False\<rparr>))"

text \<open>The unique \<open>_id\<close> index of the collection.\<close>

definition same_lock :: "lease \<Rightarrow> lease \<Rightarrow> bool" where
  "same_lock a b \<longleftrightarrow> lock_id a = lock_id b"

text \<open>The grace of the collection's TTL index: an expired document may be swept an hour later.\<close>

definition sweep_grace_ms :: int where
  "sweep_grace_ms = 3600 * 1000"

subsection \<open>The interface the scheduler uses\<close>

locale leader_lock =
  fixes acq :: "lock \<Rightarrow> time \<Rightarrow> 'c \<Rightarrow> 'c \<times> lock \<times> bool"
    and rel :: "lock \<Rightarrow> 'c \<Rightarrow> 'c \<times> lock"
  assumes acq_reports: "acq lk now c = (c', lk', b) \<Longrightarrow> isLeader lk' = b"
    and acq_identity: "acq lk now c = (c', lk', b) \<Longrightarrow>
      lockId lk' = lockId lk \<and> ttlMs lk' = ttlMs lk \<and> lock_owner lk' = lock_owner lk"
    and rel_steps_down: "rel lk c = (c', lk') \<Longrightarrow> \<not> isLeader lk'"
    and rel_follower: "\<not> isLeader lk \<Longrightarrow> rel lk c = (c, lk)"
begin

text \<open>A released lock is released: releasing again touches nothing.\<close>

lemma rel_idempotent: "rel lk c = (c', lk') \<Longrightarrow> rel lk' c' = (c', lk')"
  using rel_steps_down rel_follower by blast

end

interpretation sl: leader_lock "acquire ops" "release ops" for ops :: "('c, lease) coll"
  by unfold_locales
    (auto simp: acquire_def release_def Let_def split: prod.splits sum.splits if_splits)

subsection \<open>One acquisition\<close>

lemma acquire_upsert:
  assumes "acquire ops lk now c = (c', lk', held)"
  obtains r where
    "upsert_one ops c (lease_free_or_ours lk now) (lease_renewed lk now) (lease_inserted lk now) = (c', r)"
    and "is_Inl r \<Longrightarrow> \<not> held" and "lk' = lk\<lparr>isLeader := held\<rparr>"
    and "\<And>d e. r = Inr (d, e) \<Longrightarrow> held \<longleftrightarrow> owner d = lock_owner lk"
proof -
  obtain c1 r where
    up: "upsert_one ops c (lease_free_or_ours lk now) (lease_renewed lk now) (lease_inserted lk now) = (c1, r)"
    by fastforce
  have "c1 = c' \<and> lk' = lk\<lparr>isLeader := held\<rparr> \<and> (is_Inl r \<longrightarrow> \<not> held) \<and>
    (\<forall>d e. r = Inr (d, e) \<longrightarrow> (held \<longleftrightarrow> owner d = lock_owner lk))"
    using assms up by (cases r) (auto simp: acquire_def Let_def)
  with up that show ?thesis by blast
qed

lemma acquire_blocked:
  assumes "mongo_atomic ops docs same_lock"
    and d: "d \<in># docs c" "lock_id d = lockId lk" "owner d \<noteq> lock_owner lk" "now < expiresAt d"
    and acq: "acquire ops lk now c = (c', lk', held)"
  shows "\<not> held \<and> \<not> isLeader lk' \<and> d \<in># docs c'"
proof (rule acquire_upsert [OF acq])
  fix r
  assume up: "upsert_one ops c (lease_free_or_ours lk now) (lease_renewed lk now) (lease_inserted lk now) = (c', r)"
    and r: "is_Inl r \<Longrightarrow> \<not> held" "lk' = lk\<lparr>isLeader := held\<rparr>"
  have "is_Inl r \<and> docs c' = docs c"
    by (rule mongo_atomic.upsert_blocked [OF assms(1) up d(1)])
      (use d in \<open>auto simp: lease_free_or_ours_def lease_renewed_def lease_inserted_def same_lock_def\<close>)
  with d r show ?thesis by simp
qed

text \<open>What a successful acquisition leaves in the collection.\<close>

lemma acquire_granted:
  assumes "mongo ops docs same_lock"
    and "upsert_one ops c (lease_free_or_ours lk now) (lease_renewed lk now) (lease_inserted lk now) = (c', Inr (d, e))"
  shows "d \<in># docs c' \<and> lock_id d = lockId lk \<and> owner d = lock_owner lk \<and>
    expiresAt d = now + ttlMs lk \<and> heartbeatAt d = now"
  using mongo.upsert_answered [OF assms]
  by (auto simp: lease_renewed_def lease_free_or_ours_def lease_inserted_def)

text \<open>
  A lease held by another instance is never stolen while it lives: if the collection
  holds a live lease of someone else, acquire answers no, the instance is not leader, and
  that lease is still there untouched, whatever errors occur on the way.
\<close>

theorem acquire_never_steals:
  assumes "mongo_atomic ops docs same_lock"
    and "d \<in># docs c" and "lock_id d = lockId lk" and "owner d \<noteq> lock_owner lk" and "now < expiresAt d"
    and "acquire ops lk now c = (c', lk', held)"
  shows "\<not> held \<and> \<not> isLeader lk' \<and> d \<in># docs c'"
  using acquire_blocked [OF assms] .

theorem acquire_never_steals_witness:
  "let d = \<lparr>lock_id = ''monitor-scheduler'', owner = ''a'', expiresAt = 30000, acquiredAt = 0, heartbeatAt = 0\<rparr>;
       (c', lk', held) = acquire (list_coll same_lock) (new_lock default_config ''b'') 29999 [d]
   in \<not> held \<and> \<not> isLeader lk' \<and> d \<in># mset c'"
proof -
  let ?d = "\<lparr>lock_id = ''monitor-scheduler'', owner = ''a'', expiresAt = 30000, acquiredAt = 0, heartbeatAt = 0\<rparr>"
  obtain c' lk' held where
    a: "acquire (list_coll same_lock) (new_lock default_config ''b'') 29999 [?d] = (c', lk', held)"
    by (cases "acquire (list_coll same_lock) (new_lock default_config ''b'') 29999 [?d]") auto
  have "\<not> held \<and> \<not> isLeader lk' \<and> ?d \<in># mset c'"
    by (rule acquire_never_steals [OF mem_atomic.mongo_atomic_axioms _ _ _ _ a])
      (simp_all add: new_lock_def)
  with a show ?thesis by simp
qed

text \<open>
  An acquisition the server answers without an error is a grant: the instance is leader,
  and the collection holds its lease for one full period from now. With the witness, a
  follower takes over the moment a dead leader's lease expires, without waiting for the
  server's sweep to remove the document.
\<close>

theorem acquire_after_expiry:
  assumes "mongo ops docs same_lock"
    and "upsert_one ops c (lease_free_or_ours lk now) (lease_renewed lk now) (lease_inserted lk now) = (c', Inr r)"
  shows "\<exists>lk'. acquire ops lk now c = (c', lk', True) \<and> isLeader lk' \<and>
    (\<exists>d \<in># docs c'. lock_id d = lockId lk \<and> owner d = lock_owner lk \<and>
       expiresAt d = now + ttlMs lk \<and> heartbeatAt d = now)"
  using assms(2) acquire_granted [OF assms(1), of c lk now c' "fst r" "snd r"]
  by (cases r) (auto simp: acquire_def)

definition expired_lease :: lease where
  "expired_lease =
     \<lparr>lock_id = ''monitor-scheduler'', owner = ''a'', expiresAt = 30000, acquiredAt = 0, heartbeatAt = 0\<rparr>"

theorem acquire_after_expiry_witness:
  "\<exists>c' lk'. acquire (list_coll same_lock) (new_lock default_config ''b'') 30000 [expired_lease] = (c', lk', True)
     \<and> isLeader lk'"
proof -
  obtain c' r where
    "upsert_one (list_coll same_lock) [expired_lease] (lease_free_or_ours (new_lock default_config ''b'') 30000)
       (lease_renewed (new_lock default_config ''b'') 30000) (lease_inserted (new_lock default_config ''b'') 30000)
     = (c', Inr r)"
    by (simp add: list_upsert_def list_update_one_def lease_free_or_ours_def new_lock_def expired_lease_def)
  from acquire_after_expiry [OF mem.mongo_axioms this] show ?thesis by blast
qed

subsection \<open>Many instances\<close>

text \<open>
  Instances are named by their owner string; \<open>held_until\<close> records the end of the lease each
  was last granted (a ghost: no code reads it).
\<close>

record 'c cluster =
  store :: 'c
  clock :: time
  node :: "string \<Rightarrow> lock"
  held_until :: "string \<Rightarrow> time"

inductive cluster_step :: "('c, lease) coll \<Rightarrow> ('c \<Rightarrow> lease multiset) \<Rightarrow> 'c cluster \<Rightarrow> 'c cluster \<Rightarrow> bool"
  for ops docs where
  time_passes: "clock s \<le> t \<Longrightarrow> cluster_step ops docs s (s\<lparr>clock := t\<rparr>)"
| node_acquires: "acquire ops (node s i) (clock s) (store s) = (c', lk', held) \<Longrightarrow>
    cluster_step ops docs s
      (s\<lparr>store := c', node := (node s)(i := lk'),
         held_until := (if held then (held_until s)(i := clock s + ttlMs (node s i)) else held_until s)\<rparr>)"
| node_releases: "release ops (node s i) (store s) = (c', lk') \<Longrightarrow>
    cluster_step ops docs s (s\<lparr>store := c', node := (node s)(i := lk')\<rparr>)"
| server_sweeps: "docs (store s) = docs c' + gone \<Longrightarrow>
    \<forall>d \<in># gone. expiresAt d + sweep_grace_ms \<le> clock s \<Longrightarrow>
    cluster_step ops docs s (s\<lparr>store := c'\<rparr>)"

inductive cluster_reaches ::
    "('c, lease) coll \<Rightarrow> ('c \<Rightarrow> lease multiset) \<Rightarrow> sched_config \<Rightarrow> 'c cluster \<Rightarrow> bool"
  for ops docs cfg where
  cluster_init: "docs c = {#} \<Longrightarrow>
    cluster_reaches ops docs cfg \<lparr>store = c, clock = t, node = new_lock cfg, held_until = (\<lambda>_. t)\<rparr>"
| cluster_next: "cluster_reaches ops docs cfg s \<Longrightarrow> cluster_step ops docs s s' \<Longrightarrow>
    cluster_reaches ops docs cfg s'"

text \<open>An instance that leads within its lease period: what the lock promises to be unique.\<close>

definition leads :: "'c cluster \<Rightarrow> string \<Rightarrow> bool" where
  "leads s i \<longleftrightarrow> isLeader (node s i) \<and> clock s < held_until s i"

definition lease_of :: "sched_config \<Rightarrow> ('c \<Rightarrow> lease multiset) \<Rightarrow> 'c cluster \<Rightarrow> string \<Rightarrow> lease \<Rightarrow> bool" where
  "lease_of cfg docs s i d \<longleftrightarrow>
     d \<in># docs (store s) \<and> lock_id d = LOCK_ID cfg \<and> owner d = i \<and> held_until s i \<le> expiresAt d"

definition cluster_inv :: "sched_config \<Rightarrow> ('c \<Rightarrow> lease multiset) \<Rightarrow> 'c cluster \<Rightarrow> bool" where
  "cluster_inv cfg docs s \<longleftrightarrow>
     (\<forall>i. lock_owner (node s i) = i \<and> lockId (node s i) = LOCK_ID cfg) \<and>
     (\<forall>i. leads s i \<longrightarrow> (\<exists>d. lease_of cfg docs s i d)) \<and>
     (\<forall>x. size (filter_mset (\<lambda>d. lock_id d = x) (docs (store s))) \<le> 1)"

lemma cluster_inv_node:
  "cluster_inv cfg docs s \<Longrightarrow> lock_owner (node s i) = i \<and> lockId (node s i) = LOCK_ID cfg"
  by (simp add: cluster_inv_def)

lemma leader_has_lease: "cluster_inv cfg docs s \<Longrightarrow> leads s i \<Longrightarrow> \<exists>d. lease_of cfg docs s i d"
  by (simp add: cluster_inv_def)

text \<open>The unique index keeps one document per lock, whatever an upsert does.\<close>

lemma upsert_keeps_one:
  assumes "mongo_atomic ops docs same_lock" and "upsert_one ops c P u ins = (c', r)"
    and "\<forall>x. size (filter_mset (\<lambda>d. lock_id d = x) (docs c)) \<le> 1"
  shows "\<forall>x. size (filter_mset (\<lambda>d. lock_id d = x) (docs c')) \<le> 1"
proof -
  have one: "size (filter_mset (\<lambda>d. lock_id d = x) (add_mset y M)) \<le> 1"
    if "\<forall>z \<in># M. \<not> same_lock y z" and "size (filter_mset (\<lambda>d. lock_id d = x) M) \<le> 1" for x y M
  proof (cases "lock_id y = x")
    case True
    with that(1) have "filter_mset (\<lambda>d. lock_id d = x) M = {#}" by (auto simp: same_lock_def)
    with True show ?thesis by simp
  qed (use that(2) in simp)
  have "size (filter_mset (\<lambda>d. lock_id d = x) M) \<le> 1" if "docs c = add_mset y M" for x y M
    using spec [OF assms(3), of x] unfolding that
    by (simp del: filter_mset_eq_mempty_iff size_eq_0_iff_empty split: if_splits)
  then show ?thesis
    using mongo_atomic.upsert_effect [OF assms(1,2)] assms(3) one by metis
qed

lemma acquire_step_inv:
  assumes "mongo_atomic ops docs same_lock" and inv: "cluster_inv cfg docs s"
    and acq: "acquire ops (node s i) (clock s) (store s) = (c', lk', held)"
  shows "cluster_inv cfg docs
      (s\<lparr>store := c', node := (node s)(i := lk'),
         held_until := (if held then (held_until s)(i := clock s + ttlMs (node s i)) else held_until s)\<rparr>)"
    (is "cluster_inv cfg docs ?t")
proof -
  let ?lk = "node s i"
  let ?P = "lease_free_or_ours ?lk (clock s)" and ?u = "lease_renewed ?lk (clock s)"
    and ?ins = "lease_inserted ?lk (clock s)"
  have lk: "lock_owner ?lk = i" "lockId ?lk = LOCK_ID cfg" using cluster_inv_node [OF inv] by auto
  obtain r where up: "upsert_one ops (store s) ?P ?u ?ins = (c', r)"
    and r: "is_Inl r \<Longrightarrow> \<not> held" "lk' = (node s i)\<lparr>isLeader := held\<rparr>"
      "\<And>d e. r = Inr (d, e) \<Longrightarrow> held \<longleftrightarrow> owner d = lock_owner (node s i)"
    using acquire_upsert [OF acq] by blast
  have ids: "\<forall>j. lock_owner (node ?t j) = j \<and> lockId (node ?t j) = LOCK_ID cfg"
    using cluster_inv_node [OF inv] sl.acq_identity [OF acq] by auto
  have one: "\<forall>x. size (filter_mset (\<lambda>d. lock_id d = x) (docs c')) \<le> 1"
    using upsert_keeps_one [OF assms(1) up] inv by (simp add: cluster_inv_def)
  have "\<exists>d. lease_of cfg docs ?t j d" if j: "leads ?t j" for j
  proof (cases "j = i")
    case True
    with j have h: "held" using sl.acq_reports [OF acq] by (auto simp: leads_def)
    with r(1) obtain doc e where "r = Inr (doc, e)" by (cases r) auto
    with up have "upsert_one ops (store s) ?P ?u ?ins = (c', Inr (doc, e))" by simp
    from acquire_granted [OF mongo_atomic.axioms(1) [OF assms(1)] this] lk h True
    show ?thesis by (auto simp: lease_of_def)
  next
    case False
    with j have js: "leads s j" "held_until ?t j = held_until s j"
      by (auto simp: leads_def split: if_splits)
    with inv obtain d where d: "lease_of cfg docs s j d" by (auto simp: cluster_inv_def)
    have "d \<in># docs c'"
      using acquire_blocked [OF assms(1) _ _ _ _ acq, of d] d lk False js
      by (auto simp: lease_of_def leads_def)
    with d js show ?thesis by (auto simp: lease_of_def)
  qed
  with ids one show ?thesis by (simp add: cluster_inv_def)
qed

lemma release_step_inv:
  assumes "mongo_atomic ops docs same_lock" and inv: "cluster_inv cfg docs s"
    and rel: "release ops (node s i) (store s) = (c', lk')"
  shows "cluster_inv cfg docs (s\<lparr>store := c', node := (node s)(i := lk')\<rparr>)" (is "cluster_inv cfg docs ?t")
proof (cases "isLeader (node s i)")
  case False
  with rel inv show ?thesis by (cases s) (auto simp: release_def)
next
  case True
  let ?P = "\<lambda>d. lock_id d = lockId (node s i) \<and> owner d = lock_owner (node s i)"
  have lk: "lock_owner (node s i) = i" using cluster_inv_node [OF inv] by auto
  obtain r where del: "delete_one ops (store s) ?P = (c', r)" and lk': "lk' = (node s i)\<lparr>isLeader := False\<rparr>"
    using rel True by (auto simp: release_def split: prod.splits)
  have eff: "docs c' = docs (store s) \<or> (\<exists>d. ?P d \<and> docs (store s) = add_mset d (docs c'))"
    by (rule mongo_atomic.delete_effect [OF assms(1) del])
  have ids: "\<forall>j. lock_owner (node ?t j) = j \<and> lockId (node ?t j) = LOCK_ID cfg"
    using cluster_inv_node [OF inv] lk' by auto
  have sub: "docs c' \<subseteq># docs (store s)" using eff by auto
  then have one: "\<forall>x. size (filter_mset (\<lambda>d. lock_id d = x) (docs c')) \<le> 1"
    using inv unfolding cluster_inv_def by (meson order_trans size_filter_mono)
  have "\<exists>d. lease_of cfg docs ?t j d" if j: "leads ?t j" for j
  proof -
    from j lk' have ne: "j \<noteq> i" and "leads s j" by (auto simp: leads_def split: if_splits)
    with inv obtain d where d: "lease_of cfg docs s j d" by (auto simp: cluster_inv_def)
    with eff ne lk have "d \<in># docs c'" by (auto simp: lease_of_def)
    with d show ?thesis by (auto simp: lease_of_def)
  qed
  with ids one show ?thesis by (simp add: cluster_inv_def)
qed

lemma sweep_step_inv:
  assumes inv: "cluster_inv cfg docs s" and split: "docs (store s) = docs c' + gone"
    and old: "\<forall>d \<in># gone. expiresAt d + sweep_grace_ms \<le> clock s"
  shows "cluster_inv cfg docs (s\<lparr>store := c'\<rparr>)" (is "cluster_inv cfg docs ?t")
proof -
  have "docs c' \<subseteq># docs (store s)" using split by simp
  then have one: "\<forall>x. size (filter_mset (\<lambda>d. lock_id d = x) (docs c')) \<le> 1"
    using inv unfolding cluster_inv_def by (meson order_trans size_filter_mono)
  have "\<exists>d. lease_of cfg docs ?t j d" if "leads ?t j" for j
  proof -
    from that inv obtain d where d: "lease_of cfg docs s j d" and "clock s < held_until s j"
      by (auto simp: cluster_inv_def leads_def)
    with old have "d \<notin># gone" by (force simp: lease_of_def sweep_grace_ms_def)
    with d split show ?thesis by (auto simp: lease_of_def)
  qed
  with inv one show ?thesis by (simp add: cluster_inv_def)
qed

lemma time_step_inv:
  assumes inv: "cluster_inv cfg docs s" and "clock s \<le> t"
  shows "cluster_inv cfg docs (s\<lparr>clock := t\<rparr>)"
proof -
  have "leads s i" if "leads (s\<lparr>clock := t\<rparr>) i" for i
    using that assms(2) by (auto simp: leads_def)
  moreover have "lease_of cfg docs (s\<lparr>clock := t\<rparr>) = lease_of cfg docs s"
    by (simp add: fun_eq_iff lease_of_def)
  ultimately show ?thesis using inv by (simp add: cluster_inv_def)
qed

lemma cluster_reaches_inv:
  assumes "mongo_atomic ops docs same_lock" and "cluster_reaches ops docs cfg s"
  shows "cluster_inv cfg docs s"
  using assms(2)
proof (induction rule: cluster_reaches.induct)
  case (cluster_init c t)
  then show ?case by (auto simp: cluster_inv_def leads_def new_lock_def)
next
  case (cluster_next s s')
  from cluster_next.hyps(2) show ?case
  proof cases
    case (time_passes t)
    with cluster_next.IH show ?thesis by (simp add: time_step_inv)
  next
    case (node_acquires i c' lk' held)
    then show ?thesis using acquire_step_inv [OF assms(1) cluster_next.IH] by simp
  next
    case (node_releases i c' lk')
    then show ?thesis using release_step_inv [OF assms(1) cluster_next.IH] by simp
  next
    case (server_sweeps c' gone)
    then show ?thesis using sweep_step_inv [OF cluster_next.IH] by simp
  qed
qed

text \<open>
  C1. Mutual exclusion of leaders: in every interleaving of acquisitions, renewals,
  releases, failed and half-failed writes, sweeps and the passing of time, over any
  collection with a unique _id index, at most one instance leads within the lease it
  was granted.
\<close>

theorem at_most_one_live_leader:
  assumes "mongo_atomic ops docs same_lock" and "cluster_reaches ops docs cfg s"
    and "leads s i" and "leads s j"
  shows "i = j"
proof -
  have inv: "cluster_inv cfg docs s" using cluster_reaches_inv assms(1,2) .
  with assms(3,4) obtain d e where d: "lease_of cfg docs s i d" and e: "lease_of cfg docs s j e"
    using leader_has_lease by metis
  have "d = e"
    by (rule filter_mset_le_one_unique [of "\<lambda>d. lock_id d = LOCK_ID cfg" "docs (store s)"])
      (use inv d e in \<open>auto simp: cluster_inv_def lease_of_def\<close>)
  with d e show ?thesis by (simp add: lease_of_def)
qed

text \<open>A run of two instances: \<open>a\<close> acquires; its lease expires unrenewed; \<open>b\<close> acquires.\<close>

definition lease_by :: "string \<Rightarrow> time \<Rightarrow> time \<Rightarrow> lease" where
  "lease_by i t0 t =
     \<lparr>lock_id = ''monitor-scheduler'', owner = i, expiresAt = t + 30000, acquiredAt = t0, heartbeatAt = t\<rparr>"

definition cluster_a :: "lease list cluster" where
  "cluster_a = \<lparr>store = [lease_by ''a'' 0 0], clock = 0,
     node = (new_lock default_config)(''a'' := (new_lock default_config ''a'')\<lparr>isLeader := True\<rparr>),
     held_until = (\<lambda>_. 0)(''a'' := 30000)\<rparr>"

definition cluster_ab :: "lease list cluster" where
  "cluster_ab = \<lparr>store = [lease_by ''b'' 0 30000], clock = 30000,
     node = (node cluster_a)(''b'' := (new_lock default_config ''b'')\<lparr>isLeader := True\<rparr>),
     held_until = (held_until cluster_a)(''b'' := 60000)\<rparr>"

lemma cluster_a_reached: "cluster_reaches (list_coll same_lock) mset default_config cluster_a"
proof -
  let ?s = "\<lparr>store = [], clock = 0, node = new_lock default_config, held_until = (\<lambda>_. 0)\<rparr> :: lease list cluster"
  have "acquire (list_coll same_lock) (node ?s ''a'') (clock ?s) (store ?s) =
      ([lease_by ''a'' 0 0], (new_lock default_config ''a'')\<lparr>isLeader := True\<rparr>, True)"
    by (simp add: acquire_def list_upsert_def list_update_one_def lease_inserted_def new_lock_def lease_by_def)
  then have "cluster_step (list_coll same_lock) mset ?s cluster_a"
    using cluster_step.node_acquires [of "list_coll same_lock" ?s "''a''"]
    by (simp add: cluster_a_def new_lock_def)
  then show ?thesis by (intro cluster_next [OF cluster_init]) simp_all
qed

lemma cluster_ab_reached: "cluster_reaches (list_coll same_lock) mset default_config cluster_ab"
proof -
  let ?s = "cluster_a\<lparr>clock := 30000\<rparr>"
  have "cluster_reaches (list_coll same_lock) mset default_config ?s"
    by (rule cluster_next [OF cluster_a_reached]) (rule time_passes, simp add: cluster_a_def)
  moreover have "acquire (list_coll same_lock) (node ?s ''b'') (clock ?s) (store ?s) =
      ([lease_by ''b'' 0 30000], (new_lock default_config ''b'')\<lparr>isLeader := True\<rparr>, True)"
    by (simp add: acquire_def list_upsert_def list_update_one_def lease_free_or_ours_def
        lease_renewed_def new_lock_def lease_by_def cluster_a_def)
  then have "cluster_step (list_coll same_lock) mset ?s cluster_ab"
    using cluster_step.node_acquires [of "list_coll same_lock" ?s "''b''"]
    by (simp add: cluster_ab_def cluster_a_def new_lock_def)
  ultimately show ?thesis by (rule cluster_next)
qed

theorem at_most_one_live_leader_witness:
  "cluster_reaches (list_coll same_lock) mset default_config cluster_a \<and> {j. leads cluster_a j} = {''a''}"
proof -
  have "leads cluster_a ''a''" by (simp add: leads_def cluster_a_def)
  then have "{j. leads cluster_a j} = {''a''}"
    using at_most_one_live_leader [OF mem_atomic.mongo_atomic_axioms cluster_a_reached] by blast
  with cluster_a_reached show ?thesis by simp
qed

text \<open>
  Leadership is bounded by the lease and by nothing else: an instance that does not
  call acquire again keeps its leader flag after its lease ran out and was granted to
  another, so two instances can hold the flag at once (a tick that outlives the lease
  runs on as leader). Only the lease period, above, makes leadership exclusive.
\<close>

theorem stale_leader_reachable:
  "\<exists>s. cluster_reaches (list_coll same_lock) mset default_config s \<and>
     isLeader (node s ''a'') \<and> isLeader (node s ''b'') \<and> \<not> leads s ''a'' \<and> leads s ''b''"
  using cluster_ab_reached
  by (intro exI [of _ cluster_ab]) (simp add: cluster_ab_def cluster_a_def leads_def)

end
