(* ===== verification/Sockets.thy ===== *)
theory Sockets
  imports Prelude
begin

text \<open>
  The realtime server, \<open>Backend/src/sockets/server.socket.js\<close>: the handshake that
  authenticates a socket by its cookie, the one room it joins, and the room-addressed
  emission. \<open>decode\<close> is the language's \<open>decodeURIComponent\<close> (\<open>None\<close> when it throws) and
  \<open>verify\<close> the JWT library: the claims of a token it accepts.
\<close>

subsection \<open>The code\<close>

definition roomFor :: "string \<Rightarrow> string" where
  "roomFor userId = ''user:'' @ userId"

text \<open>\<open>Inl ()\<close> is a throw of the decoder; an absent cookie is \<open>Inr None\<close>.\<close>

definition getCookie :: "(string \<Rightarrow> string option) \<Rightarrow> string option \<Rightarrow> string \<Rightarrow> unit + string option" where
  "getCookie decode header name =
     (if \<not> truthy_str header then Inr None
      else case find (\<lambda>c. starts_with (name @ ''='') c) (map trim (split_on CHR '';'' (the header))) of
             None \<Rightarrow> Inr None
           | Some found \<Rightarrow>
               (case decode (drop (length name + 1) found) of
                  None \<Rightarrow> Inl ()
                | Some v \<Rightarrow> Inr (Some v)))"

record claims =
  c_id :: "string option"
  c_email :: "string option"
  c_username :: "string option"

text \<open>The token of a handshake: the cookie, the legacy cookie, then the auth payload.\<close>

definition handshake_token ::
    "(string \<Rightarrow> string option) \<Rightarrow> string \<Rightarrow> string option \<Rightarrow> string option \<Rightarrow> unit + string option" where
  "handshake_token decode cookie_name header auth_token =
     (case getCookie decode header cookie_name of
        Inl _ \<Rightarrow> Inl ()
      | Inr a \<Rightarrow>
          if truthy_str a then Inr a
          else case getCookie decode header ''accessToken'' of
                 Inl _ \<Rightarrow> Inl ()
               | Inr b \<Rightarrow> if truthy_str b then Inr b else Inr auth_token)"

definition handshake ::
    "(string \<Rightarrow> string option) \<Rightarrow> (string \<Rightarrow> claims option) \<Rightarrow> string \<Rightarrow> string option \<Rightarrow> string option \<Rightarrow>
     string + claims" where
  "handshake decode verify cookie_name header auth_token =
     (case handshake_token decode cookie_name header auth_token of
        Inl _ \<Rightarrow> Inl ''Unauthorized''
      | Inr token \<Rightarrow>
          if \<not> truthy_str token then Inl ''Unauthorized''
          else case verify (the token) of
                 None \<Rightarrow> Inl ''Unauthorized''
               | Some cl \<Rightarrow> if \<not> truthy_str (c_id cl) then Inl ''Unauthorized'' else Inr cl)"

record 'e socket =
  s_id :: string
  s_user :: claims
  rooms :: "string list"
  inbox :: "'e list"

text \<open>The \<open>connection\<close> handler: the verified user's room, and no other.\<close>

definition connect :: "string \<Rightarrow> claims \<Rightarrow> 'e socket list \<Rightarrow> 'e socket list" where
  "connect sid cl ss = ss @ [\<lparr>s_id = sid, s_user = cl, rooms = [roomFor (the (c_id cl))], inbox = []\<rparr>]"

text \<open>\<open>io\<close> is absent until the server is initialised.\<close>

definition emitToUser :: "string option \<Rightarrow> 'e \<Rightarrow> 'e socket list option \<Rightarrow> 'e socket list option" where
  "emitToUser userId e io =
     (case io of
        None \<Rightarrow> None
      | Some ss \<Rightarrow>
          if \<not> truthy_str userId then Some ss
          else Some (map (\<lambda>s. if roomFor (the userId) \<in> set (rooms s) then s\<lparr>inbox := inbox s @ [e]\<rparr> else s) ss))"

subsection \<open>Runs of the server\<close>

text \<open>
  An emission is tagged with the user it is meant for. Anyone may attempt a handshake;
  there is no client message that changes a socket's rooms.
\<close>

inductive server_step ::
    "(string \<Rightarrow> string option) \<Rightarrow> (string \<Rightarrow> claims option) \<Rightarrow> string \<Rightarrow>
     (string \<times> 'e) socket list \<Rightarrow> (string \<times> 'e) socket list \<Rightarrow> bool"
  for decode verify cookie_name where
  accept: "handshake decode verify cookie_name header auth_token = Inr cl \<Longrightarrow>
    server_step decode verify cookie_name ss (connect sid cl ss)"
| disconnect: "server_step decode verify cookie_name ss (filter (\<lambda>s. s_id s \<noteq> sid) ss)"
| emit: "emitToUser (Some u) (u, e) (Some ss) = Some ss' \<Longrightarrow> server_step decode verify cookie_name ss ss'"

inductive server_reaches ::
    "(string \<Rightarrow> string option) \<Rightarrow> (string \<Rightarrow> claims option) \<Rightarrow> string \<Rightarrow> (string \<times> 'e) socket list \<Rightarrow> bool"
  for decode verify cookie_name where
  server_init: "server_reaches decode verify cookie_name []"
| server_next: "server_reaches decode verify cookie_name ss \<Longrightarrow> server_step decode verify cookie_name ss ss' \<Longrightarrow>
    server_reaches decode verify cookie_name ss'"

text \<open>A socket of the verified user \<open>u\<close>: in that user's room alone, holding that user's events alone.\<close>

definition socket_ok :: "(string \<Rightarrow> claims option) \<Rightarrow> (string \<times> 'e) socket \<Rightarrow> bool" where
  "socket_ok verify s \<longleftrightarrow>
     (\<exists>token u. verify token = Some (s_user s) \<and> c_id (s_user s) = Some u \<and> u \<noteq> [] \<and>
        rooms s = [roomFor u] \<and> (\<forall>x \<in> set (inbox s). fst x = u))"

lemma roomFor_inj [simp]: "roomFor a = roomFor b \<longleftrightarrow> a = b"
  by (simp add: roomFor_def)

lemma handshake_verified:
  "handshake decode verify cookie_name header auth = Inr cl \<Longrightarrow>
    \<exists>token u. verify token = Some cl \<and> c_id cl = Some u \<and> u \<noteq> []"
  by (auto simp: handshake_def truthy_str_def split: sum.splits option.splits if_splits)

lemma socket_ok_receive:
  "socket_ok verify s \<Longrightarrow> roomFor u \<in> set (rooms s) \<Longrightarrow> socket_ok verify (s\<lparr>inbox := inbox s @ [(u, e)]\<rparr>)"
  by (fastforce simp: socket_ok_def)

lemma socket_ok_step [inv_intros]:
  assumes "server_step decode verify cookie_name ss ss'" and "\<forall>s \<in> set ss. socket_ok verify s"
  shows "\<forall>s \<in> set ss'. socket_ok verify s"
  using assms(1)
proof cases
  case (accept header auth_token cl sid)
  from handshake_verified [OF this(2)] assms(2) accept(1) show ?thesis
    by (auto simp: connect_def socket_ok_def)
next
  case (disconnect sid)
  with assms(2) show ?thesis by auto
next
  case (emit u e)
  with assms(2) show ?thesis
    by (auto simp: emitToUser_def socket_ok_receive split: if_splits)
qed

text \<open>
  C26. Tenants do not hear each other: in every run of the server, whatever handshakes are
  attempted, each connected socket belongs to a user named by a token that verified, sits
  in that user's room only, and has only ever been sent events addressed to that user.
\<close>

theorem sockets_tenant_isolated:
  assumes "server_reaches decode verify cookie_name ss" and "s \<in> set ss"
  shows "\<exists>token u. verify token = Some (s_user s) \<and> c_id (s_user s) = Some u \<and> u \<noteq> [] \<and>
    rooms s = [roomFor u] \<and> (\<forall>x \<in> set (inbox s). fst x = u)"
proof -
  have "\<forall>s \<in> set ss. socket_ok verify s"
    using assms(1) by (induction rule: server_reaches.induct) (simp, rule inv_intros)
  with assms(2) show ?thesis by (auto simp: socket_ok_def)
qed

definition example_verify :: "string \<Rightarrow> claims option" where
  "example_verify t =
     (if t = ''t'' then Some \<lparr>c_id = Some ''u1'', c_email = None, c_username = None\<rparr> else None)"

definition example_socket :: "(string \<times> nat) socket" where
  "example_socket =
     \<lparr>s_id = ''s'', s_user = \<lparr>c_id = Some ''u1'', c_email = None, c_username = None\<rparr>,
      rooms = [''user:u1''], inbox = [(''u1'', 7)]\<rparr>"

lemma example_server: "server_reaches Some example_verify ''sid'' [example_socket]"
proof -
  have "handshake Some example_verify ''sid'' (Some ''a=b; sid=t'') None =
      Inr \<lparr>c_id = Some ''u1'', c_email = None, c_username = None\<rparr>"
    by (simp add: handshake_def handshake_token_def getCookie_def trim_def is_space_def starts_with_def
        example_verify_def)
  from server_next [OF server_init accept [OF this, where sid = "''s''"]]
  have "server_reaches Some example_verify ''sid''
      (connect ''s'' \<lparr>c_id = Some ''u1'', c_email = None, c_username = None\<rparr> [] :: (string \<times> nat) socket list)" .
  from server_next [OF this emit [where u = "''u1''" and e = 7]] show ?thesis
    by (simp add: emitToUser_def connect_def roomFor_def example_socket_def)
qed

theorem sockets_tenant_isolated_witness: "\<exists>u. rooms example_socket = [roomFor u] \<and> c_id (s_user example_socket) = Some u"
  using sockets_tenant_isolated [OF example_server] by fastforce

text \<open>
  A malformed cookie never authenticates and never crashes the handshake: if the decoder
  throws on the session cookie, the connection is refused, also when a valid token was
  offered elsewhere.
\<close>

theorem malformed_cookie_refused:
  assumes "getCookie decode header cookie_name = Inl ()"
  shows "handshake decode verify cookie_name header auth_token = Inl ''Unauthorized''"
  using assms by (simp add: handshake_def handshake_token_def)

theorem malformed_cookie_refused_witness:
  "handshake (\<lambda>_. None) example_verify ''sid'' (Some ''sid=%'') (Some ''t'') = Inl ''Unauthorized''"
  by (rule malformed_cookie_refused) (simp add: getCookie_def trim_def is_space_def starts_with_def)

end
