(* ===== verification/Scheduler.thy ===== *)
theory Scheduler
  imports Incident Crypto Breaker Pool Lock Sockets
begin

text \<open>
  The monitor scheduler, \<open>Backend/src/jobs/scheduler.js\<close>: the loop, one tick, the selection of
  due monitors, and one check with every consequence it has on the monitor, the check log,
  the incidents and the owner's live view. What the outside world answers to a check, its
  clock readings and the ids the database assigns are arguments (\<open>check_env\<close>); the checks
  of a tick are run one after the other in the model, the order in which the pool starts
  them (Pool.thy treats every order).
\<close>

subsection \<open>State\<close>

definition MAX_BATCH :: nat where
  "MAX_BATCH = 500"

definition MIN_INTERVAL_SECONDS :: rat where
  "MIN_INTERVAL_SECONDS = 5"

record stats =
  st_isLeader :: bool
  ticks :: nat
  checksExecuted :: nat
  checksSucceeded :: nat
  checksFailed :: nat
  skippedOverlap :: nat
  skippedBreaker :: nat
  incidentsOpened :: nat
  incidentsClosed :: nat
  errors :: nat
  lastTickAt :: "time option"
  lastTickDurationMs :: "int option"
  maxLagMs :: int

definition no_stats :: stats where
  "no_stats =
     \<lparr>st_isLeader = False, ticks = 0, checksExecuted = 0, checksSucceeded = 0, checksFailed = 0,
      skippedOverlap = 0, skippedBreaker = 0, incidentsOpened = 0, incidentsClosed = 0, errors = 0,
      lastTickAt = None, lastTickDurationMs = None, maxLagMs = 0\<rparr>"

record scheduler =
  tickMs :: int
  sch_concurrency :: int
  shutdownGraceMs :: int
  sch_lock :: lock
  sch_enabled :: bool
  inFlight :: "oid list"
  timer :: "int option" \<comment> \<open>the delay of the pending timer\<close>
  sch_running :: bool
  ticking :: bool
  stats_of :: stats

record scheduler_options =
  opt_tickMs :: "int option"
  opt_concurrency :: "int option"
  opt_grace :: "int option"
  opt_lock :: "lock option"
  opt_enabled :: "bool option"

definition new_scheduler :: "sched_config \<Rightarrow> string \<Rightarrow> scheduler_options \<Rightarrow> scheduler" where
  "new_scheduler cfg instance_id opts =
     \<lparr>tickMs = nullish (opt_tickMs opts) (TICK_MS cfg),
      sch_concurrency = nullish (opt_concurrency opts) (CONCURRENCY cfg),
      shutdownGraceMs = nullish (opt_grace opts) (SHUTDOWN_GRACE_MS cfg),
      sch_lock = nullish (opt_lock opts) (new_lock cfg instance_id),
      sch_enabled = nullish (opt_enabled opts) (ENABLED cfg),
      inFlight = [], timer = None, sch_running = False, ticking = False, stats_of = no_stats\<rparr>"

text \<open>A row of the check log, \<open>Backend/src/models/logs.model.js\<close>.\<close>

record check_row =
  l_monitorId :: oid
  l_status :: status
  l_latency :: "int option"
  l_timings :: timings
  l_statusCode :: "int option"
  l_error :: "string option"
  l_attempts :: nat
  l_timestamp :: time

text \<open>What is pushed to the owner's sockets.\<close>

datatype push =
    Monitor_status oid status status "int option" "int option" time
  | Incident_opened oid oid "string option" time
  | Incident_closed oid oid int "time option"

record ('m, 'g, 'i, 'u, 'l, 'k) backend =
  mon_ops :: "('m, monitor) coll"
  log_ops :: "('g, check_row) coll"
  svc :: "('i, 'u, 'l) services"
  lock_ops :: "('k, lease) coll"

record ('m, 'g, 'i, 'u, 'l, 'k) world =
  mon_st :: 'm
  log_st :: 'g
  svc_st :: "('i, 'u, 'l) stores"
  lock_st :: 'k
  pushes :: "(string \<times> push) list"

text \<open>\<open>emitToUser\<close> on an initialised server: a room-addressed event, none without a user.\<close>

definition push_to :: "oid \<Rightarrow> push \<Rightarrow> ('m, 'g, 'i, 'u, 'l, 'k) world \<Rightarrow> ('m, 'g, 'i, 'u, 'l, 'k) world" where
  "push_to userId e w =
     (if userId = [] then w else w\<lparr>pushes := pushes w @ [(roomFor userId, e)]\<rparr>)"

subsection \<open>One check\<close>

record check_request =
  q_url :: string
  q_timeoutMs :: rat
  q_maxRetries :: int
  q_ignoreTlsErrors :: bool
  q_headers :: headers

definition check_request_of ::
    "sched_config \<Rightarrow> (string option \<Rightarrow> headers) \<Rightarrow> monitor \<Rightarrow> decision \<Rightarrow> check_request" where
  "check_request_of cfg decrypt m b =
     (let isProbe = (mode b = HALF_OPEN)
      in \<lparr>q_url = m_url m, q_timeoutMs = num_or (m_timeout m) 10 * 1000,
          q_maxRetries = (if isProbe then 0 else MAX_RETRIES cfg),
          q_ignoreTlsErrors = (ignoreTlsErrors m = Some True),
          q_headers = decrypt (authHeaders m)\<rparr>)"

definition confirmed :: "monitor \<Rightarrow> status" where
  "confirmed m = nullish (m_status m) UP"

definition fails_needed :: "monitor \<Rightarrow> int" where
  "fails_needed m = max 1 (nullish (failureThreshold m) 3)"

definition successes_needed :: "monitor \<Rightarrow> int" where
  "successes_needed m = max 1 (nullish (successThreshold m) 2)"

definition failures_after :: "monitor \<Rightarrow> bool \<Rightarrow> nat" where
  "failures_after m up = (if up then 0 else num_or (consecutiveFailures m) 0 + 1)"

definition successes_after :: "monitor \<Rightarrow> bool \<Rightarrow> nat" where
  "successes_after m up = (if up then num_or (consecutiveSuccesses m) 0 + 1 else 0)"

definition shouldOpen :: "monitor \<Rightarrow> bool \<Rightarrow> bool" where
  "shouldOpen m up \<longleftrightarrow> \<not> up \<and> confirmed m = UP \<and> int (failures_after m up) \<ge> fails_needed m"

definition shouldClose :: "monitor \<Rightarrow> bool \<Rightarrow> bool" where
  "shouldClose m up \<longleftrightarrow> up \<and> confirmed m = DOWN \<and> int (successes_after m up) \<ge> successes_needed m"

definition interval_ms :: "monitor \<Rightarrow> int" where
  "interval_ms m = \<lfloor>max MIN_INTERVAL_SECONDS (num_or (m_interval m) 60) * 1000\<rfloor>"

record check_update =
  cu_lastChecked :: time
  cu_lastCheckStatus :: status
  cu_lastStatusCode :: "int option"
  cu_failures :: nat
  cu_successes :: nat
  cu_next :: time
  cu_patch :: breaker_patch
  cu_status :: "status option"

definition check_update_of :: "sched_config \<Rightarrow> monitor \<Rightarrow> decision \<Rightarrow> probe_result \<Rightarrow> time \<Rightarrow> check_update" where
  "check_update_of cfg m b result now =
     (let up = (r_status result = UP);
          failures = failures_after m up
      in \<lparr>cu_lastChecked = now, cu_lastCheckStatus = r_status result, cu_lastStatusCode = r_statusCode result,
          cu_failures = failures, cu_successes = successes_after m up,
          cu_next = now + interval_ms m,
          cu_patch = spread_patch (nullish (patch b) no_patch)
            (if up then onCheckSuccess m else onCheckFailure cfg m failures now),
          cu_status = (if shouldClose m up then Some UP else if shouldOpen m up then Some DOWN else None)\<rparr>)"

text \<open>\<open>$set: update\<close> on a document.\<close>

definition apply_update :: "check_update \<Rightarrow> monitor \<Rightarrow> monitor" where
  "apply_update u m =
     (apply_patch (cu_patch u) m)\<lparr>lastChecked := Some (cu_lastChecked u),
        lastCheckStatus := Some (cu_lastCheckStatus u), lastStatusCode := cu_lastStatusCode u,
        consecutiveFailures := Some (cu_failures u), consecutiveSuccesses := Some (cu_successes u),
        nextCheckAt := Some (cu_next u), m_status := later (m_status m) (cu_status u)\<rparr>"

definition check_row_of :: "monitor \<Rightarrow> probe_result \<Rightarrow> time \<Rightarrow> check_row" where
  "check_row_of m result now =
     \<lparr>l_monitorId = m_id m, l_status = r_status result, l_latency = r_responseTime result,
      l_timings = r_timings result, l_statusCode = r_statusCode result, l_error = r_error result,
      l_attempts = nullish (r_attempts result) 1, l_timestamp = now\<rparr>"

text \<open>The world's part of a check: what it answers, when, and the id of an incident it opens.\<close>

record check_env =
  ce_check :: "check_request \<Rightarrow> string + probe_result"
  ce_now :: time
  ce_later :: time
  ce_new_id :: oid

definition incident_transition ::
    "('m, 'g, 'i, 'u, 'l, 'k) backend \<Rightarrow> check_env \<Rightarrow> monitor \<Rightarrow> check_update \<Rightarrow> probe_result \<Rightarrow>
     stats \<times> ('m, 'g, 'i, 'u, 'l, 'k) world \<Rightarrow> stats \<times> ('m, 'g, 'i, 'u, 'l, 'k) world" where
  "incident_transition be env m upd result sw =
     (let (sts, w) = sw; up = (r_status result = UP); merged = apply_update upd m
      in if shouldOpen m up then
           case openIncident (svc be) (ce_new_id env) (ce_later env) merged
               (str_or (r_error result) (''Monitor '' @ m_url m @ '' is down'')) (svc_st w) of
             (st', told, Inl e) \<Rightarrow> (sts\<lparr>errors := errors sts + 1\<rparr>, w\<lparr>svc_st := st'\<rparr>)
           | (st', told, Inr (x, did_open)) \<Rightarrow>
               if did_open
               then (sts\<lparr>incidentsOpened := incidentsOpened sts + 1\<rparr>,
                     push_to (m_userId m)
                       (Incident_opened (m_id m) (case x of None \<Rightarrow> [] | Some i \<Rightarrow> i_id i)
                          (case x of None \<Rightarrow> None | Some i \<Rightarrow> reason i)
                          (case x of None \<Rightarrow> ce_now env | Some i \<Rightarrow> startTime i))
                       (w\<lparr>svc_st := st'\<rparr>))
               else (sts, w\<lparr>svc_st := st'\<rparr>)
         else if shouldClose m up then
           case closeIncident (svc be) (ce_later env) merged (svc_st w) of
             (st', told, Inl e) \<Rightarrow> (sts\<lparr>errors := errors sts + 1\<rparr>, w\<lparr>svc_st := st'\<rparr>)
           | (st', told, Inr (x, did_close)) \<Rightarrow>
               if did_close
               then (sts\<lparr>incidentsClosed := incidentsClosed sts + 1\<rparr>,
                     push_to (m_userId m)
                       (Incident_closed (m_id m) (case x of None \<Rightarrow> [] | Some i \<Rightarrow> i_id i)
                          (case x of None \<Rightarrow> 0 | Some i \<Rightarrow> duration i)
                          (case x of None \<Rightarrow> Some (ce_now env) | Some i \<Rightarrow> endTime i))
                       (w\<lparr>svc_st := st'\<rparr>))
               else (sts, w\<lparr>svc_st := st'\<rparr>)
         else (sts, w))"

definition count_check :: "bool \<Rightarrow> stats \<Rightarrow> stats" where
  "count_check up sts =
     (let s = sts\<lparr>checksExecuted := checksExecuted sts + 1\<rparr>
      in if up then s\<lparr>checksSucceeded := checksSucceeded s + 1\<rparr> else s\<lparr>checksFailed := checksFailed s + 1\<rparr>)"

definition runCheck ::
    "sched_config \<Rightarrow> ('m, 'g, 'i, 'u, 'l, 'k) backend \<Rightarrow> (string option \<Rightarrow> headers) \<Rightarrow> check_env \<Rightarrow>
     monitor \<Rightarrow> decision \<Rightarrow> stats \<times> ('m, 'g, 'i, 'u, 'l, 'k) world \<Rightarrow>
     (stats \<times> ('m, 'g, 'i, 'u, 'l, 'k) world) \<times> (string + probe_result)" where
  "runCheck cfg be decrypt env m b sw =
     (let (sts, w) = sw
      in case ce_check env (check_request_of cfg decrypt m b) of
           Inl e \<Rightarrow> ((sts, w), Inl e)
         | Inr result \<Rightarrow>
             let sts1 = count_check (r_status result = UP) sts;
                 upd = check_update_of cfg m b result (ce_now env)
             in case update_one (mon_ops be) (mon_st w) (\<lambda>d. m_id d = m_id m) (apply_update upd) of
                  (c1, Inl e) \<Rightarrow> ((sts1, w\<lparr>mon_st := c1\<rparr>), Inl (db_message e))
                | (c1, Inr _) \<Rightarrow>
                    (case create_doc (log_ops be) (log_st w) (check_row_of m result (ce_now env)) of
                       (g1, Inl e) \<Rightarrow> ((sts1, w\<lparr>mon_st := c1, log_st := g1\<rparr>), Inl (db_message e))
                     | (g1, Inr _) \<Rightarrow>
                         let w1 = push_to (m_userId m)
                               (Monitor_status (m_id m) (nullish (cu_status upd) (confirmed m)) (r_status result)
                                  (r_statusCode result) (r_responseTime result) (ce_now env))
                               (w\<lparr>mon_st := c1, log_st := g1\<rparr>)
                         in (incident_transition be env m upd result (sts1, w1), Inr result)))"

subsection \<open>One tick\<close>

text \<open>The order of \<open>sort({ nextCheckAt: 1 })\<close>: an absent date comes before every date.\<close>

definition date_key :: "time option \<Rightarrow> int" where
  "date_key d = nullish d (- 8640000000000001)"

definition is_due :: "time \<Rightarrow> monitor \<Rightarrow> bool" where
  "is_due now m \<longleftrightarrow>
     m_active m \<noteq> Some False \<and>
     ((case nextCheckAt m of None \<Rightarrow> False | Some t \<Rightarrow> t \<le> now) \<or>
      (case lastChecked m of None \<Rightarrow> False | Some t \<Rightarrow> t > now))"

definition findDueMonitors :: "('m, monitor) coll \<Rightarrow> time \<Rightarrow> 'm \<Rightarrow> db_error + monitor list" where
  "findDueMonitors ops now c =
     find_many ops c (is_due now) (\<lambda>m. date_key (nextCheckAt m)) (Some MAX_BATCH)"

definition lag_of :: "time \<Rightarrow> monitor list \<Rightarrow> int" where
  "lag_of now due = foldl (\<lambda>mx m. max mx (now - nullish (nextCheckAt m) now)) 0 due"

text \<open>The loop over the due monitors: the in-flight set, the skip counters and the tasks.\<close>

fun plan_tasks ::
    "time \<Rightarrow> monitor list \<Rightarrow> oid list \<times> stats \<Rightarrow> (oid list \<times> stats) \<times> (monitor \<times> decision) list" where
  "plan_tasks now [] fs = (fs, [])"
| "plan_tasks now (m # ms) (fl, sts) =
     (if m_id m \<in> set fl
      then plan_tasks now ms (fl, sts\<lparr>skippedOverlap := skippedOverlap sts + 1\<rparr>)
      else let b = evaluateBreaker m now
           in if \<not> allowed b
              then plan_tasks now ms (fl, sts\<lparr>skippedBreaker := skippedBreaker sts + 1\<rparr>)
              else let (fs', tasks) = plan_tasks now ms (fl @ [m_id m], sts) in (fs', (m, b) # tasks))"

text \<open>Running the tasks; a finished check leaves the in-flight set, a crashed one is counted at the end.\<close>

fun run_tasks ::
    "sched_config \<Rightarrow> ('m, 'g, 'i, 'u, 'l, 'k) backend \<Rightarrow> (string option \<Rightarrow> headers) \<Rightarrow> (oid \<Rightarrow> check_env) \<Rightarrow>
     (monitor \<times> decision) list \<Rightarrow> oid list \<times> stats \<times> ('m, 'g, 'i, 'u, 'l, 'k) world \<Rightarrow>
     (oid list \<times> stats \<times> ('m, 'g, 'i, 'u, 'l, 'k) world) \<times> nat" where
  "run_tasks cfg be decrypt envs [] s = (s, 0)"
| "run_tasks cfg be decrypt envs ((m, b) # ts) (fl, sts, w) =
     (case runCheck cfg be decrypt (envs (m_id m)) m b (sts, w) of
        ((sts', w'), r) \<Rightarrow>
          (case run_tasks cfg be decrypt envs ts (filter (\<lambda>i. i \<noteq> m_id m) fl, sts', w') of
             (s'', crashed) \<Rightarrow> (s'', if is_Inl r then Suc crashed else crashed)))"

text \<open>The \<open>finally\<close> block.\<close>

definition tick_finally :: "time \<Rightarrow> int \<Rightarrow> scheduler \<Rightarrow> scheduler" where
  "tick_finally ended elapsed s =
     s\<lparr>ticking := False,
       stats_of := (stats_of s)\<lparr>lastTickAt := Some ended, lastTickDurationMs := Some elapsed\<rparr>\<rparr>"

text \<open>\<open>locked_at\<close> is the clock reading inside \<open>acquire\<close>.\<close>

record tick_env =
  te_locked :: time
  te_now :: time
  te_ended :: time
  te_elapsed :: int
  te_checks :: "oid \<Rightarrow> check_env"

definition tick ::
    "sched_config \<Rightarrow> ('m, 'g, 'i, 'u, 'l, 'k) backend \<Rightarrow> (string option \<Rightarrow> headers) \<Rightarrow> tick_env \<Rightarrow>
     scheduler \<times> ('m, 'g, 'i, 'u, 'l, 'k) world \<Rightarrow>
     (scheduler \<times> ('m, 'g, 'i, 'u, 'l, 'k) world) \<times> (db_error + unit)" where
  "tick cfg be decrypt env sw =
     (let (s, w) = sw
      in if ticking s then (sw, Inr ())
         else case acquire (lock_ops be) (sch_lock s) (te_locked env) (lock_st w) of
                (k', lk', leader) \<Rightarrow>
                  let s1 = s\<lparr>ticking := True, sch_lock := lk', stats_of := (stats_of s)\<lparr>st_isLeader := leader\<rparr>\<rparr>;
                      w1 = w\<lparr>lock_st := k'\<rparr>;
                      fin = tick_finally (te_ended env) (te_elapsed env)
                  in if \<not> leader then ((fin s1, w1), Inr ())
                     else let s2 = s1\<lparr>stats_of := (stats_of s1)\<lparr>ticks := ticks (stats_of s1) + 1\<rparr>\<rparr>
                          in case findDueMonitors (mon_ops be) (te_now env) (mon_st w1) of
                               Inl e \<Rightarrow> ((fin s2, w1), Inl e)
                             | Inr due \<Rightarrow>
                                 if due = [] then ((fin s2, w1), Inr ())
                                 else let sts3 = (stats_of s2)\<lparr>maxLagMs := lag_of (te_now env) due\<rparr>
                                      in case plan_tasks (te_now env) due (inFlight s2, sts3) of
                                           ((fl4, sts4), tasks) \<Rightarrow>
                                             (case run_tasks cfg be decrypt (te_checks env) tasks (fl4, sts4, w1) of
                                                ((fl5, sts5, w5), crashed) \<Rightarrow>
                                                  ((fin (s2\<lparr>inFlight := fl5,
                                                       stats_of := sts5\<lparr>errors := errors sts5 + crashed\<rparr>\<rparr>), w5),
                                                   Inr ())))"

subsection \<open>The loop\<close>

definition start :: "scheduler \<Rightarrow> scheduler" where
  "start s =
     (if \<not> sch_enabled s then s
      else if sch_running s then s
      else s\<lparr>sch_running := True, timer := Some 0\<rparr>)"

text \<open>The timer fires: one tick, whose failure is counted, then the next timer.\<close>

definition loop ::
    "sched_config \<Rightarrow> ('m, 'g, 'i, 'u, 'l, 'k) backend \<Rightarrow> (string option \<Rightarrow> headers) \<Rightarrow> tick_env \<Rightarrow>
     scheduler \<times> ('m, 'g, 'i, 'u, 'l, 'k) world \<Rightarrow> scheduler \<times> ('m, 'g, 'i, 'u, 'l, 'k) world" where
  "loop cfg be decrypt env sw =
     (if \<not> sch_running (fst sw) then sw
      else case tick cfg be decrypt env sw of
             ((s', w'), r) \<Rightarrow>
               let s'' = (if is_Inl r then s'\<lparr>stats_of := (stats_of s')\<lparr>errors := errors (stats_of s') + 1\<rparr>\<rparr> else s')
               in (if sch_running s'' then s''\<lparr>timer := Some (tickMs s'')\<rparr> else s'', w'))"

text \<open>
  The wait of \<open>stop\<close>: polled every 50 ms until no check is in flight or the deadline has
  come. \<open>busy t\<close> is the number of checks in flight at \<open>t\<close>; the result is when it ends.
\<close>

function drain :: "(time \<Rightarrow> nat) \<Rightarrow> time \<Rightarrow> time \<Rightarrow> time" where
  "drain busy deadline t = (if busy t > 0 \<and> t < deadline then drain busy deadline (t + 50) else t)"
  by pat_completeness auto
termination by (relation "measure (\<lambda>(_, d, t). nat (d - t))") auto

declare drain.simps [simp del]

definition stop ::
    "('k, lease) coll \<Rightarrow> (time \<Rightarrow> nat) \<Rightarrow> time \<Rightarrow> scheduler \<times> 'k \<Rightarrow> (scheduler \<times> 'k) \<times> time" where
  "stop ops busy now sk =
     (let (s, k) = sk
      in if \<not> sch_running s then (sk, now)
         else let s1 = s\<lparr>sch_running := False, timer := None\<rparr>;
                  drained = drain busy (now + shutdownGraceMs s) now;
                  (k', lk') = release ops (sch_lock s1) k
              in ((s1\<lparr>sch_lock := lk', stats_of := (stats_of s1)\<lparr>st_isLeader := False\<rparr>\<rparr>, k'), drained))"

definition getStats :: "scheduler \<Rightarrow> stats \<times> nat" where
  "getStats s = (stats_of s, length (inFlight s))"

end
