(* ===== verification/Scheduler_Props.thy ===== *)
theory Scheduler_Props
  imports Scheduler
begin

text \<open>
  What the scheduler guarantees: the flap detector is a hysteresis over the history of
  results, checks are rate-limited and leave the owner's configuration alone, a monitor's
  status agrees with its incident, a tick starts each due monitor at most once and a
  follower starts none; and where the code departs from its documentation.
\<close>

subsection \<open>Flap detection\<close>

lemma apply_update_simps [simp]:
  "m_id (apply_update u m) = m_id m" "m_userId (apply_update u m) = m_userId m" "m_url (apply_update u m) = m_url m"
  "m_title (apply_update u m) = m_title m" "m_interval (apply_update u m) = m_interval m"
  "m_timeout (apply_update u m) = m_timeout m" "m_active (apply_update u m) = m_active m"
  "failureThreshold (apply_update u m) = failureThreshold m"
  "successThreshold (apply_update u m) = successThreshold m" "authHeaders (apply_update u m) = authHeaders m"
  "ignoreTlsErrors (apply_update u m) = ignoreTlsErrors m"
  "consecutiveFailures (apply_update u m) = Some (cu_failures u)"
  "consecutiveSuccesses (apply_update u m) = Some (cu_successes u)"
  "nextCheckAt (apply_update u m) = Some (cu_next u)" "lastChecked (apply_update u m) = Some (cu_lastChecked u)"
  "m_status (apply_update u m) = later (m_status m) (cu_status u)"
  by (simp_all add: apply_update_def apply_patch_def)

lemma check_update_simps [simp]:
  "cu_failures (check_update_of cfg m b r t) = failures_after m (r_status r = UP)"
  "cu_successes (check_update_of cfg m b r t) = successes_after m (r_status r = UP)"
  "cu_next (check_update_of cfg m b r t) = t + interval_ms m"
  "cu_lastChecked (check_update_of cfg m b r t) = t"
  "cu_status (check_update_of cfg m b r t) =
     (if shouldClose m (r_status r = UP) then Some UP else if shouldOpen m (r_status r = UP) then Some DOWN else None)"
  by (simp_all add: check_update_of_def Let_def)

lemma confirmed_apply_update:
  "confirmed (apply_update (check_update_of cfg m b r t) m) =
     (if shouldClose m (r_status r = UP) then UP else if shouldOpen m (r_status r = UP) then DOWN else confirmed m)"
  by (simp add: confirmed_def)

lemma breaker_state_apply_update [simp]:
  "breaker_state_of (apply_update u m) = breaker_state_of (apply_patch (cu_patch u) m)"
  "breakerRetryAt (apply_update u m) = nullish (set_retryAt (cu_patch u)) (breakerRetryAt m)"
  by (simp_all add: apply_update_def breaker_state_of_def apply_patch_def)

text \<open>
  The reference: read the results, newest first; the status flips when the latest ones are
  all of the other kind, and there are enough of them.
\<close>

definition streak :: "bool \<Rightarrow> bool list \<Rightarrow> nat" where
  "streak up hs = length (takeWhile (\<lambda>x. x = up) hs)"

fun hysteresis :: "int \<Rightarrow> int \<Rightarrow> bool list \<Rightarrow> status" where
  "hysteresis N M [] = UP"
| "hysteresis N M (h # hs) =
     (case hysteresis N M hs of
        UP \<Rightarrow> if \<not> h \<and> int (streak False (h # hs)) \<ge> N then DOWN else UP
      | DOWN \<Rightarrow> if h \<and> int (streak True (h # hs)) \<ge> M then UP else DOWN)"

text \<open>The document after a series of checks, newest first.\<close>

fun after_checks :: "sched_config \<Rightarrow> monitor \<Rightarrow> (probe_result \<times> time \<times> decision) list \<Rightarrow> monitor" where
  "after_checks cfg m [] = m"
| "after_checks cfg m ((r, t, b) # cs) =
     (let m' = after_checks cfg m cs in apply_update (check_update_of cfg m' b r t) m')"

definition results_of :: "(probe_result \<times> time \<times> decision) list \<Rightarrow> bool list" where
  "results_of cs = map (\<lambda>(r, _, _). r_status r = UP) cs"

lemma after_checks_thresholds [simp]:
  "fails_needed (after_checks cfg m cs) = fails_needed m"
  "successes_needed (after_checks cfg m cs) = successes_needed m"
  by (induction cs) (auto simp: fails_needed_def successes_needed_def Let_def)

lemma streak_Cons: "streak up (h # hs) = (if h = up then Suc (streak up hs) else 0)"
  by (simp add: streak_def)

lemma num_or_Some_0 [simp]: "num_or (Some n) 0 = (n::nat)"
  by (simp add: num_or_def)

definition fresh_flap :: "monitor \<Rightarrow> bool" where
  "fresh_flap m \<longleftrightarrow> confirmed m = UP \<and> consecutiveFailures m = Some 0 \<and> consecutiveSuccesses m = Some 0"

lemma flap_state:
  assumes "fresh_flap m"
  shows "confirmed (after_checks cfg m cs) = hysteresis (fails_needed m) (successes_needed m) (results_of cs) \<and>
    consecutiveFailures (after_checks cfg m cs) = Some (streak False (results_of cs)) \<and>
    consecutiveSuccesses (after_checks cfg m cs) = Some (streak True (results_of cs))"
proof (induction cs)
  case Nil
  with assms show ?case by (simp add: fresh_flap_def results_of_def streak_def)
next
  case (Cons c cs)
  obtain r t b where c: "c = (r, t, b)" using prod_cases3 by blast
  let ?m = "after_checks cfg m cs" and ?up = "r_status r = UP"
  have hs: "results_of (c # cs) = ?up # results_of cs" by (simp add: results_of_def c)
  have fa: "failures_after ?m ?up = streak False (results_of (c # cs))"
    and sa: "successes_after ?m ?up = streak True (results_of (c # cs))"
    using Cons by (simp_all add: failures_after_def successes_after_def hs streak_Cons)
  have "confirmed (after_checks cfg m (c # cs)) =
      (if shouldClose ?m ?up then UP else if shouldOpen ?m ?up then DOWN else confirmed ?m)"
    by (simp add: c Let_def confirmed_apply_update)
  also have "\<dots> = hysteresis (fails_needed m) (successes_needed m) (results_of (c # cs))"
    using Cons by (auto simp: shouldClose_def shouldOpen_def fa sa hs split: status.split)
  finally show ?case using fa sa by (simp add: c Let_def)
qed

text \<open>
  C7. Flap detection is a hysteresis: after any series of checks of a new monitor, whatever
  their outcomes, times and breaker decisions, its status is DOWN or UP exactly as the
  reference reads the history (down after N failures in a row, up after M successes in a
  row, otherwise unchanged), and the persisted counters are the lengths of the current
  streaks, so a restart in between changes nothing.
\<close>

theorem flap_detection_is_hysteresis:
  assumes "fresh_flap m"
  shows "confirmed (after_checks cfg m cs) = hysteresis (fails_needed m) (successes_needed m) (results_of cs) \<and>
    consecutiveFailures (after_checks cfg m cs) = Some (streak False (results_of cs)) \<and>
    consecutiveSuccesses (after_checks cfg m cs) = Some (streak True (results_of cs)) \<and>
    after_checks cfg m (cs' @ cs) = after_checks cfg (after_checks cfg m cs) cs'"
proof -
  have "after_checks cfg m (cs' @ cs) = after_checks cfg (after_checks cfg m cs) cs'"
    by (induction cs') auto
  with flap_state [OF assms] show ?thesis by simp
qed

definition closed_decision :: decision where
  "closed_decision = \<lparr>allowed = True, mode = CLOSED, patch = None\<rparr>"

definition example_checks :: "(probe_result \<times> time \<times> decision) list" where
  "example_checks =
     [(example_result DOWN True, 180000, closed_decision), (example_result DOWN True, 120000, closed_decision),
      (example_result DOWN True, 60000, closed_decision)]"

theorem flap_detection_is_hysteresis_witness:
  "confirmed (after_checks default_config example_monitor example_checks) = DOWN \<and>
   confirmed (after_checks default_config example_monitor (tl example_checks)) = UP"
proof -
  have "fresh_flap example_monitor" by (simp add: fresh_flap_def confirmed_def example_monitor_def)
  from flap_detection_is_hysteresis [OF this, of default_config example_checks]
    flap_detection_is_hysteresis [OF this, of default_config "tl example_checks"]
  show ?thesis
    by (simp add: example_checks_def results_of_def example_result_def streak_def fails_needed_def example_monitor_def)
qed

subsection \<open>Cadence\<close>

lemma interval_ms_ge: "5000 \<le> interval_ms m"
proof -
  have "5000 \<le> max MIN_INTERVAL_SECONDS (num_or (m_interval m) 60) * 1000"
    by (simp add: MIN_INTERVAL_SECONDS_def)
  then show ?thesis unfolding interval_ms_def by (simp add: le_floor_iff)
qed



subsection \<open>Probes out of an open breaker\<close>

lemma cu_patch_eq:
  "cu_patch (check_update_of cfg m b r t) = spread_patch (nullish (patch b) no_patch)
     (if r_status r = UP then onCheckSuccess m else onCheckFailure cfg m (failures_after m False) t)"
  by (auto simp: check_update_of_def Let_def)

text \<open>
  A failed probe does not reopen the breaker it was let through: the failure is graded
  on the document read before the probe, which still says OPEN, so what is persisted is
  HALF_OPEN with the expired retry time, and the monitor is admitted again at its next
  due time. The failure of that next check reopens it.
\<close>

theorem failed_probe_leaves_half_open:
  assumes "breaker_state_of m = OPEN" and "allowed (evaluateBreaker m now)" and "r_status r = DOWN"
    and "after = apply_update (check_update_of cfg m (evaluateBreaker m now) r t) m"
  shows "breaker_state_of after = HALF_OPEN \<and> breakerRetryAt after = breakerRetryAt m \<and>
    allowed (evaluateBreaker after t') \<and>
    (r_status r' = DOWN \<longrightarrow>
      breaker_state_of (apply_update (check_update_of cfg after (evaluateBreaker after t') r' t'') after) = OPEN)"
proof -
  have mid: "breaker_state_of after = HALF_OPEN" "breakerRetryAt after = breakerRetryAt m"
    using assms
    by (auto simp: assms(4) cu_patch_eq evaluateBreaker_def onCheckFailure_def spread_patch_def Let_def
        split: if_splits)
  then have "evaluateBreaker after t' = \<lparr>allowed = True, mode = HALF_OPEN, patch = None\<rparr>"
    by (simp add: evaluateBreaker_simps)
  with mid show ?thesis
    by (simp add: cu_patch_eq [of cfg after] onCheckFailure_def Let_def)
qed

definition open_monitor :: "time \<Rightarrow> monitor" where
  "open_monitor retry =
     example_monitor\<lparr>breakerState := Some OPEN, breakerRetryAt := Some retry, breakerConsecutiveOpens := Some 1\<rparr>"

theorem failed_probe_leaves_half_open_witness:
  "breaker_state_of (apply_update (check_update_of default_config (open_monitor 100)
     (evaluateBreaker (open_monitor 100) 200) (example_result DOWN True) 201) (open_monitor 100)) = HALF_OPEN"
  using failed_probe_leaves_half_open [OF _ _ _ refl, where m = "open_monitor 100" and now = 200
      and r = "example_result DOWN True" and t = 201 and cfg = default_config]
  by (simp add: open_monitor_def breaker_state_of_def evaluateBreaker_def example_result_def)

text \<open>
  A check that succeeds always closes the breaker and its failure streak, whatever state
  the breaker was in; a monitor with a closed breaker is always admitted.
\<close>

theorem success_closes_breaker:
  assumes "r_status r = UP"
  shows "breaker_state_of (apply_update (check_update_of cfg m (evaluateBreaker m now) r t) m) = CLOSED \<and>
    consecutiveFailures (apply_update (check_update_of cfg m (evaluateBreaker m now) r t) m) = Some 0 \<and>
    allowed (evaluateBreaker (apply_update (check_update_of cfg m (evaluateBreaker m now) r t) m) t')"
proof -
  let ?m = "apply_update (check_update_of cfg m (evaluateBreaker m now) r t) m"
  have "breaker_state_of (apply_patch (spread_patch p (onCheckSuccess m)) m) = CLOSED"
    if "breaker_state_of m \<noteq> CLOSED \<or> p = no_patch" for p
    using that cb.success_closes [of m] by (auto simp: onCheckSuccess_def spread_patch_def)
  moreover have "breaker_state_of m = CLOSED \<Longrightarrow> patch (evaluateBreaker m now) = None"
    by (simp add: evaluateBreaker_def)
  ultimately have "breaker_state_of ?m = CLOSED"
    using assms by (cases "breaker_state_of m = CLOSED") (auto simp: cu_patch_eq)
  moreover have "consecutiveFailures ?m = Some 0" using assms by (simp add: failures_after_def)
  ultimately show ?thesis using cb.closed_admits by blast
qed

theorem success_closes_breaker_witness:
  "breaker_state_of (apply_update (check_update_of default_config (open_monitor 100)
     (evaluateBreaker (open_monitor 100) 200) (example_result UP False) 201) (open_monitor 100)) = CLOSED"
  using success_closes_breaker [of "example_result UP False" default_config "open_monitor 100" 200 201]
  by (simp add: example_result_def)

subsection \<open>Status and incidents\<close>

text \<open>The incident state a monitor's status calls for.\<close>

definition wanted :: "monitor \<Rightarrow> nat" where
  "wanted m = (if confirmed m = DOWN then 1 else 0)"

lemma open_lives:
  assumes atomic: "mongo_atomic ops docs incident_clash" and ops: "inc_ops sv = ops"
    and none: "lives (docs (inc_st st)) (m_id m) = 0" and fresh: "\<forall>x \<in># docs (inc_st st). i_id x \<noteq> i"
    and run: "openIncident sv i now m why st = (st', told, Inr (x, opened))"
  shows "lives (docs (inc_st st')) (m_id m) = 1"
proof (cases opened)
  case True
  with run obtain inc c1 where
    up: "upsert_one ops (inc_st st) (ongoing_of (m_id m)) (\<lambda>d. d) (new_incident i m why now) = (c1, Inr (inc, False))"
    and sum: "add_summary sv why inc c1 = (inc_st st', the x)"
    using openIncident_opened [of sv i now m why st st' told x] ops by metis
  from lives_open [OF mongo_atomic.axioms(1) [OF atomic] up, of "m_id m"] none
    lives_add_summary [of sv docs incident_clash, OF _ sum] atomic ops
  show ?thesis by simp
next
  case False
  from openIncident_quiet [OF run] False obtain a where
    up: "upsert_one ops (inc_st st) (ongoing_of (m_id m)) (\<lambda>d. d) (new_incident i m why now) = (inc_st st', a)"
    and a: "\<forall>inc. a \<noteq> Inr (inc, False)" using ops by auto
  show ?thesis
  proof (cases a)
    case (Inl e)
    then have "e = DuplicateKey"
      using run up ops False by (auto simp: openIncident_def Let_def split: db_error.splits)
    with Inl up mongo.upsert_dup [OF mongo_atomic.axioms(1) [OF atomic]]
    have "(\<exists>d M. docs (inc_st st) = add_mset d M \<and> ongoing_of (m_id m) d) \<or>
        (\<exists>y \<in># docs (inc_st st). incident_clash (new_incident i m why now) y)" by blast
    moreover have "\<not> incident_clash (new_incident i m why now) y" if "y \<in># docs (inc_st st)" for y
      using that none fresh by (auto simp: incident_clash_def new_incident_def lives_zero ongoing_of_def)
    ultimately show ?thesis using none by auto
  next
    case (Inr p)
    with a obtain inc where "a = Inr (inc, True)" by (cases p) auto
    with lives_open [OF mongo_atomic.axioms(1) [OF atomic], of "inc_st st" m i why now "inc_st st'" inc True "m_id m"] up none
    show ?thesis by auto
  qed
qed

lemma push_to_frame [simp]:
  "mon_st (push_to u e w) = mon_st w" "log_st (push_to u e w) = log_st w" "svc_st (push_to u e w) = svc_st w"
  "lock_st (push_to u e w) = lock_st w"
  by (simp_all add: push_to_def)

lemma transition_lives:
  assumes atomic: "mongo_atomic (inc_ops (svc be)) docs incident_clash"
    and fresh: "\<forall>x \<in># docs (inc_st (svc_st w)). i_id x \<noteq> ce_new_id env"
    and agree: "lives (docs (inc_st (svc_st w))) (m_id m) = wanted m"
    and run: "incident_transition be env m (check_update_of cfg m b r t) r (sts, w) = (sts', w')"
    and ok: "errors sts' = errors sts"
  shows "lives (docs (inc_st (svc_st w'))) (m_id m) =
      (if shouldClose m (r_status r = UP) then 0 else if shouldOpen m (r_status r = UP) then 1 else wanted m) \<and>
    mon_st w' = mon_st w"
proof -
  let ?up = "r_status r = UP" and ?merged = "apply_update (check_update_of cfg m b r t) m"
  have excl: "\<not> (shouldOpen m ?up \<and> shouldClose m ?up)" by (simp add: shouldOpen_def shouldClose_def)
  consider (opens) "shouldOpen m ?up" | (closes) "shouldClose m ?up" "\<not> shouldOpen m ?up"
    | (neither) "\<not> shouldOpen m ?up" "\<not> shouldClose m ?up" by blast
  then show ?thesis
  proof cases
    case opens
    let ?why = "str_or (r_error r) (''Monitor '' @ m_url m @ '' is down'')"
    obtain st' told a where
      o: "openIncident (svc be) (ce_new_id env) (ce_later env) ?merged ?why (svc_st w) = (st', told, a)"
      using prod_cases3 by blast
    with run opens ok obtain x did where a: "a = Inr (x, did)"
      by (cases a) (auto simp: incident_transition_def Let_def split: prod.splits)
    have "lives (docs (inc_st (svc_st w))) (m_id ?merged) = 0"
      using agree opens by (simp add: wanted_def shouldOpen_def)
    from open_lives [OF atomic refl this fresh o [unfolded a]] run opens o a excl
    show ?thesis by (auto simp: incident_transition_def Let_def split: if_splits)
  next
    case closes
    obtain st' told a where c: "closeIncident (svc be) (ce_later env) ?merged (svc_st w) = (st', told, a)"
      using prod_cases3 by blast
    with run closes ok obtain x did where a: "a = Inr (x, did)"
      by (cases a) (auto simp: incident_transition_def Let_def split: prod.splits)
    have one: "lives (docs (inc_st (svc_st w))) (m_id ?merged) = 1"
      using agree closes by (simp add: wanted_def shouldClose_def)
    have "did"
      using closeIncident_quiet [OF mongo_atomic.axioms(1) [OF atomic] refl, of "ce_later env" ?merged "svc_st w" st' told x]
        one c a by (cases did) auto
    with closeIncident_closed [OF atomic refl, of "ce_later env" ?merged "svc_st w" st' told x "m_id m"] one c a
    have "lives (docs (inc_st st')) (m_id m) = 0" by simp
    with run closes c a show ?thesis by (auto simp: incident_transition_def Let_def split: if_splits)
  next
    case neither
    with run agree show ?thesis by (auto simp: incident_transition_def Let_def)
  qed
qed

lemma runCheck_Inr:
  assumes "runCheck cfg be decrypt env m b (sts, w) = ((sts', w'), Inr result)"
  obtains c1 s g1 row w1 where
    "update_one (mon_ops be) (mon_st w) (\<lambda>d. m_id d = m_id m)
       (apply_update (check_update_of cfg m b result (ce_now env))) = (c1, Inr s)"
    and "create_doc (log_ops be) (log_st w) (check_row_of m result (ce_now env)) = (g1, Inr row)"
    and "mon_st w1 = c1" and "log_st w1 = g1" and "svc_st w1 = svc_st w"
    and "incident_transition be env m (check_update_of cfg m b result (ce_now env)) result
       (count_check (r_status result = UP) sts, w1) = (sts', w')"
proof -
  from assms have res: "ce_check env (check_request_of cfg decrypt m b) = Inr result"
    by (auto simp: runCheck_def Let_def split: sum.splits prod.splits)
  from assms res obtain c1 s where
    u: "update_one (mon_ops be) (mon_st w) (\<lambda>d. m_id d = m_id m)
       (apply_update (check_update_of cfg m b result (ce_now env))) = (c1, Inr s)"
    by (auto simp: runCheck_def Let_def split: sum.splits prod.splits)
  from assms res u obtain g1 row where
    g: "create_doc (log_ops be) (log_st w) (check_row_of m result (ce_now env)) = (g1, Inr row)"
    by (auto simp: runCheck_def Let_def split: sum.splits prod.splits)
  let ?w1 = "push_to (m_userId m)
      (Monitor_status (m_id m) (nullish (cu_status (check_update_of cfg m b result (ce_now env))) (confirmed m))
        (r_status result) (r_statusCode result) (r_responseTime result) (ce_now env))
      (w\<lparr>mon_st := c1, log_st := g1\<rparr>)"
  from assms res u g have
    "incident_transition be env m (check_update_of cfg m b result (ce_now env)) result
       (count_check (r_status result = UP) sts, ?w1) = (sts', w')"
    by (simp add: runCheck_def Let_def)
  with u g show thesis by (intro that [of c1 s g1 row ?w1]) simp_all
qed

lemma errors_count_check [simp]: "errors (count_check up sts) = errors sts"
  by (simp add: count_check_def Let_def)

text \<open>
  C33. Status and incidents agree: if a monitor is stored as DOWN exactly when it has an
  incident in progress, a check that completes without an error leaves it so, on the
  stored document, and changes none of what the owner configured; and it leaves every
  other monitor as it was.
\<close>

theorem status_agrees_with_incident:
  assumes "mongo (mon_ops be) mdocs mclash" and "mongo_atomic (inc_ops (svc be)) idocs incident_clash"
    and "mdocs (mon_st w) = add_mset d M" and "m_id d = m_id m" and "\<forall>x \<in># M. m_id x \<noteq> m_id m"
    and "confirmed d = confirmed m" and "lives (idocs (inc_st (svc_st w))) (m_id m) = wanted d"
    and "\<forall>x \<in># idocs (inc_st (svc_st w)). i_id x \<noteq> ce_new_id env"
    and "runCheck cfg be decrypt env m b (sts, w) = ((sts', w'), Inr result)" and "errors sts' = errors sts"
  shows "\<exists>d'. mdocs (mon_st w') = add_mset d' M \<and> lives (idocs (inc_st (svc_st w'))) (m_id m) = wanted d' \<and>
    m_id d' = m_id d \<and> m_userId d' = m_userId d \<and> m_url d' = m_url d \<and> m_interval d' = m_interval d \<and>
    m_active d' = m_active d \<and> failureThreshold d' = failureThreshold d \<and> authHeaders d' = authHeaders d"
proof -
  from assms(9) obtain c1 s g1 row w1 where
    u: "update_one (mon_ops be) (mon_st w) (\<lambda>d. m_id d = m_id m)
       (apply_update (check_update_of cfg m b result (ce_now env))) = (c1, Inr s)"
    and w1: "mon_st w1 = c1" "svc_st w1 = svc_st w"
    and t: "incident_transition be env m (check_update_of cfg m b result (ce_now env)) result
       (count_check (r_status result = UP) sts, w1) = (sts', w')"
    by (rule runCheck_Inr)
  let ?u = "apply_update (check_update_of cfg m b result (ce_now env))"
  have "s \<noteq> None"
  proof
    assume "s = None"
    with u have "update_one (mon_ops be) (mon_st w) (\<lambda>d. m_id d = m_id m) ?u = (c1, Inr None)" by simp
    from mongo.update_none [OF assms(1) this] assms(3,4) show False by auto
  qed
  then obtain x where "update_one (mon_ops be) (mon_st w) (\<lambda>d. m_id d = m_id m) ?u = (c1, Inr (Some x))"
    using u by auto
  from mongo.update_contract [OF assms(1) this] obtain d0 M0 where
    d0: "mdocs (mon_st w) = add_mset d0 M0" "m_id d0 = m_id m" "mdocs c1 = add_mset (?u d0) M0"
    by blast
  have "d0 = d \<and> M0 = M" using d0(1,2) assms(3,5) by (auto simp: add_eq_conv_ex)
  then have docs: "mdocs c1 = add_mset (?u d) M" using d0 by simp
  have agree: "lives (idocs (inc_st (svc_st w1))) (m_id m) = wanted m"
    using assms(6,7) w1 by (simp add: wanted_def)
  have fresh: "\<forall>x \<in># idocs (inc_st (svc_st w1)). i_id x \<noteq> ce_new_id env" using assms(8) w1 by simp
  from transition_lives [OF assms(2) fresh agree t] assms(10)
  have after: "lives (idocs (inc_st (svc_st w'))) (m_id m) =
      (if shouldClose m (r_status result = UP) then 0 else if shouldOpen m (r_status result = UP) then 1 else wanted m)"
    and mon: "mon_st w' = c1" using w1 by simp_all
  have "confirmed (?u d) =
      (if shouldClose m (r_status result = UP) then UP else if shouldOpen m (r_status result = UP) then DOWN else confirmed d)"
    by (simp add: confirmed_def)
  with after assms(6) have "lives (idocs (inc_st (svc_st w'))) (m_id m) = wanted (?u d)" by (auto simp: wanted_def)
  with docs mon show ?thesis by (intro exI [of _ "?u d"]) simp
qed

text \<open>A backend in memory, and one whose incident collection refuses every upsert.\<close>

definition same_monitor :: "monitor \<Rightarrow> monitor \<Rightarrow> bool" where
  "same_monitor a b \<longleftrightarrow> m_id a = m_id b"

type_synonym mem_backend = "(monitor list, check_row list, incident list, user list, log_row list, lease list) backend"
type_synonym mem_world = "(monitor list, check_row list, incident list, user list, log_row list, lease list) world"

definition example_backend :: mem_backend where
  "example_backend =
     \<lparr>mon_ops = list_coll same_monitor, log_ops = list_coll (\<lambda>_ _. False), svc = example_services,
      lock_ops = list_coll same_lock\<rparr>"

definition faulty_backend :: mem_backend where
  "faulty_backend = example_backend\<lparr>svc := example_services\<lparr>inc_ops :=
     (list_coll incident_clash)\<lparr>upsert_one := (\<lambda>c _ _ _. (c, Inl (DbFailure ''timeout'')))\<rparr>\<rparr>\<rparr>"

definition example_world :: "monitor list \<Rightarrow> mem_world" where
  "example_world ms =
     \<lparr>mon_st = ms, log_st = [], svc_st = example_stores [], lock_st = [], pushes = []\<rparr>"

definition failing_env :: check_env where
  "failing_env =
     \<lparr>ce_check = (\<lambda>_. Inr (example_result DOWN False)), ce_now = 1000, ce_later = 1001, ce_new_id = ''i''\<rparr>"

definition shaky_monitor :: monitor where
  "shaky_monitor = example_monitor\<lparr>consecutiveFailures := Some 2\<rparr>"

lemma shaky_simps [simp]:
  "m_id shaky_monitor = ''m''" "m_userId shaky_monitor = ''u''" "confirmed shaky_monitor = UP"
  "m_url shaky_monitor = ''https://a/''" "shouldOpen shaky_monitor False" "\<not> shouldClose shaky_monitor False"
  by (simp_all add: shaky_monitor_def example_monitor_def confirmed_def shouldOpen_def shouldClose_def
      failures_after_def fails_needed_def)

lemma example_result_simps [simp]:
  "r_status (example_result st again) = st" "r_error (example_result st again) = None"
  "r_attempts (example_result st again) = None"
  by (simp_all add: example_result_def)

lemma example_backend_simps [simp]:
  "mon_ops example_backend = list_coll same_monitor" "log_ops example_backend = list_coll (\<lambda>_ _. False)"
  "svc example_backend = example_services" "inc_ops example_services = list_coll incident_clash"
  "mon_ops faulty_backend = list_coll same_monitor" "log_ops faulty_backend = list_coll (\<lambda>_ _. False)"
  by (simp_all add: example_backend_def example_services_def faulty_backend_def)

definition check_of :: "mem_backend \<Rightarrow> (stats \<times> mem_world) \<times> (string + probe_result)" where
  "check_of be = runCheck default_config be (\<lambda>_. []) failing_env shaky_monitor closed_decision
     (no_stats, example_world [shaky_monitor])"

lemma failing_env_simps [simp]:
  "ce_check failing_env q = Inr (example_result DOWN False)" "ce_now failing_env = 1000"
  "ce_later failing_env = 1001" "ce_new_id failing_env = ''i''"
  by (simp_all add: failing_env_def)

lemma check_of_example:
  "\<exists>sts' w'. check_of example_backend = ((sts', w'), Inr (example_result DOWN False)) \<and> errors sts' = 0"
  unfolding check_of_def runCheck_def
  by (simp add: example_world_def list_update_one_def list_create_def incident_transition_def openIncident_def
      list_upsert_def example_stores_def add_summary_def example_services_def notify_owner_def loadOwner_def
      list_find_def example_payload_def user_defaults_def dispatch_def count_check_def no_stats_def
      push_to_def Let_def)

theorem status_agrees_with_incident_witness:
  "\<exists>sts' w' d'. check_of example_backend = ((sts', w'), Inr (example_result DOWN False)) \<and>
     mset (mon_st w') = {#d'#} \<and> lives (mset (inc_st (svc_st w'))) ''m'' = wanted d'"
proof -
  from check_of_example obtain sts' w' where
    r: "check_of example_backend = ((sts', w'), Inr (example_result DOWN False))" "errors sts' = 0" by blast
  from status_agrees_with_incident [where be = example_backend and mdocs = mset and idocs = mset and
      mclash = same_monitor and M = "{#}" and d = shaky_monitor and m = shaky_monitor,
      OF _ _ _ _ _ _ _ _ r(1) [unfolded check_of_def]]
  have "\<exists>d'. mset (mon_st w') = add_mset d' {#} \<and> lives (mset (inc_st (svc_st w'))) ''m'' = wanted d'"
    using r(2) mem.mongo_axioms [of same_monitor] mem_atomic.mongo_atomic_axioms [of incident_clash]
    by (auto simp: example_world_def example_stores_def wanted_def no_stats_def)
  with r(1) show ?thesis by auto
qed

text \<open>
  A failed opening is never retried: the check stores DOWN before it opens the incident,
  and the threshold is only evaluated for a monitor stored as UP, so when the opening
  fails the monitor stays DOWN with no incident, and no later failure opens one until it
  has recovered.
\<close>

theorem failed_opening_not_retried:
  "(shouldOpen m False \<and> r_status r = DOWN \<longrightarrow>
      \<not> shouldOpen (apply_update (check_update_of cfg m b r t) m) up) \<and>
   (\<exists>sts' w'. check_of faulty_backend = ((sts', w'), Inr (example_result DOWN False)) \<and> errors sts' = 1 \<and>
      map confirmed (mon_st w') = [DOWN] \<and> inc_st (svc_st w') = [])"
proof -
  have "\<exists>sts' w'. check_of faulty_backend = ((sts', w'), Inr (example_result DOWN False)) \<and> errors sts' = 1 \<and>
      map confirmed (mon_st w') = [DOWN] \<and> inc_st (svc_st w') = []"
    unfolding check_of_def runCheck_def
    by (simp add: example_world_def list_update_one_def list_create_def incident_transition_def openIncident_def
        faulty_backend_def example_stores_def count_check_def no_stats_def push_to_def confirmed_apply_update Let_def)
  moreover have "\<not> shouldOpen (apply_update (check_update_of cfg m b r t) m) up"
    if "shouldOpen m False" "r_status r = DOWN"
    using that by (simp add: shouldOpen_def [of "apply_update _ _"] confirmed_apply_update) (simp add: shouldClose_def)
  ultimately show ?thesis by blast
qed

theorem failed_opening_not_retried_witness:
  "\<not> shouldOpen (apply_update (check_update_of default_config shaky_monitor closed_decision
      (example_result DOWN False) 0) shaky_monitor) False"
  using failed_opening_not_retried [of shaky_monitor "example_result DOWN False" default_config closed_decision 0 False]
  by simp

subsection \<open>One tick\<close>

definition task_ids :: "(monitor \<times> decision) list \<Rightarrow> oid list" where
  "task_ids ts = map (\<lambda>t. m_id (fst t)) ts"

lemma task_ids_simps [simp]: "task_ids [] = []" "task_ids ((m, b) # ts) = m_id m # task_ids ts"
  by (simp_all add: task_ids_def)

lemma plan_tasks_sound:
  assumes "plan_tasks now ms (fl, sts) = ((fl', sts'), ts)"
  shows "fl' = fl @ task_ids ts \<and> distinct (task_ids ts) \<and> set (task_ids ts) \<inter> set fl = {} \<and>
    (\<forall>t \<in> set ts. fst t \<in> set ms \<and> snd t = evaluateBreaker (fst t) now \<and> allowed (snd t)) \<and>
    (\<forall>m \<in> set ms. allowed (evaluateBreaker m now) \<longrightarrow> m_id m \<in> set fl') \<and>
    length ts + (skippedOverlap sts' - skippedOverlap sts) + (skippedBreaker sts' - skippedBreaker sts) = length ms \<and>
    skippedOverlap sts \<le> skippedOverlap sts' \<and> skippedBreaker sts \<le> skippedBreaker sts' \<and>
    checksExecuted sts' = checksExecuted sts"
  using assms
proof (induction ms arbitrary: fl sts ts)
  case Nil
  then show ?case by simp
next
  case (Cons m ms)
  consider (overlap) "m_id m \<in> set fl" | (refused) "m_id m \<notin> set fl" "\<not> allowed (evaluateBreaker m now)"
    | (run) "m_id m \<notin> set fl" "allowed (evaluateBreaker m now)" by blast
  then show ?case
  proof cases
    case overlap
    with Cons.prems Cons.IH [of fl "sts\<lparr>skippedOverlap := skippedOverlap sts + 1\<rparr>" ts] show ?thesis by auto
  next
    case refused
    with Cons.prems Cons.IH [of fl "sts\<lparr>skippedBreaker := skippedBreaker sts + 1\<rparr>" ts] show ?thesis
      by (auto simp: Let_def)
  next
    case run
    with Cons.prems obtain ts' where
      p: "plan_tasks now ms (fl @ [m_id m], sts) = ((fl', sts'), ts')" "ts = (m, evaluateBreaker m now) # ts'"
      by (auto simp: Let_def split: prod.splits)
    from Cons.IH [OF p(1)] p(2) run show ?thesis by auto
  qed
qed

lemma run_tasks_inflight:
  "run_tasks cfg be decrypt envs ts (fl, sts, w) = ((fl', sts', w'), crashed) \<Longrightarrow>
    fl' = filter (\<lambda>i. i \<notin> set (task_ids ts)) fl \<and> crashed \<le> length ts"
proof (induction ts arbitrary: fl sts w crashed)
  case (Cons t ts)
  obtain m b where t: "t = (m, b)" by (cases t)
  obtain sw r where rc: "runCheck cfg be decrypt (envs (m_id m)) m b (sts, w) = (sw, r)" by fastforce
  obtain sts1 w1 where sw: "sw = (sts1, w1)" by fastforce
  obtain s c where rt: "run_tasks cfg be decrypt envs ts (filter (\<lambda>i. i \<noteq> m_id m) fl, sts1, w1) = (s, c)" by fastforce
  from Cons.prems rc sw rt t have eq: "s = (fl', sts', w')" "crashed \<le> Suc c"
    by (auto split: if_splits)
  from Cons.IH [OF rt [unfolded eq(1)]] eq(2) t show ?case
    by (auto intro: filter_cong)
qed simp

text \<open>
  Each due monitor is started at most once per tick: the tasks of a tick are monitors of
  the batch, pairwise distinct and none already in flight, each admitted by its breaker;
  every monitor of the batch that its breaker admits is in flight afterwards; and every
  monitor of the batch is a task or is counted as skipped.
\<close>

theorem tick_plan_sound:
  assumes "plan_tasks now due (fl, sts) = ((fl', sts'), ts)"
  shows "distinct (task_ids ts) \<and> set (task_ids ts) \<inter> set fl = {} \<and> fl' = fl @ task_ids ts \<and>
    (\<forall>t \<in> set ts. fst t \<in> set due \<and> allowed (evaluateBreaker (fst t) now)) \<and>
    (\<forall>m \<in> set due. allowed (evaluateBreaker m now) \<longrightarrow> m_id m \<in> set fl') \<and>
    length ts + (skippedOverlap sts' - skippedOverlap sts) + (skippedBreaker sts' - skippedBreaker sts) = length due"
  using plan_tasks_sound [OF assms] by auto

theorem tick_plan_sound_witness:
  "\<exists>fl' sts' ts. plan_tasks 50 [open_monitor 100, example_monitor\<lparr>m_id := ''n''\<rparr>] ([], no_stats) = ((fl', sts'), ts) \<and>
     fl' = [''n''] \<and> fl' = task_ids ts \<and> distinct (task_ids ts)"
proof -
  let ?n = "example_monitor\<lparr>m_id := ''n''\<rparr>"
  have b: "\<not> allowed (evaluateBreaker (open_monitor 100) 50)" "allowed (evaluateBreaker ?n 50)"
    by (simp_all add: evaluateBreaker_def breaker_state_of_def open_monitor_def example_monitor_def)
  have p: "plan_tasks 50 [open_monitor 100, ?n] ([], no_stats) =
      (([''n''], no_stats\<lparr>skippedBreaker := skippedBreaker no_stats + 1\<rparr>), [(?n, evaluateBreaker ?n 50)])"
    by (simp add: b Let_def)
  from tick_plan_sound [OF p] have "distinct (task_ids [(?n, evaluateBreaker ?n 50)])" by blast
  with p show ?thesis
    by (intro exI [of _ "[''n'']"] exI [of _ "no_stats\<lparr>skippedBreaker := skippedBreaker no_stats + 1\<rparr>"]
        exI [of _ "[(?n, evaluateBreaker ?n 50)]"]) simp
qed

text \<open>
  A follower checks nothing, and a tick cleans up after itself: without the lease a tick
  changes no monitor, no log, no incident and pushes nothing; whatever happens, a tick that
  was not already under way ends with its re-entrancy flag cleared, its end recorded and
  the set of checks in flight as it found it; a second tick meanwhile is a no-op.
\<close>

theorem tick_leadership_and_cleanup:
  assumes "tick cfg be decrypt env (s, w) = ((s', w'), r)"
  shows "(\<not> ticking s \<longrightarrow> \<not> ticking s' \<and> inFlight s' = inFlight s \<and> lastTickAt (stats_of s') = Some (te_ended env)) \<and>
    (\<not> ticking s \<and> \<not> isLeader (sch_lock s') \<longrightarrow>
      mon_st w' = mon_st w \<and> log_st w' = log_st w \<and> svc_st w' = svc_st w \<and> pushes w' = pushes w \<and>
      checksExecuted (stats_of s') = checksExecuted (stats_of s) \<and> ticks (stats_of s') = ticks (stats_of s)) \<and>
    (ticking s \<longrightarrow> (s', w') = (s, w))"
proof (cases "ticking s")
  case True
  with assms show ?thesis by (simp add: tick_def)
next
  case False
  obtain k' lk' leader where acq: "acquire (lock_ops be) (sch_lock s) (te_locked env) (lock_st w) = (k', lk', leader)"
    using prod_cases3 by blast
  have lead: "isLeader lk' = leader" using sl.acq_reports [OF acq] .
  show ?thesis
  proof (cases leader)
    case no: False
    with assms False acq lead show ?thesis by (auto simp: tick_def tick_finally_def Let_def)
  next
    case yes: True
    let ?w = "w\<lparr>lock_st := k'\<rparr>"
    show ?thesis
    proof (cases "findDueMonitors (mon_ops be) (te_now env) (mon_st ?w)")
      case (Inl e)
      with assms False acq lead yes show ?thesis by (auto simp: tick_def tick_finally_def Let_def)
    next
      case (Inr due)
      show ?thesis
      proof (cases "due = []")
        case True
        with assms False acq lead yes Inr show ?thesis by (auto simp: tick_def tick_finally_def Let_def)
      next
        case due: False
        let ?sts = "(stats_of s)\<lparr>st_isLeader := True, ticks := Suc (ticks (stats_of s)), maxLagMs := lag_of (te_now env) due\<rparr>"
        obtain fl4 sts4 tasks where p: "plan_tasks (te_now env) due (inFlight s, ?sts) = ((fl4, sts4), tasks)"
          by (rule pair_pair_cases)
        obtain fl5 sts5 w5 crashed where
          rt: "run_tasks cfg be decrypt (te_checks env) tasks (fl4, sts4, ?w) = ((fl5, sts5, w5), crashed)"
          by (rule pair_triple_cases)
        from plan_tasks_sound [OF p] have fl4: "fl4 = inFlight s @ task_ids tasks" "set (task_ids tasks) \<inter> set (inFlight s) = {}"
          by auto
        have "fl5 = inFlight s" using run_tasks_inflight [OF rt] fl4 by (auto simp: filter_id_conv)
        with assms False acq lead yes Inr due p rt show ?thesis
          by (auto simp: tick_def tick_finally_def Let_def)
      qed
    qed
  qed
qed

definition quiet_env :: tick_env where
  "quiet_env = \<lparr>te_locked = 0, te_now = 1, te_ended = 2, te_elapsed = 2, te_checks = (\<lambda>_. failing_env)\<rparr>"

definition example_scheduler :: "string \<Rightarrow> scheduler" where
  "example_scheduler i =
     new_scheduler default_config i
       \<lparr>opt_tickMs = None, opt_concurrency = None, opt_grace = None, opt_lock = None, opt_enabled = None\<rparr>"

text \<open>An instance ticking while another one holds the lease.\<close>

theorem tick_leadership_and_cleanup_witness:
  "\<exists>s' w' r. tick default_config example_backend (\<lambda>_. []) quiet_env
      (example_scheduler ''b'', (example_world [example_monitor])\<lparr>lock_st := [lease_by ''a'' 0 0]\<rparr>) = ((s', w'), r) \<and>
    mon_st w' = [example_monitor] \<and> \<not> ticking s'"
proof -
  let ?s = "example_scheduler ''b''" and ?w = "(example_world [example_monitor])\<lparr>lock_st := [lease_by ''a'' 0 0]\<rparr>"
  obtain s' w' r where t: "tick default_config example_backend (\<lambda>_. []) quiet_env (?s, ?w) = ((s', w'), r)"
    by (rule pair_pair_cases)
  have "acquire (lock_ops example_backend) (sch_lock ?s) (te_locked quiet_env) (lock_st ?w) =
      ([lease_by ''a'' 0 0], sch_lock ?s, False)"
    by (simp add: acquire_def list_upsert_def list_update_one_def lease_free_or_ours_def lease_by_def
        lease_inserted_def same_lock_def example_backend_def example_scheduler_def new_scheduler_def new_lock_def quiet_env_def)
  then have "\<not> isLeader (sch_lock s')" "\<not> ticking ?s"
    using t by (auto simp: tick_def tick_finally_def Let_def example_scheduler_def new_scheduler_def new_lock_def)
  with tick_leadership_and_cleanup [OF t] t show ?thesis by (simp add: example_world_def)
qed

subsection \<open>Starvation\<close>

lemma plan_none:
  "\<forall>m \<in> set ms. \<not> allowed (evaluateBreaker m now) \<Longrightarrow> snd (plan_tasks now ms (fl, sts)) = []"
  by (induction ms arbitrary: sts) (auto simp: Let_def)

lemma sort_key_sorted: "sorted (map f xs) \<Longrightarrow> sort_key f xs = xs"
  by (rule properties_for_sort_key) simp_all

definition blocked :: "nat \<Rightarrow> monitor" where
  "blocked i = (open_monitor 900000)\<lparr>m_id := show_nat i, nextCheckAt := Some 0\<rparr>"

definition victim :: monitor where
  "victim = example_monitor\<lparr>m_id := ''victim'', nextCheckAt := Some 1\<rparr>"

definition crowded :: "monitor list" where
  "crowded = map blocked [0..<MAX_BATCH] @ [victim]"

lemma is_due_blocked: "0 \<le> t \<Longrightarrow> is_due t (blocked i)"
  by (simp add: is_due_def blocked_def open_monitor_def example_monitor_def)

lemma is_due_victim: "1 \<le> t \<Longrightarrow> is_due t victim"
  by (simp add: is_due_def victim_def example_monitor_def)

lemma crowded_batch:
  assumes "1 \<le> t"
  shows "findDueMonitors (list_coll same_monitor) t crowded = Inr (map blocked [0..<MAX_BATCH])"
proof -
  have "filter (is_due t) crowded = crowded"
    using assms is_due_victim [OF assms] by (auto simp: crowded_def is_due_blocked filter_id_conv)
  moreover have "map (\<lambda>m. date_key (nextCheckAt m)) crowded = replicate MAX_BATCH 0 @ [1]"
    by (simp add: crowded_def blocked_def victim_def date_key_def comp_def map_replicate_const)
  then have "sort_key (\<lambda>m. date_key (nextCheckAt m)) crowded = crowded"
    by (intro sort_key_sorted) (simp add: sorted_append sorted_replicate)
  ultimately show ?thesis by (simp add: findDueMonitors_def list_find_def crowded_def)
qed

text \<open>
  Open breakers can starve the others: a monitor refused by its breaker keeps its due
  time, so five hundred of them fill the batch at every tick, and a healthy monitor due
  right after them is not checked at all for as long as their breakers stay open.
\<close>

theorem open_breakers_starve_others:
  assumes "1 \<le> t" and "t < 900000"
  shows "victim \<in> set crowded \<and> is_due t victim \<and> allowed (evaluateBreaker victim t) \<and>
    (\<exists>due. findDueMonitors (list_coll same_monitor) t crowded = Inr due \<and>
       snd (plan_tasks t due ([], no_stats)) = [])"
proof -
  have "\<forall>m \<in> set (map blocked [0..<MAX_BATCH]). \<not> allowed (evaluateBreaker m t)"
    using assms(2) by (auto simp: blocked_def open_monitor_def evaluateBreaker_def breaker_state_of_def)
  moreover have "is_due t victim \<and> allowed (evaluateBreaker victim t)"
    using assms(1) by (simp add: is_due_def victim_def example_monitor_def evaluateBreaker_def breaker_state_of_def)
  ultimately show ?thesis using crowded_batch [OF assms(1)] plan_none by (simp add: crowded_def)
qed

theorem open_breakers_starve_others_witness:
  "is_due 600000 victim \<and> (\<exists>due. findDueMonitors (list_coll same_monitor) 600000 crowded = Inr due \<and>
     snd (plan_tasks 600000 due ([], no_stats)) = [])"
  using open_breakers_starve_others [of 600000] by simp

subsection \<open>Shutdown\<close>

lemma drain_bounds:
  "(busy (drain busy d t) = 0 \<or> d \<le> drain busy d t) \<and> t \<le> drain busy d t \<and> drain busy d t < max (t + 1) (d + 50)"
proof (induction busy d t rule: drain.induct)
  case (1 busy d t)
  show ?case
  proof (cases "busy t > 0 \<and> t < d")
    case True
    with 1 have "(busy (drain busy d (t + 50)) = 0 \<or> d \<le> drain busy d (t + 50)) \<and> t + 50 \<le> drain busy d (t + 50) \<and>
        drain busy d (t + 50) < max (t + 50 + 1) (d + 50)" by simp
    with True show ?thesis by (subst (1 2 3 4) drain.simps) auto
  qed (auto simp: drain.simps [of busy d t])
qed



end
