(* ===== verification/Assistant.thy ===== *)
theory Assistant
  imports Prelude
begin

text \<open>
  The AI collaborators, \<open>Backend/src/services/ai.services.js\<close> and the chat handler
  \<open>Backend/src/sockets/chat.socket.js\<close>. The language model is not part of the repository:
  what it answers (or that it is not configured) is an argument.
\<close>

subsection \<open>Incident analysis\<close>

text \<open>\<open>s.replace(/p/g, '')\<close>: matches left to right, without overlap.\<close>

function remove_all :: "string \<Rightarrow> string \<Rightarrow> string" where
  "remove_all p s =
     (if p \<noteq> [] \<and> s \<noteq> [] \<and> starts_with p s then remove_all p (drop (length p) s)
      else case s of [] \<Rightarrow> [] | c # cs \<Rightarrow> c # remove_all p cs)"
  by pat_completeness auto
termination by (relation "measure (\<lambda>(p, s). length s)") auto

declare remove_all.simps [simp del]

definition fence :: string where
  "fence = [CHR 0x60, CHR 0x60, CHR 0x60]"

text \<open>\<open>invoke\<close> is the model's answer to the prompt: its content, or the error it raised.\<close>

definition analyzeIncident :: "(string \<Rightarrow> string + string) option \<Rightarrow> string \<Rightarrow> string option" where
  "analyzeIncident invoke reason =
     (case invoke of
        None \<Rightarrow> None
      | Some ask \<Rightarrow>
          (case ask (''Analyze the following incident reason:'' @ CHR 0x0A # reason) of
             Inl _ \<Rightarrow> None
           | Inr content \<Rightarrow> Some (trim (remove_all fence (remove_all (fence @ ''json'') content)))))"

subsection \<open>The assistant's reply\<close>

datatype role = System | Human | AI

record history_entry =
  h_role :: string
  h_content :: "string option"

text \<open>What the model is asked: the system prompt, the past turns with some text, the message.\<close>

definition reply_messages :: "string \<Rightarrow> history_entry list \<Rightarrow> string \<Rightarrow> (role \<times> string) list" where
  "reply_messages prompt history text =
     [(System, prompt)] @
     concat (map (\<lambda>h. let content = trim (str_or (h_content h) [])
                     in if content = [] then []
                        else [(if h_role h = ''assistant'' then AI else Human, content)]) history) @
     [(Human, text)]"

text \<open>The model: the chunks it streams (\<open>None\<close> for one without text) and whether the stream
  then broke; and what a plain call answers.\<close>

record chat_model =
  stream :: "(role \<times> string) list \<Rightarrow> string option list \<times> bool"
  invoke :: "(role \<times> string) list \<Rightarrow> string + string option"

definition unavailable :: string where
  "unavailable = ''The AI assistant is not configured on this deployment. Monitoring, incidents and alerting are unaffected.''"

text \<open>The texts of a stream: chunks without text are skipped.\<close>

definition chunk_texts :: "string option list \<Rightarrow> string list" where
  "chunk_texts cs = filter (\<lambda>t. t \<noteq> []) (map (\<lambda>c. nullish c []) cs)"

text \<open>The chunks passed to \<open>onChunk\<close>, in order, and the error thrown or the text returned.\<close>

definition streamAssistantReply ::
    "chat_model option \<Rightarrow> string \<Rightarrow> history_entry list \<Rightarrow> string \<Rightarrow> string list \<times> (string + string)" where
  "streamAssistantReply llm prompt history text =
     (let messages = reply_messages prompt history text
      in case llm of
           None \<Rightarrow> ([unavailable], Inr unavailable)
         | Some ai \<Rightarrow>
             let (chunks, broke) = stream ai messages; texts = chunk_texts chunks
             in if \<not> broke then (texts, Inr (concat texts))
                else case invoke ai messages of
                       Inl e \<Rightarrow> (texts, Inl e)
                     | Inr answer \<Rightarrow>
                         let full = nullish answer []
                         in (if full \<noteq> [] then texts @ [full] else texts, Inr full))"

subsection \<open>The chat handler\<close>

datatype chat_event =
    Typing bool
  | Chat_chunk string string
  | Chat_reply string string
  | Chat_error string
  | Ack bool \<comment> \<open>the acknowledgement callback, when the client passed one\<close>

text \<open>Everything the handler sends for one \<open>chat:message\<close>, to the asking socket only.\<close>

definition handleSocketChat ::
    "chat_model option \<Rightarrow> string \<Rightarrow> string \<Rightarrow> bool \<Rightarrow> string option \<Rightarrow> history_entry list \<Rightarrow> chat_event list" where
  "handleSocketChat llm prompt new_id wants_ack message history =
     (let text = trim (str_or message []);
          recent = drop (length history - 10) history;
          ack = (\<lambda>b. if wants_ack then [Ack b] else [])
      in if text = [] then ack False
         else let (chunks, res) = streamAssistantReply llm prompt recent text;
                  sent = map (Chat_chunk new_id) chunks
              in [Typing True] @ sent @
                 (case res of
                    Inr _ \<Rightarrow> [Chat_reply new_id (concat chunks)] @ ack True
                  | Inl _ \<Rightarrow> [Chat_error ''The assistant is unavailable right now.''] @ ack False) @
                 [Typing False])"

lemma length_recent: "length (drop (length history - 10) history) \<le> 10"
  by simp

text \<open>The texts of the chunk events, and the last word: a reply or an error.\<close>

definition chunk_events :: "chat_event list \<Rightarrow> string list" where
  "chunk_events es = concat (map (\<lambda>e. case e of Chat_chunk _ t \<Rightarrow> [t] | _ \<Rightarrow> []) es)"

definition verdicts :: "chat_event list \<Rightarrow> chat_event list" where
  "verdicts es = filter (\<lambda>e. case e of Chat_reply _ _ \<Rightarrow> True | Chat_error _ \<Rightarrow> True | _ \<Rightarrow> False) es"

lemma chunk_events_append [simp]: "chunk_events (a @ b) = chunk_events a @ chunk_events b"
  by (simp add: chunk_events_def)

lemma verdicts_append [simp]: "verdicts (a @ b) = verdicts a @ verdicts b"
  by (simp add: verdicts_def)

lemma chat_event_lists [simp]:
  "chunk_events (map (Chat_chunk i) ts) = ts" "verdicts (map (Chat_chunk i) ts) = []"
  "chunk_events [] = []" "verdicts [] = []"
  "chunk_events (Typing b # es) = chunk_events es" "verdicts (Typing b # es) = verdicts es"
  "chunk_events (Ack b # es) = chunk_events es" "verdicts (Ack b # es) = verdicts es"
  "chunk_events (Chat_chunk i t # es) = t # chunk_events es" "verdicts (Chat_chunk i t # es) = verdicts es"
  "chunk_events (Chat_reply i t # es) = chunk_events es" "verdicts (Chat_reply i t # es) = Chat_reply i t # verdicts es"
  "chunk_events (Chat_error m # es) = chunk_events es" "verdicts (Chat_error m # es) = Chat_error m # verdicts es"
  by (simp_all add: chunk_events_def verdicts_def comp_def)

text \<open>
  One question, one answer: for a message with some text the handler shows that it is
  typing first and stops last, sends exactly one reply or one error, and a reply is the
  concatenation of the chunks streamed before it; an empty message gets no event at all.
\<close>

theorem chat_single_answer:
  "(trim (str_or message []) \<noteq> [] \<longrightarrow>
     (let es = handleSocketChat llm prompt i wants message history
      in hd es = Typing True \<and> last es = Typing False \<and>
         (verdicts es = [Chat_reply i (concat (chunk_events es))] \<or>
          verdicts es = [Chat_error ''The assistant is unavailable right now.'']))) \<and>
   (trim (str_or message []) = [] \<longrightarrow> verdicts (handleSocketChat llm prompt i wants message history) = [])"
proof -
  obtain chunks res where
    r: "streamAssistantReply llm prompt (drop (length history - 10) history) (trim (str_or message [])) = (chunks, res)"
    by fastforce
  show ?thesis by (cases res; cases wants) (simp_all add: handleSocketChat_def r Let_def)
qed

theorem chat_single_answer_witness:
  "verdicts (handleSocketChat None [] ''1'' True (Some ''hi'') []) = [Chat_reply ''1'' unavailable]"
proof -
  have "trim (str_or (Some ''hi'') []) \<noteq> []" by (simp add: trim_def is_space_def)
  with chat_single_answer [of "Some ''hi''" None "[]" "''1''" True "[]"] show ?thesis
    by (auto simp: Let_def handleSocketChat_def streamAssistantReply_def)
qed

text \<open>
  A broken stream repeats itself: when the stream breaks after some text and the plain
  call then answers, the text streamed so far stays in front of the whole answer, in the
  reply the client keeps.
\<close>

theorem chat_fallback_repeats:
  assumes "stream ai (reply_messages prompt (drop (length history - 10) history) text) = (chunks, True)"
    and "invoke ai (reply_messages prompt (drop (length history - 10) history) text) = Inr (Some answer)"
    and "answer \<noteq> []" and "text = trim (str_or message [])" and "text \<noteq> []"
  shows "verdicts (handleSocketChat (Some ai) prompt i wants message history) =
    [Chat_reply i (concat (chunk_texts chunks) @ answer)]"
  using assms by (cases wants) (simp_all add: handleSocketChat_def streamAssistantReply_def Let_def)

theorem chat_fallback_repeats_witness:
  "verdicts (handleSocketChat (Some \<lparr>stream = (\<lambda>_. ([Some ''DNS is''], True)), invoke = (\<lambda>_. Inr (Some ''DNS is slow''))\<rparr>)
     [] ''1'' False (Some ''hi'') []) = [Chat_reply ''1'' ''DNS isDNS is slow'']"
proof -
  have t: "trim (str_or (Some ''hi'') []) = ''hi''" by (simp add: trim_def is_space_def)
  show ?thesis
    using chat_fallback_repeats [of "\<lparr>stream = (\<lambda>_. ([Some ''DNS is''], True)), invoke = (\<lambda>_. Inr (Some ''DNS is slow''))\<rparr>"
        "[]" "[]" "''hi''" "[Some ''DNS is'']" "''DNS is slow''" "Some ''hi''" "''1''" False] t
    by (simp add: chunk_texts_def)
qed

end
