(* ===== verification/Dao.thy ===== *)
theory Dao
  imports Mongo Monitor_Model Incident_Model
begin

text \<open>
  Owner-scoped data access, \<open>Backend/src/dao/scopedDao.js\<close> and \<open>dao/index.js\<close>: the filter
  objects controllers pass, the scope that confines them to one tenant, their combination,
  and every operation of the DAO. Filters are data here, because they may come from a
  request: a hostile filter is just another JavaScript object.

  How MongoDB reads a filter is the locale \<open>query_language\<close>; \<open>evalq\<close> is an evaluator with
  the documented meaning. The identifier check and the identifier constructor of
  Mongoose are the record \<open>bson\<close>.
\<close>

subsection \<open>JavaScript values and filters\<close>

datatype js =
    JUndef
  | JNull
  | JBool bool
  | JNum rat
  | JStr string
  | JDate time
  | JOid oid
  | JArr "js list"
  | JObj "(string \<times> js) list"

type_synonym fields = "(string \<times> js) list"

definition is_object :: "js \<Rightarrow> bool" where
  "is_object v = (case v of JDate _ \<Rightarrow> True | JOid _ \<Rightarrow> True | JArr _ \<Rightarrow> True | JObj _ \<Rightarrow> True | JNull \<Rightarrow> True
     | _ \<Rightarrow> False)"

definition is_text :: "js \<Rightarrow> bool" where
  "is_text v = (case v of JStr _ \<Rightarrow> True | _ \<Rightarrow> False)"

text \<open>\<open>{ ...f, ...g }\<close>: a key of both keeps its place and takes the later value.\<close>

definition spread :: "fields \<Rightarrow> fields \<Rightarrow> fields" where
  "spread f g =
     map (\<lambda>(k, v). (k, case map_of g k of None \<Rightarrow> v | Some w \<Rightarrow> w)) f @
     filter (\<lambda>(k, v). k \<notin> fst ` set f) g"

lemma spread_disjoint: "fst ` set f \<inter> fst ` set g = {} \<Longrightarrow> spread f g = f @ g"
proof -
  assume disj: "fst ` set f \<inter> fst ` set g = {}"
  have "map (\<lambda>(k, v). (k, case map_of g k of None \<Rightarrow> v | Some w \<Rightarrow> w)) f = map (\<lambda>x. x) f"
  proof (rule map_cong [OF refl])
    fix x assume "x \<in> set f"
    with disj have "fst x \<notin> fst ` set g" by blast
    then have "map_of g (fst x) = None" by (simp add: map_of_eq_None_iff)
    then show "(case x of (k, v) \<Rightarrow> (k, case map_of g k of None \<Rightarrow> v | Some w \<Rightarrow> w)) = x"
      by (cases x) simp
  qed
  moreover have "filter (\<lambda>(k, v). k \<notin> fst ` set f) g = g"
    using disj by (intro filter_True) force
  ultimately show ?thesis by (simp add: spread_def)
qed

lemma map_of_spread: "map_of (spread f g) k = (case map_of g k of None \<Rightarrow> map_of f k | Some w \<Rightarrow> Some w)"
proof (cases "k \<in> fst ` set f")
  case True
  have "map_of (map (\<lambda>(k, v). (k, case map_of g k of None \<Rightarrow> v | Some w \<Rightarrow> w)) f) k =
      map_option (\<lambda>v. case map_of g k of None \<Rightarrow> v | Some w \<Rightarrow> w) (map_of f k)"
    by (induction f) (auto split: option.splits)
  moreover have "map_of (filter (\<lambda>(k, v). k \<notin> fst ` set f) g) k = None"
    using True by (force simp: map_of_eq_None_iff)
  moreover obtain v where "map_of f k = Some v" using True by (metis map_of_eq_None_iff not_None_eq)
  ultimately show ?thesis by (cases "map_of g k") (simp_all add: spread_def map_add_def)
next
  case False
  then have none: "map_of f k = None" by (simp add: map_of_eq_None_iff)
  have "map_of (map (\<lambda>(k, v). (k, case map_of g k of None \<Rightarrow> v | Some w \<Rightarrow> w)) f) k = None"
    using False by (force simp: map_of_eq_None_iff)
  moreover have "map_of (filter (\<lambda>(k, v). k \<notin> fst ` set f) g) k = map_of g k"
    using False by (induction g) (auto, force+)
  ultimately show ?thesis using none by (auto simp: spread_def map_add_def split: option.splits)
qed

lemma distinct_spread:
  assumes "distinct (map fst f)" and "distinct (map fst g)"
  shows "distinct (map fst (spread f g))"
proof -
  have keys: "map fst (map (\<lambda>(k, v). (k, case map_of g k of None \<Rightarrow> v | Some w \<Rightarrow> w)) f) = map fst f"
    by (induction f) auto
  have "distinct (map fst (filter (\<lambda>(k, v). k \<notin> fst ` set f) g))"
    using assms(2) by (rule distinct_map_filter)
  with assms(1) show ?thesis unfolding spread_def map_append keys by (auto, force)
qed

lemma spread_keys: "fst ` set (spread f g) = fst ` set f \<union> fst ` set g"
  unfolding spread_def set_append image_Un set_map image_image by force

text \<open>\<open>body.key\<close>: a property that is not there is \<open>undefined\<close>.\<close>

definition get :: "string \<Rightarrow> fields \<Rightarrow> js" where
  "get k body = (case map_of body k of None \<Rightarrow> JUndef | Some v \<Rightarrow> v)"

text \<open>\<open>!x\<close> of a JavaScript value.\<close>

definition js_falsy :: "js \<Rightarrow> bool" where
  "js_falsy v \<longleftrightarrow> v \<in> {JUndef, JNull, JBool False, JNum 0, JStr ''''}"

subsection \<open>Assigning fields to a document\<close>

text \<open>
  How Mongoose fills a document from plain fields: one path after another, each cast and
  validated by the schema's \<open>assign\<close>, which may refuse.
\<close>

fun apply_fields :: "(string \<Rightarrow> js \<Rightarrow> 'd \<Rightarrow> 'd option) \<Rightarrow> fields \<Rightarrow> 'd \<Rightarrow> 'd option" where
  "apply_fields assign [] d = Some d"
| "apply_fields assign ((k, v) # fs) d = Option.bind (assign k v d) (apply_fields assign fs)"

text \<open>Whether fields are accepted does not depend on the document, when it does not for one field.\<close>

lemma apply_fields_total:
  assumes one: "\<And>k v d d'. assign k v d = None \<longleftrightarrow> assign k v d' = None"
  shows "apply_fields assign fs d = None \<longleftrightarrow> apply_fields assign fs d' = None"
proof (induction fs arbitrary: d d')
  case (Cons x fs)
  obtain k v where x: "x = (k, v)" by (cases x)
  show ?case
  proof (cases "assign k v d")
    case None
    then show ?thesis using one [of k v d d'] x by simp
  next
    case (Some n)
    then obtain n' where "assign k v d' = Some n'" using one [of k v d d'] by (metis not_None_eq)
    then show ?thesis using Some x Cons.IH [of n n'] by simp
  qed
qed simp

text \<open>A part every single assignment keeps, all of them keep.\<close>

lemma apply_fields_keeps:
  assumes "\<And>k v d d'. assign k v d = Some d' \<Longrightarrow> k \<in> set (map fst fs) \<Longrightarrow> g d' = g d"
    and "apply_fields assign fs d = Some d'"
  shows "g d' = g d"
  using assms
proof (induction fs arbitrary: d)
  case (Cons x fs)
  obtain k v where x: "x = (k, v)" by (cases x)
  from Cons.prems(2) x obtain n where n: "assign k v d = Some n" "apply_fields assign fs n = Some d'"
    by (auto simp: bind_eq_Some_conv)
  have "g d' = g n" using Cons.prems(1) n(2) by (intro Cons.IH) (auto simp: x)
  also have "g n = g d" using Cons.prems(1) n(1) by (simp add: x)
  finally show ?case .
qed simp

lemma apply_fields_invariant:
  assumes "\<And>k v d d'. assign k v d = Some d' \<Longrightarrow> k \<in> set (map fst fs) \<Longrightarrow> I d \<Longrightarrow> I d'"
    and "apply_fields assign fs d = Some d'" and "I d"
  shows "I d'"
  using assms
proof (induction fs arbitrary: d)
  case (Cons x fs)
  obtain k v where x: "x = (k, v)" by (cases x)
  from Cons.prems(2) x obtain n where n: "assign k v d = Some n" "apply_fields assign fs n = Some d'"
    by (auto simp: bind_eq_Some_conv)
  from Cons.prems(1) [OF n(1)] Cons.prems(3) x have "I n" by simp
  from Cons.IH [OF _ n(2) this] Cons.prems(1) show ?case by (simp add: x)
qed simp

lemma apply_fields_append:
  "apply_fields assign (fs @ gs) d = Option.bind (apply_fields assign fs d) (apply_fields assign gs)"
  by (induction fs arbitrary: d) (auto split: Option.bind_split)

text \<open>A part that only the assignment of one path reaches ends as that assignment leaves it.\<close>

lemma apply_fields_final:
  assumes fs: "distinct (map fst fs)" and v: "map_of fs k = Some v" and all: "apply_fields assign fs d = Some d'"
    and only: "\<And>k' v' n n'. assign k' v' n = Some n' \<Longrightarrow> k' \<noteq> k \<Longrightarrow> g n' = g n"
  shows "\<exists>n n'. assign k v n = Some n' \<and> g d' = g n'"
proof -
  from v obtain xs ys where split: "fs = xs @ (k, v) # ys" by (metis map_of_SomeD split_list)
  with fs have ys: "k \<notin> set (map fst ys)" by auto
  from all obtain n n' where n: "assign k v n = Some n'" "apply_fields assign ys n' = Some d'"
    unfolding split by (auto simp: apply_fields_append bind_eq_Some_conv)
  have "g d' = g n'" by (rule apply_fields_keeps [OF _ n(2)]) (use only ys in blast)
  with n(1) show ?thesis by blast
qed

subsection \<open>What MongoDB makes of a filter\<close>

locale query_language =
  fixes matches :: "js \<Rightarrow> 'd \<Rightarrow> bool"
    and attr :: "'d \<Rightarrow> string \<Rightarrow> js"
  assumes entries: "distinct (map fst kvs) \<Longrightarrow>
      matches (JObj kvs) d \<longleftrightarrow> (\<forall>(k, v) \<in> set kvs. matches (JObj [(k, v)]) d)"
    and conjunction: "matches (JObj [(''$and'', JArr qs)]) d \<longleftrightarrow> (\<forall>q \<in> set qs. matches q d)"
    and equality: "\<not> starts_with ''$'' k \<Longrightarrow> matches (JObj [(k, JOid i)]) d \<longleftrightarrow> attr d k = JOid i"
    and membership: "\<not> starts_with ''$'' k \<Longrightarrow>
      matches (JObj [(k, JObj [(''$in'', JArr (map JOid is))])]) d \<longleftrightarrow> (\<exists>i \<in> set is. attr d k = JOid i)"
begin

lemma spread_is_conjunction:
  assumes "distinct (map fst f)" and "distinct (map fst g)" and "fst ` set f \<inter> fst ` set g = {}"
  shows "matches (JObj (spread f g)) d \<longleftrightarrow> matches (JObj f) d \<and> matches (JObj g) d"
proof -
  have "distinct (map fst (f @ g))" using assms by simp
  then show ?thesis
    using assms entries [of "f @ g" d] entries [of f d] entries [of g d]
    by (auto simp: spread_disjoint)
qed

lemma and_is_conjunction:
  "matches (JObj [(''$and'', JArr [f, g])]) d \<longleftrightarrow> matches f d \<and> matches g d"
  by (simp add: conjunction)

end

text \<open>Mongoose casts a string compared with an \<open>ObjectId\<close> path to an identifier.\<close>

locale casting_query = query_language matches attr
  for matches :: "js \<Rightarrow> 'd \<Rightarrow> bool" and attr :: "'d \<Rightarrow> string \<Rightarrow> js" +
  fixes cast :: "string \<Rightarrow> oid option"
  assumes casting: "\<not> starts_with ''$'' k \<Longrightarrow> attr d k = JOid i \<Longrightarrow>
      matches (JObj [(k, JStr s)]) d \<longleftrightarrow> cast s = Some i"

text \<open>An evaluator of filters over the attributes of a document.\<close>

definition js_eq :: "(string \<Rightarrow> oid option) \<Rightarrow> js \<Rightarrow> js \<Rightarrow> bool" where
  "js_eq cast x v = (case (x, v) of (JOid i, JStr s) \<Rightarrow> cast s = Some i | _ \<Rightarrow> x = v)"

definition eval_op :: "(string \<Rightarrow> oid option) \<Rightarrow> string \<Rightarrow> js \<Rightarrow> js \<Rightarrow> bool" where
  "eval_op cast op x w =
     (if op = ''$in'' then (case w of JArr ws \<Rightarrow> list_ex (js_eq cast x) ws | _ \<Rightarrow> False)
      else if op = ''$ne'' then \<not> js_eq cast x w
      else if op = ''$gte'' then (case (x, w) of (JDate a, JDate b) \<Rightarrow> b \<le> a | (JNum a, JNum b) \<Rightarrow> b \<le> a | _ \<Rightarrow> False)
      else False)"

definition eval_cond :: "(string \<Rightarrow> oid option) \<Rightarrow> js \<Rightarrow> js \<Rightarrow> bool" where
  "eval_cond cast x v =
     (case v of JObj ops \<Rightarrow> list_all (\<lambda>(op, w). eval_op cast op x w) ops | _ \<Rightarrow> js_eq cast x v)"

fun evalq :: "(string \<Rightarrow> oid option) \<Rightarrow> (string \<Rightarrow> js) \<Rightarrow> js \<Rightarrow> bool"
  and eval_entries :: "(string \<Rightarrow> oid option) \<Rightarrow> (string \<Rightarrow> js) \<Rightarrow> fields \<Rightarrow> bool"
  and eval_entry :: "(string \<Rightarrow> oid option) \<Rightarrow> (string \<Rightarrow> js) \<Rightarrow> string \<Rightarrow> js \<Rightarrow> bool"
  and eval_all :: "(string \<Rightarrow> oid option) \<Rightarrow> (string \<Rightarrow> js) \<Rightarrow> js list \<Rightarrow> bool"
  and eval_any :: "(string \<Rightarrow> oid option) \<Rightarrow> (string \<Rightarrow> js) \<Rightarrow> js list \<Rightarrow> bool" where
  "evalq cast a (JObj kvs) = eval_entries cast a kvs"
| "evalq cast a v = False"
| "eval_entries cast a [] = True"
| "eval_entries cast a ((k, v) # kvs) = (eval_entry cast a k v \<and> eval_entries cast a kvs)"
| "eval_entry cast a k (JArr qs) =
     (if k = ''$and'' then eval_all cast a qs else if k = ''$or'' then eval_any cast a qs else eval_cond cast (a k) (JArr qs))"
| "eval_entry cast a k v = (if starts_with ''$'' k then False else eval_cond cast (a k) v)"
| "eval_all cast a [] = True"
| "eval_all cast a (q # qs) = (evalq cast a q \<and> eval_all cast a qs)"
| "eval_any cast a [] = False"
| "eval_any cast a (q # qs) = (evalq cast a q \<or> eval_any cast a qs)"

lemma eval_entries_all: "eval_entries cast a kvs \<longleftrightarrow> (\<forall>(k, v) \<in> set kvs. eval_entry cast a k v)"
  by (induction kvs) auto

lemma eval_all_all: "eval_all cast a qs \<longleftrightarrow> (\<forall>q \<in> set qs. evalq cast a q)"
  by (induction qs) auto

lemma js_eq_oid [simp]: "js_eq cast x (JOid i) \<longleftrightarrow> x = JOid i"
  by (auto simp: js_eq_def split: js.splits)

interpretation evaluator: casting_query "\<lambda>q d. evalq cast (attr d) q" attr cast
    for attr :: "'d \<Rightarrow> string \<Rightarrow> js" and cast :: "string \<Rightarrow> oid option"
  by unfold_locales
    (auto simp: eval_entries_all eval_all_all eval_cond_def eval_op_def list_ex_iff,
      auto simp: js_eq_def)

subsection \<open>Owners and scopes\<close>

datatype dao_error = UnscopedQueryError string | InvalidId string | DbFailed db_error

record bson =
  isValidObjectId :: "js \<Rightarrow> bool"
  newObjectId :: "string \<Rightarrow> string + oid"
    \<comment> \<open>the constructor; \<open>Inl\<close> is the message it throws\<close>
  number_text :: "rat \<Rightarrow> string"
    \<comment> \<open>\<open>String(n)\<close> of a number\<close>

text \<open>\<open>String(v)\<close>, of the values that reach it.\<close>

definition js_string :: "bson \<Rightarrow> js \<Rightarrow> string" where
  "js_string B v =
     (case v of JStr s \<Rightarrow> s | JOid i \<Rightarrow> i | JNum n \<Rightarrow> number_text B n
      | JBool b \<Rightarrow> (if b then ''true'' else ''false'') | JUndef \<Rightarrow> ''undefined'' | JNull \<Rightarrow> ''null''
      | _ \<Rightarrow> ''[object Object]'')"

definition assertOwner :: "bson \<Rightarrow> js \<Rightarrow> dao_error + js" where
  "assertOwner B ownerId =
     (if ownerId = JUndef \<or> ownerId = JNull \<or> ownerId = JStr '''' then
        Inl (UnscopedQueryError ''Refusing to run an unscoped query: ownerId is required'')
      else if is_object ownerId \<and> \<not> isValidObjectId B ownerId then
        Inl (UnscopedQueryError ''Refusing to run an unscoped query: ownerId is not a valid identifier'')
      else if is_text ownerId \<and> \<not> isValidObjectId B ownerId then
        Inl (UnscopedQueryError ''Refusing to run an unscoped query: ownerId is not a valid identifier'')
      else Inr ownerId)"

text \<open>
  A Mongoose model: its collection, the meaning of a filter, the document built from
  plain fields (validated), the fields a read leaves out, the effect of a \<open>$set\<close>, the validators run on it, and the
  values of a field that \<open>distinct\<close> collects.
\<close>

record ('c, 'd) mongoose_model =
  collection :: "('c, 'd) coll"
  matches_filter :: "js \<Rightarrow> 'd \<Rightarrow> bool"
  default_select :: "'d \<Rightarrow> 'd"
    \<comment> \<open>drops the fields the schema marks \<open>select: false\<close>\<close>
  build :: "fields \<Rightarrow> db_error + 'd"
  set_fields :: "fields \<Rightarrow> 'd \<Rightarrow> 'd"
  validate :: "fields \<Rightarrow> db_error option"
  field_value :: "string \<Rightarrow> 'd \<Rightarrow> js"

record ('c, 'd) dao =
  d_model :: "('c, 'd) mongoose_model"
  ownerField :: string
  resolveScope :: "(js \<Rightarrow> dao_error + fields) option"

definition scopeFor :: "bson \<Rightarrow> ('c, 'd) dao \<Rightarrow> js \<Rightarrow> dao_error + fields" where
  "scopeFor B D ownerId =
     (case assertOwner B ownerId of
        Inl e \<Rightarrow> Inl e
      | Inr _ \<Rightarrow>
          (case resolveScope D of
             Some resolve \<Rightarrow> resolve ownerId
           | None \<Rightarrow>
               (case newObjectId B (js_string B ownerId) of
                  Inl msg \<Rightarrow> Inl (InvalidId msg)
                | Inr i \<Rightarrow> Inr [(ownerField D, JOid i)])))"

definition scoped_filter :: "bson \<Rightarrow> ('c, 'd) dao \<Rightarrow> js \<Rightarrow> fields \<Rightarrow> dao_error + fields" where
  "scoped_filter B D ownerId flt =
     (case scopeFor B D ownerId of
        Inl e \<Rightarrow> Inl e
      | Inr scope \<Rightarrow>
          let collides = list_ex (\<lambda>(k, v). k \<in> fst ` set flt) scope
          in Inr (if collides then [(''$and'', JArr [JObj flt, JObj scope])] else spread flt scope))"

subsection \<open>Operations\<close>

record 'd find_options =
  o_sort :: "('d \<Rightarrow> int) option"
  o_limit :: "nat option"
  o_select :: "('d \<Rightarrow> 'd) option"
  o_populate :: "('d \<Rightarrow> 'd) option"

definition no_options :: "'d find_options" where
  "no_options = \<lparr>o_sort = None, o_limit = None, o_select = None, o_populate = None\<rparr>"

definition project :: "'d find_options \<Rightarrow> 'd \<Rightarrow> 'd" where
  "project opt d = nullish (o_populate opt) (\<lambda>x. x) (nullish (o_select opt) (\<lambda>x. x) d)"

definition dao_find :: "bson \<Rightarrow> ('c, 'd) dao \<Rightarrow> 'c \<Rightarrow> js \<Rightarrow> fields \<Rightarrow> 'd find_options \<Rightarrow> dao_error + 'd list" where
  "dao_find B D c ownerId flt opt =
     (case scoped_filter B D ownerId flt of
        Inl e \<Rightarrow> Inl e
      | Inr q \<Rightarrow>
          (case find_many (collection (d_model D)) c (matches_filter (d_model D) (JObj q))
                  (nullish (o_sort opt) (\<lambda>_. 0))
                  (case o_limit opt of None \<Rightarrow> None | Some n \<Rightarrow> if n = 0 then None else Some n) of
             Inl e \<Rightarrow> Inl (DbFailed e)
           | Inr ds \<Rightarrow> Inr (map (project opt \<circ> default_select (d_model D)) ds)))"

definition dao_findOne :: "bson \<Rightarrow> ('c, 'd) dao \<Rightarrow> 'c \<Rightarrow> js \<Rightarrow> fields \<Rightarrow> 'd find_options \<Rightarrow> dao_error + 'd option" where
  "dao_findOne B D c ownerId flt opt =
     (case scoped_filter B D ownerId flt of
        Inl e \<Rightarrow> Inl e
      | Inr q \<Rightarrow>
          (case find_many (collection (d_model D)) c (matches_filter (d_model D) (JObj q)) (\<lambda>_. 0) (Some 1) of
             Inl e \<Rightarrow> Inl (DbFailed e)
           | Inr [] \<Rightarrow> Inr None
           | Inr (d # _) \<Rightarrow> Inr (Some (project opt (default_select (d_model D) d)))))"

definition dao_findById :: "bson \<Rightarrow> ('c, 'd) dao \<Rightarrow> 'c \<Rightarrow> js \<Rightarrow> js \<Rightarrow> 'd find_options \<Rightarrow> dao_error + 'd option" where
  "dao_findById B D c ownerId i opt =
     (if \<not> isValidObjectId B i then Inr None else dao_findOne B D c ownerId [(''_id'', i)] opt)"

definition lift_db :: "'c \<times> (db_error + 'a) \<Rightarrow> 'c \<times> (dao_error + 'a)" where
  "lift_db r = (fst r, case snd r of Inl e \<Rightarrow> Inl (DbFailed e) | Inr x \<Rightarrow> Inr x)"

definition seen_through :: "('d \<Rightarrow> 'd) \<Rightarrow> 'c \<times> (db_error + 'd option) \<Rightarrow> 'c \<times> (dao_error + 'd option)" where
  "seen_through view r = lift_db (fst r, map_sum id (map_option view) (snd r))"

definition dao_create :: "bson \<Rightarrow> ('c, 'd) dao \<Rightarrow> 'c \<Rightarrow> js \<Rightarrow> fields \<Rightarrow> 'c \<times> (dao_error + 'd)" where
  "dao_create B D c ownerId doc =
     (case scopeFor B D ownerId of
        Inl e \<Rightarrow> (c, Inl e)
      | Inr scope \<Rightarrow>
          (case build (d_model D) (spread doc scope) of
             Inl e \<Rightarrow> (c, Inl (DbFailed e))
           | Inr d \<Rightarrow> lift_db (create_doc (collection (d_model D)) c d)))"

definition dao_updateById :: "bson \<Rightarrow> ('c, 'd) dao \<Rightarrow> 'c \<Rightarrow> js \<Rightarrow> js \<Rightarrow> fields \<Rightarrow> 'c \<times> (dao_error + 'd option)" where
  "dao_updateById B D c ownerId i patch =
     (if \<not> isValidObjectId B i then (c, Inr None)
      else case scoped_filter B D ownerId [(''_id'', i)] of
        Inl e \<Rightarrow> (c, Inl e)
      | Inr q \<Rightarrow>
          (case validate (d_model D) patch of
             Some e \<Rightarrow> (c, Inl (DbFailed e))
           | None \<Rightarrow>
               seen_through (default_select (d_model D))
                 (update_one (collection (d_model D)) c (matches_filter (d_model D) (JObj q))
                   (set_fields (d_model D) patch))))"

definition dao_deleteById :: "bson \<Rightarrow> ('c, 'd) dao \<Rightarrow> 'c \<Rightarrow> js \<Rightarrow> js \<Rightarrow> 'c \<times> (dao_error + 'd option)" where
  "dao_deleteById B D c ownerId i =
     (if \<not> isValidObjectId B i then (c, Inr None)
      else case scoped_filter B D ownerId [(''_id'', i)] of
        Inl e \<Rightarrow> (c, Inl e)
      | Inr q \<Rightarrow>
          seen_through (default_select (d_model D))
            (delete_one (collection (d_model D)) c (matches_filter (d_model D) (JObj q))))"

definition dao_count :: "bson \<Rightarrow> ('c, 'd) dao \<Rightarrow> 'c \<Rightarrow> js \<Rightarrow> fields \<Rightarrow> dao_error + nat" where
  "dao_count B D c ownerId flt = map_sum id length (dao_find B D c ownerId flt no_options)"

definition dao_distinct :: "bson \<Rightarrow> ('c, 'd) dao \<Rightarrow> 'c \<Rightarrow> js \<Rightarrow> string \<Rightarrow> fields \<Rightarrow> dao_error + js list" where
  "dao_distinct B D c ownerId field flt =
     map_sum id (\<lambda>ds. remdups (map (field_value (d_model D) field) ds)) (dao_find B D c ownerId flt no_options)"

text \<open>
  The pipeline after the forced first stage is what the caller's stages compute from the
  documents that stage lets through.
\<close>

definition dao_aggregate :: "bson \<Rightarrow> ('c, 'd) dao \<Rightarrow> 'c \<Rightarrow> js \<Rightarrow> ('d list \<Rightarrow> 'r) \<Rightarrow> dao_error + 'r" where
  "dao_aggregate B D c ownerId pipeline =
     (case scopeFor B D ownerId of
        Inl e \<Rightarrow> Inl e
      | Inr scope \<Rightarrow>
          (case find_many (collection (d_model D)) c (matches_filter (d_model D) (JObj scope)) (\<lambda>_. 0) None of
             Inl e \<Rightarrow> Inl (DbFailed e)
           | Inr ds \<Rightarrow> Inr (pipeline ds)))"

end
