(* ===== verification/Http.thy ===== *)
theory Http
  imports Dao
begin

text \<open>
  The conventions every controller shares: \<open>Backend/src/utils/ApiError.js\<close>,
  \<open>ApiResponse.js\<close>, \<open>asyncHandler.js\<close>, and the middlewares around them -
  \<open>error.middleware.js\<close>, \<open>auth.middleware.js\<close>, \<open>monitor.middleware.js\<close> (schema
  validation) and the request identifier of \<open>observability/requestContext.js\<close>.

  A handler is a value of \<open>thrown + response\<close>: what it throws, or what it sends. The JWT
  and Zod libraries are parameters.
\<close>

subsection \<open>Errors and responses\<close>

text \<open>What a \<open>throw\<close> carries, as far as the error middleware reads it.\<close>

record thrown =
  isApiError :: bool
  e_type :: "string option"
  e_status :: "int option"
  e_message :: string
  e_errors :: "string list"

definition ApiError :: "int \<Rightarrow> string \<Rightarrow> thrown" where
  "ApiError code msg =
     \<lparr>isApiError = True, e_type = None, e_status = Some code, e_message = msg, e_errors = []\<rparr>"

definition plain_error :: "string \<Rightarrow> thrown" where
  "plain_error msg =
     \<lparr>isApiError = False, e_type = None, e_status = None, e_message = msg, e_errors = []\<rparr>"

text \<open>What a failed DAO call throws.\<close>

definition dao_thrown :: "dao_error \<Rightarrow> thrown" where
  "dao_thrown e =
     (case e of
        UnscopedQueryError msg \<Rightarrow> plain_error msg
      | InvalidId msg \<Rightarrow> plain_error msg
      | DbFailed d \<Rightarrow> plain_error (db_message d))"

record 'a response =
  statusCode :: int
  data :: 'a
  message :: string
  success :: bool

definition ApiResponse :: "int \<Rightarrow> 'a \<Rightarrow> string \<Rightarrow> 'a response" where
  "ApiResponse code d msg = \<lparr>statusCode = code, data = d, message = msg, success = code < 400\<rparr>"

lemma ApiResponse_simps [simp]:
  "statusCode (ApiResponse code d msg) = code" "data (ApiResponse code d msg) = d"
  "message (ApiResponse code d msg) = msg" "success (ApiResponse code d msg) = (code < 400)"
  by (simp_all add: ApiResponse_def)

lemma ApiError_simps [simp]:
  "isApiError (ApiError code msg)" "e_status (ApiError code msg) = Some code"
  "e_message (ApiError code msg) = msg"
  by (simp_all add: ApiError_def)

lemma ApiError_inject [simp]: "ApiError c m = ApiError c' m' \<longleftrightarrow> c = c' \<and> m = m'"
  by (simp add: ApiError_def)

subsection \<open>The error middleware\<close>

definition BODY_PARSER_ERRORS :: "string \<Rightarrow> (int \<times> string) option" where
  "BODY_PARSER_ERRORS t =
     (if t = ''entity.parse.failed'' then Some (400, ''Request body is not valid JSON'')
      else if t = ''entity.too.large'' then Some (413, ''Request body is too large'')
      else if t = ''encoding.unsupported'' then Some (415, ''Unsupported content encoding'')
      else if t = ''request.aborted'' then Some (400, ''Request was aborted before it completed'')
      else None)"

definition classify :: "thrown \<Rightarrow> thrown" where
  "classify err =
     (if isApiError err then err
      else case Option.bind (e_type err) BODY_PARSER_ERRORS of
             Some (code, msg) \<Rightarrow> ApiError code msg
           | None \<Rightarrow>
               ApiError (num_or (e_status err) 500) (str_or (Some (e_message err)) ''Internal Server Error''))"

text \<open>The body of an error response; the stack is sent in development only.\<close>

record error_body =
  b_statusCode :: int
  b_success :: bool
  b_message :: string
  b_errors :: "string list"
  b_has_stack :: bool

definition errorMiddleware :: "string option \<Rightarrow> thrown \<Rightarrow> int \<times> error_body" where
  "errorMiddleware node_env err =
     (let error = classify err; code = nullish (e_status error) 500
      in (code,
          \<lparr>b_statusCode = code, b_success = False, b_message = e_message error, b_errors = e_errors error,
           b_has_stack = (node_env = Some ''development'')\<rparr>))"

datatype 'a reply = Sent "'a response" | Refused int error_body

text \<open>\<open>asyncHandler\<close>: a rejected handler reaches the error middleware.\<close>

definition asyncHandler :: "string option \<Rightarrow> thrown + 'a response \<Rightarrow> 'a reply" where
  "asyncHandler node_env r =
     (case r of
        Inr resp \<Rightarrow> Sent resp
      | Inl e \<Rightarrow> (let (code, b) = errorMiddleware node_env e in Refused code b))"

definition reply_status :: "'a reply \<Rightarrow> int" where
  "reply_status r = (case r of Sent resp \<Rightarrow> statusCode resp | Refused code _ \<Rightarrow> code)"

text \<open>
  Whatever a handler throws, the client gets the status of the error, its body says so and
  says it failed, and no stack leaves a process that is not in development.
\<close>

lemma error_reply:
  assumes "asyncHandler env (Inl e) = Refused code b"
  shows "b_statusCode b = code \<and> \<not> b_success b \<and> (b_has_stack b \<longrightarrow> env = Some ''development'') \<and>
    (isApiError e \<longrightarrow> code = nullish (e_status e) 500 \<and> b_message b = e_message e)"
  using assms
  by (auto simp: asyncHandler_def errorMiddleware_def classify_def Let_def)

subsection \<open>Authentication and validation\<close>

text \<open>\<open>verifyJWT\<close>: the claims of the session cookie become \<open>req.user\<close>.\<close>

definition verifyJWT :: "(string \<Rightarrow> string option + 'claims) \<Rightarrow> string option \<Rightarrow> thrown + 'claims" where
  "verifyJWT jwt_verify cookie =
     (if \<not> truthy_str cookie then Inl (ApiError 401 ''Unauthorized request'')
      else case jwt_verify (the cookie) of
             Inl msg \<Rightarrow> Inl (ApiError 401 (str_or msg ''Invalid access token''))
           | Inr cl \<Rightarrow> Inr cl)"

record request =
  r_body :: "fields option"
  r_params :: fields
  r_query :: fields

record issue =
  path :: "string list"
  i_message :: string

text \<open>What a schema answers: the issues of a \<open>ZodError\<close>, another throw, or the parsed parts.\<close>

datatype parse_result = Issues "issue list" | OtherThrow thrown | Parsed "fields option" "fields option" "fields option"

record field_error =
  fe_field :: string
  fe_message :: string

text \<open>
  \<open>validate\<close>: 400 with the issues, the next middleware with the error, or the request
  with every part the schema returned written back over it.
\<close>

definition validate_request ::
    "(request \<Rightarrow> parse_result) \<Rightarrow> request \<Rightarrow> (int \<times> field_error list) + (thrown + request)" where
  "validate_request schema req =
     (case schema req of
        Issues iss \<Rightarrow>
          Inl (400, map (\<lambda>e. \<lparr>fe_field = join_with CHR ''.'' (path e), fe_message = i_message e\<rparr>) iss)
      | OtherThrow e \<Rightarrow> Inr (Inl e)
      | Parsed body params query \<Rightarrow>
          Inr (Inr \<lparr>r_body = (case body of Some b \<Rightarrow> Some b | None \<Rightarrow> r_body req),
                    r_params = spread (r_params req) (nullish params []),
                    r_query = spread (r_query req) (nullish query [])\<rparr>))"

subsection \<open>Request identifiers\<close>

definition id_char :: "char \<Rightarrow> bool" where
  "id_char c =
     (let n = of_char c :: nat
      in 97 \<le> n \<and> n \<le> 122 \<or> 65 \<le> n \<and> n \<le> 90 \<or> 48 \<le> n \<and> n \<le> 57 \<or>
         c = CHR ''_'' \<or> c = CHR ''.'' \<or> c = CHR '':'' \<or> c = CHR ''-'')"

text \<open>\<open>normaliseRequestId\<close>: the caller's identifier if it is short and plain, a fresh one otherwise.\<close>

definition normaliseRequestId :: "string \<Rightarrow> string option \<Rightarrow> string" where
  "normaliseRequestId uuid candidate =
     (case candidate of
        None \<Rightarrow> uuid
      | Some s \<Rightarrow>
          let cleaned = take 64 (trim s)
          in if cleaned \<noteq> [] \<and> list_all id_char cleaned then cleaned else uuid)"

text \<open>\<open>requestContextMiddleware\<close>: either header, the first that is not empty.\<close>

definition request_id_of :: "string \<Rightarrow> string option \<Rightarrow> string option \<Rightarrow> string" where
  "request_id_of uuid x_request_id x_correlation_id =
     normaliseRequestId uuid (if truthy_str x_request_id then x_request_id else x_correlation_id)"

text \<open>An identifier never carries a character that could end a header or a log line.\<close>

lemma request_id_safe:
  "let i = request_id_of uuid a b in
     i = uuid \<or> length i \<le> 64 \<and> i \<noteq> [] \<and> list_all id_char i"
  by (auto simp: request_id_of_def normaliseRequestId_def Let_def split: option.splits)

end
