(* ===== verification/Monitor_Schema.thy ===== *)
theory Monitor_Schema
  imports Http
begin

text \<open>
  The monitor schema as Mongoose applies it, \<open>Backend/src/models/monitor.model.js\<close>: reading
  a field, assigning a value to a path (setter, cast, enum and minimum), building a
  document from plain fields, and a \<open>$set\<close> with validators. Mongoose's own cast to a
  schema type is the parameter \<open>castTo\<close>. Paths the schema does not declare are dropped
  (strict mode).
\<close>

datatype schema_type = SString | SNumber | SBoolean | SDate | SObjectId

type_synonym caster = "schema_type \<Rightarrow> js \<Rightarrow> js option"

subsection \<open>Fields as filters see them\<close>

definition js_opt :: "('a \<Rightarrow> js) \<Rightarrow> 'a option \<Rightarrow> js" where
  "js_opt f x = (case x of None \<Rightarrow> JNull | Some v \<Rightarrow> f v)"

definition status_name :: "status \<Rightarrow> string" where
  "status_name s = (case s of UP \<Rightarrow> ''UP'' | DOWN \<Rightarrow> ''DOWN'')"

definition monitor_attr :: "monitor \<Rightarrow> string \<Rightarrow> js" where
  "monitor_attr m k =
     (if k = ''_id'' then JOid (m_id m)
      else if k = ''userId'' then JOid (m_userId m)
      else if k = ''url'' then JStr (m_url m)
      else if k = ''title'' then JStr (m_title m)
      else if k = ''type'' then JStr (m_type m)
      else if k = ''status'' then js_opt (\<lambda>s. JStr (status_name s)) (m_status m)
      else if k = ''active'' then js_opt JBool (m_active m)
      else if k = ''nextCheckAt'' then js_opt JDate (nextCheckAt m)
      else JUndef)"

subsection \<open>Assigning a path\<close>

definition as_text :: "js option \<Rightarrow> string option" where
  "as_text v = (case v of Some (JStr s) \<Rightarrow> Some s | _ \<Rightarrow> None)"

definition as_number :: "js option \<Rightarrow> rat option" where
  "as_number v = (case v of Some (JNum r) \<Rightarrow> Some r | _ \<Rightarrow> None)"

definition as_bool :: "js option \<Rightarrow> bool option" where
  "as_bool v = (case v of Some (JBool b) \<Rightarrow> Some b | _ \<Rightarrow> None)"

definition as_date :: "js option \<Rightarrow> time option" where
  "as_date v = (case v of Some (JDate t) \<Rightarrow> Some t | _ \<Rightarrow> None)"

definition as_oid :: "js option \<Rightarrow> oid option" where
  "as_oid v = (case v of Some (JOid i) \<Rightarrow> Some i | _ \<Rightarrow> None)"

text \<open>\<open>null\<close> clears an optional path; anything else must cast.\<close>

definition optional :: "(js option \<Rightarrow> 'a option) \<Rightarrow> (js \<Rightarrow> js option) \<Rightarrow> js \<Rightarrow> 'a option option" where
  "optional as castv v = (if v = JNull \<or> v = JUndef then Some None else map_option Some (as (castv v)))"

definition status_of :: "string \<Rightarrow> status option" where
  "status_of s = (if s = ''UP'' then Some UP else if s = ''DOWN'' then Some DOWN else None)"

definition at_least_one :: "rat option \<Rightarrow> rat option" where
  "at_least_one r = (case r of Some x \<Rightarrow> if 1 \<le> x then Some x else None | None \<Rightarrow> None)"

definition assign_field :: "caster \<Rightarrow> string \<Rightarrow> js \<Rightarrow> monitor \<Rightarrow> monitor option" where
  "assign_field C k v m =
     (if k = ''title'' then
        map_option (\<lambda>s. m\<lparr>m_title := set_title s\<rparr>) (optional as_text (C SString) v)
      else if k = ''name'' then
        map_option (\<lambda>s. m\<lparr>m_name := map_option trim s\<rparr>) (optional as_text (C SString) v)
      else if k = ''description'' then
        map_option (\<lambda>s. m\<lparr>m_description := trim s\<rparr>) (as_text (C SString v))
      else if k = ''type'' then
        Option.bind (as_text (C SString v)) (\<lambda>s. if s \<in> set monitor_types then Some (m\<lparr>m_type := s\<rparr>) else None)
      else if k = ''url'' then
        Option.bind (as_text (C SString v)) (\<lambda>s. if s = '''' then None else Some (m\<lparr>m_url := s\<rparr>))
      else if k = ''interval'' then
        map_option (\<lambda>r. m\<lparr>m_interval := r\<rparr>) (optional as_number (C SNumber) v)
      else if k = ''timeout'' then
        map_option (\<lambda>r. m\<lparr>m_timeout := r\<rparr>) (optional as_number (C SNumber) v)
      else if k = ''active'' then
        map_option (\<lambda>b. m\<lparr>m_active := b\<rparr>) (optional as_bool (C SBoolean) v)
      else if k = ''ignoreTlsErrors'' then
        map_option (\<lambda>b. m\<lparr>ignoreTlsErrors := b\<rparr>) (optional as_bool (C SBoolean) v)
      else if k = ''failureThreshold'' then
        map_option (\<lambda>r. m\<lparr>failureThreshold := Some \<lfloor>r\<rfloor>\<rparr>) (at_least_one (as_number (C SNumber v)))
      else if k = ''successThreshold'' then
        map_option (\<lambda>r. m\<lparr>successThreshold := Some \<lfloor>r\<rfloor>\<rparr>) (at_least_one (as_number (C SNumber v)))
      else if k = ''authHeaders'' then
        map_option (\<lambda>s. m\<lparr>authHeaders := s\<rparr>) (optional as_text (C SString) v)
      else if k = ''nextCheckAt'' then
        map_option (\<lambda>t. m\<lparr>nextCheckAt := t\<rparr>) (optional as_date (C SDate) v)
      else if k = ''userId'' then
        map_option (\<lambda>i. m\<lparr>m_userId := i\<rparr>) (as_oid (C SObjectId v))
      else if k = ''status'' then
        map_option (\<lambda>s. m\<lparr>m_status := Some s\<rparr>) (Option.bind (as_text (C SString v)) status_of)
      else if k = ''consecutiveFailures'' then
        map_option (\<lambda>r. m\<lparr>consecutiveFailures := Some (nat \<lfloor>r\<rfloor>)\<rparr>) (as_number (C SNumber v))
      else if k = ''consecutiveSuccesses'' then
        map_option (\<lambda>r. m\<lparr>consecutiveSuccesses := Some (nat \<lfloor>r\<rfloor>)\<rparr>) (as_number (C SNumber v))
      else Some m)"

abbreviation assign_all :: "caster \<Rightarrow> fields \<Rightarrow> monitor \<Rightarrow> monitor option" where
  "assign_all C \<equiv> apply_fields (assign_field C)"

text \<open>The fields of a monitor no assignment of another path reaches.\<close>

lemma assign_field_frame:
  assumes "assign_field C k v m = Some m'"
  shows "m_id m' = m_id m" "breakerState m' = breakerState m" "breakerOpenedAt m' = breakerOpenedAt m"
    "breakerRetryAt m' = breakerRetryAt m" "breakerConsecutiveOpens m' = breakerConsecutiveOpens m"
    "lastCheckStatus m' = lastCheckStatus m" "lastChecked m' = lastChecked m"
    "lastStatusCode m' = lastStatusCode m" "m_timestamp m' = m_timestamp m"
proof -
  define kept where "kept = (\<lambda>m :: monitor. ((m_id m, breakerState m, breakerOpenedAt m, breakerRetryAt m, breakerConsecutiveOpens m),
    (lastCheckStatus m, lastChecked m, lastStatusCode m, m_timestamp m)))"
  have "kept m' = kept m"
    using assms by (auto simp: assign_field_def bind_eq_Some_conv kept_def simp del: prod.inject split: if_splits)
  then show "m_id m' = m_id m" "breakerState m' = breakerState m" "breakerOpenedAt m' = breakerOpenedAt m"
    "breakerRetryAt m' = breakerRetryAt m" "breakerConsecutiveOpens m' = breakerConsecutiveOpens m"
    "lastCheckStatus m' = lastCheckStatus m" "lastChecked m' = lastChecked m"
    "lastStatusCode m' = lastStatusCode m" "m_timestamp m' = m_timestamp m"
    by (simp_all add: kept_def)
qed

lemma assign_field_userId: "assign_field C k v m = Some m' \<Longrightarrow> k \<noteq> ''userId'' \<Longrightarrow> m_userId m' = m_userId m"
  by (auto simp: assign_field_def bind_eq_Some_conv split: if_splits)

lemma assign_field_status: "assign_field C k v m = Some m' \<Longrightarrow> k \<noteq> ''status'' \<Longrightarrow> m_status m' = m_status m"
  by (auto simp: assign_field_def bind_eq_Some_conv split: if_splits)

lemma assign_field_next: "assign_field C k v m = Some m' \<Longrightarrow> k \<noteq> ''nextCheckAt'' \<Longrightarrow> nextCheckAt m' = nextCheckAt m"
  by (auto simp: assign_field_def bind_eq_Some_conv split: if_splits)

lemma assign_field_url: "assign_field C k v m = Some m' \<Longrightarrow> k \<noteq> ''url'' \<Longrightarrow> m_url m' = m_url m"
  by (auto simp: assign_field_def bind_eq_Some_conv split: if_splits)

lemma assign_field_auth: "assign_field C k v m = Some m' \<Longrightarrow> k \<noteq> ''authHeaders'' \<Longrightarrow> authHeaders m' = authHeaders m"
  by (auto simp: assign_field_def bind_eq_Some_conv split: if_splits)

lemma assign_field_counters:
  assumes "assign_field C k v m = Some m'"
  shows "k \<noteq> ''consecutiveFailures'' \<Longrightarrow> consecutiveFailures m' = consecutiveFailures m"
    and "k \<noteq> ''consecutiveSuccesses'' \<Longrightarrow> consecutiveSuccesses m' = consecutiveSuccesses m"
  using assms by (auto simp: assign_field_def bind_eq_Some_conv split: if_splits)

text \<open>Whether an assignment is accepted does not depend on the document.\<close>

lemma assign_field_total: "assign_field C k v m = None \<longleftrightarrow> assign_field C k v m' = None"
  by (auto simp: assign_field_def bind_eq_None_conv split: if_splits option.splits)

lemmas assign_all_total = apply_fields_total [OF assign_field_total]

subsection \<open>The model\<close>

definition blank_monitor :: "oid \<Rightarrow> time \<Rightarrow> monitor" where
  "blank_monitor i now = monitor_defaults i '''' '''' now"

text \<open>\<open>Model.create(fields)\<close>: defaults, then the fields, then the required paths.\<close>

definition monitor_build :: "caster \<Rightarrow> oid \<Rightarrow> time \<Rightarrow> fields \<Rightarrow> db_error + monitor" where
  "monitor_build C i now fs =
     (case assign_all C fs (blank_monitor i now) of
        None \<Rightarrow> Inl (DbFailure ''monitors validation failed'')
      | Some m \<Rightarrow>
          if m_userId m = '''' \<or> m_url m = '''' then Inl (DbFailure ''monitors validation failed'') else Inr m)"

definition monitor_validate :: "caster \<Rightarrow> fields \<Rightarrow> db_error option" where
  "monitor_validate C fs =
     (if assign_all C fs (blank_monitor '''' 0) = None then Some (DbFailure ''Validation failed'') else None)"

definition monitor_set :: "caster \<Rightarrow> fields \<Rightarrow> monitor \<Rightarrow> monitor" where
  "monitor_set C fs m = (case assign_all C fs m of None \<Rightarrow> m | Some m' \<Rightarrow> m')"

text \<open>The schema marks the outbound credentials \<open>select: false\<close>.\<close>

definition hide_credentials :: "monitor \<Rightarrow> monitor" where
  "hide_credentials m = m\<lparr>authHeaders := None\<rparr>"

definition monitor_model ::
    "('c, monitor) coll \<Rightarrow> (js \<Rightarrow> monitor \<Rightarrow> bool) \<Rightarrow> caster \<Rightarrow> oid \<Rightarrow> time \<Rightarrow> ('c, monitor) mongoose_model" where
  "monitor_model ops matches C i now =
     \<lparr>collection = ops, matches_filter = matches, default_select = hide_credentials,
      build = monitor_build C i now, set_fields = monitor_set C, validate = monitor_validate C,
      field_value = (\<lambda>k m. monitor_attr m k)\<rparr>"

lemma monitor_model_simps [simp]:
  "collection (monitor_model ops mt C i now) = ops"
  "matches_filter (monitor_model ops mt C i now) = mt"
  "default_select (monitor_model ops mt C i now) = hide_credentials"
  "build (monitor_model ops mt C i now) = monitor_build C i now"
  "set_fields (monitor_model ops mt C i now) = monitor_set C"
  "validate (monitor_model ops mt C i now) = monitor_validate C"
  "field_value (monitor_model ops mt C i now) k m = monitor_attr m k"
  by (simp_all add: monitor_model_def)

lemma monitor_set_keeps:
  assumes "\<And>k v m m'. assign_field C k v m = Some m' \<Longrightarrow> k \<in> set (map fst fs) \<Longrightarrow> g m' = g m"
  shows "g (monitor_set C fs m) = g m"
  using apply_fields_keeps [where fs = fs and assign = "assign_field C" and g = g and d = m] assms by (auto simp: monitor_set_def split: option.splits)

text \<open>The owner a document is built with is the one the fields name.\<close>

lemma monitor_build_owner:
  assumes cast: "C SObjectId (JOid w) = Some (JOid w)" and fs: "distinct (map fst fs)"
    and w: "map_of fs ''userId'' = Some (JOid w)" and built: "monitor_build C i now fs = Inr m"
  shows "m_userId m = w"
proof -
  from built have "assign_all C fs (blank_monitor i now) = Some m"
    by (auto simp: monitor_build_def split: option.splits if_splits)
  from apply_fields_final [OF fs w this, where g = m_userId] obtain n n' where
    "assign_field C ''userId'' (JOid w) n = Some n'" "m_userId m = m_userId n'"
    using assign_field_userId by blast
  with cast show ?thesis by (auto simp: assign_field_def as_oid_def)
qed

subsection \<open>A concrete cast\<close>

text \<open>The identity on values of the right type, and identifiers given as strings.\<close>

definition plain_cast :: caster where
  "plain_cast ty v =
     (case (ty, v) of
        (SString, JStr s) \<Rightarrow> Some v
      | (SNumber, JNum r) \<Rightarrow> Some v
      | (SBoolean, JBool b) \<Rightarrow> Some v
      | (SDate, JDate t) \<Rightarrow> Some v
      | (SObjectId, JOid i) \<Rightarrow> Some v
      | (SObjectId, JStr s) \<Rightarrow> Some (JOid s)
      | _ \<Rightarrow> None)"

definition plain_bson :: bson where
  "plain_bson =
     \<lparr>isValidObjectId = (\<lambda>v. case v of JStr s \<Rightarrow> s \<noteq> '''' | JOid _ \<Rightarrow> True | _ \<Rightarrow> False),
      newObjectId = (\<lambda>s. if s = '''' then Inl ''invalid'' else Inr s), number_text = (\<lambda>r. show_int \<lfloor>r\<rfloor>)\<rparr>"

end
