(* ===== verification/Tenancy.thy ===== *)
theory Tenancy
  imports Monitor_Schema
begin

text \<open>
  The application's DAOs, \<open>Backend/src/dao/index.js\<close>, and what the scoping layer
  guarantees: whatever filter a caller supplies, a read returns documents of the caller's
  own scope, and a write leaves every other document as it was.
\<close>

subsection \<open>The code\<close>

definition ownedMonitorIds :: "('c, 'd) mongoose_model \<Rightarrow> 'c \<Rightarrow> js \<Rightarrow> dao_error + js list" where
  "ownedMonitorIds MM mc ownerId =
     (case find_many (collection MM) mc (matches_filter MM (JObj [(''userId'', ownerId)])) (\<lambda>_. 0) None of
        Inl e \<Rightarrow> Inl (DbFailed e)
      | Inr ms \<Rightarrow> Inr (remdups (map (field_value MM ''_id'') ms)))"

definition byMonitorOwnership :: "('c, 'd) mongoose_model \<Rightarrow> 'c \<Rightarrow> js \<Rightarrow> dao_error + fields" where
  "byMonitorOwnership MM mc ownerId =
     map_sum id (\<lambda>is. [(''monitorId'', JObj [(''$in'', JArr is)])]) (ownedMonitorIds MM mc ownerId)"

text \<open>Monitors, channels, notification logs and status pages carry their owner.\<close>

definition direct_dao :: "('c, 'd) mongoose_model \<Rightarrow> ('c, 'd) dao" where
  "direct_dao M = \<lparr>d_model = M, ownerField = ''userId'', resolveScope = None\<rparr>"

text \<open>Incidents and logs belong to whoever owns their monitor.\<close>

definition derived_dao ::
    "('m, 'e) mongoose_model \<Rightarrow> 'm \<Rightarrow> ('c, 'd) mongoose_model \<Rightarrow> ('c, 'd) dao" where
  "derived_dao MM mc M =
     \<lparr>d_model = M, ownerField = ''userId'', resolveScope = Some (byMonitorOwnership MM mc)\<rparr>"

definition assertMonitorOwned ::
    "bson \<Rightarrow> ('c, 'd) mongoose_model \<Rightarrow> 'c \<Rightarrow> js \<Rightarrow> js \<Rightarrow> thrown + 'd" where
  "assertMonitorOwned B MM mc ownerId monitorId =
     (if \<not> isValidObjectId B monitorId then Inl (ApiError 404 ''Monitor not found'')
      else case dao_findById B (direct_dao MM) mc ownerId monitorId no_options of
        Inl e \<Rightarrow> Inl (dao_thrown e)
      | Inr None \<Rightarrow> Inl (ApiError 404 ''Monitor not found'')
      | Inr (Some m) \<Rightarrow> Inr m)"

subsection \<open>No owner, no query\<close>

lemma unscoped_refused:
  assumes "ownerId \<in> {JUndef, JNull, JStr ''''}"
  shows "\<exists>msg. scopeFor B D ownerId = Inl (UnscopedQueryError msg)"
  using assms by (auto simp: scopeFor_def assertOwner_def)

subsection \<open>The scoped filter\<close>

text \<open>
  The scope as a predicate: what a scoped query can see at all.
\<close>

abbreviation in_scope :: "('c, 'd) dao \<Rightarrow> fields \<Rightarrow> 'd \<Rightarrow> bool" where
  "in_scope D scope d \<equiv> matches_filter (d_model D) (JObj scope) d"

lemma scope_single:
  assumes "scopeFor B D ownerId = Inr scope" and "resolveScope D = None"
  shows "\<exists>i. newObjectId B (js_string B ownerId) = Inr i \<and> scope = [(ownerField D, JOid i)]"
  using assms by (auto simp: scopeFor_def split: sum.splits)

lemma scope_derived_single:
  assumes "scopeFor B (derived_dao MM mc M) ownerId = Inr scope"
  shows "\<exists>is. ownedMonitorIds MM mc ownerId = Inr is \<and> scope = [(''monitorId'', JObj [(''$in'', JArr is)])]"
  using assms
  by (auto simp: scopeFor_def derived_dao_def byMonitorOwnership_def map_sum_def split: sum.splits)

text \<open>
  The combined filter means exactly the caller's filter and the scope: narrowing is
  possible, widening is not, whether or not the two name the same field.
\<close>

lemma scoped_filter_intersection:
  assumes ql: "query_language (matches_filter (d_model D)) attr"
    and flt: "distinct (map fst flt)" and scope: "scopeFor B D ownerId = Inr scope" "distinct (map fst scope)"
    and q: "scoped_filter B D ownerId flt = Inr q"
  shows "matches_filter (d_model D) (JObj q) d \<longleftrightarrow> matches_filter (d_model D) (JObj flt) d \<and> in_scope D scope d"
proof (cases "list_ex (\<lambda>(k, v). k \<in> fst ` set flt) scope")
  case True
  with q scope have "q = [(''$and'', JArr [JObj flt, JObj scope])]" by (simp add: scoped_filter_def)
  then show ?thesis by (simp add: query_language.and_is_conjunction [OF ql])
next
  case False
  then have "fst ` set flt \<inter> fst ` set scope = {}" by (force simp: list_ex_iff)
  moreover from q scope False have "q = spread flt scope" by (simp add: scoped_filter_def)
  ultimately show ?thesis
    using query_language.spread_is_conjunction [OF ql flt scope(2)] by blast
qed

lemma scoped_filter_defined:
  assumes "scopeFor B D ownerId = Inr scope"
  shows "\<exists>q. scoped_filter B D ownerId flt = Inr q"
  using assms by (simp add: scoped_filter_def Let_def)

lemma limit_subset: "set (case n of None \<Rightarrow> xs | Some k \<Rightarrow> take k xs) \<subseteq> set xs"
  by (auto split: option.splits dest: in_set_takeD)

lemma dao_find_confined:
  assumes ql: "query_language (matches_filter (d_model D)) attr"
    and db: "mongo (collection (d_model D)) docs clash"
    and flt: "distinct (map fst flt)" and scope: "scopeFor B D ownerId = Inr scope" "distinct (map fst scope)"
    and found: "dao_find B D c ownerId flt opt = Inr ds"
  shows "set ds \<subseteq> (project opt \<circ> default_select (d_model D)) `
      {d. d \<in># docs c \<and> matches_filter (d_model D) (JObj flt) d \<and> in_scope D scope d}"
    and "o_limit opt = None \<Longrightarrow> set ds = (project opt \<circ> default_select (d_model D)) `
      {d. d \<in># docs c \<and> matches_filter (d_model D) (JObj flt) d \<and> in_scope D scope d}"
proof -
  from scoped_filter_defined [OF scope(1)] obtain q where q: "scoped_filter B D ownerId flt = Inr q" by blast
  let ?v = "project opt \<circ> default_select (d_model D)"
  let ?n = "case o_limit opt of None \<Rightarrow> None | Some n \<Rightarrow> if n = 0 then None else Some n"
  from found q obtain rows where
    rows: "find_many (collection (d_model D)) c (matches_filter (d_model D) (JObj q)) (nullish (o_sort opt) (\<lambda>_. 0)) ?n = Inr rows"
    and ds: "ds = map ?v rows"
    by (auto simp: dao_find_def split: sum.splits)
  note meaning = scoped_filter_intersection [OF ql flt scope q]
  have "set rows \<subseteq> {d. d \<in># docs c \<and> matches_filter (d_model D) (JObj flt) d \<and> in_scope D scope d}"
    using mongo.find_members [OF db rows] meaning by auto
  then show "set ds \<subseteq> ?v ` {d. d \<in># docs c \<and> matches_filter (d_model D) (JObj flt) d \<and> in_scope D scope d}"
    unfolding ds by auto
  assume "o_limit opt = None"
  with rows have "find_many (collection (d_model D)) c (matches_filter (d_model D) (JObj q)) (nullish (o_sort opt) (\<lambda>_. 0)) None = Inr rows"
    by simp
  from mongo.find_all [OF db this] meaning
  have "set rows = {d. d \<in># docs c \<and> matches_filter (d_model D) (JObj flt) d \<and> in_scope D scope d}" by simp
  then show "set ds = ?v ` {d. d \<in># docs c \<and> matches_filter (d_model D) (JObj flt) d \<and> in_scope D scope d}"
    unfolding ds by simp
qed

lemma dao_findOne_confined:
  assumes ql: "query_language (matches_filter (d_model D)) attr"
    and db: "mongo (collection (d_model D)) docs clash"
    and flt: "distinct (map fst flt)" and scope: "scopeFor B D ownerId = Inr scope" "distinct (map fst scope)"
  shows "dao_findOne B D c ownerId flt opt = Inr (Some d) \<Longrightarrow>
      \<exists>x. x \<in># docs c \<and> matches_filter (d_model D) (JObj flt) x \<and> in_scope D scope x \<and>
        d = project opt (default_select (d_model D) x)"
    and "dao_findOne B D c ownerId flt opt = Inr None \<Longrightarrow> x \<in># docs c \<Longrightarrow> in_scope D scope x \<Longrightarrow>
      \<not> matches_filter (d_model D) (JObj flt) x"
proof -
  from scoped_filter_defined [OF scope(1)] obtain q where q: "scoped_filter B D ownerId flt = Inr q" by blast
  note meaning = scoped_filter_intersection [OF ql flt scope q]
  let ?found = "find_many (collection (d_model D)) c (matches_filter (d_model D) (JObj q)) (\<lambda>_. 0) (Some 1)"
  show "\<exists>x. x \<in># docs c \<and> matches_filter (d_model D) (JObj flt) x \<and> in_scope D scope x \<and>
      d = project opt (default_select (d_model D) x)"
    if "dao_findOne B D c ownerId flt opt = Inr (Some d)"
  proof -
    from that q obtain x rest where x: "?found = Inr (x # rest)" "d = project opt (default_select (d_model D) x)"
      by (auto simp: dao_findOne_def split: sum.splits list.splits)
    from mongo.find_members [OF db x(1), of x] meaning x(2) show ?thesis by auto
  qed
  show "\<not> matches_filter (d_model D) (JObj flt) x"
    if "dao_findOne B D c ownerId flt opt = Inr None" and "x \<in># docs c" and "in_scope D scope x"
  proof -
    from that(1) q have "?found = Inr []" by (auto simp: dao_findOne_def split: sum.splits list.splits)
    from mongo.find_empty [OF db this that(2)] meaning that(3) show ?thesis by simp
  qed
qed

subsection \<open>Tenants\<close>

lemma direct_dao_simps [simp]:
  "d_model (direct_dao M) = M" "ownerField (direct_dao M) = ''userId''" "resolveScope (direct_dao M) = None"
  by (simp_all add: direct_dao_def)

lemma derived_dao_simps [simp]:
  "d_model (derived_dao MM mc M) = M" "resolveScope (derived_dao MM mc M) = Some (byMonitorOwnership MM mc)"
  by (simp_all add: derived_dao_def)

lemma not_dollar [simp]: "\<not> starts_with ''$'' ''userId''" "\<not> starts_with ''$'' ''monitorId''" "\<not> starts_with ''$'' ''_id''"
  by (simp_all add: starts_with_def)

lemma direct_scope:
  assumes ql: "query_language (matches_filter M) attr" and "scopeFor B (direct_dao M) ownerId = Inr scope"
    and "newObjectId B (js_string B ownerId) = Inr i"
  shows "distinct (map fst scope) \<and> (in_scope (direct_dao M) scope d \<longleftrightarrow> attr d ''userId'' = JOid i)"
  using scope_single [OF assms(2)] assms(3) query_language.equality [OF ql, of "''userId''" i d] by auto

text \<open>The documents a tenant may see, those of them that a filter matches, and how a read shows them.\<close>

definition tenant_docs :: "('c \<Rightarrow> 'd multiset) \<Rightarrow> ('d \<Rightarrow> string \<Rightarrow> js) \<Rightarrow> oid \<Rightarrow> 'c \<Rightarrow> 'd set" where
  "tenant_docs docs attr i c = {d. d \<in># docs c \<and> attr d ''userId'' = JOid i}"

definition matching :: "('c, 'd) mongoose_model \<Rightarrow> fields \<Rightarrow> 'd set \<Rightarrow> 'd set" where
  "matching M flt S = {d \<in> S. matches_filter M (JObj flt) d}"

definition view :: "('c, 'd) mongoose_model \<Rightarrow> 'd find_options \<Rightarrow> 'd \<Rightarrow> 'd" where
  "view M opt = project opt \<circ> default_select M"


definition two_tenants :: "monitor list" where
  "two_tenants = [monitor_defaults ''m1'' ''ann'' ''http://a'' 0, monitor_defaults ''m2'' ''bob'' ''http://b'' 0]"

definition example_monitor_model :: "(monitor list, monitor) mongoose_model" where
  "example_monitor_model =
     monitor_model (list_coll (\<lambda>a b. m_id a = m_id b)) (\<lambda>q m. evalq Some (monitor_attr m) q) plain_cast ''m3'' 5"

lemma example_monitor_model_ok:
  "query_language (matches_filter example_monitor_model) monitor_attr"
  "mongo_atomic (collection example_monitor_model) mset (\<lambda>a b. m_id a = m_id b)"
  by (simp_all add: example_monitor_model_def evaluator.query_language_axioms mem_atomic.mongo_atomic_axioms)


subsection \<open>Writes\<close>

text \<open>The documents of every other tenant.\<close>

definition others :: "('c \<Rightarrow> 'd multiset) \<Rightarrow> ('d \<Rightarrow> string \<Rightarrow> js) \<Rightarrow> oid \<Rightarrow> 'c \<Rightarrow> 'd multiset" where
  "others docs attr i c = filter_mset (\<lambda>d. attr d ''userId'' \<noteq> JOid i) (docs c)"

lemma fst_lift_db [simp]: "fst (lift_db r) = fst r"
  by (simp add: lift_db_def)

lemma fst_seen_through [simp]: "fst (seen_through w r) = fst r"
  by (simp add: seen_through_def)

lemma scoped_id_filter:
  assumes ql: "query_language (matches_filter M) attr" and scope: "scopeFor B (direct_dao M) ownerId = Inr scope"
    and owner: "newObjectId B (js_string B ownerId) = Inr i"
    and q: "scoped_filter B (direct_dao M) ownerId [(''_id'', k)] = Inr q" and d: "matches_filter M (JObj q) d"
  shows "attr d ''userId'' = JOid i"
proof -
  note sc = direct_scope [OF ql scope owner]
  have "query_language (matches_filter (d_model (direct_dao M))) attr" using ql by simp
  from scoped_filter_intersection [OF this _ scope _ q, of d] sc d show ?thesis by simp
qed


lemma example_monitor_stamps:
  "distinct (map fst fs) \<Longrightarrow> build example_monitor_model fs = Inr m \<Longrightarrow>
    map_of fs ''userId'' = Some (JOid i) \<Longrightarrow> monitor_attr m ''userId'' = JOid i"
  using monitor_build_owner [of plain_cast i fs "''m3''" 5 m]
  by (simp add: example_monitor_model_def monitor_attr_def plain_cast_def)

lemma example_monitor_keeps:
  "monitor_attr (set_fields example_monitor_model [(''title'', v)] m) ''userId'' = monitor_attr m ''userId''"
  using monitor_set_keeps [of plain_cast "[(''title'', v)]" m_userId m] assign_field_userId
  by (simp add: example_monitor_model_def monitor_attr_def)


end
