(* ===== verification/Monitors.thy ===== *)
theory Monitors
  imports Tenancy Crypto
begin

text \<open>
  The monitor API, \<open>Backend/src/controllers/monitor.controller.js\<close>: the fields a client may
  write, the address it is normalised to, what is shown of a monitor, and the four
  handlers. A request body is an arbitrary JavaScript object; \<open>Number(...)\<close> of the language
  is the parameter \<open>number\<close> (\<open>None\<close> is \<open>NaN\<close>), \<open>JSON.stringify\<close> and the key material are
  in the record \<open>vault\<close>.
\<close>

subsection \<open>The code\<close>

record ('k, 'b) vault =
  v_api :: "('k, 'b) crypto_api"
  v_key :: "string option"
  v_cached :: "'k option"
  v_iv :: 'b
  v_stringify :: "js \<Rightarrow> string"

text \<open>\<open>a ?? b\<close> on JavaScript values.\<close>

definition js_or :: "js \<Rightarrow> js \<Rightarrow> js" where
  "js_or a b = (if a = JUndef \<or> a = js.JNull then b else a)"

definition assign :: "string \<Rightarrow> js \<Rightarrow> fields" where
  "assign k v = (if v = JUndef then [] else [(k, v)])"

definition clamp_threshold :: "(js \<Rightarrow> rat option) \<Rightarrow> js \<Rightarrow> js" where
  "clamp_threshold number v = (if v = JUndef then JUndef else JNum (max 1 (num_or (number v) 1)))"

text \<open>The value as the credential check sees it.\<close>

definition credentials_of :: "js \<Rightarrow> json_value option" where
  "credentials_of v =
     (case v of
        JUndef \<Rightarrow> None
      | JStr s \<Rightarrow> Some (JString s)
      | JObj fs \<Rightarrow> Some (JObject (map (\<lambda>(k, w). (k, case w of JStr s \<Rightarrow> s | _ \<Rightarrow> '''')) fs))
      | JArr xs \<Rightarrow> Some (JArray (map (\<lambda>w. case w of JStr s \<Rightarrow> s | _ \<Rightarrow> '''') xs))
      | JNum r \<Rightarrow> Some (JNumber \<lfloor>r\<rfloor>)
      | _ \<Rightarrow> Some json_value.JNull)"

definition sealed :: "('k, 'b) vault \<Rightarrow> js \<Rightarrow> string + js" where
  "sealed V v =
     (if hasCredentials (credentials_of v) then
        map_sum id JStr (encryptSecret (v_api V) (v_key V) (v_cached V) (v_iv V) (v_stringify V v))
      else Inr js.JNull)"

text \<open>One \<open>assign\<close> after another, for distinct keys.\<close>

definition assign_each :: "fields \<Rightarrow> fields" where
  "assign_each kvs = concat (map (\<lambda>(k, v). assign k v) kvs)"

definition plain_fields :: "(js \<Rightarrow> rat option) \<Rightarrow> fields \<Rightarrow> fields" where
  "plain_fields number body =
     [(''type'', get ''type'' body),
      (''title'', js_or (get ''title'' body) (get ''name'' body)),
      (''description'', get ''description'' body),
      (''interval'', get ''interval'' body),
      (''timeout'', get ''timeout'' body),
      (''active'', get ''active'' body),
      (''ignoreTlsErrors'', get ''ignoreTlsErrors'' body),
      (''failureThreshold'', clamp_threshold number (get ''failureThreshold'' body)),
      (''successThreshold'', clamp_threshold number (get ''successThreshold'' body))]"

definition pickWritableFields :: "('k, 'b) vault \<Rightarrow> (js \<Rightarrow> rat option) \<Rightarrow> fields \<Rightarrow> string + fields" where
  "pickWritableFields V number body =
     (let plain = assign_each (plain_fields number body)
      in if get ''authHeaders'' body = JUndef then Inr plain
         else case sealed V (get ''authHeaders'' body) of
                Inl e \<Rightarrow> Inl e
              | Inr s \<Rightarrow> Inr (plain @ [(''authHeaders'', s)]))"

definition normalizeUrl :: "string \<Rightarrow> string" where
  "normalizeUrl url =
     (if starts_with ''http://'' (to_lower url) \<or> starts_with ''https://'' (to_lower url) then url
      else ''https://'' @ url)"

text \<open>A string that is not empty; the validators admit nothing else.\<close>

definition body_url :: "fields \<Rightarrow> string option" where
  "body_url body = (case get ''url'' body of JStr s \<Rightarrow> if s = '''' then None else Some s | _ \<Rightarrow> None)"

record presented =
  p_monitor :: monitor
  hasAuthHeaders :: bool

definition present :: "monitor \<Rightarrow> presented" where
  "present m = \<lparr>p_monitor = m\<lparr>authHeaders := None\<rparr>, hasAuthHeaders = truthy_str (authHeaders m)\<rparr>"

definition createMonitor ::
    "('k, 'b) vault \<Rightarrow> (js \<Rightarrow> rat option) \<Rightarrow> bson \<Rightarrow> ('c, monitor) dao \<Rightarrow> 'c \<Rightarrow> time \<Rightarrow> js \<Rightarrow> fields \<Rightarrow>
     'c \<times> (thrown + presented response)" where
  "createMonitor V number B D c now user_id body =
     (case body_url body of
        None \<Rightarrow> (c, Inl (ApiError 400 ''URL is required''))
      | Some url \<Rightarrow>
          let u = normalizeUrl url in
          (case dao_findOne B D c user_id [(''url'', JStr u)] no_options of
             Inl e \<Rightarrow> (c, Inl (dao_thrown e))
           | Inr (Some _) \<Rightarrow> (c, Inl (ApiError 409 ''This URL is already being monitored''))
           | Inr None \<Rightarrow>
               (case pickWritableFields V number body of
                  Inl _ \<Rightarrow> (c, Inl (ApiError 500 ''Internal server error''))
                | Inr patch \<Rightarrow>
                    (case dao_create B D c user_id (spread patch [(''url'', JStr u), (''nextCheckAt'', JDate now)]) of
                       (c', Inl _) \<Rightarrow> (c', Inl (ApiError 500 ''Internal server error''))
                     | (c', Inr m) \<Rightarrow> (c', Inr (ApiResponse 201 (present m) ''Monitor created successfully''))))))"

definition getAllMonitors :: "bson \<Rightarrow> ('c, monitor) dao \<Rightarrow> 'c \<Rightarrow> js \<Rightarrow> thrown + presented list response" where
  "getAllMonitors B D c user_id =
     (case dao_find B D c user_id [] no_options of
        Inl e \<Rightarrow> Inl (dao_thrown e)
      | Inr ms \<Rightarrow> Inr (ApiResponse 200 (map present ms) ''Monitors retrieved successfully''))"

definition deleteMonitor :: "bson \<Rightarrow> ('c, monitor) dao \<Rightarrow> 'c \<Rightarrow> js \<Rightarrow> js \<Rightarrow> 'c \<times> (thrown + unit response)" where
  "deleteMonitor B D c user_id monitorId =
     (case dao_deleteById B D c user_id monitorId of
        (c', Inl e) \<Rightarrow> (c', Inl (dao_thrown e))
      | (c', Inr None) \<Rightarrow> (c', Inl (ApiError 404 ''Monitor not found''))
      | (c', Inr (Some _)) \<Rightarrow> (c', Inr (ApiResponse 200 () ''Monitor deleted successfully'')))"

definition updateMonitor ::
    "('k, 'b) vault \<Rightarrow> (js \<Rightarrow> rat option) \<Rightarrow> bson \<Rightarrow> ('c, monitor) dao \<Rightarrow> 'c \<Rightarrow> js \<Rightarrow> js \<Rightarrow> fields \<Rightarrow>
     'c \<times> (thrown + presented response)" where
  "updateMonitor V number B D c user_id monitorId body =
     (case pickWritableFields V number body of
        Inl e \<Rightarrow> (c, Inl (plain_error e))
      | Inr patch \<Rightarrow>
          let patch' = (case body_url body of None \<Rightarrow> patch | Some url \<Rightarrow> patch @ [(''url'', JStr (normalizeUrl url))])
          in (case dao_updateById B D c user_id monitorId patch' of
                (c', Inl e) \<Rightarrow> (c', Inl (dao_thrown e))
              | (c', Inr None) \<Rightarrow> (c', Inl (ApiError 404 ''Monitor not found''))
              | (c', Inr (Some m)) \<Rightarrow> (c', Inr (ApiResponse 200 (present m) ''Monitor updated successfully''))))"

subsection \<open>What a body can write\<close>

definition writable :: "string set" where
  "writable =
     {''type'', ''title'', ''description'', ''interval'', ''timeout'', ''active'', ''ignoreTlsErrors'',
      ''failureThreshold'', ''successThreshold'', ''authHeaders''}"

lemma assign_each_simps [simp]:
  "assign_each [] = []"
  "assign_each ((k, v) # kvs) = assign k v @ assign_each kvs"
  by (simp_all add: assign_each_def)

lemma assign_each_filter: "assign_each kvs = filter (\<lambda>(k, v). v \<noteq> JUndef) kvs"
  by (induction kvs) (auto simp: assign_def)

lemma assign_each_keys: "fst ` set (assign_each kvs) \<subseteq> fst ` set kvs"
  by (auto simp: assign_each_filter)

lemma assign_each_distinct: "distinct (map fst kvs) \<Longrightarrow> distinct (map fst (assign_each kvs))"
  unfolding assign_each_filter by (rule distinct_map_filter)

lemma auth_writable: "''authHeaders'' \<in> writable"
  by (simp add: writable_def)

lemma pick_cases:
  assumes "pickWritableFields V number body = Inr patch"
  obtains kvs where "distinct (map fst kvs)" "fst ` set kvs \<subseteq> writable - {''authHeaders''}" "patch = assign_each kvs"
      "get ''authHeaders'' body = JUndef"
    | kvs s where "distinct (map fst kvs)" "fst ` set kvs \<subseteq> writable - {''authHeaders''}"
      "patch = assign_each kvs @ [(''authHeaders'', s)]" "sealed V (get ''authHeaders'' body) = Inr s"
proof -
  have ok: "distinct (map fst (plain_fields number body))" "fst ` set (plain_fields number body) \<subseteq> writable - {''authHeaders''}"
    by (simp_all add: plain_fields_def writable_def)
  show ?thesis
  proof (cases "get ''authHeaders'' body = JUndef")
    case True
    with assms have "patch = assign_each (plain_fields number body)" by (simp add: pickWritableFields_def)
    with that(1) [OF ok] True show ?thesis by blast
  next
    case False
    with assms obtain s where "sealed V (get ''authHeaders'' body) = Inr s"
        "patch = assign_each (plain_fields number body) @ [(''authHeaders'', s)]"
      by (auto simp: pickWritableFields_def split: sum.splits)
    with that(2) [OF ok] show ?thesis by blast
  qed
qed

lemma pick_keys: "pickWritableFields V number body = Inr patch \<Longrightarrow> fst ` set patch \<subseteq> writable"
proof (erule pick_cases)
  fix kvs assume "fst ` set kvs \<subseteq> writable - {''authHeaders''}" and "patch = assign_each kvs"
  then show "fst ` set patch \<subseteq> writable" using assign_each_keys [of kvs] by blast
next
  fix kvs s assume "fst ` set kvs \<subseteq> writable - {''authHeaders''}" and "patch = assign_each kvs @ [(''authHeaders'', s)]"
  then show "fst ` set patch \<subseteq> writable" using assign_each_keys [of kvs] auth_writable by (simp, blast)
qed

lemma pick_distinct: "pickWritableFields V number body = Inr patch \<Longrightarrow> distinct (map fst patch)"
proof (erule pick_cases)
  fix kvs assume "distinct (map fst kvs)" and "patch = assign_each kvs"
  then show "distinct (map fst patch)" by (simp add: assign_each_distinct)
next
  fix kvs s assume "distinct (map fst kvs)" and "fst ` set kvs \<subseteq> writable - {''authHeaders''}"
    and "patch = assign_each kvs @ [(''authHeaders'', s)]"
  then show "distinct (map fst patch)" using assign_each_keys [of kvs] assign_each_distinct [of kvs] by (simp, blast)
qed

text \<open>The state that belongs to the scheduler and to the DAO.\<close>

definition untouchable where
  "untouchable m =
     (m_id m, m_userId m, m_status m, lastCheckStatus m, lastChecked m, lastStatusCode m, nextCheckAt m,
      consecutiveFailures m, consecutiveSuccesses m, breakerState m, breakerOpenedAt m, breakerRetryAt m,
      breakerConsecutiveOpens m)"

lemma untouchable_kept:
  assumes "fst ` set fs \<subseteq> insert ''url'' writable"
  shows "untouchable (monitor_set C fs m) = untouchable m"
proof -
  have "untouchable m' = untouchable m"
    if a: "assign_field C k v m = Some m'" and "k \<in> set (map fst fs)" for k v m m'
  proof -
    from that(2) assms have "k \<in> insert ''url'' writable" by auto
    then have "k \<noteq> ''userId''" "k \<noteq> ''status''" "k \<noteq> ''nextCheckAt''" "k \<noteq> ''consecutiveFailures''" "k \<noteq> ''consecutiveSuccesses''"
      by (auto simp: writable_def)
    then show ?thesis
      using assign_field_frame [OF a] assign_field_userId [OF a] assign_field_status [OF a] assign_field_next [OF a]
        assign_field_counters [OF a]
      by (simp add: untouchable_def)
  qed
  then show ?thesis by (intro monitor_set_keeps)
qed

subsection \<open>Properties\<close>


definition example_vault :: "(string, string) vault" where
  "example_vault = \<lparr>v_api = plain_api, v_key = Some ''key'', v_cached = None, v_iv = ''iv'', v_stringify = (\<lambda>_. ''{}'')\<rparr>"

definition js_number :: "js \<Rightarrow> rat option" where
  "js_number v = (case v of JNum r \<Rightarrow> Some r | _ \<Rightarrow> None)"

definition hostile_body :: fields where
  "hostile_body =
     [(''title'', JStr ''mine''), (''userId'', JStr ''bob''), (''status'', JStr ''DOWN''),
      (''consecutiveFailures'', JNum 9), (''failureThreshold'', JNum 0), (''breakerState'', JStr ''OPEN'')]"



definition with_credentials :: "monitor list" where
  "with_credentials = [(hd two_tenants)\<lparr>authHeaders := Some ''v1:aa:bb:cc''\<rparr>]"


lemma created_values:
  assumes cast: "\<And>s. C SString (JStr s) = Some (JStr s)" "\<And>x. C SDate (JDate x) = Some (JDate x)"
      "\<And>j. C SObjectId (JOid j) = Some (JOid j)"
    and dist: "distinct (map fst fs)" and all: "assign_all C fs m0 = Some m"
  shows "map_of fs ''url'' = Some (JStr u) \<Longrightarrow> m_url m = u"
    and "map_of fs ''nextCheckAt'' = Some (JDate t) \<Longrightarrow> nextCheckAt m = Some t"
    and "map_of fs ''userId'' = Some (JOid i) \<Longrightarrow> m_userId m = i"
proof -
  show "m_url m = u" if "map_of fs ''url'' = Some (JStr u)"
  proof -
    have "\<exists>n n'. assign_field C ''url'' (JStr u) n = Some n' \<and> m_url m = m_url n'"
      by (rule apply_fields_final [OF dist that all]) (rule assign_field_url)
    then show ?thesis using cast(1) [of u] by (auto simp: assign_field_def as_text_def split: if_splits)
  qed
  show "nextCheckAt m = Some t" if "map_of fs ''nextCheckAt'' = Some (JDate t)"
  proof -
    have "\<exists>n n'. assign_field C ''nextCheckAt'' (JDate t) n = Some n' \<and> nextCheckAt m = nextCheckAt n'"
      by (rule apply_fields_final [OF dist that all]) (rule assign_field_next)
    then show ?thesis using cast(2) [of t] by (auto simp: assign_field_def optional_def as_date_def)
  qed
  show "m_userId m = i" if "map_of fs ''userId'' = Some (JOid i)"
  proof -
    have "\<exists>n n'. assign_field C ''userId'' (JOid i) n = Some n' \<and> m_userId m = m_userId n'"
      by (rule apply_fields_final [OF dist that all]) (rule assign_field_userId)
    then show ?thesis using cast(3) [of i] by (auto simp: assign_field_def as_oid_def)
  qed
qed

lemma created_clean:
  assumes all: "assign_all C fs (blank_monitor n now) = Some m"
    and keys: "set (map fst fs) \<subseteq> insert ''userId'' (insert ''url'' (insert ''nextCheckAt'' writable))"
  shows "m_id m = n \<and> m_status m = Some UP \<and> lastChecked m = None \<and> consecutiveFailures m = Some 0 \<and>
    consecutiveSuccesses m = Some 0 \<and> breakerState m = Some CLOSED"
proof -
  let ?g = "\<lambda>m. (m_id m, m_status m, lastChecked m, consecutiveFailures m, consecutiveSuccesses m, breakerState m)"
  have "?g m' = ?g m" if a: "assign_field C k v m = Some m'" and "k \<in> set (map fst fs)" for k v m m'
  proof -
    from that(2) keys have "k \<in> insert ''userId'' (insert ''url'' (insert ''nextCheckAt'' writable))" by blast
    then have "k \<noteq> ''status''" "k \<noteq> ''consecutiveFailures''" "k \<noteq> ''consecutiveSuccesses''"
      by (auto simp: writable_def)
    then show ?thesis
      using assign_field_frame [OF a] assign_field_status [OF a] assign_field_counters [OF a] by simp
  qed
  from apply_fields_keeps [where fs = fs and assign = "assign_field C" and g = ?g, OF this all] show ?thesis by (simp add: blank_monitor_def)
qed

lemma no_auth_key:
  assumes "fst ` set kvs \<subseteq> writable - {''authHeaders''}"
  shows "map_of (assign_each kvs) ''authHeaders'' = None"
  using assms assign_each_keys [of kvs] unfolding map_of_eq_None_iff by blast

lemma created_credentials:
  assumes patch: "pickWritableFields V number body = Inr patch"
    and crypto: "aead (v_api V)" "cache_ok (v_api V) (v_key V) (v_cached V)"
    and cast: "\<And>s. C SString (JStr s) = Some (JStr s)"
    and dist: "distinct (map fst fs)" and all: "assign_all C fs (blank_monitor n now) = Some m"
    and same: "map_of fs ''authHeaders'' = map_of patch ''authHeaders''"
  shows "if hasCredentials (credentials_of (get ''authHeaders'' body))
     then decryptSecret (v_api V) (v_key V) (v_cached V) (authHeaders m) = Some (v_stringify V (get ''authHeaders'' body))
     else authHeaders m = None"
  using patch
proof (rule pick_cases)
  fix kvs
  assume "fst ` set kvs \<subseteq> writable - {''authHeaders''}" and p: "patch = assign_each kvs"
    and undef: "get ''authHeaders'' body = JUndef"
  then have "map_of fs ''authHeaders'' = None" using no_auth_key [of kvs] by (simp add: same)
  then have "''authHeaders'' \<notin> set (map fst fs)" by (simp add: map_of_eq_None_iff)
  then have "authHeaders m = authHeaders (blank_monitor n now)"
    by (intro apply_fields_keeps [OF _ all]) (metis assign_field_auth)
  then show ?thesis by (simp add: undef credentials_of_def hasCredentials_def blank_monitor_def)
next
  fix kvs s
  assume kvs: "fst ` set kvs \<subseteq> writable - {''authHeaders''}" and p: "patch = assign_each kvs @ [(''authHeaders'', s)]"
    and s: "sealed V (get ''authHeaders'' body) = Inr s"
  from no_auth_key [OF kvs] have "map_of fs ''authHeaders'' = Some s" by (simp add: same p map_add_def)
  from apply_fields_final [OF dist this all, where g = authHeaders] obtain x x' where
    x: "assign_field C ''authHeaders'' s x = Some x'" "authHeaders m = authHeaders x'"
    using assign_field_auth by blast
  show ?thesis
  proof (cases "hasCredentials (credentials_of (get ''authHeaders'' body))")
    case True
    with s obtain e where
      e: "encryptSecret (v_api V) (v_key V) (v_cached V) (v_iv V) (v_stringify V (get ''authHeaders'' body)) = Inr e" "s = JStr e"
      by (auto simp: sealed_def map_sum_def split: sum.splits)
    with x cast have "authHeaders m = Some e" by (auto simp: assign_field_def optional_def as_text_def)
    with True aead.decrypt_envelope [OF crypto(1) e(1) crypto(2) crypto(2)] show ?thesis by simp
  next
    case False
    with s have "s = js.JNull" by (simp add: sealed_def)
    with x have "authHeaders m = None" by (auto simp: assign_field_def optional_def)
    with False show ?thesis by simp
  qed
qed

text \<open>
  Creating a monitor. An accepted request adds exactly one monitor: it belongs to the caller, watches
  the normalised address, which none of the caller's monitors watched before, is due at once, and
  starts from a clean state whatever the request said about status, counters or breaker; and the
  credentials of the request are what the prober will decrypt from it.
\<close>

theorem createMonitor_functional:
  assumes ql: "query_language mt monitor_attr" and db: "mongo ops docs clash"
    and same: "\<And>x k v d. monitor_attr d k = JStr x \<Longrightarrow> \<not> starts_with ''$'' k \<Longrightarrow> mt (JObj [(k, JStr v)]) d \<longleftrightarrow> x = v"
    and cast: "\<And>s. C SString (JStr s) = Some (JStr s)" "\<And>x. C SDate (JDate x) = Some (JDate x)"
      "\<And>j. C SObjectId (JOid j) = Some (JOid j)"
    and scope: "scopeFor B (direct_dao (monitor_model ops mt C n now)) user_id = Inr scope"
    and owner: "newObjectId B (js_string B user_id) = Inr i"
    and crypto: "aead (v_api V)" "cache_ok (v_api V) (v_key V) (v_cached V)"
    and run: "createMonitor V number B (direct_dao (monitor_model ops mt C n now)) c now user_id body = (c', Inr resp)"
  shows "\<exists>m url. body_url body = Some url \<and> docs c' = add_mset m (docs c) \<and> data resp = present m \<and>
    m_id m = n \<and> m_userId m = i \<and> m_url m = normalizeUrl url \<and>
    {d. d \<in># docs c \<and> m_userId d = i \<and> m_url d = normalizeUrl url} = {} \<and>
    nextCheckAt m = Some now \<and> m_status m = Some UP \<and> lastChecked m = None \<and>
    consecutiveFailures m = Some 0 \<and> consecutiveSuccesses m = Some 0 \<and> breakerState m = Some CLOSED \<and>
    (if hasCredentials (credentials_of (get ''authHeaders'' body))
     then decryptSecret (v_api V) (v_key V) (v_cached V) (authHeaders m) = Some (v_stringify V (get ''authHeaders'' body))
     else authHeaders m = None)"
proof -
  let ?M = "monitor_model ops mt C n now"
  from run obtain url patch where url: "body_url body = Some url"
    and none: "dao_findOne B (direct_dao ?M) c user_id [(''url'', JStr (normalizeUrl url))] no_options = Inr None"
    and patch: "pickWritableFields V number body = Inr patch"
    by (auto simp: createMonitor_def Let_def split: option.splits sum.splits)
  let ?u = "normalizeUrl url"
  let ?tail = "[(''url'', JStr ?u), (''nextCheckAt'', JDate now)]"
  from run url none patch obtain m where
    made: "dao_create B (direct_dao ?M) c user_id (spread patch ?tail) = (c', Inr m)" and resp: "data resp = present m"
    by (auto simp: createMonitor_def Let_def split: prod.splits sum.splits)
  from scope_single [OF scope] owner have sc: "scope = [(''userId'', JOid i)]" by simp
  let ?fs = "spread (spread patch ?tail) scope"
  from made scope obtain m0 where
    built: "monitor_build C n now ?fs = Inr m0" and created: "create_doc ops c m0 = (c', Inr m)"
    by (auto simp: dao_create_def lift_db_def split: sum.splits prod.splits) (metis prod.collapse)
  have m: "m = m0" and docs: "docs c' = add_mset m (docs c)"
    using mongo.create_contract [OF db created] by auto
  from built have all: "assign_all C ?fs (blank_monitor n now) = Some m"
    unfolding m by (auto simp: monitor_build_def split: option.splits if_splits)
  have dist: "distinct (map fst ?fs)"
    using pick_distinct [OF patch] by (intro distinct_spread) (simp_all add: sc)
  have of_u: "map_of ?fs ''url'' = Some (JStr ?u)" "map_of ?fs ''nextCheckAt'' = Some (JDate now)"
    "map_of ?fs ''userId'' = Some (JOid i)" by (simp_all add: map_of_spread sc)
  note final = created_values [of C, OF cast dist all]
  have u: "m_url m = ?u" and due: "nextCheckAt m = Some now" and mine: "m_userId m = i"
    by (rule final(1) [OF of_u(1)], rule final(2) [OF of_u(2)], rule final(3) [OF of_u(3)])
  have keys: "set (map fst ?fs) \<subseteq> insert ''userId'' (insert ''url'' (insert ''nextCheckAt'' writable))"
    using pick_keys [OF patch] by (auto simp: spread_keys sc)
  have clean: "m_id m = n \<and> m_status m = Some UP \<and> lastChecked m = None \<and> consecutiveFailures m = Some 0 \<and>
      consecutiveSuccesses m = Some 0 \<and> breakerState m = Some CLOSED"
    by (rule created_clean [OF all keys])
  have creds: "if hasCredentials (credentials_of (get ''authHeaders'' body))
     then decryptSecret (v_api V) (v_key V) (v_cached V) (authHeaders m) = Some (v_stringify V (get ''authHeaders'' body))
     else authHeaders m = None"
    by (rule created_credentials [OF patch crypto cast(1) dist all]) (simp_all add: map_of_spread sc spread_keys)
  have fresh: "{d. d \<in># docs c \<and> m_userId d = i \<and> m_url d = ?u} = {}"
  proof -
    have "d \<notin># docs c" if "m_userId d = i" "m_url d = ?u" for d
    proof
      assume d: "d \<in># docs c"
      have ql': "query_language (matches_filter (d_model (direct_dao ?M))) monitor_attr"
        and db': "mongo (collection (d_model (direct_dao ?M))) docs clash" using ql db by simp_all
      have ql'': "query_language (matches_filter ?M) monitor_attr" using ql by simp
      note s = direct_scope [OF ql'' scope owner]
      have "in_scope (direct_dao ?M) scope d" using s that(1) by (simp add: monitor_attr_def)
      from dao_findOne_confined(2) [OF ql' db' _ scope _ none d this] s
      have "\<not> mt (JObj [(''url'', JStr ?u)]) d" by simp
      then show False using same [of d "''url''" "m_url d" ?u] that(2)
        by (simp add: monitor_attr_def starts_with_def)
    qed
    then show ?thesis by blast
  qed
  from url docs resp clean mine u due creds fresh show ?thesis by blast
qed

lemma evaluator_text:
  "attr d k = JStr x \<Longrightarrow> \<not> starts_with ''$'' k \<Longrightarrow> evalq C (attr d) (JObj [(k, JStr v)]) \<longleftrightarrow> x = v"
  by (simp add: eval_cond_def js_eq_def)

lemma createMonitor_functional_witness:
  "\<exists>c' resp m. createMonitor example_vault js_number plain_bson (direct_dao example_monitor_model) two_tenants 5 (JStr ''ann'')
       [(''url'', JStr ''c''), (''authHeaders'', JObj [(''A'', JStr ''b'')]), (''status'', JStr ''DOWN'')] = (c', Inr resp) \<and>
     mset c' = add_mset m (mset two_tenants) \<and> data resp = present m \<and> m_url m = ''https://c'' \<and>
     m_status m = Some UP \<and> decryptSecret plain_api (Some ''key'') None (authHeaders m) = Some ''{}''"
proof -
  let ?body = "[(''url'', JStr ''c''), (''authHeaders'', JObj [(''A'', JStr ''b'')]), (''status'', JStr ''DOWN'')]"
  let ?run = "createMonitor example_vault js_number plain_bson (direct_dao example_monitor_model) two_tenants 5 (JStr ''ann'') ?body"
  have ok: "case snd ?run of Inl _ \<Rightarrow> False | Inr x \<Rightarrow> True" by code_simp
  obtain c' r where "?run = (c', r)" by (cases ?run)
  with ok obtain resp where run: "?run = (c', Inr resp)" by (cases r) auto
  have scope: "scopeFor plain_bson (direct_dao example_monitor_model) (JStr ''ann'') = Inr [(''userId'', JOid ''ann'')]"
    by code_simp
  have owner: "newObjectId plain_bson (js_string plain_bson (JStr ''ann'')) = Inr ''ann''" by code_simp
  have vault: "aead (v_api example_vault)" "cache_ok (v_api example_vault) (v_key example_vault) (v_cached example_vault)"
    by (simp_all add: example_vault_def cache_ok_def plain.aead_axioms)
  have cast: "\<And>s. plain_cast SString (JStr s) = Some (JStr s)" "\<And>x. plain_cast SDate (JDate x) = Some (JDate x)"
    "\<And>j. plain_cast SObjectId (JOid j) = Some (JOid j)" by (simp_all add: plain_cast_def)
  note ok = example_monitor_model_ok [unfolded example_monitor_model_def monitor_model_simps]
  have has: "hasCredentials (credentials_of (get ''authHeaders'' ?body))" by code_simp
  have url: "body_url ?body = Some ''c''" "normalizeUrl ''c'' = ''https://c''" by code_simp+
  from createMonitor_functional [where mt = "\<lambda>q m. evalq Some (monitor_attr m) q" and C = plain_cast and V = example_vault
        and ops = "list_coll (\<lambda>a b. m_id a = m_id b)" and n = "''m3''" and now = 5,
      OF ok(1) mongo_atomic.axioms(1) [OF ok(2)] evaluator_text [where attr = monitor_attr and C = Some] cast scope [unfolded example_monitor_model_def] owner vault run [unfolded example_monitor_model_def]] has url
  obtain m where "mset c' = add_mset m (mset two_tenants)" "data resp = present m" "m_url m = ''https://c''" "m_status m = Some UP"
    "decryptSecret plain_api (Some ''key'') None (authHeaders m) = Some ''{}''"
    by (auto simp: example_vault_def)
  with run show ?thesis by blast
qed

lemma fst_update:
  "fst (updateMonitor V number B D c user_id k body) =
    (case pickWritableFields V number body of
       Inl e \<Rightarrow> c
     | Inr patch \<Rightarrow> fst (dao_updateById B D c user_id k
         (case body_url body of None \<Rightarrow> patch | Some url \<Rightarrow> patch @ [(''url'', JStr (normalizeUrl url))])))"
  by (auto simp: updateMonitor_def Let_def split: prod.splits sum.splits option.splits)

lemma update_runs:
  "fst (updateMonitor V number B D c user_id k body)
    \<in> insert c {fst (dao_updateById B D c user_id k fs) |fs. fst ` set fs \<subseteq> insert ''url'' writable}"
proof (cases "pickWritableFields V number body")
  case (Inr patch)
  let ?fs = "case body_url body of None \<Rightarrow> patch | Some url \<Rightarrow> patch @ [(''url'', JStr (normalizeUrl url))]"
  have "fst ` set ?fs \<subseteq> insert ''url'' writable" using pick_keys [OF Inr] by (auto split: option.splits)
  with Inr show ?thesis unfolding fst_update by auto
qed (simp add: fst_update)

lemma create_runs:
  "fst (createMonitor V number B D c now user_id body) \<in> insert c {fst (dao_create B D c user_id fs) |fs. True}"
  by (auto simp: createMonitor_def Let_def split: option.splits sum.splits prod.splits) (metis fst_conv)+

text \<open>What every stored monitor satisfies.\<close>

definition valid_monitor :: "monitor \<Rightarrow> bool" where
  "valid_monitor m \<longleftrightarrow>
     m_type m \<in> set monitor_types \<and> m_title m \<noteq> '''' \<and> m_url m \<noteq> '''' \<and> m_userId m \<noteq> '''' \<and>
     1 \<le> nullish (failureThreshold m) 1 \<and> 1 \<le> nullish (successThreshold m) 1"

lemma set_title_nonempty: "set_title s \<noteq> ''''"
  by (cases s) (auto simp: set_title_def str_or_def)

lemma at_least_one_floor: "at_least_one r = Some x \<Longrightarrow> 1 \<le> \<lfloor>x\<rfloor>"
  by (auto simp: at_least_one_def le_floor_iff split: option.splits if_splits)

lemma assign_field_valid:
  assumes a: "assign_field C k v m = Some m'" and k: "k \<noteq> ''userId''" and m: "valid_monitor m"
  shows "valid_monitor m'"
  using a m k
  by (auto simp: assign_field_def valid_monitor_def set_title_nonempty bind_eq_Some_conv
      dest!: at_least_one_floor split: if_splits)

text \<open>The same without the two required paths, which a document under construction does not have yet.\<close>

definition valid_draft :: "monitor \<Rightarrow> bool" where
  "valid_draft m \<longleftrightarrow> valid_monitor (m\<lparr>m_url := ''x'', m_userId := ''x''\<rparr>)"

lemma assign_field_draft: "assign_field C k v m = Some m' \<Longrightarrow> valid_draft m \<Longrightarrow> valid_draft m'"
  by (auto simp: assign_field_def valid_draft_def valid_monitor_def set_title_nonempty bind_eq_Some_conv
      dest!: at_least_one_floor split: if_splits)

lemma assign_all_draft: "assign_all C fs m = Some m' \<Longrightarrow> valid_draft m \<Longrightarrow> valid_draft m'"
  by (rule apply_fields_invariant [where fs = fs and assign = "assign_field C" and I = valid_draft and d = m]) (auto intro: assign_field_draft)

lemma assign_all_valid:
  assumes all: "assign_all C fs m = Some m'" and no: "''userId'' \<notin> fst ` set fs" and m: "valid_monitor m"
  shows "valid_monitor m'"
proof (rule apply_fields_invariant [where I = valid_monitor, OF _ all m])
  fix k v d d'
  assume "assign_field C k v d = Some d'" and "k \<in> set (map fst fs)" and "valid_monitor d"
  moreover from this(2) no have "k \<noteq> ''userId''" by force
  ultimately show "valid_monitor d'" using assign_field_valid by blast
qed

lemma blank_draft: "valid_draft (blank_monitor i now)"
  by (simp add: valid_draft_def valid_monitor_def blank_monitor_def monitor_defaults_def set_title_nonempty monitor_types_def)

lemma monitor_build_valid: "monitor_build C i now fs = Inr m \<Longrightarrow> valid_monitor m"
  using assign_all_draft [OF _ blank_draft, of C fs i now m]
  by (auto simp: monitor_build_def valid_draft_def valid_monitor_def split: option.splits if_splits)

lemma monitor_set_valid: "''userId'' \<notin> fst ` set fs \<Longrightarrow> valid_monitor m \<Longrightarrow> valid_monitor (monitor_set C fs m)"
  using assign_all_valid [of C fs m] by (auto simp: monitor_set_def split: option.splits)



end
