(* ===== verification/Slug.thy ===== *)
theory Slug
  imports Prelude
begin

text \<open>
  The public address of a status page, \<open>slugify\<close> and the reserved names of
  \<open>Backend/src/models/statusPage.model.js\<close>. Text is UTF-8 bytes; the Unicode step of the
  source (compatibility decomposition, combining marks removed) is the parameter \<open>nfkd\<close>,
  of which the properties use that it leaves ASCII text alone.
\<close>

subsection \<open>The code\<close>

definition slug_char :: "char \<Rightarrow> bool" where
  "slug_char c = (let n = of_char c :: nat in 97 \<le> n \<and> n \<le> 122 \<or> 48 \<le> n \<and> n \<le> 57)"

text \<open>\<open>.replace(/[^a-z0-9]+/g, '-')\<close>: each maximal run becomes one dash.\<close>

function dashify :: "string \<Rightarrow> string" where
  "dashify [] = []"
| "dashify (c # s) =
     (if slug_char c then c # dashify s else CHR ''-'' # dashify (dropWhile (\<lambda>x. \<not> slug_char x) s))"
  by pat_completeness auto
termination
  by (relation "measure length") (auto simp: le_imp_less_Suc length_dropWhile_le)

text \<open>\<open>.replace(/^-+|-+$/g, '')\<close>.\<close>

definition strip_dashes :: "string \<Rightarrow> string" where
  "strip_dashes s = rev (dropWhile (\<lambda>c. c = CHR ''-'') (rev (dropWhile (\<lambda>c. c = CHR ''-'') s)))"

definition slugify :: "(string \<Rightarrow> string) \<Rightarrow> string \<Rightarrow> string" where
  "slugify nfkd s = take 60 (strip_dashes (dashify (trim (to_lower (nfkd s)))))"

definition RESERVED_SLUGS :: "string list" where
  "RESERVED_SLUGS =
     [''api'', ''admin'', ''login'', ''logout'', ''register'', ''dashboard'', ''settings'', ''status'', ''metrics'',
      ''health'', ''assets'', ''static'', ''new'', ''edit'', ''null'', ''undefined'']"

definition isReservedSlug :: "string \<Rightarrow> bool" where
  "isReservedSlug slug = (slug \<in> set RESERVED_SLUGS)"

subsection \<open>Words separated by single dashes\<close>

text \<open>Slug characters and dashes, never two dashes in a row.\<close>

fun single_dashes :: "string \<Rightarrow> bool" where
  "single_dashes [] = True"
| "single_dashes [c] = (slug_char c \<or> c = CHR ''-'')"
| "single_dashes (c # d # s) =
     ((slug_char c \<or> c = CHR ''-'' \<and> d \<noteq> CHR ''-'') \<and> single_dashes (d # s))"

lemma dash_not_slug [simp]: "\<not> slug_char (CHR ''-'')"
  by (simp add: slug_char_def)

lemma single_dashes_chars: "single_dashes s \<Longrightarrow> c \<in> set s \<Longrightarrow> slug_char c \<or> c = CHR ''-''"
  by (induction s rule: single_dashes.induct) auto

lemma single_dashes_tl: "single_dashes (c # s) \<Longrightarrow> single_dashes s"
  by (cases s) auto

lemma single_dashes_append: "single_dashes (s @ t) \<Longrightarrow> single_dashes s \<and> single_dashes t"
proof (induction s rule: single_dashes.induct)
  case (2 c)
  then show ?case by (cases t) auto
qed auto

lemma single_dashes_Cons_slug: "slug_char c \<Longrightarrow> single_dashes s \<Longrightarrow> single_dashes (c # s)"
  by (cases s) auto

lemma dashify_head:
  "s = [] \<or> slug_char (hd s) \<Longrightarrow> dashify s = [] \<or> slug_char (hd (dashify s))"
  by (cases s) auto

lemma single_dashes_dashify: "single_dashes (dashify s)"
proof (induction s rule: dashify.induct)
  case (2 c s)
  show ?case
  proof (cases "slug_char c")
    case True
    with 2 show ?thesis by (simp add: single_dashes_Cons_slug)
  next
    case False
    let ?r = "dropWhile (\<lambda>x. \<not> slug_char x) s"
    have "?r = [] \<or> slug_char (hd ?r)" using hd_dropWhile [of "\<lambda>x. \<not> slug_char x" s] by blast
    then have "dashify ?r = [] \<or> slug_char (hd (dashify ?r))" by (rule dashify_head)
    moreover have "single_dashes (dashify ?r)" using 2 False by simp
    ultimately show ?thesis using False by (cases "dashify ?r") auto
  qed
qed simp

text \<open>On such a word, squeezing changes nothing.\<close>

lemma dashify_single: "single_dashes s \<Longrightarrow> dashify s = s"
proof (induction s rule: single_dashes.induct)
  case (3 c d s)
  show ?case
  proof (cases "slug_char c")
    case False
    with 3 have "c = CHR ''-''" "d \<noteq> CHR ''-''" "slug_char d" by (cases s; auto)+
    with 3 show ?thesis by simp
  qed (use 3 in simp)
qed auto

lemma lower_slug: "slug_char c \<or> c = CHR ''-'' \<Longrightarrow> lower_char c = c"
  by (auto simp: slug_char_def lower_char_def Let_def)

lemma space_not_slug: "slug_char c \<or> c = CHR ''-'' \<Longrightarrow> \<not> is_space c"
  by (auto simp: slug_char_def is_space_def Let_def)

lemma to_lower_single: "single_dashes s \<Longrightarrow> to_lower s = s"
  unfolding to_lower_def by (rule map_idI) (auto dest: single_dashes_chars intro: lower_slug)

lemma dropWhile_none: "(\<And>x. x \<in> set xs \<Longrightarrow> \<not> P x) \<Longrightarrow> dropWhile P xs = xs"
  by (cases xs) auto

lemma trim_single: "single_dashes s \<Longrightarrow> trim s = s"
proof -
  assume s: "single_dashes s"
  have "\<not> is_space x" if "x \<in> set s" for x using single_dashes_chars [OF s that] space_not_slug by blast
  then have "dropWhile is_space s = s" "dropWhile is_space (rev s) = rev s" by (auto intro!: dropWhile_none)
  then show ?thesis by (simp add: trim_def)
qed

lemma rev_strip: "t = rev (dropWhile P (rev t)) @ rev (takeWhile P (rev t))"
  unfolding rev_append [symmetric] by simp

lemma strip_dashes_prefix: "\<exists>q. dropWhile (\<lambda>c. c = CHR ''-'') s = strip_dashes s @ q"
  unfolding strip_dashes_def by (rule exI) (rule rev_strip)

lemma strip_dashes_infix: "\<exists>p q. s = p @ strip_dashes s @ q"
proof -
  let ?d = "\<lambda>c. c = CHR ''-''"
  obtain q where q: "dropWhile ?d s = strip_dashes s @ q" using strip_dashes_prefix by blast
  have "s = takeWhile ?d s @ strip_dashes s @ q" unfolding q [symmetric] by simp
  then show ?thesis by blast
qed

lemma strip_dashes_head: "strip_dashes s = [] \<or> hd (strip_dashes s) \<noteq> CHR ''-''"
proof (cases "strip_dashes s")
  case (Cons c cs)
  let ?d = "\<lambda>c. c = CHR ''-''"
  obtain q where "dropWhile ?d s = strip_dashes s @ q" using strip_dashes_prefix by blast
  with Cons have "dropWhile ?d s = c # cs @ q" by simp
  then have "\<not> ?d c" by (simp add: dropWhile_eq_Cons_conv)
  with Cons show ?thesis by simp
qed simp

text \<open>A slug: at most sixty characters, words separated by single dashes, not starting with one.\<close>

definition slug_form :: "string \<Rightarrow> bool" where
  "slug_form s \<longleftrightarrow> length s \<le> 60 \<and> single_dashes s \<and> (s = [] \<or> slug_char (hd s))"

lemma slugify_form: "slug_form (slugify nfkd s)"
proof -
  let ?d = "dashify (trim (to_lower (nfkd s)))"
  have "single_dashes (strip_dashes ?d)"
    using strip_dashes_infix [of ?d] single_dashes_dashify single_dashes_append by metis
  moreover from this have "single_dashes (take 60 (strip_dashes ?d))"
    using single_dashes_append [of "take 60 (strip_dashes ?d)" "drop 60 (strip_dashes ?d)"] by simp
  moreover have "slugify nfkd s = [] \<or> slug_char (hd (slugify nfkd s))"
  proof (cases "strip_dashes ?d")
    case (Cons c cs)
    then have "c \<noteq> CHR ''-''" using strip_dashes_head [of ?d] by simp
    then have "slug_char c" using single_dashes_chars [OF calculation(1), of c] Cons by simp
    with Cons show ?thesis by (simp add: slugify_def)
  qed (simp add: slugify_def)
  ultimately show ?thesis by (simp add: slug_form_def slugify_def)
qed

text \<open>Stripping a word that starts with a slug character drops at most one trailing dash.\<close>

lemma strip_dashes_form:
  assumes "single_dashes s" and "s = [] \<or> slug_char (hd s)"
  shows "strip_dashes s = (if s \<noteq> [] \<and> last s = CHR ''-'' then butlast s else s)"
proof (cases "s = []")
  case False
  let ?d = "\<lambda>c. c = CHR ''-''"
  from False assms(2) have head: "dropWhile ?d s = s" by (cases s) auto
  show ?thesis
  proof (cases "last s = CHR ''-''")
    case True
    from False True obtain t where t: "s = t @ ''-''" by (metis append_butlast_last_id)
    have "t \<noteq> []" using t assms(2) by auto
    then obtain u c where u: "t = u @ [c]" by (metis rev_exhaust)
    have "single_dashes ([c] @ ''-'')" using assms(1) t u single_dashes_append [of u "[c] @ ''-''"] by simp
    then have "c \<noteq> CHR ''-''" by auto
    then show ?thesis using head t u by (simp add: strip_dashes_def butlast_append)
  next
    case no: False
    from False obtain t c where t: "s = t @ [c]" by (metis rev_exhaust)
    with no have "c \<noteq> CHR ''-''" by simp
    then show ?thesis using head t by (simp add: strip_dashes_def)
  qed
qed (simp add: strip_dashes_def)

text \<open>Slugifying a slug.\<close>

lemma slugify_slug:
  assumes nfkd: "\<And>s. list_all (\<lambda>c. slug_char c \<or> c = CHR ''-'') s \<Longrightarrow> nfkd s = s" and s: "slug_form s"
  shows "slugify nfkd s = (if s \<noteq> [] \<and> last s = CHR ''-'' then butlast s else s)"
proof -
  from s have d: "single_dashes s" and head: "s = [] \<or> slug_char (hd s)" and len: "length s \<le> 60"
    by (simp_all add: slug_form_def)
  have "nfkd s = s" using single_dashes_chars [OF d] by (intro nfkd) (auto simp: list_all_iff)
  then have "slugify nfkd s = take 60 (strip_dashes s)"
    by (simp add: slugify_def to_lower_single [OF d] trim_single [OF d] dashify_single [OF d])
  with strip_dashes_form [OF d head] len show ?thesis by auto
qed

text \<open>
  Public addresses. Whatever text a page is named with, its address is made of lower-case letters,
  digits and single dashes, starts with none and has at most sixty characters; and looking a page
  up by its own address finds that very address exactly if it does not end with a dash, as one
  cut at sixty characters may.
\<close>

theorem slug_shape_and_fixpoint:
  assumes "\<And>t. list_all (\<lambda>c. slug_char c \<or> c = CHR ''-'') t \<Longrightarrow> nfkd t = t"
  shows "slug_form (slugify nfkd s) \<and>
    (slugify nfkd (slugify nfkd s) = slugify nfkd s \<longleftrightarrow>
      slugify nfkd s = [] \<or> last (slugify nfkd s) \<noteq> CHR ''-'')"
proof -
  have "butlast t \<noteq> t" if "t \<noteq> []" for t :: string
    using that by (metis append_butlast_last_id append_self_conv not_Cons_self2)
  then show ?thesis
    using slugify_form [of nfkd s] slugify_slug [where nfkd = nfkd and s = "slugify nfkd s", OF assms slugify_form] by auto
qed

definition long_name :: string where
  "long_name = replicate 59 CHR ''a'' @ '' b''"

theorem slug_shape_and_fixpoint_witness:
  "slugify (\<lambda>t. t) ''  Acme API: Status!'' = ''acme-api-status'' \<and>
   slugify (\<lambda>t. t) long_name = replicate 59 CHR ''a'' @ ''-'' \<and>
   slugify (\<lambda>t. t) (slugify (\<lambda>t. t) long_name) \<noteq> slugify (\<lambda>t. t) long_name"
proof -
  have "slugify (\<lambda>t. t) ''  Acme API: Status!'' = ''acme-api-status''" by code_simp
  moreover have long: "slugify (\<lambda>t. t) long_name = replicate 59 CHR ''a'' @ ''-''" by code_simp
  ultimately show ?thesis using slug_shape_and_fixpoint [of "\<lambda>t. t" long_name] by simp
qed

end
