(* ===== verification/Records.thy ===== *)
theory Records
  imports Tenancy Scheduler
begin

text \<open>
  Reading incidents and check logs: \<open>Backend/src/controllers/incident.controller.js\<close> and
  \<open>logs.controller.js\<close>, over the derived scope of \<open>dao/index.js\<close>. Neither collection carries
  an owner; what a caller may see follows from the monitors the caller owns. Mongoose's
  \<open>populate\<close> and its \<open>createdAt\<close> stamp are parameters.
\<close>

subsection \<open>The code\<close>

definition incident_attr :: "incident \<Rightarrow> string \<Rightarrow> js" where
  "incident_attr d k =
     (if k = ''_id'' then JOid (i_id d)
      else if k = ''monitorId'' then JOid (i_monitorId d)
      else if k = ''status'' then JStr (case i_status d of ONGOING \<Rightarrow> ''ONGOING'' | RESOLVED \<Rightarrow> ''RESOLVED'')
      else if k = ''startTime'' then JDate (startTime d)
      else JUndef)"

definition log_attr :: "check_row \<Rightarrow> string \<Rightarrow> js" where
  "log_attr d k =
     (if k = ''monitorId'' then JOid (l_monitorId d)
      else if k = ''status'' then JStr (status_name (l_status d))
      else if k = ''timestamp'' then JDate (l_timestamp d)
      else JUndef)"

text \<open>Newest first.\<close>

definition newest_first :: "('d \<Rightarrow> int) \<Rightarrow> 'd \<Rightarrow> int" where
  "newest_first stamp d = - stamp d"

definition getAllIncidents ::
    "bson \<Rightarrow> ('c, incident) dao \<Rightarrow> (incident \<Rightarrow> int) \<Rightarrow> (incident \<Rightarrow> incident) \<Rightarrow> 'c \<Rightarrow> js \<Rightarrow>
     thrown + incident list response" where
  "getAllIncidents B D created populate c user_id =
     (case dao_find B D c user_id []
             \<lparr>o_sort = Some (newest_first created), o_limit = Some 10, o_select = None, o_populate = Some populate\<rparr> of
        Inl e \<Rightarrow> Inl (dao_thrown e)
      | Inr ds \<Rightarrow> Inr (ApiResponse 200 ds ''Incidents fetched successfully''))"

definition getIncidentsByMonitorId ::
    "bson \<Rightarrow> ('m, monitor) mongoose_model \<Rightarrow> 'm \<Rightarrow> ('c, incident) dao \<Rightarrow> (incident \<Rightarrow> int) \<Rightarrow> (incident \<Rightarrow> incident) \<Rightarrow>
     'c \<Rightarrow> js \<Rightarrow> js \<Rightarrow> thrown + incident list response" where
  "getIncidentsByMonitorId B MM mc D created populate c user_id monitorId =
     (case assertMonitorOwned B MM mc user_id monitorId of
        Inl e \<Rightarrow> Inl e
      | Inr _ \<Rightarrow>
          (case dao_find B D c user_id [(''monitorId'', monitorId)]
                  \<lparr>o_sort = Some (newest_first created), o_limit = None, o_select = None, o_populate = Some populate\<rparr> of
             Inl e \<Rightarrow> Inl (dao_thrown e)
           | Inr ds \<Rightarrow> Inr (ApiResponse 200 ds ''Incidents fetched successfully'')))"

definition getIncidentById ::
    "bson \<Rightarrow> ('c, incident) dao \<Rightarrow> (incident \<Rightarrow> incident) \<Rightarrow> 'c \<Rightarrow> js \<Rightarrow> js \<Rightarrow> thrown + incident response" where
  "getIncidentById B D populate c user_id incidentId =
     (case dao_findById B D c user_id incidentId (no_options\<lparr>o_populate := Some populate\<rparr>) of
        Inl e \<Rightarrow> Inl (dao_thrown e)
      | Inr None \<Rightarrow> Inl (ApiError 404 ''Incident not found'')
      | Inr (Some d) \<Rightarrow> Inr (ApiResponse 200 d ''Incident fetched successfully''))"

definition getAllLogs ::
    "bson \<Rightarrow> ('c, check_row) dao \<Rightarrow> (check_row \<Rightarrow> check_row) \<Rightarrow> 'c \<Rightarrow> js \<Rightarrow> thrown + check_row list response" where
  "getAllLogs B D populate c user_id =
     (case dao_find B D c user_id []
             \<lparr>o_sort = Some (newest_first l_timestamp), o_limit = Some 10, o_select = None, o_populate = Some populate\<rparr> of
        Inl e \<Rightarrow> Inl (dao_thrown e)
      | Inr ds \<Rightarrow> Inr (ApiResponse 200 ds ''Logs retrieved successfully''))"

definition monitorLogsById ::
    "bson \<Rightarrow> ('m, monitor) mongoose_model \<Rightarrow> 'm \<Rightarrow> ('c, check_row) dao \<Rightarrow> (check_row \<Rightarrow> check_row) \<Rightarrow>
     'c \<Rightarrow> js \<Rightarrow> js \<Rightarrow> thrown + check_row list response" where
  "monitorLogsById B MM mc D populate c user_id monitorId =
     (case assertMonitorOwned B MM mc user_id monitorId of
        Inl e \<Rightarrow> Inl e
      | Inr _ \<Rightarrow>
          (case dao_find B D c user_id [(''monitorId'', monitorId)]
                  \<lparr>o_sort = Some (newest_first l_timestamp), o_limit = Some 200, o_select = None,
                   o_populate = Some populate\<rparr> of
             Inl e \<Rightarrow> Inl (dao_thrown e)
           | Inr ds \<Rightarrow> Inr (ApiResponse 200 ds ''Monitor logs retrieved successfully'')))"

subsection \<open>The derived scope\<close>

text \<open>A caller's identifier: an \<open>ObjectId\<close>, or its text as the session token carries it.\<close>

definition identifies :: "(string \<Rightarrow> oid option) \<Rightarrow> js \<Rightarrow> oid \<Rightarrow> bool" where
  "identifies cast v i = (case v of JOid j \<Rightarrow> j = i | JStr s \<Rightarrow> cast s = Some i | _ \<Rightarrow> False)"

lemma owner_matches:
  assumes "casting_query mt attr cast" and "identifies cast v i" and "attr d k = JOid j" and "\<not> starts_with ''$'' k"
  shows "mt (JObj [(k, v)]) d \<longleftrightarrow> j = i"
proof (cases v)
  case (JStr s)
  with casting_query.casting [OF assms(1) assms(4) assms(3), of s] assms(2) show ?thesis
    by (auto simp: identifies_def)
next
  case (JOid l)
  with query_language.equality [OF casting_query.axioms(1) [OF assms(1)] assms(4), of l d] assms(2,3) show ?thesis
    by (auto simp: identifies_def)
qed (use assms(2) in \<open>simp_all add: identifies_def\<close>)

lemma remdups_map_oid: "remdups (map JOid xs) = map JOid (remdups xs)"
  by (induction xs) auto

lemma owned_ids:
  assumes mq: "casting_query (matches_filter MM) attr cast" and db: "mongo (collection MM) docs clash"
    and owner: "identifies cast ownerId i"
    and oids: "\<And>m. attr m ''userId'' = JOid (user_of m)" "\<And>m. field_value MM ''_id'' m = JOid (id_of m)"
    and ids: "ownedMonitorIds MM mc ownerId = Inr xs"
  shows "\<exists>is. xs = map JOid is \<and> set is = {id_of m |m. m \<in># docs mc \<and> user_of m = i}"
proof -
  from ids obtain ms where
    ms: "find_many (collection MM) mc (matches_filter MM (JObj [(''userId'', ownerId)])) (\<lambda>_. 0) None = Inr ms"
    and xs: "xs = remdups (map (field_value MM ''_id'') ms)"
    by (auto simp: ownedMonitorIds_def split: sum.splits)
  have mine: "matches_filter MM (JObj [(''userId'', ownerId)]) m \<longleftrightarrow> user_of m = i" for m
    using owner_matches [OF mq owner, of m "''userId''" "user_of m"] oids(1) by simp
  from mongo.find_all [OF db ms] have set: "set ms = {m. m \<in># docs mc \<and> user_of m = i}"
    unfolding mine .
  have "field_value MM ''_id'' = JOid \<circ> id_of" by (rule ext) (simp add: oids(2))
  then have "xs = map JOid (remdups (map id_of ms))"
    unfolding xs remdups_map_oid [symmetric] by simp
  then show ?thesis using set by (intro exI [of _ "remdups (map id_of ms)"]) auto
qed

text \<open>The documents of a tenant's monitors.\<close>

definition monitor_owned ::
    "('c \<Rightarrow> 'd multiset) \<Rightarrow> ('d \<Rightarrow> string \<Rightarrow> js) \<Rightarrow> oid \<Rightarrow> monitor multiset \<Rightarrow> 'c \<Rightarrow> 'd set" where
  "monitor_owned docs attr i ms c =
     {d. d \<in># docs c \<and> (\<exists>m \<in># ms. m_userId m = i \<and> attr d ''monitorId'' = JOid (m_id m))}"

text \<open>
  Tenancy of incidents and logs. Neither collection names an owner; whatever filter the caller
  passes, a list is exactly the documents matching it whose monitor the caller owns (a limit
  may cut it short), and a single incident or log is found by its identifier exactly if its
  monitor is the caller's.
\<close>

theorem derived_reads_confined:
  assumes mq: "casting_query (matches_filter MM) monitor_attr cast" and mdb: "mongo (collection MM) mdocs mclash"
    and ids: "\<And>m. field_value MM ''_id'' m = JOid (m_id m)"
    and ql: "query_language (matches_filter M) attr" and db: "mongo (collection M) docs clash"
    and owner: "identifies cast ownerId i" and flt: "distinct (map fst flt)"
  shows "(case dao_find B (derived_dao MM mc M) c ownerId flt opt of
            Inl _ \<Rightarrow> True
          | Inr ds \<Rightarrow>
              set ds \<subseteq> view M opt ` matching M flt (monitor_owned docs attr i (mdocs mc) c) \<and>
              (o_limit opt \<noteq> None \<or>
               set ds = view M opt ` matching M flt (monitor_owned docs attr i (mdocs mc) c))) \<and>
         (case dao_findOne B (derived_dao MM mc M) c ownerId flt opt of
            Inl _ \<Rightarrow> True
          | Inr None \<Rightarrow> matching M flt (monitor_owned docs attr i (mdocs mc) c) = {}
          | Inr (Some d) \<Rightarrow> d \<in> view M opt ` matching M flt (monitor_owned docs attr i (mdocs mc) c))"
proof (cases "scopeFor B (derived_dao MM mc M) ownerId")
  case (Inl e)
  then show ?thesis by (simp add: dao_find_def dao_findOne_def scoped_filter_def)
next
  case (Inr scope)
  let ?D = "derived_dao MM mc M"
  from scope_derived_single [OF Inr] obtain xs where
    xs: "ownedMonitorIds MM mc ownerId = Inr xs" "scope = [(''monitorId'', JObj [(''$in'', JArr xs)])]" by blast
  have uid: "monitor_attr m ''userId'' = JOid (m_userId m)" for m by (simp add: monitor_attr_def)
  from owned_ids [OF mq mdb owner uid ids xs(1)] obtain ks where
    ks: "xs = map JOid ks" "set ks = {m_id m |m. m \<in># mdocs mc \<and> m_userId m = i}" by blast
  have scope: "in_scope ?D scope d \<longleftrightarrow> (\<exists>m \<in># mdocs mc. m_userId m = i \<and> attr d ''monitorId'' = JOid (m_id m))" for d
    using query_language.membership [OF ql not_dollar(2), of ks d] ks xs(2) by auto
  let ?mine = "matching M flt (monitor_owned docs attr i (mdocs mc) c)"
  have mine: "?mine = {d. d \<in># docs c \<and> matches_filter (d_model ?D) (JObj flt) d \<and> in_scope ?D scope d}"
    unfolding matching_def monitor_owned_def scope by auto
  have ql': "query_language (matches_filter (d_model ?D)) attr" and db': "mongo (collection (d_model ?D)) docs clash"
    and dist: "distinct (map fst scope)" using ql db xs(2) by simp_all
  have "set ds \<subseteq> view M opt ` ?mine \<and> (o_limit opt \<noteq> None \<or> set ds = view M opt ` ?mine)"
    if "dao_find B ?D c ownerId flt opt = Inr ds" for ds
    using dao_find_confined [OF ql' db' flt Inr dist that] unfolding mine view_def
    by (cases "o_limit opt") simp_all
  moreover have "d \<in> view M opt ` ?mine" if "dao_findOne B ?D c ownerId flt opt = Inr (Some d)" for d
    using dao_findOne_confined(1) [OF ql' db' flt Inr dist that] unfolding mine view_def by auto
  moreover have "?mine = {}" if "dao_findOne B ?D c ownerId flt opt = Inr None"
    using dao_findOne_confined(2) [OF ql' db' flt Inr dist that] unfolding mine by auto
  ultimately show ?thesis by (auto split: sum.splits option.splits)
qed

definition example_incident_model :: "(incident list, incident) mongoose_model" where
  "example_incident_model =
     \<lparr>collection = list_coll incident_clash, matches_filter = (\<lambda>q d. evalq Some (incident_attr d) q),
      default_select = (\<lambda>d. d), build = (\<lambda>_. Inl (DbFailure ''validation'')), set_fields = (\<lambda>_ d. d),
      validate = (\<lambda>_. None), field_value = (\<lambda>k d. incident_attr d k)\<rparr>"

definition two_incidents :: "incident list" where
  "two_incidents =
     [new_incident ''i1'' (hd two_tenants) ''down'' 1, new_incident ''i2'' (hd (tl two_tenants)) ''down'' 2]"

text \<open>Ann asks for the incidents of Bob's monitor, and for all of them.\<close>

lemma derived_reads_confined_witness:
  "(case dao_find plain_bson (derived_dao example_monitor_model two_tenants example_incident_model) two_incidents
           (JStr ''ann'') [] no_options of
      Inl _ \<Rightarrow> False
    | Inr ds \<Rightarrow> map i_id ds = [''i1'']) \<and>
   dao_findOne plain_bson (derived_dao example_monitor_model two_tenants example_incident_model) two_incidents
     (JStr ''ann'') [(''monitorId'', JStr ''m2'')] no_options = Inr None \<and>
   matching example_incident_model [(''monitorId'', JStr ''m2'')]
     (monitor_owned mset incident_attr ''ann'' (mset two_tenants) two_incidents) = {}"
proof -
  have mq: "casting_query (matches_filter example_monitor_model) monitor_attr Some"
    by (simp add: example_monitor_model_def evaluator.casting_query_axioms)
  have ids: "field_value example_monitor_model ''_id'' m = JOid (m_id m)" for m
    by (simp add: example_monitor_model_def monitor_attr_def)
  have ql: "query_language (matches_filter example_incident_model) incident_attr"
    by (simp add: example_incident_model_def evaluator.query_language_axioms)
  have db: "mongo (collection example_incident_model) mset incident_clash"
    by (simp add: example_incident_model_def mem.mongo_axioms)
  have many: "case dao_find plain_bson (derived_dao example_monitor_model two_tenants example_incident_model) two_incidents
           (JStr ''ann'') [] no_options of
      Inl _ \<Rightarrow> False
    | Inr ds \<Rightarrow> map i_id ds = [''i1'']" by code_simp
  have one: "dao_findOne plain_bson (derived_dao example_monitor_model two_tenants example_incident_model) two_incidents
     (JStr ''ann'') [(''monitorId'', JStr ''m2'')] no_options = Inr None" by code_simp
  have owner: "identifies Some (JStr ''ann'') ''ann''" by code_simp
  have flt: "distinct (map fst [(''monitorId'', JStr ''m2'')])" by simp
  from derived_reads_confined [OF mq mongo_atomic.axioms(1) [OF example_monitor_model_ok(2)] ids ql db owner flt,
      where B = plain_bson and mc = two_tenants and c = two_incidents and opt = no_options] many one
  show ?thesis by simp
qed

end
