(* ===== verification/Uptime.thy ===== *)
theory Uptime
  imports Records
begin

text \<open>
  Uptime over rolling windows, \<open>Backend/src/services/uptime.service.js\<close>, and the metrics
  endpoints built on it, \<open>Backend/src/controllers/metrics.controller.js\<close>. The aggregation
  pipeline is the source's: one match on the widest window, then per window a match and a
  group; its stages are the functions below. Rounding to three decimals is written out;
  clock formatting is a parameter.
\<close>

subsection \<open>The windows\<close>

definition hours :: "int \<Rightarrow> int" where
  "hours n = n * 60 * 60 * 1000"

definition WINDOWS :: "(string \<times> int) list" where
  "WINDOWS = [(''24h'', hours 24), (''7d'', 7 * hours 24), (''30d'', 30 * hours 24)]"

record bucket =
  b_total :: nat
  b_up :: nat
  b_avgLatency :: "rat option"
  b_lastCheckAt :: "time option"

text \<open>\<open>$avg\<close> ignores what is not a number; of nothing it is null.\<close>

definition avg :: "int list \<Rightarrow> rat option" where
  "avg xs = (if xs = [] then None else Some (of_int (sum_list xs) / of_nat (length xs)))"

definition latest :: "time list \<Rightarrow> time option" where
  "latest ts = (if ts = [] then None else Some (Max (set ts)))"

text \<open>\<open>$group\<close> with \<open>_id: null\<close>: one bucket, or none when nothing was matched.\<close>

definition groupStage :: "check_row list \<Rightarrow> bucket list" where
  "groupStage rows =
     (if rows = [] then []
      else [\<lparr>b_total = length rows, b_up = length (filter (\<lambda>l. l_status l = UP) rows),
             b_avgLatency = avg (List.map_filter (\<lambda>l. if l_status l = UP then l_latency l else None) rows),
             b_lastCheckAt = latest (map l_timestamp rows)\<rparr>])"

text \<open>\<open>Math.round\<close>, and \<open>Number(x.toFixed(3))\<close> in thousandths: halves go up.\<close>

definition math_round :: "rat \<Rightarrow> int" where
  "math_round x = \<lfloor>x + 1 / 2\<rfloor>"

definition to_fixed3 :: "rat \<Rightarrow> rat" where
  "to_fixed3 x = of_int (math_round (x * 1000)) / 1000"

record uptime_window =
  w_uptime :: "rat option"
  totalChecks :: nat
  upChecks :: nat
  downChecks :: int
  avgLatencyMs :: "int option"
  lastCheckAt :: "time option"
  windowStart :: time

definition window_of :: "time \<Rightarrow> bucket option \<Rightarrow> uptime_window" where
  "window_of since b =
     (let total = (case b of None \<Rightarrow> 0 | Some x \<Rightarrow> b_total x);
          up = (case b of None \<Rightarrow> 0 | Some x \<Rightarrow> b_up x)
      in \<lparr>w_uptime = (if total > 0 then Some (to_fixed3 (of_nat up / of_nat total * 100)) else None),
          totalChecks = total, upChecks = up, downChecks = int total - int up,
          avgLatencyMs = map_option math_round (Option.bind b b_avgLatency),
          lastCheckAt = Option.bind b b_lastCheckAt,
          windowStart = since\<rparr>)"

text \<open>The identifier is converted first, and throws when it is malformed.\<close>

definition getUptimeWindows ::
    "bson \<Rightarrow> ('c, check_row) coll \<Rightarrow> 'c \<Rightarrow> js \<Rightarrow> time \<Rightarrow> dao_error + (string \<times> uptime_window) list" where
  "getUptimeWindows B logs c monitorId now =
     (case newObjectId B (js_string B monitorId) of
        Inl msg \<Rightarrow> Inl (InvalidId msg)
      | Inr i \<Rightarrow>
          (case find_many logs c (\<lambda>l. l_monitorId l = i \<and> now - 30 * hours 24 \<le> l_timestamp l) (\<lambda>_. 0) None of
             Inl e \<Rightarrow> Inl (DbFailed e)
           | Inr rows \<Rightarrow>
               Inr (map (\<lambda>(key, ms).
                     let facet = groupStage (filter (\<lambda>l. now - ms \<le> l_timestamp l) rows)
                     in (key, window_of (now - ms) (case facet of [] \<Rightarrow> None | b # _ \<Rightarrow> Some b))) WINDOWS)))"

subsection \<open>The metrics endpoints\<close>

definition SERIES_LIMIT :: nat where
  "SERIES_LIMIT = 100"

text \<open>Newest first from the collection, then reversed.\<close>

definition recentLogs ::
    "bson \<Rightarrow> ('c, check_row) dao \<Rightarrow> 'c \<Rightarrow> js \<Rightarrow> js \<Rightarrow> (check_row \<Rightarrow> check_row) \<Rightarrow> dao_error + check_row list" where
  "recentLogs B D c ownerId monitorId projection =
     map_sum id rev
       (dao_find B D c ownerId [(''monitorId'', monitorId)]
          \<lparr>o_sort = Some (newest_first l_timestamp), o_limit = Some SERIES_LIMIT, o_select = Some projection,
           o_populate = None\<rparr>)"

record latency_point =
  lp_time :: string
  lp_timestamp :: time
  lp_latency :: int
  lp_dns :: "int option"
  lp_tcp :: "int option"
  lp_tls :: "int option"
  lp_ttfb :: "int option"
  lp_total :: "int option"

definition latency_point_of :: "(time \<Rightarrow> string) \<Rightarrow> check_row \<Rightarrow> latency_point" where
  "latency_point_of label l =
     \<lparr>lp_time = label (l_timestamp l), lp_timestamp = l_timestamp l, lp_latency = nullish (l_latency l) 0,
      lp_dns = t_dns (l_timings l), lp_tcp = t_tcp (l_timings l), lp_tls = t_tls (l_timings l),
      lp_ttfb = t_ttfb (l_timings l),
      lp_total = (case t_total (l_timings l) of Some t \<Rightarrow> Some t | None \<Rightarrow> l_latency l)\<rparr>"

record status_point =
  sp_time :: string
  sp_timestamp :: time
  sp_status :: nat
  sp_label :: status
  sp_statusCode :: "int option"

definition status_point_of :: "(time \<Rightarrow> string) \<Rightarrow> check_row \<Rightarrow> status_point" where
  "status_point_of label l =
     \<lparr>sp_time = label (l_timestamp l), sp_timestamp = l_timestamp l,
      sp_status = (if l_status l = UP then 1 else 0), sp_label = l_status l, sp_statusCode = l_statusCode l\<rparr>"

text \<open>
  What the three handlers share: the format check answers 400 by itself, then the owner check,
  and any error that is not an API error becomes a 500 with the handler's message.
\<close>

datatype 'a metrics_reply = Malformed | Replied "thrown + 'a response"

definition guarded ::
    "bson \<Rightarrow> ('m, monitor) mongoose_model \<Rightarrow> 'm \<Rightarrow> string \<Rightarrow> js \<Rightarrow> js \<Rightarrow> (dao_error + 'a response) \<Rightarrow> 'a metrics_reply" where
  "guarded B MM mc failed user_id monitorId answer =
     (if \<not> isValidObjectId B monitorId then Malformed
      else Replied
        (case assertMonitorOwned B MM mc user_id monitorId of
           Inl e \<Rightarrow> Inl (if isApiError e then e else ApiError 500 failed)
         | Inr _ \<Rightarrow>
             (case answer of
                Inl e \<Rightarrow> Inl (ApiError 500 failed)
              | Inr r \<Rightarrow> Inr r)))"

definition getLatencyMetrics ::
    "(time \<Rightarrow> string) \<Rightarrow> bson \<Rightarrow> ('m, monitor) mongoose_model \<Rightarrow> 'm \<Rightarrow> ('c, check_row) dao \<Rightarrow>
     (check_row \<Rightarrow> check_row) \<Rightarrow> 'c \<Rightarrow> js \<Rightarrow> js \<Rightarrow> latency_point list metrics_reply" where
  "getLatencyMetrics label B MM mc D projection c user_id monitorId =
     guarded B MM mc ''Latency fetch failed'' user_id monitorId
       (map_sum id (\<lambda>logs. ApiResponse 200 (map (latency_point_of label) logs) ''Latency metrics fetched successfully'')
          (recentLogs B D c user_id monitorId projection))"

definition getStatusTimeline ::
    "(time \<Rightarrow> string) \<Rightarrow> bson \<Rightarrow> ('m, monitor) mongoose_model \<Rightarrow> 'm \<Rightarrow> ('c, check_row) dao \<Rightarrow>
     (check_row \<Rightarrow> check_row) \<Rightarrow> 'c \<Rightarrow> js \<Rightarrow> js \<Rightarrow> status_point list metrics_reply" where
  "getStatusTimeline label B MM mc D projection c user_id monitorId =
     guarded B MM mc ''Status timeline fetch failed'' user_id monitorId
       (map_sum id (\<lambda>logs. ApiResponse 200 (map (status_point_of label) logs) ''Status timeline fetched successfully'')
          (recentLogs B D c user_id monitorId projection))"

record uptime_report =
  ur_uptime :: rat
  ur_totalChecks :: nat
  ur_upChecks :: nat
  ur_windows :: "(string \<times> uptime_window) list"

text \<open>\<open>windows['30d']\<close> backs the top-level fields; without data the figure is 0.\<close>

definition uptime_report_of :: "(string \<times> uptime_window) list \<Rightarrow> uptime_report option" where
  "uptime_report_of windows =
     (case map_of windows ''30d'' of
        None \<Rightarrow> None
      | Some headline \<Rightarrow>
          Some \<lparr>ur_uptime = nullish (w_uptime headline) 0, ur_totalChecks = totalChecks headline,
                ur_upChecks = upChecks headline, ur_windows = windows\<rparr>)"

definition getUptimeMetrics ::
    "bson \<Rightarrow> ('m, monitor) mongoose_model \<Rightarrow> 'm \<Rightarrow> ('c, check_row) coll \<Rightarrow> 'c \<Rightarrow> time \<Rightarrow> js \<Rightarrow> js \<Rightarrow>
     uptime_report metrics_reply" where
  "getUptimeMetrics B MM mc logs c now user_id monitorId =
     guarded B MM mc ''Uptime fetch failed'' user_id monitorId
       (case getUptimeWindows B logs c monitorId now of
          Inl e \<Rightarrow> Inl e
        | Inr ws \<Rightarrow>
            (case uptime_report_of ws of
               None \<Rightarrow> Inl (DbFailed (DbFailure ''Cannot read properties of undefined''))
             | Some r \<Rightarrow> Inr (ApiResponse 200 r ''Uptime metrics fetched successfully'')))"

subsection \<open>Properties\<close>

text \<open>The checks of a monitor inside a window.\<close>

definition checks_in :: "('c \<Rightarrow> check_row multiset) \<Rightarrow> 'c \<Rightarrow> oid \<Rightarrow> time \<Rightarrow> check_row multiset" where
  "checks_in docs c i since = filter_mset (\<lambda>l. l_monitorId l = i \<and> since \<le> l_timestamp l) (docs c)"

text \<open>What a window must report of them.\<close>

definition window_reports :: "uptime_window \<Rightarrow> check_row multiset \<Rightarrow> bool" where
  "window_reports w S \<longleftrightarrow>
     totalChecks w = size S \<and>
     upChecks w = size (filter_mset (\<lambda>l. l_status l = UP) S) \<and>
     downChecks w = int (size (filter_mset (\<lambda>l. l_status l = DOWN) S)) \<and>
     (case w_uptime w of
        None \<Rightarrow> S = {#}
      | Some u \<Rightarrow> S \<noteq> {#} \<and> 0 \<le> u \<and> u \<le> 100 \<and>
          \<bar>u - 100 * of_nat (upChecks w) / of_nat (totalChecks w)\<bar> \<le> 1 / 2000)"

lemma math_round_bounds: "of_int (math_round x) \<le> x + 1 / 2" "x - 1 / 2 < of_int (math_round x)"
  unfolding math_round_def by linarith+

lemma to_fixed3_close: "\<bar>to_fixed3 x - x\<bar> \<le> 1 / 2000"
proof -
  have "x - 1 / 2000 \<le> to_fixed3 x \<and> to_fixed3 x \<le> x + 1 / 2000"
    using math_round_bounds [of "x * 1000"] unfolding to_fixed3_def by (simp add: field_simps)
  then show ?thesis by linarith
qed

lemma to_fixed3_range:
  assumes "0 \<le> x" and "x \<le> 100"
  shows "0 \<le> to_fixed3 x \<and> to_fixed3 x \<le> 100"
proof -
  have "0 \<le> math_round (x * 1000)" using assms(1) by (simp add: math_round_def)
  moreover have "math_round (x * 1000) \<le> 100000" unfolding math_round_def using assms(2) by linarith
  ultimately have "0 \<le> (of_int (math_round (x * 1000)) :: rat)" "(of_int (math_round (x * 1000)) :: rat) \<le> of_int 100000"
    by (simp_all only: of_int_le_iff of_int_0_le_iff)
  then show ?thesis unfolding to_fixed3_def by simp
qed

lemma up_or_down: "size (filter_mset (\<lambda>l. l_status l = UP) S) + size (filter_mset (\<lambda>l. l_status l = DOWN) S) = size S"
proof (induction S)
  case (add l S)
  then show ?case by (cases "l_status l") simp_all
qed simp

lemma window_of_group:
  assumes rows: "mset rows = S"
  shows "window_reports (window_of since (case groupStage rows of [] \<Rightarrow> None | b # _ \<Rightarrow> Some b)) S"
proof -
  have total: "size S = length rows" and up: "size (filter_mset (\<lambda>l. l_status l = UP) S) = length (filter (\<lambda>l. l_status l = UP) rows)"
    unfolding rows [symmetric] by (simp_all flip: mset_filter)
  have down: "int (size S) - int (size (filter_mset (\<lambda>l. l_status l = UP) S)) = int (size (filter_mset (\<lambda>l. l_status l = DOWN) S))"
    using up_or_down [of S] by linarith
  show ?thesis
  proof (cases rows)
    case Nil
    with rows have "S = {#}" by simp
    with Nil show ?thesis by (simp add: groupStage_def window_of_def window_reports_def)
  next
    case (Cons a as)
    let ?x = "of_nat (length (filter (\<lambda>l. l_status l = UP) rows)) / of_nat (length rows) * 100 :: rat"
    have "S \<noteq> {#}" using rows Cons by auto
    moreover have "0 \<le> ?x" "?x \<le> 100"
      using length_filter_le [of "\<lambda>l. l_status l = UP" rows] Cons by (simp_all add: divide_le_eq)
    ultimately show ?thesis
      using total up down to_fixed3_close [of ?x] to_fixed3_range [of ?x] Cons
      by (simp add: groupStage_def window_of_def window_reports_def Let_def ac_simps del: filter.simps length_Cons)
  qed
qed

lemma windows_within: "(key, ms) \<in> set WINDOWS \<Longrightarrow> ms \<le> 30 * hours 24"
  by (auto simp: WINDOWS_def hours_def)


definition example_rows :: "check_row list" where
  "example_rows = map (\<lambda>(st, t). \<lparr>l_monitorId = ''m1'', l_status = st, l_latency = Some 80, l_timings = \<lparr>t_dns = None, t_tcp = None, t_tls = None, t_ttfb = None, t_total = None\<rparr>,
      l_statusCode = None, l_error = None, l_attempts = 1, l_timestamp = t\<rparr>)
     [(UP, 100), (DOWN, 50), (UP, 7), (UP, - hours 25), (UP, - hours 24 * 40)]"


text \<open>
  Two figures that read differently from what happened: a monitor without a single check has no
  uptime in any window but an overall uptime of 0 on the metrics endpoint, and one failed check
  among three hundred thousand leaves the figure at exactly 100.
\<close>

lemma uptime_figures_at_the_edges:
  "(case getUptimeWindows plain_bson (list_coll (\<lambda>_ _. False)) [] (JStr ''m1'') now of
      Inl _ \<Rightarrow> False
    | Inr ws \<Rightarrow> map (w_uptime \<circ> snd) ws = [None, None, None] \<and> map_option ur_uptime (uptime_report_of ws) = Some 0) \<and>
   to_fixed3 (of_nat 299999 / of_nat 300000 * 100) = 100"
  by (simp add: getUptimeWindows_def plain_bson_def js_string_def list_find_def WINDOWS_def window_of_def groupStage_def
      uptime_report_of_def to_fixed3_def math_round_def Let_def floor_eq_iff)

text \<open>
  An endpoint shows nothing of a monitor the caller does not own, and says of it what it says of a
  monitor that does not exist.
\<close>

lemma guarded_refuses_strangers:
  assumes "isValidObjectId B monitorId" and "dao_findById B (direct_dao MM) mc user_id monitorId no_options = Inr None"
  shows "guarded B MM mc failed user_id monitorId answer = Replied (Inl (ApiError 404 ''Monitor not found''))"
  using assms by (simp add: guarded_def assertMonitorOwned_def)

end
