(* ===== verification/Status_Page.thy ===== *)
theory Status_Page
  imports Slug Uptime
begin

text \<open>
  Public status pages, \<open>Backend/src/controllers/statusPage.controller.js\<close> and the schema of
  \<open>Backend/src/models/statusPage.model.js\<close>: the owner's management operations, with the
  check that every monitor put on a page is the owner's, and the page an anonymous visitor
  reads. Mongoose's \<open>createdAt\<close>, its \<open>populate\<close> of a list read by the owner, and the Unicode
  step of \<open>slugify\<close> are parameters.
\<close>

subsection \<open>The schema\<close>

record status_page =
  sp_id :: oid
  sp_userId :: oid
  sp_name :: string
  sp_slug :: string
  sp_description :: string
  sp_monitors :: "oid list"
  sp_isPublic :: bool

text \<open>The unique index on the address, and the unique \<open>_id\<close>.\<close>

definition page_clash :: "status_page \<Rightarrow> status_page \<Rightarrow> bool" where
  "page_clash a b \<longleftrightarrow> sp_id a = sp_id b \<or> sp_slug a = sp_slug b"

definition page_attr :: "status_page \<Rightarrow> string \<Rightarrow> js" where
  "page_attr p k =
     (if k = ''_id'' then JOid (sp_id p)
      else if k = ''userId'' then JOid (sp_userId p)
      else if k = ''slug'' then JStr (sp_slug p)
      else if k = ''isPublic'' then JBool (sp_isPublic p)
      else JUndef)"

text \<open>A list of identifiers: every element must cast.\<close>

fun cast_oids :: "caster \<Rightarrow> js list \<Rightarrow> oid list option" where
  "cast_oids C [] = Some []"
| "cast_oids C (v # vs) =
     Option.bind (as_oid (C SObjectId v)) (\<lambda>i. map_option ((#) i) (cast_oids C vs))"

definition assign_page :: "caster \<Rightarrow> string \<Rightarrow> js \<Rightarrow> status_page \<Rightarrow> status_page option" where
  "assign_page C k v p =
     (if k = ''name'' then
        Option.bind (as_text (C SString v))
          (\<lambda>s. if trim s = '''' \<or> length (trim s) > 80 then None else Some (p\<lparr>sp_name := trim s\<rparr>))
      else if k = ''slug'' then
        Option.bind (as_text (C SString v))
          (\<lambda>s. if trim s = '''' then None else Some (p\<lparr>sp_slug := to_lower (trim s)\<rparr>))
      else if k = ''description'' then
        Option.bind (as_text (C SString v))
          (\<lambda>s. if length (trim s) > 280 then None else Some (p\<lparr>sp_description := trim s\<rparr>))
      else if k = ''monitors'' then
        (case v of JArr xs \<Rightarrow> map_option (\<lambda>is. p\<lparr>sp_monitors := is\<rparr>) (cast_oids C xs) | _ \<Rightarrow> None)
      else if k = ''isPublic'' then
        map_option (\<lambda>b. p\<lparr>sp_isPublic := b\<rparr>) (as_bool (C SBoolean v))
      else if k = ''userId'' then
        map_option (\<lambda>i. p\<lparr>sp_userId := i\<rparr>) (as_oid (C SObjectId v))
      else Some p)"

definition blank_page :: "oid \<Rightarrow> status_page" where
  "blank_page i =
     \<lparr>sp_id = i, sp_userId = '''', sp_name = '''', sp_slug = '''', sp_description = '''', sp_monitors = [],
      sp_isPublic = True\<rparr>"

definition page_build :: "caster \<Rightarrow> oid \<Rightarrow> fields \<Rightarrow> db_error + status_page" where
  "page_build C i fs =
     (case apply_fields (assign_page C) fs (blank_page i) of
        None \<Rightarrow> Inl (DbFailure ''StatusPage validation failed'')
      | Some p \<Rightarrow>
          if sp_userId p = '''' \<or> sp_name p = '''' \<or> sp_slug p = '''' then
            Inl (DbFailure ''StatusPage validation failed'')
          else Inr p)"

definition page_validate :: "caster \<Rightarrow> fields \<Rightarrow> db_error option" where
  "page_validate C fs =
     (if apply_fields (assign_page C) fs (blank_page '''') = None then Some (DbFailure ''Validation failed'') else None)"

definition page_set :: "caster \<Rightarrow> fields \<Rightarrow> status_page \<Rightarrow> status_page" where
  "page_set C fs p = (case apply_fields (assign_page C) fs p of None \<Rightarrow> p | Some p' \<Rightarrow> p')"

definition page_model ::
    "('c, status_page) coll \<Rightarrow> (js \<Rightarrow> status_page \<Rightarrow> bool) \<Rightarrow> caster \<Rightarrow> oid \<Rightarrow> ('c, status_page) mongoose_model" where
  "page_model ops matches C i =
     \<lparr>collection = ops, matches_filter = matches, default_select = (\<lambda>p. p), build = page_build C i,
      set_fields = page_set C, validate = page_validate C, field_value = (\<lambda>k p. page_attr p k)\<rparr>"

subsection \<open>The owner's monitors\<close>

definition MAX_PAGES_PER_USER :: nat where
  "MAX_PAGES_PER_USER = 25"

definition MAX_MONITORS_PER_PAGE :: nat where
  "MAX_MONITORS_PER_PAGE = 50"

fun to_oids :: "bson \<Rightarrow> string list \<Rightarrow> thrown + oid list" where
  "to_oids B [] = Inr []"
| "to_oids B (s # ss) =
     (case newObjectId B s of
        Inl msg \<Rightarrow> Inl (plain_error msg)
      | Inr i \<Rightarrow> (case to_oids B ss of Inl e \<Rightarrow> Inl e | Inr is \<Rightarrow> Inr (i # is)))"

definition resolveOwnedMonitors ::
    "bson \<Rightarrow> ('m, monitor) mongoose_model \<Rightarrow> 'm \<Rightarrow> js \<Rightarrow> js \<Rightarrow> thrown + oid list option" where
  "resolveOwnedMonitors B MM mc ownerId ids =
     (case ids of
        JUndef \<Rightarrow> Inr None
      | JArr xs \<Rightarrow>
          if length xs > MAX_MONITORS_PER_PAGE then
            Inl (ApiError 400 ''A status page can show at most 50 monitors'')
          else
            let unique = foldl push_new [] (map (js_string B) xs) in
            (case find (\<lambda>s. \<not> isValidObjectId B (JStr s)) unique of
               Some s \<Rightarrow> Inl (ApiError 400 (''Not a valid monitor id: '' @ s))
             | None \<Rightarrow>
                 (case dao_find B (direct_dao MM) mc ownerId
                         [(''_id'', JObj [(''$in'', JArr (map JStr unique))])] no_options of
                    Inl e \<Rightarrow> Inl (dao_thrown e)
                  | Inr owned \<Rightarrow>
                      if list_all (\<lambda>s. s \<in> set (map m_id owned)) unique then
                        map_sum id Some (to_oids B unique)
                      else Inl (ApiError 404 ''Monitor not found'')))
      | _ \<Rightarrow> Inl (ApiError 400 ''monitors must be an array of monitor ids''))"

text \<open>Legal and free, or the reason it is not; another owner's page counts as well.\<close>

definition resolveSlug ::
    "bson \<Rightarrow> (string \<Rightarrow> string) \<Rightarrow> ('c, status_page) coll \<Rightarrow> 'c \<Rightarrow> js \<Rightarrow> js \<Rightarrow> thrown + string" where
  "resolveSlug B nfkd pages c requested excludeId =
     (let slug = slugify nfkd (if requested = JUndef \<or> requested = js.JNull then '''' else js_string B requested) in
      if slug = '''' then
        Inl (ApiError 400 ''Name must contain at least one letter or number to build a URL from'')
      else if isReservedSlug slug then
        Inl (ApiError 400 (CHR 0x22 # slug @ CHR 0x22 # '' is reserved '' @ [CHR 0xE2, CHR 0x80, CHR 0x94] @ '' choose another name''))
      else case find_many pages c (\<lambda>p. sp_slug p = slug) (\<lambda>_. 0) (Some 1) of
             Inl e \<Rightarrow> Inl (dao_thrown (DbFailed e))
           | Inr [] \<Rightarrow> Inr slug
           | Inr (p # _) \<Rightarrow>
               if sp_id p \<noteq> js_string B excludeId then
                 Inl (ApiError 409 (''The address /status/'' @ slug @ '' is already taken''))
               else Inr slug)"

subsection \<open>Management\<close>

definition listStatusPages ::
    "bson \<Rightarrow> ('c, status_page) dao \<Rightarrow> (status_page \<Rightarrow> int) \<Rightarrow> (status_page \<Rightarrow> status_page) \<Rightarrow> 'c \<Rightarrow> js \<Rightarrow>
     thrown + status_page list response" where
  "listStatusPages B D created populate c user_id =
     (case dao_find B D c user_id []
             \<lparr>o_sort = Some (newest_first created), o_limit = None, o_select = None, o_populate = Some populate\<rparr> of
        Inl e \<Rightarrow> Inl (dao_thrown e)
      | Inr ps \<Rightarrow> Inr (ApiResponse 200 ps ''Status pages retrieved successfully''))"

definition new_page_fields :: "bson \<Rightarrow> fields \<Rightarrow> string \<Rightarrow> oid list option \<Rightarrow> fields" where
  "new_page_fields B body resolvedSlug monitorIds =
     (let description = get ''description'' body in
      [(''name'', JStr (trim (js_string B (get ''name'' body)))), (''slug'', JStr resolvedSlug),
       (''description'', JStr (if js_falsy description then '''' else trim (js_string B description))),
       (''monitors'', JArr (map JOid (nullish monitorIds []))),
       (''isPublic'', case get ''isPublic'' body of JBool b \<Rightarrow> JBool b | _ \<Rightarrow> JBool True)])"

text \<open>The unique index decides: its rejection is the answer the check before would have given.\<close>

definition create_reply :: "string \<Rightarrow> 'c \<times> (dao_error + status_page) \<Rightarrow> 'c \<times> (thrown + status_page response)" where
  "create_reply resolvedSlug r =
     (fst r,
      case snd r of
        Inr p \<Rightarrow> Inr (ApiResponse 201 p ''Status page created successfully'')
      | Inl e \<Rightarrow>
          Inl (if e = DbFailed DuplicateKey then ApiError 409 (''The address /status/'' @ resolvedSlug @ '' is already taken'')
               else dao_thrown e))"

definition createStatusPage ::
    "bson \<Rightarrow> (string \<Rightarrow> string) \<Rightarrow> ('m, monitor) mongoose_model \<Rightarrow> 'm \<Rightarrow> ('c, status_page) dao \<Rightarrow> 'c \<Rightarrow> js \<Rightarrow> fields \<Rightarrow>
     'c \<times> (thrown + status_page response)" where
  "createStatusPage B nfkd MM mc D c user_id body =
     (let name = get ''name'' body; slug = get ''slug'' body in
      if js_falsy name \<or> trim (js_string B name) = '''' then (c, Inl (ApiError 400 ''Name is required''))
      else case dao_count B D c user_id [] of
        Inl e \<Rightarrow> (c, Inl (dao_thrown e))
      | Inr existing \<Rightarrow>
          if existing \<ge> MAX_PAGES_PER_USER then
            (c, Inl (ApiError 400 ''You can create at most 25 status pages''))
          else case resolveSlug B nfkd (collection (d_model D)) c (if js_falsy slug then name else slug) JUndef of
            Inl e \<Rightarrow> (c, Inl e)
          | Inr resolvedSlug \<Rightarrow>
              (case resolveOwnedMonitors B MM mc user_id (get ''monitors'' body) of
                 Inl e \<Rightarrow> (c, Inl e)
               | Inr monitorIds \<Rightarrow>
                   create_reply resolvedSlug
                     (dao_create B D c user_id (new_page_fields B body resolvedSlug monitorIds))))"

text \<open>The fields an update sets, in the order the handler sets them, or what it throws.\<close>

definition page_patch ::
    "bson \<Rightarrow> (string \<Rightarrow> string) \<Rightarrow> ('m, monitor) mongoose_model \<Rightarrow> 'm \<Rightarrow> ('c, status_page) coll \<Rightarrow> 'c \<Rightarrow> js \<Rightarrow> js \<Rightarrow>
     fields \<Rightarrow> thrown + fields" where
  "page_patch B nfkd MM mc pages c user_id pageId body =
     (let name = get ''name'' body; slug = get ''slug'' body; isPublic = get ''isPublic'' body;
          description = get ''description'' body in
      if name \<noteq> JUndef \<and> trim (js_string B name) = '''' then Inl (ApiError 400 ''Name cannot be empty'')
      else
        let update =
          (if name = JUndef then [] else [(''name'', JStr (trim (js_string B name)))]) @
          (if description = JUndef then [] else [(''description'', JStr (trim (js_string B description)))]) @
          (case isPublic of JBool b \<Rightarrow> [(''isPublic'', JBool b)] | _ \<Rightarrow> [])
        in case (if slug = JUndef then Inr [] else
                   map_sum id (\<lambda>s. [(''slug'', JStr s)]) (resolveSlug B nfkd pages c slug pageId)) of
             Inl e \<Rightarrow> Inl e
           | Inr slug_part \<Rightarrow>
               (case resolveOwnedMonitors B MM mc user_id (get ''monitors'' body) of
                  Inl e \<Rightarrow> Inl e
                | Inr None \<Rightarrow> Inr (update @ slug_part)
                | Inr (Some is) \<Rightarrow> Inr (update @ slug_part @ [(''monitors'', JArr (map JOid is))])))"

definition update_reply :: "'c \<times> (dao_error + status_page option) \<Rightarrow> 'c \<times> (thrown + status_page response)" where
  "update_reply r =
     (fst r,
      case snd r of
        Inr (Some p) \<Rightarrow> Inr (ApiResponse 200 p ''Status page updated successfully'')
      | Inr None \<Rightarrow> Inl (ApiError 404 ''Status page not found'')
      | Inl e \<Rightarrow> Inl (if e = DbFailed DuplicateKey then ApiError 409 ''That address is already taken'' else dao_thrown e))"

definition updateStatusPage ::
    "bson \<Rightarrow> (string \<Rightarrow> string) \<Rightarrow> ('m, monitor) mongoose_model \<Rightarrow> 'm \<Rightarrow> ('c, status_page) dao \<Rightarrow> 'c \<Rightarrow> js \<Rightarrow> js \<Rightarrow>
     fields \<Rightarrow> 'c \<times> (thrown + status_page response)" where
  "updateStatusPage B nfkd MM mc D c user_id pageId body =
     (case dao_findById B D c user_id pageId no_options of
        Inl e \<Rightarrow> (c, Inl (dao_thrown e))
      | Inr None \<Rightarrow> (c, Inl (ApiError 404 ''Status page not found''))
      | Inr (Some _) \<Rightarrow>
          (case page_patch B nfkd MM mc (collection (d_model D)) c user_id pageId body of
             Inl e \<Rightarrow> (c, Inl e)
           | Inr update \<Rightarrow> update_reply (dao_updateById B D c user_id pageId update)))"

definition deleteStatusPage ::
    "bson \<Rightarrow> ('c, status_page) dao \<Rightarrow> 'c \<Rightarrow> js \<Rightarrow> js \<Rightarrow> 'c \<times> (thrown + unit response)" where
  "deleteStatusPage B D c user_id pageId =
     (case dao_deleteById B D c user_id pageId of
        (c', Inl e) \<Rightarrow> (c', Inl (dao_thrown e))
      | (c', Inr None) \<Rightarrow> (c', Inl (ApiError 404 ''Status page not found''))
      | (c', Inr (Some _)) \<Rightarrow> (c', Inr (ApiResponse 200 () ''Status page deleted successfully'')))"

subsection \<open>The public page\<close>

datatype shown_status = SUp | SDown | SPaused | SUnknown

text \<open>What a visitor sees of a monitor.\<close>

record service =
  sv_name :: string
  sv_status :: shown_status
  sv_lastCheckedAt :: "time option"
  sv_uptime24h :: "rat option"
  sv_uptime7d :: "rat option"
  sv_uptime30d :: "rat option"
  sv_avgResponseMs :: "int option"

definition shown :: "monitor \<Rightarrow> shown_status" where
  "shown m =
     (if m_active m = Some False then SPaused
      else case m_status m of Some UP \<Rightarrow> SUp | Some DOWN \<Rightarrow> SDown | None \<Rightarrow> SUnknown)"

definition window_uptime :: "(string \<times> uptime_window) list \<Rightarrow> string \<Rightarrow> rat option" where
  "window_uptime ws k = Option.bind (map_of ws k) w_uptime"

definition service_of :: "(string \<times> uptime_window) list \<Rightarrow> monitor \<Rightarrow> service" where
  "service_of ws m =
     \<lparr>sv_name = m_title m, sv_status = shown m, sv_lastCheckedAt = lastChecked m,
      sv_uptime24h = window_uptime ws ''24h'', sv_uptime7d = window_uptime ws ''7d'',
      sv_uptime30d = window_uptime ws ''30d'', sv_avgResponseMs = Option.bind (map_of ws ''24h'') avgLatencyMs\<rparr>"

fun services_of :: "(monitor \<Rightarrow> dao_error + (string \<times> uptime_window) list) \<Rightarrow> monitor list \<Rightarrow> dao_error + service list" where
  "services_of windows [] = Inr []"
| "services_of windows (m # ms) =
     (case windows m of
        Inl e \<Rightarrow> Inl e
      | Inr ws \<Rightarrow> (case services_of windows ms of Inl e \<Rightarrow> Inl e | Inr ss \<Rightarrow> Inr (service_of ws m # ss)))"

record public_page =
  pp_name :: string
  pp_description :: string
  pp_slug :: string
  pp_degraded :: bool
  pp_services :: "service list"
  pp_updatedAt :: time

text \<open>\<open>populate\<close> keeps the order of the page and drops references to monitors that are gone.\<close>

definition populated :: "monitor list \<Rightarrow> oid list \<Rightarrow> monitor list" where
  "populated ms is = List.map_filter (\<lambda>i. find (\<lambda>m. m_id m = i) ms) is"

definition public_reply :: "status_page \<Rightarrow> time \<Rightarrow> dao_error + service list \<Rightarrow> thrown + public_page response" where
  "public_reply page now r =
     (case r of
        Inl e \<Rightarrow> Inl (dao_thrown e)
      | Inr services \<Rightarrow>
          Inr (ApiResponse 200
            \<lparr>pp_name = sp_name page, pp_description = sp_description page, pp_slug = sp_slug page,
             pp_degraded = list_ex (\<lambda>s. sv_status s = SDown) services, pp_services = services,
             pp_updatedAt = now\<rparr> ''Status page retrieved successfully''))"

definition getPublicStatusPage ::
    "bson \<Rightarrow> (string \<Rightarrow> string) \<Rightarrow> ('m, monitor) coll \<Rightarrow> 'm \<Rightarrow> ('l, check_row) coll \<Rightarrow> 'l \<Rightarrow> ('c, status_page) coll \<Rightarrow> 'c \<Rightarrow>
     time \<Rightarrow> string \<Rightarrow> thrown + public_page response" where
  "getPublicStatusPage B nfkd monitors mc logs lc pages c now requested =
     (let slug = slugify nfkd requested in
      case find_many pages c (\<lambda>p. sp_slug p = slug \<and> sp_isPublic p) (\<lambda>_. 0) (Some 1) of
        Inl e \<Rightarrow> Inl (dao_thrown (DbFailed e))
      | Inr [] \<Rightarrow> Inl (ApiError 404 ''Status page not found'')
      | Inr (page # _) \<Rightarrow>
          (case find_many monitors mc (\<lambda>m. m_id m \<in> set (sp_monitors page)) (\<lambda>_. 0) None of
             Inl e \<Rightarrow> Inl (dao_thrown (DbFailed e))
           | Inr ms \<Rightarrow>
               public_reply page now
                 (services_of (\<lambda>m. getUptimeWindows B logs lc (JOid (m_id m)) now)
                   (populated ms (sp_monitors page)))))"

subsection \<open>Whose monitors a page shows\<close>

text \<open>No page lists a monitor of anybody but its owner.\<close>

definition exposes_own :: "monitor multiset \<Rightarrow> status_page \<Rightarrow> bool" where
  "exposes_own ms p \<longleftrightarrow> (\<forall>m \<in># ms. m_id m \<in> set (sp_monitors p) \<longrightarrow> m_userId m = sp_userId p)"

lemma to_oids_id: "(\<And>s. s \<in> set ss \<Longrightarrow> newObjectId B s = Inr s) \<Longrightarrow> to_oids B ss = Inr ss"
  by (induction B ss rule: to_oids.induct) auto

text \<open>
  What the ownership check lets through: identifiers of monitors of the caller, once each, in
  the order the caller gave them.
\<close>

lemma resolved_monitors_owned:
  assumes ql: "query_language (matches_filter MM) monitor_attr" and db: "mongo (collection MM) mdocs mclash"
    and scope: "scopeFor B (direct_dao MM) ownerId = Inr scope" and owner: "newObjectId B (js_string B ownerId) = Inr i"
    and view: "\<And>m. m_id (default_select MM m) = m_id m"
    and canon: "\<And>m. m \<in># mdocs mc \<Longrightarrow> newObjectId B (m_id m) = Inr (m_id m)"
    and got: "resolveOwnedMonitors B MM mc ownerId ids = Inr (Some os)"
  shows "set os \<subseteq> {m_id m |m. m \<in># mdocs mc \<and> m_userId m = i} \<and> distinct os"
proof -
  from got obtain xs owned where ids: "ids = JArr xs"
    and owned: "dao_find B (direct_dao MM) mc ownerId
        [(''_id'', JObj [(''$in'', JArr (map JStr (foldl push_new [] (map (js_string B) xs))))])] no_options = Inr owned"
    and all: "list_all (\<lambda>s. s \<in> set (map m_id owned)) (foldl push_new [] (map (js_string B) xs))"
    and os: "to_oids B (foldl push_new [] (map (js_string B) xs)) = Inr os"
    by (auto simp: resolveOwnedMonitors_def Let_def map_sum_def split: js.splits if_splits option.splits sum.splits)
  let ?u = "foldl push_new [] (map (js_string B) xs)"
  note sc = direct_scope [OF ql scope owner]
  have ql': "query_language (matches_filter (d_model (direct_dao MM))) monitor_attr"
    and db': "mongo (collection (d_model (direct_dao MM))) mdocs mclash" using ql db by simp_all
  have flt: "distinct (map fst [(''_id'', JObj [(''$in'', JArr (map JStr ?u))])])" by simp
  from sc have dist: "distinct (map fst scope)" by blast
  have plain: "project no_options m = m" for m by (simp add: project_def no_options_def)
  from dao_find_confined(1) [OF ql' db' flt scope dist owned] sc
  have "set owned \<subseteq> default_select MM ` {m. m \<in># mdocs mc \<and> monitor_attr m ''userId'' = JOid i}"
    by (auto simp: plain)
  then have mine: "m_id ` set owned \<subseteq> {m_id m |m. m \<in># mdocs mc \<and> m_userId m = i}"
    using view by (fastforce simp: monitor_attr_def)
  have inside: "set ?u \<subseteq> m_id ` set owned" using all by (auto simp: list_all_iff)
  have sub: "set ?u \<subseteq> {m_id m |m. m \<in># mdocs mc \<and> m_userId m = i}" using inside mine by (rule subset_trans)
  have "newObjectId B s = Inr s" if "s \<in> set ?u" for s
  proof -
    from subsetD [OF sub that] obtain m where "s = m_id m" "m \<in># mdocs mc" by auto
    with canon show ?thesis by simp
  qed
  from to_oids_id [OF this] os have "os = ?u" by simp
  moreover have "distinct ?u" by (rule distinct_foldl_push_new) simp
  ultimately show ?thesis using sub by simp
qed

text \<open>What the schema's assignments leave alone.\<close>

lemma assign_page_keeps:
  assumes "assign_page C k v p = Some p'"
  shows "sp_id p' = sp_id p"
    and "k \<noteq> ''userId'' \<Longrightarrow> sp_userId p' = sp_userId p"
    and "k \<noteq> ''monitors'' \<Longrightarrow> sp_monitors p' = sp_monitors p"
    and "k \<noteq> ''slug'' \<Longrightarrow> sp_slug p' = sp_slug p"
    and "k \<noteq> ''isPublic'' \<Longrightarrow> sp_isPublic p' = sp_isPublic p"
  using assms by (auto simp: assign_page_def bind_eq_Some_conv split: if_splits js.splits)

lemma cast_oids_id: "(\<And>j. C SObjectId (JOid j) = Some (JOid j)) \<Longrightarrow> cast_oids C (map JOid is) = Some is"
  by (induction "is") (simp_all add: as_oid_def)

lemma assign_page_monitors:
  assumes "\<And>j. C SObjectId (JOid j) = Some (JOid j)" and "assign_page C ''monitors'' (JArr (map JOid ks)) p = Some p'"
  shows "sp_monitors p' = ks"
  using assms by (auto simp: assign_page_def cast_oids_id)

lemma page_monitors_after:
  assumes cast: "\<And>j. C SObjectId (JOid j) = Some (JOid j)" and fs: "distinct (map fst fs)"
    and all: "apply_fields (assign_page C) fs p = Some p'"
  shows "map_of fs ''monitors'' = Some (JArr (map JOid ks)) \<Longrightarrow> sp_monitors p' = ks"
    and "map_of fs ''monitors'' = None \<Longrightarrow> sp_monitors p' = sp_monitors p"
    and "map_of fs ''userId'' = Some (JOid i) \<Longrightarrow> sp_userId p' = i"
    and "map_of fs ''userId'' = None \<Longrightarrow> sp_userId p' = sp_userId p"
proof -
  show "sp_monitors p' = ks" if m: "map_of fs ''monitors'' = Some (JArr (map JOid ks))"
  proof -
    have "\<exists>n n'. assign_page C ''monitors'' (JArr (map JOid ks)) n = Some n' \<and> sp_monitors p' = sp_monitors n'"
      by (rule apply_fields_final [OF fs m all]) (rule assign_page_keeps(3))
    then show ?thesis using assign_page_monitors [of C ks, OF cast] by metis
  qed
  show "sp_userId p' = i" if m: "map_of fs ''userId'' = Some (JOid i)"
  proof -
    have "\<exists>n n'. assign_page C ''userId'' (JOid i) n = Some n' \<and> sp_userId p' = sp_userId n'"
      by (rule apply_fields_final [OF fs m all]) (rule assign_page_keeps(2))
    then show ?thesis using cast [of i] by (auto simp: assign_page_def as_oid_def)
  qed
  show "sp_monitors p' = sp_monitors p" if "map_of fs ''monitors'' = None"
    by (rule apply_fields_keeps [OF _ all]) (use that in \<open>metis assign_page_keeps(3) map_of_eq_None_iff set_map\<close>)
  show "sp_userId p' = sp_userId p" if "map_of fs ''userId'' = None"
    by (rule apply_fields_keeps [OF _ all]) (use that in \<open>metis assign_page_keeps(2) map_of_eq_None_iff set_map\<close>)
qed

text \<open>The patch of an update: distinct fields, no owner, and monitors only as resolved.\<close>

lemma page_patch_shape:
  assumes "page_patch B nfkd MM mc pages c user_id pageId body = Inr fs"
  shows "distinct (map fst fs) \<and> map_of fs ''userId'' = None \<and>
    (case map_of fs ''monitors'' of
       None \<Rightarrow> True
     | Some v \<Rightarrow> \<exists>is. v = JArr (map JOid is) \<and>
         resolveOwnedMonitors B MM mc user_id (get ''monitors'' body) = Inr (Some is))"
proof -
  let ?n = "get ''name'' body" and ?d = "get ''description'' body" and ?p = "get ''isPublic'' body"
  let ?u = "(if ?n = JUndef then [] else [(''name'', JStr (trim (js_string B ?n)))]) @
          (if ?d = JUndef then [] else [(''description'', JStr (trim (js_string B ?d)))]) @
          (case ?p of JBool b \<Rightarrow> [(''isPublic'', JBool b)] | _ \<Rightarrow> [])"
  from assms obtain sl ms where fs: "fs = ?u @ sl @ ms"
    and sl: "sl = [] \<or> (\<exists>s. sl = [(''slug'', s)])"
    and ms: "ms = [] \<or> (\<exists>is. ms = [(''monitors'', JArr (map JOid is))] \<and>
        resolveOwnedMonitors B MM mc user_id (get ''monitors'' body) = Inr (Some is))"
    by (auto simp: page_patch_def Let_def map_sum_def split: if_splits sum.splits option.splits)
  have u: "?u = (if ?n = JUndef then [] else [(''name'', JStr (trim (js_string B ?n)))]) @
          (if ?d = JUndef then [] else [(''description'', JStr (trim (js_string B ?d)))]) @
          (if \<exists>b. ?p = JBool b then [(''isPublic'', ?p)] else [])"
    by (cases ?p) simp_all
  show ?thesis unfolding fs u using sl ms
    by (elim disjE exE conjE) (simp_all add: map_add_def)
qed

lemma page_model_simps [simp]:
  "collection (page_model ops mt C n) = ops" "matches_filter (page_model ops mt C n) = mt"
  "default_select (page_model ops mt C n) = (\<lambda>p. p)" "build (page_model ops mt C n) = page_build C n"
  "set_fields (page_model ops mt C n) = page_set C" "validate (page_model ops mt C n) = page_validate C"
  by (simp_all add: page_model_def)

text \<open>The state a handler leaves: nothing done, or one DAO write.\<close>

lemma fst_create_reply [simp]: "fst (create_reply sl r) = fst r"
  by (simp add: create_reply_def)

lemma fst_update_reply [simp]: "fst (update_reply r) = fst r"
  by (simp add: update_reply_def)

lemma new_page_fields_shape:
  "distinct (map fst (new_page_fields B body sl ks)) \<and>
   map_of (new_page_fields B body sl ks) ''monitors'' = Some (JArr (map JOid (nullish ks [])))"
  by (simp add: new_page_fields_def Let_def)

lemma create_page_runs:
  obtains "fst (createStatusPage B nfkd MM mc D c user_id body) = c"
  | sl ks where
      "fst (createStatusPage B nfkd MM mc D c user_id body) = fst (dao_create B D c user_id (new_page_fields B body sl ks))"
      "resolveOwnedMonitors B MM mc user_id (get ''monitors'' body) = Inr ks"
proof (cases "fst (createStatusPage B nfkd MM mc D c user_id body) = c")
  case False
  then show thesis
    using that(2) by (auto simp: createStatusPage_def Let_def split: if_splits sum.splits)
qed (rule that(1))

lemma update_page_runs:
  obtains "fst (updateStatusPage B nfkd MM mc D c user_id pageId body) = c"
  | fs where "fst (updateStatusPage B nfkd MM mc D c user_id pageId body) = fst (dao_updateById B D c user_id pageId fs)"
      "page_patch B nfkd MM mc (collection (d_model D)) c user_id pageId body = Inr fs"
proof (cases "fst (updateStatusPage B nfkd MM mc D c user_id pageId body) = c")
  case False
  then show thesis
    using that(2) by (auto simp: updateStatusPage_def split: sum.splits option.splits)
qed (rule that(1))

lemma exposes_own_resolved:
  assumes mq: "query_language (matches_filter MM) monitor_attr" and mdb: "mongo (collection MM) mdocs mclash"
    and view: "\<And>m. m_id (default_select MM m) = m_id m"
    and canon: "\<And>m. m \<in># mdocs mc \<Longrightarrow> newObjectId B (m_id m) = Inr (m_id m)"
    and unique: "\<And>m m'. m \<in># mdocs mc \<Longrightarrow> m' \<in># mdocs mc \<Longrightarrow> m_id m = m_id m' \<Longrightarrow> m = m'"
    and scope: "scopeFor B (direct_dao MM) user_id = Inr scope"
    and owner: "newObjectId B (js_string B user_id) = Inr i"
    and user: "sp_userId p = i" and ks: "resolveOwnedMonitors B MM mc user_id ids = Inr (Some (sp_monitors p))"
  shows "exposes_own (mdocs mc) p"
proof -
  note sub = resolved_monitors_owned [OF mq mdb scope owner view canon ks, THEN conjunct1]
  have "m_userId m = i" if m: "m \<in># mdocs mc" "m_id m \<in> set (sp_monitors p)" for m
  proof -
    from subsetD [OF sub m(2)] obtain m' where "m_id m = m_id m'" "m' \<in># mdocs mc" "m_userId m' = i" by auto
    with unique [OF m(1), of m'] show ?thesis by simp
  qed
  with user show ?thesis by (simp add: exposes_own_def)
qed

lemma createStatusPage_exposes_own:
  assumes own: "\<And>p ids. sp_userId p = i \<Longrightarrow>
      resolveOwnedMonitors B MM mc user_id ids = Inr (Some (sp_monitors p)) \<Longrightarrow> exposes_own M p"
    and pq: "query_language mt page_attr" and pdb: "mongo_atomic ops docs clash"
    and cast: "\<And>j. C SObjectId (JOid j) = Some (JOid j)"
    and scope: "scopeFor B (direct_dao (page_model ops mt C n)) user_id = Inr scope'"
    and owner: "newObjectId B (js_string B user_id) = Inr i"
    and inv: "\<forall>p \<in># docs c. exposes_own M p"
  shows "\<forall>p \<in># docs (fst (createStatusPage B nfkd MM mc (direct_dao (page_model ops mt C n)) c user_id body)). exposes_own M p"
proof -
  let ?D = "direct_dao (page_model ops mt C n)"
  have empty: "exposes_own M p" if "sp_monitors p = []" for p using that by (simp add: exposes_own_def)
  from scope_single [OF scope] owner have sc: "scope' = [(''userId'', JOid i)]" by simp
  show ?thesis
  proof (rule create_page_runs [of B nfkd MM mc ?D c user_id body])
    fix sl ks
    assume run: "fst (createStatusPage B nfkd MM mc ?D c user_id body) = fst (dao_create B ?D c user_id (new_page_fields B body sl ks))"
      and ks: "resolveOwnedMonitors B MM mc user_id (get ''monitors'' body) = Inr ks"
    let ?fs = "spread (new_page_fields B body sl ks) scope'"
    show ?thesis
    proof (cases "page_build C n ?fs")
      case (Inr p)
      then have all: "apply_fields (assign_page C) ?fs (blank_page n) = Some p"
        by (auto simp: page_build_def split: option.splits if_splits)
      have "distinct (map fst ?fs)" using new_page_fields_shape by (intro distinct_spread) (simp_all add: sc)
      from page_monitors_after [OF cast this all] have "sp_monitors p = nullish ks []" "sp_userId p = i"
        using new_page_fields_shape [of B body sl ks] by (simp_all add: map_of_spread sc)
      with own [of p] empty [of p] ks have "exposes_own M p" by (cases ks) auto
      moreover obtain c1 r1 where c1: "create_doc ops c p = (c1, r1)" by (cases "create_doc ops c p")
      ultimately show ?thesis
        using mongo_atomic.create_effect [OF pdb c1] inv by (auto simp: run dao_create_def scope Inr)
    qed (simp add: run dao_create_def scope inv)
  qed (use inv in simp)
qed

lemma updateStatusPage_exposes_own:
  assumes own: "\<And>p ids. sp_userId p = i \<Longrightarrow>
      resolveOwnedMonitors B MM mc user_id ids = Inr (Some (sp_monitors p)) \<Longrightarrow> exposes_own M p"
    and pq: "query_language mt page_attr" and pdb: "mongo_atomic ops docs clash"
    and cast: "\<And>j. C SObjectId (JOid j) = Some (JOid j)"
    and scope: "scopeFor B (direct_dao (page_model ops mt C n)) user_id = Inr scope'"
    and owner: "newObjectId B (js_string B user_id) = Inr i"
    and inv: "\<forall>p \<in># docs c. exposes_own M p"
  shows "\<forall>p \<in># docs (fst (updateStatusPage B nfkd MM mc (direct_dao (page_model ops mt C n)) c user_id pageId body)). exposes_own M p"
proof -
  let ?M = "page_model ops mt C n"
  let ?D = "direct_dao ?M"
  have pq': "query_language (matches_filter ?M) page_attr" using pq by simp
  show ?thesis
  proof (rule update_page_runs [of B nfkd MM mc ?D c user_id pageId body])
    fix fs
    assume run: "fst (updateStatusPage B nfkd MM mc ?D c user_id pageId body) = fst (dao_updateById B ?D c user_id pageId fs)"
      and fs: "page_patch B nfkd MM mc (collection (d_model ?D)) c user_id pageId body = Inr fs"
    from scoped_filter_defined [OF scope, of "[(''_id'', pageId)]"] obtain q where
      q: "scoped_filter B ?D user_id [(''_id'', pageId)] = Inr q" by blast
    note shape = page_patch_shape [OF fs]
    have "exposes_own M (page_set C fs p)" if p: "mt (JObj q) p" "exposes_own M p" for p
    proof (cases "apply_fields (assign_page C) fs p")
      case (Some p')
      note after = page_monitors_after [OF cast _ Some]
      have user: "sp_userId p = i" using scoped_id_filter [OF pq' scope owner q] p(1) by (simp add: page_attr_def)
      then have user': "sp_userId p' = i" using after(4) shape by simp
      show ?thesis
      proof (cases "map_of fs ''monitors''")
        case None
        with after(2) shape have "sp_monitors p' = sp_monitors p" by simp
        with p(2) user user' Some show ?thesis by (simp add: page_set_def exposes_own_def)
      next
        case (Some v)
        with shape obtain ks where ks: "v = JArr (map JOid ks)"
          "resolveOwnedMonitors B MM mc user_id (get ''monitors'' body) = Inr (Some ks)" by auto
        with after(1) [of ks] Some shape have "sp_monitors p' = ks" by simp
        with own [OF user'] ks(2) \<open>apply_fields (assign_page C) fs p = Some p'\<close> show ?thesis by (simp add: page_set_def)
      qed
    qed (simp add: page_set_def p(2))
    moreover obtain c1 r1 where c1: "update_one ops c (mt (JObj q)) (page_set C fs) = (c1, r1)"
      by (cases "update_one ops c (mt (JObj q)) (page_set C fs)")
    ultimately show ?thesis
      using mongo_atomic.update_effect [OF pdb c1] inv by (auto simp: run dao_updateById_def q c1 split: option.splits)
  qed (use inv in simp)
qed

lemma deleteStatusPage_exposes_own:
  assumes pdb: "mongo_atomic ops docs clash" and inv: "\<forall>p \<in># docs c. exposes_own M p"
  shows "\<forall>p \<in># docs (fst (deleteStatusPage B (direct_dao (page_model ops mt C n)) c user_id pageId)). exposes_own M p"
proof -
  let ?D = "direct_dao (page_model ops mt C n)"
  have "fst (deleteStatusPage B ?D c user_id pageId) = fst (dao_deleteById B ?D c user_id pageId)"
    by (auto simp: deleteStatusPage_def split: prod.splits sum.splits option.splits)
  moreover have "\<forall>p \<in># docs (fst (dao_deleteById B ?D c user_id pageId)). exposes_own M p"
  proof (cases "scoped_filter B ?D user_id [(''_id'', pageId)]")
    case (Inr q)
    obtain c1 r1 where c1: "delete_one ops c (mt (JObj q)) = (c1, r1)" by (cases "delete_one ops c (mt (JObj q))")
    with mongo_atomic.delete_effect [OF pdb c1] inv show ?thesis by (auto simp: dao_deleteById_def Inr)
  qed (simp add: dao_deleteById_def inv)
  ultimately show ?thesis by simp
qed

text \<open>
  C8. No page shows somebody else's monitor. Creating, updating and deleting status pages keep the
  invariant that every monitor a page lists belongs to the page's owner, whatever identifiers the
  request names and even when the database fails.
\<close>

theorem pages_expose_own_monitors:
  assumes mq: "query_language (matches_filter MM) monitor_attr" and mdb: "mongo (collection MM) mdocs mclash"
    and view: "\<And>m. m_id (default_select MM m) = m_id m"
    and canon: "\<And>m. m \<in># mdocs mc \<Longrightarrow> newObjectId B (m_id m) = Inr (m_id m)"
    and unique: "\<And>m m'. m \<in># mdocs mc \<Longrightarrow> m' \<in># mdocs mc \<Longrightarrow> m_id m = m_id m' \<Longrightarrow> m = m'"
    and pq: "query_language mt page_attr" and pdb: "mongo_atomic ops docs clash"
    and cast: "\<And>j. C SObjectId (JOid j) = Some (JOid j)"
    and scope: "scopeFor B (direct_dao MM) user_id = Inr scope" "scopeFor B (direct_dao (page_model ops mt C n)) user_id = Inr scope'"
    and owner: "newObjectId B (js_string B user_id) = Inr i"
    and inv: "\<forall>p \<in># docs c. exposes_own (mdocs mc) p"
  shows "(\<forall>p \<in># docs (fst (createStatusPage B nfkd MM mc (direct_dao (page_model ops mt C n)) c user_id body)). exposes_own (mdocs mc) p) \<and>
    (\<forall>p \<in># docs (fst (updateStatusPage B nfkd MM mc (direct_dao (page_model ops mt C n)) c user_id pageId body)). exposes_own (mdocs mc) p) \<and>
    (\<forall>p \<in># docs (fst (deleteStatusPage B (direct_dao (page_model ops mt C n)) c user_id pageId)). exposes_own (mdocs mc) p)"
proof -
  note own = exposes_own_resolved [OF mq mdb view canon unique scope(1) owner]
  show ?thesis
    by (intro conjI createStatusPage_exposes_own [OF _ pq pdb cast scope(2) owner inv]
        updateStatusPage_exposes_own [OF _ pq pdb cast scope(2) owner inv] deleteStatusPage_exposes_own [OF pdb inv])
      (rule own; assumption)+
qed

definition example_page_ops :: "(status_page list, status_page) coll" where
  "example_page_ops = list_coll page_clash"

definition example_page_match :: "js \<Rightarrow> status_page \<Rightarrow> bool" where
  "example_page_match q p = evalq Some (page_attr p) q"

definition example_page_dao :: "(status_page list, status_page) dao" where
  "example_page_dao = direct_dao (page_model example_page_ops example_page_match plain_cast ''p1'')"

lemma example_page_ok:
  "query_language example_page_match page_attr" "mongo_atomic example_page_ops mset page_clash"
proof -
  have same: "example_page_match = (\<lambda>q p. evalq Some (page_attr p) q)" by (intro ext) (simp add: example_page_match_def)
  show "query_language example_page_match page_attr" unfolding same by (rule evaluator.query_language_axioms)
  show "mongo_atomic example_page_ops mset page_clash" by (simp add: example_page_ops_def mem_atomic.mongo_atomic_axioms)
qed

definition page_body :: "string \<Rightarrow> fields" where
  "page_body m = [(''name'', JStr ''Acme''), (''monitors'', JArr [JStr m])]"

text \<open>Ann publishes her own monitor, then tries Bob's, on a new page and on hers.\<close>

theorem pages_expose_own_monitors_witness:
  "let created = createStatusPage plain_bson (\<lambda>t. t) example_monitor_model two_tenants example_page_dao []
        (JStr ''ann'') (page_body ''m1'');
       moved = updateStatusPage plain_bson (\<lambda>t. t) example_monitor_model two_tenants example_page_dao (fst created)
        (JStr ''ann'') (JStr ''p1'') (page_body ''m2'')
   in map sp_monitors (fst created) = [[''m1'']] \<and> snd moved = Inl (ApiError 404 ''Monitor not found'') \<and>
      list_all (exposes_own (mset two_tenants)) (fst created) \<and> list_all (exposes_own (mset two_tenants)) (fst moved)"
proof -
  let ?created = "createStatusPage plain_bson (\<lambda>t. t) example_monitor_model two_tenants example_page_dao []
        (JStr ''ann'') (page_body ''m1'')"
  have runs: "map sp_monitors (fst ?created) = [[''m1'']]"
    "snd (updateStatusPage plain_bson (\<lambda>t. t) example_monitor_model two_tenants example_page_dao (fst ?created)
        (JStr ''ann'') (JStr ''p1'') (page_body ''m2'')) = Inl (ApiError 404 ''Monitor not found'')" by code_simp+
  have view: "m_id (default_select example_monitor_model m) = m_id m" for m
    by (simp add: example_monitor_model_def hide_credentials_def)
  have canon: "newObjectId plain_bson (m_id m) = Inr (m_id m)" if "m \<in># mset two_tenants" for m
    using that by (auto simp: two_tenants_def plain_bson_def)
  have unique: "m = m'" if "m \<in># mset two_tenants" "m' \<in># mset two_tenants" "m_id m = m_id m'" for m m'
    using that by (auto simp: two_tenants_def)
  have cast: "plain_cast SObjectId (JOid j) = Some (JOid j)" for j by (simp add: plain_cast_def)
  have scope: "scopeFor plain_bson (direct_dao example_monitor_model) (JStr ''ann'') = Inr [(''userId'', JOid ''ann'')]"
    "scopeFor plain_bson (direct_dao (page_model example_page_ops example_page_match plain_cast ''p1'')) (JStr ''ann'')
      = Inr [(''userId'', JOid ''ann'')]" by code_simp+
  have owner: "newObjectId plain_bson (js_string plain_bson (JStr ''ann'')) = Inr ''ann''" by code_simp
  let ?moved = "updateStatusPage plain_bson (\<lambda>t. t) example_monitor_model two_tenants example_page_dao (fst ?created)
        (JStr ''ann'') (JStr ''p1'') (page_body ''m2'')"
  note keeps = pages_expose_own_monitors [where nfkd = "\<lambda>t. t" and mc = two_tenants,
      OF example_monitor_model_ok(1) mongo_atomic.axioms(1) [OF example_monitor_model_ok(2)]
      view canon unique example_page_ok cast scope owner, folded example_page_dao_def]
  have created: "\<forall>p \<in># mset (fst ?created). exposes_own (mset two_tenants) p"
    by (rule keeps [where c = "[]", THEN conjunct1]) simp_all
  have "\<forall>p \<in># mset (fst ?moved). exposes_own (mset two_tenants) p"
    by (rule keeps [THEN conjunct2, THEN conjunct1]) (use created in simp_all)
  with created have "list_all (exposes_own (mset two_tenants)) (fst ?created)"
    "list_all (exposes_own (mset two_tenants)) (fst ?moved)" unfolding list_all_iff set_mset_mset by simp_all
  then show ?thesis using runs unfolding Let_def by blast
qed

subsection \<open>What a visitor sees\<close>

lemma services_of_map:
  "services_of windows ms = Inr ss \<Longrightarrow> list_all2 (\<lambda>m s. \<exists>ws. windows m = Inr ws \<and> s = service_of ws m) ms ss"
  by (induction windows ms arbitrary: ss rule: services_of.induct) (auto split: sum.splits)

lemma dao_thrown_not_api: "dao_thrown e \<noteq> ApiError code msg"
  by (cases e) (simp_all add: dao_thrown_def plain_error_def ApiError_def)

lemma populated_ids: "map m_id (populated ms ks) = filter (\<lambda>k. k \<in> m_id ` set ms) ks"
proof (induction ks)
  case (Cons k ks)
  show ?case
  proof (cases "find (\<lambda>m. m_id m = k) ms")
    case None
    then have "k \<notin> m_id ` set ms" by (auto simp: find_None_iff)
    with None Cons show ?thesis by (simp add: populated_def map_filter_simps)
  next
    case (Some m)
    then have "m_id m = k" "m \<in> set ms" by (auto dest: find_SomeD)
    with Some Cons show ?thesis by (auto simp: populated_def map_filter_simps)
  qed
qed (simp add: populated_def map_filter_simps)

lemma populated_subset: "set (populated ms ks) \<subseteq> set ms"
  by (auto simp: populated_def map_filter_def dest: find_SomeD)

lemma service_down: "sv_status (service_of ws m) = SDown \<longleftrightarrow> m_active m \<noteq> Some False \<and> m_status m = Some DOWN"
  by (auto simp: service_of_def shown_def split: option.splits status.splits)

lemma services_degraded:
  "list_all2 (\<lambda>m s. \<exists>ws. windows m = Inr ws \<and> s = service_of ws m) ms ss \<Longrightarrow>
    list_ex (\<lambda>s. sv_status s = SDown) ss = list_ex (\<lambda>m. m_active m \<noteq> Some False \<and> m_status m = Some DOWN) ms"
  by (induction rule: list_all2_induct) (auto simp: service_down)

text \<open>
  The public page. A page is shown only if it is published and has the requested address; a visitor who
  asks for an unpublished one gets the answer of one that does not exist. It shows, in the owner's
  order, the monitors listed on it that still exist - all of them the page's owner's - with their
  own uptime, a paused one as paused, and is degraded exactly if one that is not paused is down.
\<close>

theorem public_page_sound:
  assumes mdb: "mongo monitors mdocs mclash" and pdb: "mongo pages docs clash"
    and inv: "\<forall>p \<in># docs c. exposes_own (mdocs mc) p"
  shows "case getPublicStatusPage B nfkd monitors mc logs lc pages c now requested of
      Inl e \<Rightarrow> e \<noteq> ApiError 404 ''Status page not found'' \<or>
        {p. p \<in># docs c \<and> sp_isPublic p \<and> sp_slug p = slugify nfkd requested} = {}
    | Inr resp \<Rightarrow> \<exists>p shown_monitors. p \<in># docs c \<and> sp_isPublic p \<and> sp_slug p = slugify nfkd requested \<and>
        pp_slug (data resp) = sp_slug p \<and>
        set shown_monitors \<subseteq> set_mset (mdocs mc) \<and>
        m_userId ` set shown_monitors \<subseteq> {sp_userId p} \<and>
        map m_id shown_monitors = filter (\<lambda>k. k \<in> m_id ` set_mset (mdocs mc)) (sp_monitors p) \<and>
        list_all2 (\<lambda>m s. \<exists>ws. getUptimeWindows B logs lc (JOid (m_id m)) now = Inr ws \<and> s = service_of ws m)
          shown_monitors (pp_services (data resp)) \<and>
        (pp_degraded (data resp) \<longleftrightarrow> list_ex (\<lambda>m. m_active m \<noteq> Some False \<and> m_status m = Some DOWN) shown_monitors)"
proof -
  let ?P = "\<lambda>p. sp_slug p = slugify nfkd requested \<and> sp_isPublic p"
  let ?run = "getPublicStatusPage B nfkd monitors mc logs lc pages c now requested"
  show ?thesis
  proof (cases "find_many pages c ?P (\<lambda>_. 0) (Some 1)")
    case (Inl e)
    then show ?thesis by (simp add: getPublicStatusPage_def Let_def dao_thrown_not_api)
  next
    case (Inr found)
    show ?thesis
    proof (cases found)
      case Nil
      with mongo.find_empty [OF pdb] Inr have "{p. p \<in># docs c \<and> sp_isPublic p \<and> sp_slug p = slugify nfkd requested} = {}"
        by blast
      with Nil Inr show ?thesis by (simp add: getPublicStatusPage_def Let_def)
    next
      case (Cons page rest)
      from mongo.find_members [OF pdb Inr, of page] Cons have page: "page \<in># docs c" "?P page" by simp_all
      let ?ms = "find_many monitors mc (\<lambda>m. m_id m \<in> set (sp_monitors page)) (\<lambda>_. 0) None"
      have run: "?run = (case ?ms of Inl e \<Rightarrow> Inl (dao_thrown (DbFailed e))
          | Inr ms \<Rightarrow> public_reply page now
              (services_of (\<lambda>m. getUptimeWindows B logs lc (JOid (m_id m)) now) (populated ms (sp_monitors page))))"
        unfolding getPublicStatusPage_def Let_def Inr Cons by simp
      show ?thesis
      proof (cases ?ms)
        case (Inr ms)
        from mongo.find_all [OF mdb Inr] have ms: "set ms = {m. m \<in># mdocs mc \<and> m_id m \<in> set (sp_monitors page)}" .
        let ?shown = "populated ms (sp_monitors page)"
        show ?thesis
        proof (cases "services_of (\<lambda>m. getUptimeWindows B logs lc (JOid (m_id m)) now) ?shown")
          case services: (Inr ss)
          note each = services_of_map [OF services]
          have sub: "set ?shown \<subseteq> set_mset (mdocs mc)" using populated_subset [of ms] ms by blast
          have listed: "map m_id ?shown = filter (\<lambda>k. k \<in> m_id ` set_mset (mdocs mc)) (sp_monitors page)"
            unfolding populated_ids by (rule filter_cong) (auto simp: ms)
          have "m_userId m = sp_userId page" if "m \<in> set ?shown" for m
            using that subsetD [OF populated_subset that] inv page(1) by (auto simp: ms exposes_own_def)
          with sub listed each services_degraded [OF each] page services show ?thesis
            unfolding run Inr
            by (simp add: public_reply_def, intro exI [of _ page] conjI exI [of _ ?shown]) auto
        qed (simp add: run Inr public_reply_def dao_thrown_not_api)
      qed (simp add: run dao_thrown_not_api)
    qed
  qed
qed

definition ann_page :: status_page where
  "ann_page = (blank_page ''p1'')\<lparr>sp_userId := ''ann'', sp_name := ''Acme'', sp_slug := ''acme'', sp_monitors := [''m1'', ''gone'']\<rparr>"

definition ann_down :: "monitor list" where
  "ann_down = [(hd two_tenants)\<lparr>m_status := Some DOWN\<rparr>]"

text \<open>A page with a monitor that is down and one that was deleted, asked for in another spelling.\<close>

theorem public_page_sound_witness:
  "\<exists>resp. getPublicStatusPage plain_bson (\<lambda>t. t) (list_coll (\<lambda>a b. m_id a = m_id b)) ann_down (list_coll (\<lambda>_ _. False)) example_rows
      example_page_ops [ann_page] 200 '' ACME '' = Inr resp \<and>
    pp_degraded (data resp) \<and> map sv_uptime7d (pp_services (data resp)) = [Some 75] \<and>
    (\<exists>p. \<exists>shown_monitors :: monitor list. p \<in># mset [ann_page] \<and> sp_isPublic p \<and> m_userId ` set shown_monitors \<subseteq> {sp_userId p} \<and>
      map m_id shown_monitors = [''m1''])"
proof -
  let ?run = "getPublicStatusPage plain_bson (\<lambda>t. t) (list_coll (\<lambda>a b. m_id a = m_id b)) ann_down (list_coll (\<lambda>_ _. False)) example_rows
      example_page_ops [ann_page] 200 '' ACME ''"
  have run: "map_sum id (\<lambda>r. (pp_degraded (data r), map sv_uptime7d (pp_services (data r)))) ?run = Inr (True, [Some 75])"
    by code_simp
  then obtain resp where resp: "?run = Inr resp" by (cases ?run) auto
  have inv: "\<forall>p \<in># mset [ann_page]. exposes_own (mset ann_down) p"
    by (simp add: exposes_own_def ann_page_def ann_down_def two_tenants_def)
  have filter: "filter (\<lambda>k. k \<in> m_id ` set_mset (mset ann_down)) (sp_monitors ann_page) = [''m1'']"
    by (simp add: ann_page_def ann_down_def two_tenants_def)
  note shown = public_page_sound [where mclash = "\<lambda>a b. m_id a = m_id b" and mdocs = mset and mc = ann_down,
      OF mem.mongo_axioms mongo_atomic.axioms(1) [OF example_page_ok(2)] inv]
  from shown [where B = plain_bson and nfkd = "\<lambda>t. t" and logs = "list_coll (\<lambda>_ _. False)" and lc = example_rows and now = 200
      and requested = "'' ACME ''", unfolded resp sum.case]
  obtain p and ms :: "monitor list" where p: "p \<in># mset [ann_page]" "sp_isPublic p" "m_userId ` set ms \<subseteq> {sp_userId p}"
    "map m_id ms = filter (\<lambda>k. k \<in> m_id ` set_mset (mset ann_down)) (sp_monitors p)"
    by blast
  from p(1) have "p = ann_page" by simp
  with p(4) filter have "map m_id ms = [''m1'']" by simp
  with p(1-3) have "\<exists>p. \<exists>shown_monitors :: monitor list. p \<in># mset [ann_page] \<and> sp_isPublic p \<and> m_userId ` set shown_monitors \<subseteq> {sp_userId p} \<and>
      map m_id shown_monitors = [''m1'']" by (intro exI [of _ p] exI [of _ ms] conjI)
  moreover from run resp have "pp_degraded (data resp) \<and> map sv_uptime7d (pp_services (data resp)) = [Some 75]" by simp
  ultimately show ?thesis by (intro exI [of _ resp] conjI resp) (simp_all only: simp_thms)
qed

text \<open>
  Pages that cannot be opened. A stored page whose address ends with a dash - as the address of a long
  name cut at sixty characters does - is not found at its own address: the request is slugified
  again, which drops the dash.
\<close>

theorem truncated_page_unreachable:
  assumes pdb: "mongo pages docs clash"
    and nfkd: "\<And>t. list_all (\<lambda>c. slug_char c \<or> c = CHR ''-'') t \<Longrightarrow> nfkd t = t"
    and p: "sp_slug p = slugify nfkd name" "sp_slug p \<noteq> []" "last (sp_slug p) = CHR ''-''"
    and free: "\<And>p'. p' \<in># docs c \<Longrightarrow> sp_slug p' \<noteq> butlast (sp_slug p)"
    and up: "\<not> is_Inl (find_many pages c (\<lambda>p'. sp_slug p' = butlast (sp_slug p) \<and> sp_isPublic p') (\<lambda>_. 0) (Some 1))"
  shows "getPublicStatusPage B nfkd monitors mc logs lc pages c now (sp_slug p) = Inl (ApiError 404 ''Status page not found'')"
proof -
  have again: "slugify nfkd (sp_slug p) = butlast (sp_slug p)"
    using slugify_slug [where nfkd = nfkd and s = "sp_slug p", OF nfkd] slugify_form [of nfkd name] p by simp
  let ?found = "find_many pages c (\<lambda>p'. sp_slug p' = butlast (sp_slug p) \<and> sp_isPublic p') (\<lambda>_. 0) (Some 1)"
  from up obtain found where found: "?found = Inr found" by (cases ?found) auto
  have "found = []"
  proof (rule ccontr)
    assume "found \<noteq> []"
    then obtain q where "q \<in> set found" by (cases found) auto
    with mongo.find_members [OF pdb found] free show False by blast
  qed
  with found show ?thesis unfolding getPublicStatusPage_def Let_def again by simp
qed

definition long_page :: status_page where
  "long_page = ann_page\<lparr>sp_slug := slugify (\<lambda>t. t) long_name\<rparr>"

theorem truncated_page_unreachable_witness:
  "sp_isPublic long_page \<and>
   getPublicStatusPage plain_bson (\<lambda>t. t) (list_coll (\<lambda>a b. m_id a = m_id b)) ann_down (list_coll (\<lambda>_ _. False)) example_rows
     example_page_ops [long_page] 200 (sp_slug long_page) = Inl (ApiError 404 ''Status page not found'')"
proof -
  have long: "sp_slug long_page = replicate 59 CHR ''a'' @ ''-''" by code_simp
  have name: "sp_slug long_page = slugify (\<lambda>t. t) long_name" by (simp add: long_page_def)
  have dash: "sp_slug long_page \<noteq> []" "last (sp_slug long_page) = CHR ''-''" by (simp_all add: long)
  have free: "sp_slug p' \<noteq> butlast (sp_slug long_page)" if "p' \<in># mset [long_page]" for p'
    using that by (auto simp: long butlast_append dest: arg_cong [of _ _ length])
  have up: "\<not> is_Inl (find_many example_page_ops [long_page]
      (\<lambda>p'. sp_slug p' = butlast (sp_slug long_page) \<and> sp_isPublic p') (\<lambda>_. 0) (Some 1))"
    by (simp add: example_page_ops_def list_find_def Let_def)
  have "getPublicStatusPage plain_bson (\<lambda>t. t) (list_coll (\<lambda>a b. m_id a = m_id b)) ann_down (list_coll (\<lambda>_ _. False)) example_rows
     example_page_ops [long_page] 200 (sp_slug long_page) = Inl (ApiError 404 ''Status page not found'')"
    by (rule truncated_page_unreachable [where nfkd = "\<lambda>t. t", OF mongo_atomic.axioms(1) [OF example_page_ok(2)] refl name dash free up]) simp_all
  moreover have "sp_isPublic long_page" by (simp add: long_page_def ann_page_def blank_page_def)
  ultimately show ?thesis by blast
qed

end
