(* ===== verification/Users.thy ===== *)
theory Users
  imports User_Model Monitor_Schema Http Mail Sockets Templates
begin

text \<open>
  Accounts: the methods and hooks of \<open>Backend/src/models/user.model.js\<close>, the queries of
  \<open>services/user.service.js\<close> and the handlers of \<open>controllers/user.controller.js\<close>. bcrypt,
  SHA-256, the random source, the JWT library and the length of a text in UTF-16 units are
  the record \<open>auth_api\<close> and the environment of a request; the user collection is a \<open>coll\<close>.
  Bodies have passed the sanitiser of \<open>app.middleware.js\<close>, so a query value is a plain
  value, never an operator. A handler returns the collection, the messages it tried to send
  and the reply or what it threw.
\<close>

subsection \<open>The platform\<close>

record auth_api =
  js_length :: "string \<Rightarrow> nat"
  bcrypt_hash :: "string \<Rightarrow> string \<Rightarrow> string"
    \<comment> \<open>salt and password\<close>
  bcrypt_compare :: "string \<Rightarrow> string \<Rightarrow> bool"
    \<comment> \<open>entered password and stored hash\<close>
  sha256_hex :: "string \<Rightarrow> string"
  jwt_sign :: "claims \<Rightarrow> string"

text \<open>What a request finds: the clock, and what the random sources give it.\<close>

record auth_env =
  ae_now :: time
  ae_id :: oid
  ae_salt :: string
  ae_bytes :: string
    \<comment> \<open>thirty-two random bytes in hexadecimal\<close>

datatype cookie_effect = KeepCookie | SetCookie string string bool | ClearCookie string bool
  \<comment> \<open>name, value, and whether it is marked secure\<close>

type_synonym 'a handled = "'a response \<times> cookie_effect"

subsection \<open>The schema and its methods\<close>

definition tidy :: "string \<Rightarrow> string" where
  "tidy s = trim (to_lower s)"

definition assign_user :: "auth_api \<Rightarrow> caster \<Rightarrow> string \<Rightarrow> js \<Rightarrow> user \<Rightarrow> user option" where
  "assign_user A C k v u =
     (if v = JUndef then Some u
      else if k = ''username'' then
        Option.bind (as_text (C SString v)) (\<lambda>s. if tidy s = '''' then None else Some (u\<lparr>username := tidy s\<rparr>))
      else if k = ''email'' then
        Option.bind (as_text (C SString v)) (\<lambda>s. if tidy s = '''' then None else Some (u\<lparr>u_email := tidy s\<rparr>))
      else if k = ''fullname'' then
        Option.bind (as_text (C SString v)) (\<lambda>s. if trim s = '''' then None else Some (u\<lparr>fullname := trim s\<rparr>))
      else if k = ''password'' then
        Option.bind (as_text (C SString v)) (\<lambda>s. if js_length A s < 6 then None else Some (u\<lparr>password := Some s\<rparr>))
      else if k = ''provider'' then
        Option.bind (as_text (C SString v))
          (\<lambda>s. if s = ''local'' then Some (u\<lparr>u_provider := Local\<rparr>)
                else if s = ''google'' then Some (u\<lparr>u_provider := Google\<rparr>) else None)
      else if k = ''googleId'' then map_option (\<lambda>s. u\<lparr>googleId := s\<rparr>) (optional as_text (C SString) v)
      else if k = ''avatar'' then map_option (\<lambda>s. u\<lparr>avatar := s\<rparr>) (as_text (C SString v))
      else if k = ''isVerified'' then map_option (\<lambda>b. u\<lparr>isVerified := b\<rparr>) (as_bool (C SBoolean v))
      else Some u)"

text \<open>The \<open>pre('save')\<close> hook, on a document whose password was modified.\<close>

definition hash_password :: "auth_api \<Rightarrow> string \<Rightarrow> user \<Rightarrow> user" where
  "hash_password A salt u = u\<lparr>password := map_option (bcrypt_hash A salt) (password u)\<rparr>"

text \<open>\<open>User.create\<close>: defaults, fields, required paths, then the hook.\<close>

definition user_build :: "auth_api \<Rightarrow> caster \<Rightarrow> auth_env \<Rightarrow> fields \<Rightarrow> db_error + user" where
  "user_build A C env fs =
     (case apply_fields (assign_user A C) fs (user_defaults (ae_id env) '''' '''' '''' (ae_now env)) of
        None \<Rightarrow> Inl (DbFailure ''User validation failed'')
      | Some u \<Rightarrow>
          if username u = '''' \<or> fullname u = '''' \<or> u_email u = '''' \<or>
             (password u = None \<and> u_provider u \<noteq> Google)
          then Inl (DbFailure ''User validation failed'')
          else Inr (hash_password A (ae_salt env) u))"

text \<open>The unique indexes; the one on \<open>googleId\<close> is sparse.\<close>

definition user_clash :: "user \<Rightarrow> user \<Rightarrow> bool" where
  "user_clash x y \<longleftrightarrow>
     u_id x = u_id y \<or> username x = username y \<or> u_email x = u_email y \<or>
     (googleId x \<noteq> None \<and> googleId x = googleId y)"

text \<open>A document read without \<open>select('+password')\<close>.\<close>

definition without_password :: "user \<Rightarrow> user" where
  "without_password u = u\<lparr>password := None\<rparr>"

definition comparePassword :: "auth_api \<Rightarrow> user \<Rightarrow> js \<Rightarrow> thrown + bool" where
  "comparePassword A u entered =
     (if \<not> truthy_str (password u) \<or> js_falsy entered then Inr False
      else case entered of
             JStr s \<Rightarrow> Inr (bcrypt_compare A s (nullish (password u) []))
           | _ \<Rightarrow> Inl (plain_error ''Illegal arguments''))"

definition hashResetToken :: "auth_api \<Rightarrow> string \<Rightarrow> string" where
  "hashResetToken A token = sha256_hex A token"

definition RESET_MS :: int where
  "RESET_MS = 15 * 60 * 1000"

text \<open>The raw token goes into the mail; the document gets its hash.\<close>

definition generateForgotToken :: "auth_api \<Rightarrow> auth_env \<Rightarrow> user \<Rightarrow> user" where
  "generateForgotToken A env u =
     u\<lparr>forgotPasswordToken := Some (hashResetToken A (ae_bytes env)),
       forgotPasswordExpire := Some (ae_now env + RESET_MS)\<rparr>"

text \<open>Six digits, from a number of \<open>Math.random\<close> scaled to \<open>[0, 900000)\<close>.\<close>

definition generateOTP :: "nat \<Rightarrow> time \<Rightarrow> user \<Rightarrow> user \<times> string" where
  "generateOTP scaled now u =
     (let code = show_nat (100000 + scaled)
      in (u\<lparr>otp := Some code, otpExpire := Some (now + OTP_MS)\<rparr>, code))"

definition generateAccessToken :: "auth_api \<Rightarrow> user \<Rightarrow> string" where
  "generateAccessToken A u =
     jwt_sign A \<lparr>c_id = Some (u_id u), c_email = Some (u_email u), c_username = Some (username u)\<rparr>"

subsection \<open>The queries\<close>

definition db_thrown :: "db_error \<Rightarrow> thrown" where
  "db_thrown e = plain_error (db_message e)"

definition find_user :: "('c, user) coll \<Rightarrow> 'c \<Rightarrow> (user \<Rightarrow> bool) \<Rightarrow> thrown + user option" where
  "find_user U c P =
     (case find_many U c P (\<lambda>_. 0) (Some 1) of
        Inl e \<Rightarrow> Inl (db_thrown e)
      | Inr [] \<Rightarrow> Inr None
      | Inr (u # _) \<Rightarrow> Inr (Some u))"

text \<open>
  A value compared with a text path: cast, then lower-cased and trimmed by the setters; a
  missing value matches no account, since both paths are required.
\<close>

definition text_condition :: "caster \<Rightarrow> js \<Rightarrow> thrown + (string \<Rightarrow> bool)" where
  "text_condition C v =
     (if v = JUndef \<or> v = JNull then Inr (\<lambda>_. False)
      else case as_text (C SString v) of
             None \<Rightarrow> Inl (plain_error ''Cast to string failed'')
           | Some s \<Rightarrow> Inr (\<lambda>x. x = tidy s))"

definition findUserByEmailOrUsername ::
    "caster \<Rightarrow> ('c, user) coll \<Rightarrow> 'c \<Rightarrow> js \<Rightarrow> js \<Rightarrow> thrown + user option" where
  "findUserByEmailOrUsername C U c email uname =
     (case (text_condition C uname, text_condition C email) of
        (Inr p, Inr q) \<Rightarrow> find_user U c (\<lambda>u. p (username u) \<or> q (u_email u))
      | (Inl e, _) \<Rightarrow> Inl e
      | (_, Inl e) \<Rightarrow> Inl e)"

definition createUser ::
    "auth_api \<Rightarrow> caster \<Rightarrow> ('c, user) coll \<Rightarrow> 'c \<Rightarrow> auth_env \<Rightarrow> fields \<Rightarrow> 'c \<times> (thrown + user)" where
  "createUser A C U c env payload =
     (case user_build A C env payload of
        Inl e \<Rightarrow> (c, Inl (db_thrown e))
      | Inr u \<Rightarrow> (case create_doc U c u of (c1, r) \<Rightarrow> (c1, map_sum db_thrown id r)))"

definition findUserByIdWithPassword :: "caster \<Rightarrow> ('c, user) coll \<Rightarrow> 'c \<Rightarrow> js \<Rightarrow> thrown + user option" where
  "findUserByIdWithPassword C U c i =
     (if i = JUndef \<or> i = JNull then Inr None
      else case as_oid (C SObjectId i) of
             None \<Rightarrow> Inl (plain_error ''Cast to ObjectId failed'')
           | Some k \<Rightarrow> find_user U c (\<lambda>u. u_id u = k))"

definition findUserById :: "caster \<Rightarrow> ('c, user) coll \<Rightarrow> 'c \<Rightarrow> js \<Rightarrow> thrown + user option" where
  "findUserById C U c i = map_sum id (map_option without_password) (findUserByIdWithPassword C U c i)"

definition findUserByEmail :: "caster \<Rightarrow> ('c, user) coll \<Rightarrow> 'c \<Rightarrow> string \<Rightarrow> thrown + user option" where
  "findUserByEmail C U c email =
     (case text_condition C (JStr email) of
        Inl e \<Rightarrow> Inl e
      | Inr p \<Rightarrow> map_sum id (map_option without_password) (find_user U c (\<lambda>u. p (u_email u))))"

definition findUserByForgotToken ::
    "auth_api \<Rightarrow> ('c, user) coll \<Rightarrow> 'c \<Rightarrow> time \<Rightarrow> string \<Rightarrow> thrown + user option" where
  "findUserByForgotToken A U c now token =
     (if token = [] then Inr None
      else find_user U c (\<lambda>u. forgotPasswordToken u = Some (hashResetToken A token) \<and>
             (case forgotPasswordExpire u of None \<Rightarrow> False | Some t \<Rightarrow> now < t)))"

text \<open>\<open>user.save()\<close> sends the modified paths of the document, as a function on the stored one.\<close>

definition saveUser :: "('c, user) coll \<Rightarrow> 'c \<Rightarrow> oid \<Rightarrow> (user \<Rightarrow> user) \<Rightarrow> 'c \<times> (thrown + unit)" where
  "saveUser U c i modified =
     (case update_one U c (\<lambda>d. u_id d = i) modified of
        (c1, Inl e) \<Rightarrow> (c1, Inl (db_thrown e))
      | (c1, Inr None) \<Rightarrow> (c1, Inl (plain_error ''No document found for query''))
      | (c1, Inr (Some _)) \<Rightarrow> (c1, Inr ()))"

text \<open>Saving a new password: cast and measured, then hashed by the hook.\<close>

definition savePassword ::
    "auth_api \<Rightarrow> caster \<Rightarrow> ('c, user) coll \<Rightarrow> 'c \<Rightarrow> auth_env \<Rightarrow> oid \<Rightarrow> js \<Rightarrow> (user \<Rightarrow> user) \<Rightarrow> 'c \<times> (thrown + unit)" where
  "savePassword A C U c env i newPassword modified =
     (case as_text (C SString newPassword) of
        None \<Rightarrow> (c, Inl (plain_error ''User validation failed''))
      | Some p \<Rightarrow>
          if js_length A p < 6 then (c, Inl (plain_error ''User validation failed''))
          else saveUser U c i (\<lambda>d. (modified d)\<lparr>password := Some (bcrypt_hash A (ae_salt env) p)\<rparr>))"

end
