(* ===== verification/User_Api.thy ===== *)
theory User_Api
  imports Users
begin

text \<open>
  The account handlers, \<open>Backend/src/controllers/user.controller.js\<close>: registration, login, the
  reset flow, verification and the profile, each as a function on the user collection that
  also returns the messages it tried to send. Delivery never changes the outcome
  (\<open>sendNotificationEmail\<close> catches every error), so the network is not an argument.
\<close>

subsection \<open>Sessions\<close>

record session =
  se_user :: "user"
  se_token :: string

definition session_cookie :: "app_config \<Rightarrow> string \<Rightarrow> cookie_effect" where
  "session_cookie cfg token = SetCookie (AUTH_COOKIE cfg) token (NODE_ENV cfg = ''production'')"

text \<open>The last step of registering and of signing in: the stored account and a token.\<close>

definition open_session ::
    "auth_api \<Rightarrow> app_config \<Rightarrow> int \<Rightarrow> string \<Rightarrow> user \<Rightarrow> user \<Rightarrow> session handled" where
  "open_session A cfg code msg shown u =
     (let token = generateAccessToken A u
      in (ApiResponse code \<lparr>se_user = shown, se_token = token\<rparr> msg, session_cookie cfg token))"

definition lower_case_of :: "js \<Rightarrow> thrown + string" where
  "lower_case_of v =
     (case v of
        JStr s \<Rightarrow> Inr (to_lower s)
      | JUndef \<Rightarrow> Inl (plain_error ''Cannot read properties of undefined (reading 'toLowerCase')'')
      | JNull \<Rightarrow> Inl (plain_error ''Cannot read properties of null (reading 'toLowerCase')'')
      | _ \<Rightarrow> Inl (plain_error ''username.toLowerCase is not a function''))"

definition registerUser ::
    "auth_api \<Rightarrow> caster \<Rightarrow> app_config \<Rightarrow> ('c, user) coll \<Rightarrow> 'c \<Rightarrow> auth_env \<Rightarrow> fields \<Rightarrow>
     'c \<times> (thrown + session handled)" where
  "registerUser A C cfg U c env body =
     (case findUserByEmailOrUsername C U c (get ''email'' body) (get ''username'' body) of
        Inl e \<Rightarrow> (c, Inl e)
      | Inr (Some _) \<Rightarrow> (c, Inl (ApiError 409 ''User with email or username already exists''))
      | Inr None \<Rightarrow>
          (case lower_case_of (get ''username'' body) of
             Inl e \<Rightarrow> (c, Inl e)
           | Inr uname \<Rightarrow>
               (case createUser A C U c env
                       [(''fullname'', get ''fullname'' body), (''email'', get ''email'' body),
                        (''password'', get ''password'' body), (''username'', JStr uname)] of
                  (c1, Inl e) \<Rightarrow> (c1, Inl e)
                | (c1, Inr u) \<Rightarrow>
                    (case (if AUTO_VERIFY_USERS cfg then saveUser U c1 (u_id u) (\<lambda>d. d\<lparr>isVerified := True\<rparr>)
                           else (c1, Inr ())) of
                       (c2, Inl e) \<Rightarrow> (c2, Inl e)
                     | (c2, Inr _) \<Rightarrow>
                         (case findUserById C U c2 (JOid (u_id u)) of
                            Inl e \<Rightarrow> (c2, Inl e)
                          | Inr None \<Rightarrow> (c2, Inl (ApiError 500 ''Something went wrong while registering the user''))
                          | Inr (Some shown) \<Rightarrow>
                              (c2, Inr (open_session A cfg 201 ''User registered successfully'' shown u)))))))"

definition loginUser ::
    "auth_api \<Rightarrow> caster \<Rightarrow> app_config \<Rightarrow> ('c, user) coll \<Rightarrow> 'c \<Rightarrow> fields \<Rightarrow> thrown + session option handled" where
  "loginUser A C cfg U c body =
     (if js_falsy (get ''username'' body) \<and> js_falsy (get ''email'' body)
      then Inl (ApiError 400 ''username or email is required'')
      else case findUserByEmailOrUsername C U c (get ''email'' body) (get ''username'' body) of
             Inl e \<Rightarrow> Inl e
           | Inr None \<Rightarrow> Inl (ApiError 404 ''User does not exist'')
           | Inr (Some u) \<Rightarrow>
               (case comparePassword A u (get ''password'' body) of
                  Inl e \<Rightarrow> Inl e
                | Inr False \<Rightarrow> Inl (ApiError 401 ''Invalid user credentials'')
                | Inr True \<Rightarrow>
                    if \<not> isVerified u
                    then Inl (ApiError 401 ''User is not verified. Please verify your email first.'')
                    else case findUserById C U c (JOid (u_id u)) of
                           Inl e \<Rightarrow> Inl e
                         | Inr shown \<Rightarrow>
                             (let token = generateAccessToken A u
                              in Inr (ApiResponse 200 (map_option (\<lambda>s. \<lparr>se_user = s, se_token = token\<rparr>) shown)
                                        ''User logged in successfully'',
                                      session_cookie cfg token))))"

definition logoutUser :: "app_config \<Rightarrow> unit handled" where
  "logoutUser cfg =
     (ApiResponse 200 () ''User logged out'', ClearCookie (AUTH_COOKIE cfg) (NODE_ENV cfg = ''production''))"

definition getUserProfile :: "caster \<Rightarrow> ('c, user) coll \<Rightarrow> 'c \<Rightarrow> js \<Rightarrow> thrown + user handled" where
  "getUserProfile C U c user_id =
     (case findUserById C U c user_id of
        Inl e \<Rightarrow> Inl e
      | Inr None \<Rightarrow> Inl (ApiError 404 ''User not found'')
      | Inr (Some u) \<Rightarrow> Inr (ApiResponse 200 u ''User profile retrieved successfully'', KeepCookie))"

subsection \<open>Verification\<close>

definition verified_mail :: "user \<Rightarrow> email" where
  "verified_mail u =
     \<lparr>to_addr = u_email u, subject = ''User Verified'',
      message = Some ''Your account has been verified successfully.'', html = None\<rparr>"

definition js_text :: "string option \<Rightarrow> js" where
  "js_text s = (case s of None \<Rightarrow> JUndef | Some v \<Rightarrow> JStr v)"

definition verifyUser ::
    "caster \<Rightarrow> ('c, user) coll \<Rightarrow> 'c \<Rightarrow> time \<Rightarrow> string \<Rightarrow> fields \<Rightarrow> 'c \<times> email list \<times> (thrown + unit handled)" where
  "verifyUser C U c now i body =
     (case findUserById C U c (JStr i) of
        Inl e \<Rightarrow> (c, [], Inl e)
      | Inr None \<Rightarrow> (c, [], Inl (ApiError 404 ''User not found''))
      | Inr (Some u) \<Rightarrow>
          if isVerified u then (c, [], Inr (ApiResponse 400 () ''User is already verified'', KeepCookie))
          else if js_text (otp u) \<noteq> get ''otp'' body \<or> (case otpExpire u of None \<Rightarrow> False | Some t \<Rightarrow> t < now)
          then (c, [], Inl (ApiError 400 ''Invalid or expired OTP''))
          else case saveUser U c (u_id u) (\<lambda>d. d\<lparr>isVerified := True, otp := None, otpExpire := None\<rparr>) of
                 (c1, Inl e) \<Rightarrow> (c1, [], Inl e)
               | (c1, Inr _) \<Rightarrow>
                   (c1, [verified_mail u], Inr (ApiResponse 200 () ''User verified successfully'', KeepCookie)))"

subsection \<open>Passwords\<close>

definition drop_slashes :: "string \<Rightarrow> string" where
  "drop_slashes s = rev (dropWhile (\<lambda>c. c = CHR ''/'') (rev s))"

definition reset_url :: "app_config \<Rightarrow> string \<Rightarrow> string" where
  "reset_url cfg token = drop_slashes (FRONTEND_URL cfg) @ ''/reset-password/'' @ token"

text \<open>The em dash of the messages, in UTF-8.\<close>

definition em_dash :: string where
  "em_dash = [CHR 0xE2, CHR 0x80, CHR 0x94]"

definition reset_mail :: "user \<Rightarrow> string \<Rightarrow> email" where
  \<open>reset_mail u url =
     \<lparr>to_addr = u_email u, subject = ''Reset your WatchTower password'',
      message = Some (lines
        [''You requested a password reset. Open this link to choose a new password (valid for 15 minutes): '' @ url,
         '''',
         ''If you did not request this, you can ignore this email '' @ em_dash @ '' your password has not changed.'']),
      html = Some (lines
        ['''',
         ''          <p>You requested a password reset for your WatchTower account.</p>'',
         ''          <p><a href="'' @ url @ ''">Choose a new password</a></p>'',
         ''          <p>This link is valid for <strong>15 minutes</strong> and can be used once.</p>'',
         ''          <p>If you did not request this, you can ignore this email '' @ em_dash @ '' your password has not changed.</p>'',
         ''          <p style="color:#6c6a64;font-size:12px">If the link does not open, paste this into your browser:<br>'' @ url @ ''</p>''])\<rparr>\<close>

definition forgotPassword ::
    "bson \<Rightarrow> auth_api \<Rightarrow> caster \<Rightarrow> app_config \<Rightarrow> ('c, user) coll \<Rightarrow> 'c \<Rightarrow> auth_env \<Rightarrow> fields \<Rightarrow>
     'c \<times> email list \<times> (thrown + unit handled)" where
  "forgotPassword B A C cfg U c env body =
     (let email = get ''email'' body;
          done = Inr (ApiResponse 200 () ''If an account exists for that email, a reset link has been sent.'', KeepCookie)
      in if js_falsy email \<or> trim (js_string B email) = '''' then (c, [], Inl (ApiError 400 ''Email is required''))
         else case findUserByEmail C U c (trim (js_string B email)) of
                Inl e \<Rightarrow> (c, [], Inl e)
              | Inr None \<Rightarrow> (c, [], done)
              | Inr (Some u) \<Rightarrow>
                  (case saveUser U c (u_id u) (generateForgotToken A env) of
                     (c1, Inl e) \<Rightarrow> (c1, [], Inl e)
                   | (c1, Inr _) \<Rightarrow> (c1, [reset_mail u (reset_url cfg (ae_bytes env))], done)))"

definition changePassword ::
    "auth_api \<Rightarrow> caster \<Rightarrow> ('c, user) coll \<Rightarrow> 'c \<Rightarrow> auth_env \<Rightarrow> js \<Rightarrow> fields \<Rightarrow> 'c \<times> (thrown + unit handled)" where
  "changePassword A C U c env user_id body =
     (case findUserByIdWithPassword C U c user_id of
        Inl e \<Rightarrow> (c, Inl e)
      | Inr found \<Rightarrow>
          if js_falsy (get ''oldPassword'' body) \<or> js_falsy (get ''newPassword'' body)
          then (c, Inl (ApiError 401 ''Invalid password''))
          else case found of
                 None \<Rightarrow> (c, Inl (plain_error ''Cannot read properties of null (reading 'comparePassword')''))
               | Some u \<Rightarrow>
                   (case comparePassword A u (get ''oldPassword'' body) of
                      Inl e \<Rightarrow> (c, Inl e)
                    | Inr False \<Rightarrow> (c, Inl (ApiError 401 ''Invalid password''))
                    | Inr True \<Rightarrow>
                        (case savePassword A C U c env (u_id u) (get ''newPassword'' body) (\<lambda>d. d) of
                           (c1, Inl e) \<Rightarrow> (c1, Inl e)
                         | (c1, Inr _) \<Rightarrow> (c1, Inr (ApiResponse 200 () ''Password changed successfully'', KeepCookie)))))"

definition reset_done_mail :: "user \<Rightarrow> email" where
  "reset_done_mail u =
     \<lparr>to_addr = u_email u, subject = ''Your WatchTower password was changed'',
      message = Some ''Your WatchTower password was just reset. If this was not you, contact support immediately.'',
      html = Some (lines
        [''<p>Your WatchTower password was just reset.</p>'',
         ''             <p>If this was not you, someone else may have access to your email account '' @ em_dash @
         '' contact support immediately.</p>''])\<rparr>"

definition resetPassword ::
    "bson \<Rightarrow> auth_api \<Rightarrow> caster \<Rightarrow> ('c, user) coll \<Rightarrow> 'c \<Rightarrow> auth_env \<Rightarrow> string \<Rightarrow> fields \<Rightarrow>
     'c \<times> email list \<times> (thrown + unit handled)" where
  "resetPassword B A C U c env token body =
     (let newPassword = get ''newPassword'' body
      in if js_falsy newPassword then (c, [], Inl (ApiError 400 ''New password is required''))
         else if js_length A (js_string B newPassword) < 6
         then (c, [], Inl (ApiError 400 ''New password must be at least 6 characters''))
         else case findUserByForgotToken A U c (ae_now env) token of
                Inl e \<Rightarrow> (c, [], Inl e)
              | Inr None \<Rightarrow> (c, [], Inl (ApiError 400 ''This reset link is invalid or has expired''))
              | Inr (Some u) \<Rightarrow>
                  (case savePassword A C U c env (u_id u) newPassword
                          (\<lambda>d. d\<lparr>forgotPasswordToken := None, forgotPasswordExpire := None\<rparr>) of
                     (c1, Inl e) \<Rightarrow> (c1, [], Inl e)
                   | (c1, Inr _) \<Rightarrow>
                       (c1, [reset_done_mail u],
                        Inr (ApiResponse 200 () ''Password reset successfully. You can now sign in with your new password.'',
                             KeepCookie))))"

subsection \<open>The profile\<close>

definition image_url :: "string \<Rightarrow> bool" where
  "image_url s \<longleftrightarrow>
     list_ex (\<lambda>t. starts_with (''data:image/'' @ t @ '';base64,'') s) [''png'', ''jpg'', ''jpeg'', ''webp'', ''gif'']"

definition profile_patch :: "auth_api \<Rightarrow> fields \<Rightarrow> thrown + fields" where
  "profile_patch A body =
     (let prefs = concat (map (\<lambda>k. case get ''preferences'' body of
                JObj p \<Rightarrow> (case get k p of JBool b \<Rightarrow> [(''preferences.'' @ k, JBool b)] | _ \<Rightarrow> [])
              | _ \<Rightarrow> []) [''incidentAlerts'', ''weeklyDigest'', ''securityAlerts''])
      in case get ''avatar'' body of
           JStr a \<Rightarrow>
             if a \<noteq> '''' \<and> \<not> image_url a then Inl (ApiError 400 ''Avatar must be a PNG, JPG, WEBP or GIF image'')
             else if js_length A a > 1200000 then Inl (ApiError 400 ''Avatar is too large. Max size is 800KB.'')
             else Inr ((''avatar'', JStr a) # prefs)
         | _ \<Rightarrow> Inr prefs)"

definition set_profile :: "string \<times> js \<Rightarrow> user \<Rightarrow> user" where
  "set_profile kv u =
     (case kv of
        (k, JStr a) \<Rightarrow> if k = ''avatar'' then u\<lparr>avatar := a\<rparr> else u
      | (k, JBool b) \<Rightarrow>
          if k = ''preferences.incidentAlerts'' then u\<lparr>incidentAlerts := b\<rparr>
          else if k = ''preferences.weeklyDigest'' then u\<lparr>weeklyDigest := b\<rparr>
          else if k = ''preferences.securityAlerts'' then u\<lparr>securityAlerts := b\<rparr>
          else u
      | _ \<Rightarrow> u)"

definition updateProfile ::
    "auth_api \<Rightarrow> caster \<Rightarrow> ('c, user) coll \<Rightarrow> 'c \<Rightarrow> js \<Rightarrow> fields \<Rightarrow> 'c \<times> (thrown + user option handled)" where
  "updateProfile A C U c user_id body =
     (case profile_patch A body of
        Inl e \<Rightarrow> (c, Inl e)
      | Inr patch \<Rightarrow>
          if patch = [] then (c, Inl (ApiError 400 ''Nothing to update''))
          else case findUserById C U c user_id of
                 Inl e \<Rightarrow> (c, Inl e)
               | Inr None \<Rightarrow> (c, Inl (ApiError 404 ''User not found''))
               | Inr (Some u) \<Rightarrow>
                   (case update_one U c (\<lambda>d. u_id d = u_id u) (\<lambda>d. foldl (\<lambda>e kv. set_profile kv e) d patch) of
                      (c1, Inl e) \<Rightarrow> (c1, Inl (db_thrown e))
                    | (c1, Inr updated) \<Rightarrow>
                        (c1, Inr (ApiResponse 200 (map_option without_password updated)
                                    ''Profile updated successfully'', KeepCookie))))"

end
