(* ===== verification/Google_Auth.thy ===== *)
theory Google_Auth
  imports User_Api Slug
begin

text \<open>
  Sign in with Google, \<open>Backend/src/controllers/googleAuth.controller.js\<close>. The library that
  verifies an ID token against Google's keys and the given audience is the argument
  \<open>verify_id_token\<close>: the payload it accepts, or the message of its refusal.
\<close>

record google_payload =
  g_iss :: string
  g_sub :: string
  g_email :: "string option"
  g_email_verified :: bool
  g_name :: "string option"
  g_picture :: "string option"

definition VALID_ISSUERS :: "string list" where
  "VALID_ISSUERS = [''accounts.google.com'', ''https://accounts.google.com'']"

subsection \<open>A username\<close>

definition mailbox :: "string \<Rightarrow> string" where
  "mailbox email = hd (split_on CHR ''@'' email)"

definition username_seed :: "string \<Rightarrow> string" where
  "username_seed email =
     (let kept = filter slug_char (to_lower (mailbox email));
          base = (if kept = '''' then ''user'' else kept)
      in if length base \<ge> 3 then base else base @ ''user'')"

text \<open>\<open>n.toString(36)\<close>.\<close>

definition digit36 :: "nat \<Rightarrow> char" where
  "digit36 d = (if d < 10 then char_of (48 + d) else char_of (87 + d))"

fun base36 :: "nat \<Rightarrow> string" where
  "base36 n = (if n < 36 then [digit36 n] else base36 (n div 36) @ [digit36 (n mod 36)])"

declare base36.simps [simp del]

definition candidates :: "string \<Rightarrow> string list" where
  "candidates seed = seed # map (\<lambda>i. seed @ show_nat i) [1..<20]"

fun first_free :: "(string \<Rightarrow> thrown + bool) \<Rightarrow> string list \<Rightarrow> thrown + string option" where
  "first_free taken [] = Inr None"
| "first_free taken (x # xs) =
     (case taken x of
        Inl e \<Rightarrow> Inl e
      | Inr False \<Rightarrow> Inr (Some x)
      | Inr True \<Rightarrow> first_free taken xs)"

definition allocateUsername :: "('c, user) coll \<Rightarrow> 'c \<Rightarrow> time \<Rightarrow> string \<Rightarrow> thrown + string" where
  "allocateUsername U c now email =
     (let seed = username_seed email;
          taken = (\<lambda>x. map_sum id (\<lambda>f. f \<noteq> None) (find_user U c (\<lambda>u. username u = tidy x)))
      in map_sum id (\<lambda>f. nullish f (seed @ base36 (nat now))) (first_free taken (candidates seed)))"

subsection \<open>The handler\<close>

definition google_refused :: thrown where
  "google_refused = ApiError 401 ''Google sign-in failed. Please try again.''"

text \<open>The verified identity of a credential: the subject, the address and the payload.\<close>

definition google_identity ::
    "(string \<Rightarrow> string \<Rightarrow> string + google_payload option) \<Rightarrow> app_config \<Rightarrow> js \<Rightarrow> thrown + google_payload \<times> string" where
  "google_identity verify_id_token cfg credential =
     (if GOOGLE_CLIENT_ID cfg = '''' then Inl (ApiError 501 ''Google sign-in is not configured on this server'')
      else case credential of
             JStr token \<Rightarrow>
               if token = '''' then Inl (ApiError 400 ''Google credential is required'')
               else (case verify_id_token token (GOOGLE_CLIENT_ID cfg) of
                       Inl _ \<Rightarrow> Inl google_refused
                     | Inr None \<Rightarrow> Inl google_refused
                     | Inr (Some p) \<Rightarrow>
                         if g_iss p \<notin> set VALID_ISSUERS then Inl google_refused
                         else if \<not> truthy_str (g_email p) \<or> \<not> g_email_verified p
                         then Inl (ApiError 401 ''Your Google account does not have a verified email address'')
                         else Inr (p, to_lower (nullish (g_email p) [])))
           | _ \<Rightarrow> Inl (ApiError 400 ''Google credential is required''))"

text \<open>An existing account with the address: linked, verified, and given the picture if it has none.\<close>

definition linked :: "google_payload \<Rightarrow> user \<Rightarrow> user" where
  "linked p u =
     u\<lparr>googleId := Some (g_sub p), isVerified := True,
       avatar := (if avatar u = '''' \<and> truthy_str (g_picture p) then nullish (g_picture p) [] else avatar u)\<rparr>"

text \<open>The fields of an account created for a new Google identity.\<close>

definition google_fields :: "google_payload \<Rightarrow> string \<Rightarrow> string \<Rightarrow> fields" where
  "google_fields p uname email =
     [(''username'', JStr uname),
      (''fullname'', JStr (str_or (g_name p) (mailbox email))),
      (''email'', JStr email), (''googleId'', JStr (g_sub p)), (''provider'', JStr ''google''),
      (''avatar'', js_text (g_picture p)), (''isVerified'', JBool True)]"

definition google_account ::
    "auth_api \<Rightarrow> caster \<Rightarrow> ('c, user) coll \<Rightarrow> 'c \<Rightarrow> auth_env \<Rightarrow> google_payload \<Rightarrow> string \<Rightarrow> 'c \<times> (thrown + user)" where
  "google_account A C U c env p email =
     (case find_user U c (\<lambda>u. googleId u = Some (g_sub p)) of
        Inl e \<Rightarrow> (c, Inl e)
      | Inr (Some u) \<Rightarrow> (c, Inr u)
      | Inr None \<Rightarrow>
          (case find_user U c (\<lambda>u. u_email u = tidy email) of
             Inl e \<Rightarrow> (c, Inl e)
           | Inr (Some u) \<Rightarrow>
               (case saveUser U c (u_id u) (\<lambda>d. d\<lparr>googleId := Some (g_sub p), isVerified := True,
                       avatar := (if avatar u = '''' \<and> truthy_str (g_picture p) then nullish (g_picture p) [] else avatar d)\<rparr>) of
                  (c1, Inl e) \<Rightarrow> (c1, Inl e)
                | (c1, Inr _) \<Rightarrow> (c1, Inr (linked p u)))
           | Inr None \<Rightarrow>
               (case allocateUsername U c (ae_now env) email of
                  Inl e \<Rightarrow> (c, Inl e)
                | Inr uname \<Rightarrow> createUser A C U c env (google_fields p uname email))))"

definition googleAuth ::
    "auth_api \<Rightarrow> caster \<Rightarrow> app_config \<Rightarrow> (string \<Rightarrow> string \<Rightarrow> string + google_payload option) \<Rightarrow>
     ('c, user) coll \<Rightarrow> 'c \<Rightarrow> auth_env \<Rightarrow> fields \<Rightarrow> 'c \<times> (thrown + session option handled)" where
  "googleAuth A C cfg verify_id_token U c env body =
     (case google_identity verify_id_token cfg (get ''credential'' body) of
        Inl e \<Rightarrow> (c, Inl e)
      | Inr (p, email) \<Rightarrow>
          (case google_account A C U c env p email of
             (c1, Inl e) \<Rightarrow> (c1, Inl e)
           | (c1, Inr u) \<Rightarrow>
               (case findUserById C U c1 (JOid (u_id u)) of
                  Inl e \<Rightarrow> (c1, Inl e)
                | Inr shown \<Rightarrow>
                    (let token = generateAccessToken A u
                     in (c1, Inr (ApiResponse 200 (map_option (\<lambda>s. \<lparr>se_user = s, se_token = token\<rparr>) shown)
                                    ''Signed in with Google successfully'',
                                  session_cookie cfg token))))))"

end
