(* ===== verification/Accounts.thy ===== *)
theory Accounts
  imports Google_Auth
begin

text \<open>
  What the account handlers guarantee: which accounts are stored, who gets a session, what a
  reset link is worth; and the places where they do less than their comments say.
\<close>

subsection \<open>Tidy text\<close>

lemma is_space_lower [simp]: "is_space (lower_char c) = is_space c"
proof (cases "65 \<le> (of_char c :: nat) \<and> (of_char c :: nat) \<le> 90")
  case True
  then have n: "of_char (lower_char c) = (of_char c :: nat) + 32" by (simp add: lower_char_def Let_def)
  have space: "is_space x \<longleftrightarrow> (of_char x :: nat) \<in> {32, 9, 10, 11, 12, 13}" for x
    unfolding is_space_def by (auto simp flip: of_char_eq_iff [where 'a = nat])
  show ?thesis unfolding space n using True by auto
next
  case False
  then have "lower_char c = c" by (auto simp: lower_char_def Let_def)
  then show ?thesis by simp
qed

lemma dropWhile_to_lower: "dropWhile is_space (to_lower s) = to_lower (dropWhile is_space s)"
  by (induction s) (simp_all add: to_lower_def)

lemma rev_to_lower: "rev (to_lower s) = to_lower (rev s)"
  by (simp add: to_lower_def rev_map)

lemma trim_to_lower: "trim (to_lower s) = to_lower (trim s)"
  by (simp add: trim_def dropWhile_to_lower rev_to_lower)

lemma tidy_idem [simp]: "tidy (tidy s) = tidy s"
  by (simp add: tidy_def trim_to_lower)

lemma tidy_lower [simp]: "tidy (to_lower s) = tidy s"
  by (simp add: tidy_def)

lemma blank_text [simp]: "to_lower [] = []" "trim [] = []" "tidy [] = []"
  by (simp_all add: tidy_def to_lower_def trim_def)

subsection \<open>The queries and the save\<close>

lemma find_user_some:
  assumes "mongo U docs clash" and "find_user U c P = Inr (Some u)"
  shows "u \<in># docs c" and "P u"
proof -
  from assms(2) obtain us where us: "find_many U c P (\<lambda>_. 0) (Some 1) = Inr (u # us)"
    by (auto simp: find_user_def split: sum.splits list.splits)
  show "u \<in># docs c" "P u" using mongo.find_members [OF assms(1) us, of u] by simp_all
qed

lemma find_user_none:
  assumes "mongo U docs clash" and "find_user U c P = Inr None" and "u \<in># docs c"
  shows "\<not> P u"
proof -
  from assms(2) have "find_many U c P (\<lambda>_. 0) (Some 1) = Inr []"
    by (auto simp: find_user_def split: sum.splits list.splits)
  from mongo.find_empty [OF assms(1) this assms(3)] show ?thesis .
qed

lemma db_thrown_not_api [simp]: "db_thrown e \<noteq> ApiError code msg" "\<not> isApiError (db_thrown e)"
  by (simp_all add: db_thrown_def plain_error_def ApiError_def)

lemma find_user_thrown: "find_user U c P = Inl e \<Longrightarrow> \<not> isApiError e"
  by (auto simp: find_user_def split: sum.splits list.splits)

text \<open>One account rewritten, and every other as it was.\<close>

definition rewritten :: "user multiset \<Rightarrow> user multiset \<Rightarrow> oid \<Rightarrow> (user \<Rightarrow> user) \<Rightarrow> bool" where
  "rewritten M M' i f \<longleftrightarrow>
     (\<exists>d N. M = add_mset d N \<and> u_id d = i \<and> M' = add_mset (f d) N \<and> (\<forall>x \<in># N. \<not> user_clash (f d) x))"

lemma saveUser_effect:
  assumes "mongo_atomic U docs user_clash" and "saveUser U c i f = (c', r)"
  shows "docs c' = docs c \<or> rewritten (docs c) (docs c') i f"
    and "r = Inr () \<Longrightarrow> rewritten (docs c) (docs c') i f"
proof -
  obtain c1 q where q: "update_one U c (\<lambda>d. u_id d = i) f = (c1, q)"
    by (cases "update_one U c (\<lambda>d. u_id d = i) f")
  with assms(2) have c1: "c' = c1" by (auto simp: saveUser_def split: sum.splits option.splits)
  from mongo_atomic.update_effect [OF assms(1) q]
  show "docs c' = docs c \<or> rewritten (docs c) (docs c') i f" unfolding c1 rewritten_def by blast
  assume "r = Inr ()"
  with assms(2) q obtain d where "q = Inr (Some d)" by (auto simp: saveUser_def split: sum.splits option.splits)
  with mongo.update_contract [OF mongo_atomic.axioms(1) [OF assms(1)]] q
  show "rewritten (docs c) (docs c') i f" unfolding c1 rewritten_def by blast
qed

lemma saveUser_thrown: "saveUser U c i f = (c', Inl e) \<Longrightarrow> \<not> isApiError e"
  by (auto simp: saveUser_def plain_error_def split: sum.splits option.splits prod.splits)

lemma rewritten_all:
  assumes "rewritten M M' i f" and "\<forall>u \<in># M. I u" and "\<And>d. I d \<Longrightarrow> I (f d)"
  shows "\<forall>u \<in># M'. I u"
  using assms by (auto simp: rewritten_def)

lemma createUser_effect:
  assumes "mongo_atomic U docs user_clash" and "createUser A C U c env payload = (c', r)"
  shows "docs c' = docs c \<or>
      (\<exists>u. user_build A C env payload = Inr u \<and> docs c' = add_mset u (docs c) \<and> (\<forall>x \<in># docs c. \<not> user_clash u x))"
    and "r = Inr u \<Longrightarrow> user_build A C env payload = Inr u \<and> docs c' = add_mset u (docs c) \<and>
      (\<forall>x \<in># docs c. \<not> user_clash u x)"
proof -
  show "docs c' = docs c \<or>
      (\<exists>u. user_build A C env payload = Inr u \<and> docs c' = add_mset u (docs c) \<and> (\<forall>x \<in># docs c. \<not> user_clash u x))"
    using assms(2) mongo_atomic.create_effect [OF assms(1)]
    by (auto simp: createUser_def split: sum.splits prod.splits)
  show "user_build A C env payload = Inr u \<and> docs c' = add_mset u (docs c) \<and> (\<forall>x \<in># docs c. \<not> user_clash u x)"
    if "r = Inr u"
  proof -
    from that assms(2) obtain v where v: "user_build A C env payload = Inr v" "create_doc U c v = (c', Inr u)"
      by (auto simp: createUser_def map_sum_def split: sum.splits prod.splits)
    from mongo.create_contract [OF mongo_atomic.axioms(1) [OF assms(1)] v(2)] v(1) show ?thesis by auto
  qed
qed

subsection \<open>What is stored of an account\<close>

text \<open>
  The username and the address are in the form queries look for, a local account has a
  password, and what is stored of a password is a hash of at least six characters.
\<close>

definition account_ok :: "auth_api \<Rightarrow> user \<Rightarrow> bool" where
  "account_ok A u \<longleftrightarrow>
     username u \<noteq> '''' \<and> tidy (username u) = username u \<and> u_email u \<noteq> '''' \<and> tidy (u_email u) = u_email u \<and>
     (case password u of
        None \<Rightarrow> u_provider u = Google
      | Some h \<Rightarrow> \<exists>salt p. h = bcrypt_hash A salt p \<and> 6 \<le> js_length A p)"

definition draft_ok :: "auth_api \<Rightarrow> user \<Rightarrow> bool" where
  "draft_ok A u \<longleftrightarrow>
     tidy (username u) = username u \<and> tidy (u_email u) = u_email u \<and>
     (case password u of None \<Rightarrow> True | Some p \<Rightarrow> 6 \<le> js_length A p)"

lemma assign_user_draft: "assign_user A C k v u = Some u' \<Longrightarrow> draft_ok A u \<Longrightarrow> draft_ok A u'"
  by (auto simp: assign_user_def draft_ok_def bind_eq_Some_conv split: if_splits)

lemma user_build_ok: "user_build A C env fs = Inr u \<Longrightarrow> account_ok A u"
proof -
  assume u: "user_build A C env fs = Inr u"
  then obtain d where d: "apply_fields (assign_user A C) fs (user_defaults (ae_id env) '''' '''' '''' (ae_now env)) = Some d"
    and req: "username d \<noteq> ''''" "u_email d \<noteq> ''''" "password d = None \<Longrightarrow> u_provider d = Google"
    and u: "u = hash_password A (ae_salt env) d"
    by (auto simp: user_build_def split: option.splits if_splits)
  have "draft_ok A (user_defaults (ae_id env) '''' '''' '''' (ae_now env))"
    by (simp add: draft_ok_def user_defaults_def)
  with assign_user_draft d have "draft_ok A d"
    by (auto intro: apply_fields_invariant [where I = "draft_ok A" and fs = fs and assign = "assign_user A C"])
  with req show ?thesis
    by (auto simp: u account_ok_def draft_ok_def hash_password_def split: option.splits)
qed

definition accounts_ok :: "auth_api \<Rightarrow> user multiset \<Rightarrow> bool" where
  "accounts_ok A M \<longleftrightarrow> (\<forall>u \<in># M. account_ok A u)"

lemma saveUser_keeps:
  assumes db: "mongo_atomic U docs user_clash" and inv: "accounts_ok A (docs c)"
    and f: "\<And>d. account_ok A d \<Longrightarrow> account_ok A (f d)" and run: "saveUser U c i f = (c', r)"
  shows "accounts_ok A (docs c')"
  using saveUser_effect(1) [OF db run]
proof
  assume "rewritten (docs c) (docs c') i f"
  from rewritten_all [where I = "account_ok A", OF this _ f] inv show ?thesis by (simp add: accounts_ok_def)
qed (use inv in simp)

lemma createUser_keeps:
  assumes db: "mongo_atomic U docs user_clash" and inv: "accounts_ok A (docs c)"
    and run: "createUser A C U c env fs = (c', r)"
  shows "accounts_ok A (docs c')"
  using createUser_effect(1) [OF db run] user_build_ok [of A C env fs] inv by (auto simp: accounts_ok_def)

lemma savePassword_keeps:
  assumes db: "mongo_atomic U docs user_clash" and inv: "accounts_ok A (docs c)"
    and f: "\<And>d. account_ok A d \<Longrightarrow> account_ok A (f d)" and run: "savePassword A C U c env i v f = (c', r)"
  shows "accounts_ok A (docs c')"
proof (cases "as_text (C SString v)")
  case (Some p)
  show ?thesis
  proof (cases "js_length A p < 6")
    case False
    then have "account_ok A ((f d)\<lparr>password := Some (bcrypt_hash A (ae_salt env) p)\<rparr>)" if "account_ok A d" for d
      using f [OF that] by (auto simp: account_ok_def not_less)
    from saveUser_keeps [OF db inv this] run False show ?thesis by (simp add: savePassword_def Some)
  qed (use run inv in \<open>simp add: savePassword_def Some\<close>)
qed (use run inv in \<open>simp add: savePassword_def\<close>)

lemma account_ok_set_profile: "account_ok A (set_profile kv u) = account_ok A u"
  by (auto simp: account_ok_def set_profile_def split: prod.split js.split option.split)

lemma account_ok_profile: "account_ok A (foldl (\<lambda>e kv. set_profile kv e) d patch) = account_ok A d"
  by (induction patch arbitrary: d) (simp_all add: account_ok_set_profile)

lemma account_ok_frame:
  "account_ok A d \<Longrightarrow> username d' = username d \<Longrightarrow> u_email d' = u_email d \<Longrightarrow> password d' = password d \<Longrightarrow>
    u_provider d' = u_provider d \<Longrightarrow> account_ok A d'"
  by (auto simp: account_ok_def split: option.splits)

lemma google_account_keeps:
  assumes db: "mongo_atomic U docs user_clash" and inv: "accounts_ok A (docs c)"
    and run: "google_account A C U c env p email = (c', r)"
  shows "accounts_ok A (docs c')"
proof -
  have "accounts_ok A (docs c1)"
    if "saveUser U c i (\<lambda>d. d\<lparr>googleId := g, isVerified := True, avatar := a d\<rparr>) = (c1, q)" for i g a c1 q
    by (rule saveUser_keeps [OF db inv _ that]) (erule account_ok_frame; simp)
  with run inv createUser_keeps [OF db inv] show ?thesis
    by (auto simp: google_account_def split: sum.splits option.splits prod.splits)
qed

text \<open>Each handler keeps them.\<close>

lemma registerUser_keeps:
  assumes db: "mongo_atomic U docs user_clash" and inv: "accounts_ok A (docs c)"
  shows "accounts_ok A (docs (fst (registerUser A C cfg U c env body)))"
proof -
  have saved: "accounts_ok A (docs c2)"
    if "createUser A C U c env fs = (c1, Inr u)"
      and "(if AUTO_VERIFY_USERS cfg then saveUser U c1 (u_id u) (\<lambda>d. d\<lparr>isVerified := True\<rparr>) else (c1, Inr ())) = (c2, r)"
    for fs c1 u c2 r
  proof -
    have c1: "accounts_ok A (docs c1)" by (rule createUser_keeps [OF db inv that(1)])
    show ?thesis
    proof (cases "AUTO_VERIFY_USERS cfg")
      case True
      with that(2) have "saveUser U c1 (u_id u) (\<lambda>d. d\<lparr>isVerified := True\<rparr>) = (c2, r)" by simp
      show ?thesis
        by (rule saveUser_keeps [OF db c1 _ \<open>saveUser U c1 _ _ = _\<close>]) (erule account_ok_frame; simp)
    qed (use that(2) c1 in simp)
  qed
  obtain c' r where run: "registerUser A C cfg U c env body = (c', r)" by (cases "registerUser A C cfg U c env body")
  then show ?thesis using inv createUser_keeps [OF db inv] saved
    by (auto simp: registerUser_def split: sum.splits option.splits prod.splits)
qed

lemma googleAuth_keeps:
  assumes db: "mongo_atomic U docs user_clash" and inv: "accounts_ok A (docs c)"
  shows "accounts_ok A (docs (fst (googleAuth A C cfg verify U c env body)))"
  using inv google_account_keeps [OF db inv]
  by (auto simp: googleAuth_def Let_def split: sum.split option.split prod.split)

lemma verifyUser_keeps:
  assumes db: "mongo_atomic U docs user_clash" and inv: "accounts_ok A (docs c)"
  shows "accounts_ok A (docs (fst (verifyUser C U c now i body)))"
proof -
  have "accounts_ok A (docs c1)"
    if "saveUser U c k (\<lambda>d. d\<lparr>isVerified := True, otp := None, otpExpire := None\<rparr>) = (c1, q)" for k c1 q
    by (rule saveUser_keeps [OF db inv _ that]) (erule account_ok_frame; simp)
  with inv show ?thesis by (auto simp: verifyUser_def split: sum.split option.split prod.split)
qed

lemma forgotPassword_keeps:
  assumes db: "mongo_atomic U docs user_clash" and inv: "accounts_ok A (docs c)"
  shows "accounts_ok A (docs (fst (forgotPassword B A C cfg U c env body)))"
proof -
  have "accounts_ok A (docs c1)" if "saveUser U c k (generateForgotToken A env) = (c1, q)" for k c1 q
    by (rule saveUser_keeps [OF db inv _ that]) (erule account_ok_frame; simp add: generateForgotToken_def)
  with inv show ?thesis by (auto simp: forgotPassword_def Let_def split: sum.split option.split prod.split)
qed

lemma resetPassword_keeps:
  assumes db: "mongo_atomic U docs user_clash" and inv: "accounts_ok A (docs c)"
  shows "accounts_ok A (docs (fst (resetPassword B A C U c env token body)))"
proof -
  have "accounts_ok A (docs c1)"
    if "savePassword A C U c env k v (\<lambda>d. d\<lparr>forgotPasswordToken := None, forgotPasswordExpire := None\<rparr>) = (c1, q)"
    for k v c1 q
    by (rule savePassword_keeps [OF db inv _ that]) (erule account_ok_frame; simp)
  with inv show ?thesis by (auto simp: resetPassword_def Let_def split: sum.split option.split prod.split)
qed

lemma changePassword_keeps:
  assumes db: "mongo_atomic U docs user_clash" and inv: "accounts_ok A (docs c)"
  shows "accounts_ok A (docs (fst (changePassword A C U c env user_id body)))"
  using inv savePassword_keeps [OF db inv, of "\<lambda>d. d"]
  by (auto simp: changePassword_def split: sum.split option.split prod.split bool.split)

lemma updateProfile_keeps:
  assumes db: "mongo_atomic U docs user_clash" and inv: "accounts_ok A (docs c)"
  shows "accounts_ok A (docs (fst (updateProfile A C U c user_id body)))"
proof -
  have "accounts_ok A (docs c1)"
    if "update_one U c (\<lambda>d. u_id d = k) (\<lambda>d. foldl (\<lambda>e kv. set_profile kv e) d patch) = (c1, q)" for k patch c1 q
    using mongo_atomic.update_effect [OF db that] inv by (auto simp: accounts_ok_def account_ok_profile)
  with inv show ?thesis by (auto simp: updateProfile_def split: sum.split option.split prod.split)
qed

lemmas handlers_keep = registerUser_keeps googleAuth_keeps verifyUser_keeps forgotPassword_keeps resetPassword_keeps changePassword_keeps updateProfile_keeps

text \<open>
  C5. Stored accounts. Whatever requests arrive, with any bodies, and even when the database fails in the
  middle of one, no account is stored with a plain-text password, with a password shorter
  than six characters, with a missing password unless it came from Google, or under a name or
  address that a query would not find.
\<close>

theorem accounts_well_kept:
  assumes db: "mongo_atomic U docs user_clash" and inv: "accounts_ok A (docs c)"
  shows "accounts_ok A (docs (fst (registerUser A C cfg U c env body))) \<and>
    accounts_ok A (docs (fst (googleAuth A C cfg verify U c env body))) \<and>
    accounts_ok A (docs (fst (verifyUser C U c now i body))) \<and>
    accounts_ok A (docs (fst (forgotPassword B A C cfg U c env body))) \<and>
    accounts_ok A (docs (fst (resetPassword B A C U c env token body))) \<and>
    accounts_ok A (docs (fst (changePassword A C U c env user_id body))) \<and>
    accounts_ok A (docs (fst (updateProfile A C U c user_id body)))"
  by (intro conjI handlers_keep [OF db inv])

subsection \<open>A concrete platform\<close>

definition example_auth :: auth_api where
  "example_auth =
     \<lparr>js_length = length, bcrypt_hash = (\<lambda>salt p. salt @ '':'' @ p),
      bcrypt_compare = (\<lambda>p h. drop (length h - length p) h = p),
      sha256_hex = (\<lambda>t. ''sha:'' @ t), jwt_sign = (\<lambda>cl. case c_id cl of None \<Rightarrow> ''jwt-'' | Some i \<Rightarrow> ''jwt:'' @ i)\<rparr>"

definition example_config :: "bool \<Rightarrow> app_config" where
  "example_config auto = (app_config_of (\<lambda>k. if k = ''FRONTEND_URL'' then Some ''https://app.io/'' else None))
     \<lparr>AUTO_VERIFY_USERS := auto, GOOGLE_CLIENT_ID := ''client''\<rparr>"

abbreviation example_users :: "(user list, user) coll" where
  "example_users \<equiv> list_coll user_clash"

definition example_env :: "time \<Rightarrow> oid \<Rightarrow> auth_env" where
  "example_env now i = \<lparr>ae_now = now, ae_id = i, ae_salt = ''s'', ae_bytes = ''r4nd0m''\<rparr>"

definition sign_up :: fields where
  "sign_up = [(''username'', JStr ''Ann''), (''email'', JStr '' Ann@x.io''), (''fullname'', JStr ''Ann B''), (''password'', JStr ''secret1'')]"

text \<open>A registration on the empty collection of accounts.\<close>

definition one_account :: "bool \<Rightarrow> user list" where
  "one_account auto = fst (registerUser example_auth plain_cast (example_config auto) example_users [] (example_env 0 ''u1'') sign_up)"

lemma one_account_ok: "accounts_ok example_auth (mset [])"
  by (simp add: accounts_ok_def)

theorem accounts_well_kept_witness:
  "map (\<lambda>u. (username u, u_email u, password u)) (one_account True) = [(''ann'', ''ann@x.io'', Some ''s:secret1'')] \<and>
   accounts_ok example_auth (mset (one_account True))"
proof -
  have "map (\<lambda>u. (username u, u_email u, password u)) (one_account True) = [(''ann'', ''ann@x.io'', Some ''s:secret1'')]"
    by code_simp
  with accounts_well_kept [OF mem_atomic.mongo_atomic_axioms one_account_ok, where C = plain_cast and cfg = "example_config True"
      and env = "example_env 0 ''u1''" and body = sign_up]
  show ?thesis by (simp add: one_account_def)
qed

subsection \<open>Signing in\<close>

text \<open>A request names an account by its username or by its address.\<close>

definition names :: "caster \<Rightarrow> js \<Rightarrow> string \<Rightarrow> bool" where
  "names C v x = (case text_condition C v of Inl _ \<Rightarrow> False | Inr p \<Rightarrow> p x)"

definition asked_for :: "caster \<Rightarrow> fields \<Rightarrow> user \<Rightarrow> bool" where
  "asked_for C body u \<longleftrightarrow> names C (get ''username'' body) (username u) \<or> names C (get ''email'' body) (u_email u)"

lemma names_text: "names C (JStr s) x \<longleftrightarrow> (case as_text (C SString (JStr s)) of None \<Rightarrow> False | Some t \<Rightarrow> x = tidy t)"
  by (simp add: names_def text_condition_def split: option.split)

lemma text_condition_thrown: "text_condition C v = Inl e \<Longrightarrow> \<not> isApiError e"
  by (auto simp: text_condition_def plain_error_def split: if_splits option.splits)

lemma named_user:
  assumes db: "mongo U docs clash"
  shows "findUserByEmailOrUsername C U c (get ''email'' body) (get ''username'' body) = Inr (Some u) \<Longrightarrow>
      u \<in># docs c \<and> asked_for C body u"
    and "findUserByEmailOrUsername C U c (get ''email'' body) (get ''username'' body) = Inr None \<Longrightarrow>
      {u. u \<in># docs c \<and> asked_for C body u} = {}"
    and "findUserByEmailOrUsername C U c (get ''email'' body) (get ''username'' body) = Inl e \<Longrightarrow> \<not> isApiError e"
  using find_user_some [OF db, of c _ u] find_user_none [OF db, of c]
  by (auto simp: findUserByEmailOrUsername_def asked_for_def names_def dest: find_user_thrown text_condition_thrown
      split: sum.splits)

lemma comparePassword_true:
  "comparePassword A u v = Inr True \<Longrightarrow>
    \<exists>pw h. v = JStr pw \<and> password u = Some h \<and> h \<noteq> [] \<and> bcrypt_compare A pw h"
  by (cases "password u") (auto simp: comparePassword_def split: if_splits js.splits)

lemma comparePassword_thrown: "comparePassword A u v = Inl e \<Longrightarrow> \<not> isApiError e"
  by (auto simp: comparePassword_def plain_error_def split: if_splits js.splits)

lemma found_by_id:
  assumes db: "mongo U docs clash"
  shows "findUserById C U c v = Inr (Some u) \<Longrightarrow>
      \<exists>x. x \<in># docs c \<and> as_oid (C SObjectId v) = Some (u_id x) \<and> u = without_password x"
    and "findUserById C U c v = Inr None \<Longrightarrow> v = JUndef \<or> v = JNull \<or>
      (\<exists>k. as_oid (C SObjectId v) = Some k \<and> {x. x \<in># docs c \<and> u_id x = k} = {})"
    and "findUserById C U c v = Inl e \<Longrightarrow> \<not> isApiError e"
proof -
  let ?run = "\<lambda>k. find_user U c (\<lambda>u. u_id u = k)"
  have run: "findUserById C U c v =
      (if v = JUndef \<or> v = JNull then Inr None
       else case as_oid (C SObjectId v) of
              None \<Rightarrow> Inl (plain_error ''Cast to ObjectId failed'')
            | Some k \<Rightarrow> map_sum id (map_option without_password) (?run k))"
    by (simp add: findUserById_def findUserByIdWithPassword_def split: option.split)
  show "\<exists>x. x \<in># docs c \<and> as_oid (C SObjectId v) = Some (u_id x) \<and> u = without_password x"
    if "findUserById C U c v = Inr (Some u)"
  proof -
    from that obtain k where k: "as_oid (C SObjectId v) = Some k"
      "map_sum id (map_option without_password) (?run k) = Inr (Some u)"
      unfolding run by (auto split: if_splits option.splits)
    from k(2) obtain x where "?run k = Inr (Some x)" "u = without_password x" by (cases "?run k") auto
    with k(1) find_user_some [OF db] show ?thesis by blast
  qed
  show "v = JUndef \<or> v = JNull \<or> (\<exists>k. as_oid (C SObjectId v) = Some k \<and> {x. x \<in># docs c \<and> u_id x = k} = {})"
    if "findUserById C U c v = Inr None"
  proof (cases "v = JUndef \<or> v = JNull")
    case False
    with that obtain k where k: "as_oid (C SObjectId v) = Some k"
      "map_sum id (map_option without_password) (?run k) = Inr None"
      unfolding run by (auto split: option.splits)
    from k(2) have "?run k = Inr None" by (cases "?run k") auto
    with k(1) find_user_none [OF db] show ?thesis by blast
  qed blast
  show "\<not> isApiError e" if "findUserById C U c v = Inl e"
  proof -
    from that have "e = plain_error ''Cast to ObjectId failed'' \<or> (\<exists>k. ?run k = Inl e)"
      unfolding run by (auto simp: map_sum_def split: if_splits option.splits sum.splits)
    then show ?thesis by (auto simp: plain_error_def dest: find_user_thrown)
  qed
qed

lemma loginUser_success:
  assumes db: "mongo U docs clash" and cast: "\<And>j. C SObjectId (JOid j) = Some (JOid j)"
    and asked: "\<not> (js_falsy (get ''username'' body) \<and> js_falsy (get ''email'' body))"
    and found: "findUserByEmailOrUsername C U c (get ''email'' body) (get ''username'' body) = Inr (Some u)"
    and ok: "comparePassword A u (get ''password'' body) = Inr True" "isVerified u"
  shows "case loginUser A C cfg U c body of
      Inl e \<Rightarrow> \<not> isApiError e
    | Inr (resp, cookie) \<Rightarrow> cookie = session_cookie cfg (generateAccessToken A u) \<and>
        (case data resp of
           None \<Rightarrow> True
         | Some se \<Rightarrow> se_token se = generateAccessToken A u \<and> u_id (se_user se) = u_id u \<and> password (se_user se) = None)"
proof (cases "findUserById C U c (JOid (u_id u))")
  case (Inl e)
  with found_by_id(3) [OF db Inl] asked found ok show ?thesis by (auto simp: loginUser_def)
next
  case shown: (Inr s)
  have "u_id v = u_id u \<and> password v = None" if "s = Some v" for v
    using found_by_id(1) [OF db, of C c "JOid (u_id u)" v] shown that
    by (auto simp: cast as_oid_def without_password_def)
  then have told: "case map_option (\<lambda>v. \<lparr>se_user = v, se_token = generateAccessToken A u\<rparr>) s of
      None \<Rightarrow> True
    | Some se \<Rightarrow> se_token se = generateAccessToken A u \<and> u_id (se_user se) = u_id u \<and> password (se_user se) = None"
    by (cases s) simp_all
  have "loginUser A C cfg U c body =
      Inr (ApiResponse 200 (map_option (\<lambda>v. \<lparr>se_user = v, se_token = generateAccessToken A u\<rparr>) s)
             ''User logged in successfully'', session_cookie cfg (generateAccessToken A u))"
    using asked found ok shown by (simp add: loginUser_def Let_def)
  with told show ?thesis by simp
qed

text \<open>
  C6. Signing in. A session is opened only for a stored, verified account that the request named
  and whose stored hash the entered password matches; the token and the cookie are that
  account's and the reply carries no password. It answers that there is no such account only
  when there is none.
\<close>

theorem sign_in_sound:
  assumes db: "mongo U docs clash" and cast: "\<And>j. C SObjectId (JOid j) = Some (JOid j)"
  shows "case loginUser A C cfg U c body of
      Inl e \<Rightarrow> e \<noteq> ApiError 404 ''User does not exist'' \<or> {u. u \<in># docs c \<and> asked_for C body u} = {}
    | Inr (resp, cookie) \<Rightarrow> \<exists>u pw h. u \<in># docs c \<and> asked_for C body u \<and> isVerified u \<and>
        get ''password'' body = JStr pw \<and> password u = Some h \<and> bcrypt_compare A pw h \<and>
        cookie = session_cookie cfg (generateAccessToken A u) \<and>
        (case data resp of
           None \<Rightarrow> True
         | Some se \<Rightarrow> se_token se = generateAccessToken A u \<and> u_id (se_user se) = u_id u \<and> password (se_user se) = None)"
proof (cases "js_falsy (get ''username'' body) \<and> js_falsy (get ''email'' body)")
  case False
  note unfold = loginUser_def
  show ?thesis
  proof (cases "findUserByEmailOrUsername C U c (get ''email'' body) (get ''username'' body)")
    case (Inl e)
    with named_user(3) [OF db Inl] False show ?thesis by (auto simp: loginUser_def)
  next
    case (Inr found)
    show ?thesis
    proof (cases found)
      case None
      with named_user(2) [OF db] Inr False show ?thesis by (simp add: loginUser_def)
    next
      case (Some u)
      from named_user(1) [OF db] Inr Some have u: "u \<in># docs c" "asked_for C body u" by simp_all
      show ?thesis
      proof (cases "comparePassword A u (get ''password'' body) = Inr True \<and> isVerified u")
        case True
        from comparePassword_true [of A u "get ''password'' body"] True obtain pw h where
          pw: "get ''password'' body = JStr pw" "password u = Some h" "bcrypt_compare A pw h" by auto
        have found: "findUserByEmailOrUsername C U c (get ''email'' body) (get ''username'' body) = Inr (Some u)"
          using Inr Some by simp
        note succeeds = loginUser_success [where docs = docs and c = c and C = C and cfg = cfg and A = A and U = U,
            OF db cast False found conjunct1 [OF True] conjunct2 [OF True]]
        show ?thesis
        proof (cases "loginUser A C cfg U c body")
          case (Inl e)
          with succeeds show ?thesis by auto
        next
          case (Inr p)
          obtain resp cookie where "p = (resp, cookie)" by (cases p)
          with succeeds Inr u pw True show ?thesis by (simp, intro exI [of _ u]) simp
        qed
      next
        case no: False
        with False Some Inr comparePassword_thrown [of A u "get ''password'' body"] show ?thesis
          by (auto simp: loginUser_def split: sum.split bool.split)
      qed
    qed
  qed
qed (simp add: loginUser_def)

text \<open>Ann signs in with her address in capitals; a wrong password and an unknown name are refused.\<close>

theorem sign_in_sound_witness:
  "(\<exists>resp cookie u. loginUser example_auth plain_cast (example_config True) example_users (one_account True)
        [(''email'', JStr ''ANN@X.IO''), (''password'', JStr ''secret1'')] = Inr (resp, cookie) \<and>
      u \<in># mset (one_account True) \<and> isVerified u \<and>
      cookie = session_cookie (example_config True) (generateAccessToken example_auth u)) \<and>
   map_sum e_status id (loginUser example_auth plain_cast (example_config True) example_users (one_account True)
        [(''email'', JStr ''ANN@X.IO''), (''password'', JStr ''secret2'')]) = Inl (Some 401) \<and>
   map_sum e_status id (loginUser example_auth plain_cast (example_config True) example_users (one_account True)
        [(''username'', JStr ''bob''), (''password'', JStr ''secret1'')]) = Inl (Some 404)"
proof -
  let ?body = "[(''email'', JStr ''ANN@X.IO''), (''password'', JStr ''secret1'')]"
  let ?run = "loginUser example_auth plain_cast (example_config True) example_users (one_account True) ?body"
  have "\<not> is_Inl ?run" by code_simp
  then obtain resp cookie where run: "?run = Inr (resp, cookie)" by (cases ?run) auto
  have cast: "plain_cast SObjectId (JOid j) = Some (JOid j)" for j by (simp add: plain_cast_def)
  from sign_in_sound [where C = plain_cast and U = example_users and docs = mset and clash = user_clash, OF mem.mongo_axioms cast,
      where A = example_auth and cfg = "example_config True" and c = "one_account True" and body = ?body, unfolded run sum.case prod.case]
  obtain u where "u \<in># mset (one_account True)" "isVerified u"
    "cookie = session_cookie (example_config True) (generateAccessToken example_auth u)" by blast
  with run have "\<exists>resp cookie u. ?run = Inr (resp, cookie) \<and> u \<in># mset (one_account True) \<and> isVerified u \<and>
      cookie = session_cookie (example_config True) (generateAccessToken example_auth u)" by blast
  moreover have "map_sum e_status id (loginUser example_auth plain_cast (example_config True) example_users (one_account True)
        [(''email'', JStr ''ANN@X.IO''), (''password'', JStr ''secret2'')]) = Inl (Some 401)" by code_simp
  moreover have "map_sum e_status id (loginUser example_auth plain_cast (example_config True) example_users (one_account True)
        [(''username'', JStr ''bob''), (''password'', JStr ''secret1'')]) = Inl (Some 404)" by code_simp
  ultimately show ?thesis by (intro conjI)
qed

end
