(* ===== verification/Account_Flows.thy ===== *)
theory Account_Flows
  imports Accounts
begin

text \<open>
  Sequences of account requests: a registration followed by a sign-in, a verification or a
  Google sign-in, and the life of a password-reset link.
\<close>

subsection \<open>What a registration leaves behind\<close>

lemma register_build:
  assumes "user_build A C env [(''fullname'', f), (''email'', e), (''password'', p), (''username'', JStr un)] = Inr u"
  shows "u_id u = ae_id env" "\<not> isVerified u" "otp u = None" "otpExpire u = Some (ae_now env + OTP_MS)"
    "u_provider u = Local" "googleId u = None"
    "\<exists>s. as_text (C SString e) = Some s \<and> tidy s \<noteq> [] \<and> u_email u = tidy s"
    "\<exists>s. as_text (C SString p) = Some s \<and> 6 \<le> js_length A s \<and> password u = Some (bcrypt_hash A (ae_salt env) s)"
proof -
  obtain d where d: "apply_fields (assign_user A C) [(''fullname'', f), (''email'', e), (''password'', p), (''username'', JStr un)]
      (user_defaults (ae_id env) '''' '''' '''' (ae_now env)) = Some d"
    and u: "u = hash_password A (ae_salt env) d" and req: "u_email d \<noteq> ''''" "password d \<noteq> None \<or> u_provider d = Google"
    using assms by (auto simp: user_build_def split: option.splits if_splits)
  note assigned = assign_user_def bind_eq_Some_conv user_defaults_def
  have kept: "(u_id d, isVerified d, otp d, otpExpire d, u_provider d, googleId d) =
      (ae_id env, False, None, Some (ae_now env + OTP_MS), Local, None)"
    using d by (auto simp: assigned simp del: prod.inject split: if_splits)
  have mail: "u_email d = '''' \<or> (\<exists>s. as_text (C SString e) = Some s \<and> tidy s \<noteq> [] \<and> u_email d = tidy s)"
    using d by (auto simp: assigned split: if_splits)
  have pass: "password d = None \<or> (\<exists>s. as_text (C SString p) = Some s \<and> 6 \<le> js_length A s \<and> password d = Some s)"
    using d by (auto simp: assigned split: if_splits)
  show "u_id u = ae_id env" "\<not> isVerified u" "otp u = None" "otpExpire u = Some (ae_now env + OTP_MS)"
    "u_provider u = Local" "googleId u = None"
    using kept by (simp_all add: u hash_password_def split: option.split)
  show "\<exists>s. as_text (C SString e) = Some s \<and> tidy s \<noteq> [] \<and> u_email u = tidy s"
    using mail req(1) by (auto simp: u hash_password_def split: option.split)
  show "\<exists>s. as_text (C SString p) = Some s \<and> 6 \<le> js_length A s \<and> password u = Some (bcrypt_hash A (ae_salt env) s)"
    using pass req(2) kept by (auto simp: u hash_password_def)
qed

text \<open>A successful registration: the stored account, and the session of that account.\<close>

lemma registerUser_success:
  assumes db: "mongo_atomic U docs user_clash"
    and run: "registerUser A C cfg U c env body = (c', Inr (resp, cookie))"
  shows "\<exists>u uname. user_build A C env [(''fullname'', get ''fullname'' body), (''email'', get ''email'' body),
        (''password'', get ''password'' body), (''username'', JStr uname)] = Inr u \<and>
      docs c' = add_mset (u\<lparr>isVerified := AUTO_VERIFY_USERS cfg\<rparr>) (docs c) \<and>
      (\<forall>x \<in># docs c. \<not> user_clash u x) \<and>
      cookie = session_cookie cfg (generateAccessToken A u) \<and> statusCode resp = 201 \<and>
      se_token (data resp) = generateAccessToken A u"
proof -
  from run obtain uname c1 u r c2 shown where
    create: "createUser A C U c env [(''fullname'', get ''fullname'' body), (''email'', get ''email'' body),
        (''password'', get ''password'' body), (''username'', JStr uname)] = (c1, Inr u)"
    and save: "(if AUTO_VERIFY_USERS cfg then saveUser U c1 (u_id u) (\<lambda>d. d\<lparr>isVerified := True\<rparr>) else (c1, Inr ())) = (c2, Inr r)"
    and out: "c' = c2" "open_session A cfg 201 ''User registered successfully'' shown u = (resp, cookie)"
    by (auto simp: registerUser_def split: sum.splits option.splits prod.splits)
  from createUser_effect(2) [OF db create] have built:
    "user_build A C env [(''fullname'', get ''fullname'' body), (''email'', get ''email'' body),
        (''password'', get ''password'' body), (''username'', JStr uname)] = Inr u"
    and c1: "docs c1 = add_mset u (docs c)" and fresh: "\<forall>x \<in># docs c. \<not> user_clash u x" by auto
  have "docs c2 = add_mset (u\<lparr>isVerified := AUTO_VERIFY_USERS cfg\<rparr>) (docs c)"
  proof (cases "AUTO_VERIFY_USERS cfg")
    case True
    with save saveUser_effect(2) [OF db, of c1 "u_id u" _ c2] c1
    have "rewritten (add_mset u (docs c)) (docs c2) (u_id u) (\<lambda>d. d\<lparr>isVerified := True\<rparr>)" by simp
    then obtain d N where d: "add_mset u (docs c) = add_mset d N" "u_id d = u_id u" "docs c2 = add_mset (d\<lparr>isVerified := True\<rparr>) N"
      by (auto simp: rewritten_def)
    have "d = u"
    proof (rule ccontr)
      assume "d \<noteq> u"
      have "d \<in># add_mset u (docs c)" unfolding d(1) by simp
      with \<open>d \<noteq> u\<close> have "d \<in># docs c" by simp
      with fresh d(2) show False by (auto simp: user_clash_def)
    qed
    with d True show ?thesis by simp
  next
    case False
    have "u\<lparr>isVerified := False\<rparr> = u" using register_build(2) [OF built] by simp
    with False save c1 show ?thesis by simp
  qed
  with built fresh out show ?thesis
    by (intro exI [of _ u] exI [of _ uname]) (auto simp: open_session_def Let_def)
qed

text \<open>The account a query by a fresh identifier or a fresh address finds.\<close>

lemma sole_match:
  assumes "x \<in># add_mset u M" and "\<forall>y \<in># M. \<not> user_clash u' y"
    and "u_id x = u_id u' \<or> u_email x = u_email u'"
  shows "x = u"
  using assms by (auto simp: user_clash_def)

text \<open>The account a sign-in by address finds, and what the sign-in answers from there.\<close>

lemma address_finds:
  assumes db: "mongo U docs clash" and docs: "docs c = add_mset u N" "\<forall>x \<in># N. \<not> user_clash u x"
    and cast: "\<And>s. C SString (JStr s) = Some (JStr s)" and e: "tidy e = u_email u"
    and found: "findUserByEmailOrUsername C U c (JStr e) JUndef = Inr found"
  shows "found = Some u"
proof -
  let ?login = "[(''email'', JStr e)]"
  have fields: "get ''username'' ?login = JUndef" "get ''email'' ?login = JStr e" by (simp_all add: get_def)
  have asked: "asked_for C ?login x \<longleftrightarrow> u_email x = u_email u" for x
    by (simp add: asked_for_def names_def text_condition_def fields cast as_text_def e)
  have same: "findUserByEmailOrUsername C U c (get ''email'' ?login) (get ''username'' ?login) = Inr found"
    using found by (simp add: fields)
  have "found \<noteq> None"
  proof
    assume "found = None"
    with named_user(2) [OF db] same have "{x. x \<in># docs c \<and> asked_for C ?login x} = {}" by blast
    with asked [of u] docs(1) show False by auto
  qed
  then obtain x where x: "found = Some x" by blast
  with named_user(1) [OF db, of C c ?login x] same have x': "x \<in># docs c" "u_email x = u_email u" by (simp_all add: asked)
  have "x = u" by (rule sole_match [where u' = u and M = N]) (use x' docs in simp_all)
  with x show ?thesis by simp
qed

lemma login_outcome:
  assumes db: "mongo U docs clash" and docs: "docs c = add_mset u N" "\<forall>x \<in># N. \<not> user_clash u x"
    and cast: "\<And>s. C SString (JStr s) = Some (JStr s)" and e: "e \<noteq> []" "tidy e = u_email u"
    and pw: "pw \<noteq> []" "password u = Some h" "h \<noteq> []" "bcrypt_compare A pw h"
  shows "case loginUser A C cfg U c [(''email'', JStr e), (''password'', JStr pw)] of
      Inl err \<Rightarrow> isApiError err \<longrightarrow> \<not> isVerified u \<and>
        err = ApiError 401 ''User is not verified. Please verify your email first.''
    | Inr (_, cookie) \<Rightarrow> isVerified u \<and> cookie = session_cookie cfg (generateAccessToken A u)"
proof -
  let ?login = "[(''email'', JStr e), (''password'', JStr pw)]"
  have fields: "get ''username'' ?login = JUndef" "get ''email'' ?login = JStr e" "get ''password'' ?login = JStr pw"
    by (simp_all add: get_def)
  show ?thesis
  proof (cases "findUserByEmailOrUsername C U c (JStr e) JUndef")
    case (Inl err)
    then have "findUserByEmailOrUsername C U c (get ''email'' ?login) (get ''username'' ?login) = Inl err" by (simp add: fields)
    from named_user(3) [OF db this] e(1) fields Inl show ?thesis by (simp add: loginUser_def js_falsy_def)
  next
    case (Inr found)
    have found: "found = Some u" by (rule address_finds [OF db docs cast e(2) Inr])
    have check: "comparePassword A u (JStr pw) = Inr True" using pw by (simp add: comparePassword_def js_falsy_def)
    show ?thesis
    proof (cases "findUserById C U c (JOid (u_id u))")
      case (Inl err)
      with found_by_id(3) [OF db Inl] Inr found check e(1) show ?thesis
        by (simp add: loginUser_def fields js_falsy_def)
    next
      case Shown: (Inr s)
      with Inr found check e(1) show ?thesis by (simp add: loginUser_def fields js_falsy_def Let_def)
    qed
  qed
qed

text \<open>Signing in with the address and the password of a verified account.\<close>

lemma login_by_email:
  assumes db: "mongo U docs clash" and docs: "docs c = add_mset u N" "\<forall>x \<in># N. \<not> user_clash u x"
    and cast: "\<And>s. C SString (JStr s) = Some (JStr s)"
    and e: "e \<noteq> []" "tidy e = u_email u" and "isVerified u"
    and pw: "pw \<noteq> []" "password u = Some h" "h \<noteq> []" "bcrypt_compare A pw h"
  shows "case loginUser A C cfg U c [(''email'', JStr e), (''password'', JStr pw)] of
      Inl err \<Rightarrow> \<not> isApiError err
    | Inr (_, cookie) \<Rightarrow> cookie = session_cookie cfg (generateAccessToken A u)"
  using login_outcome [where docs = docs and C = C and cfg = cfg, OF db docs cast e pw] \<open>isVerified u\<close>
  by (auto split: sum.splits)

text \<open>
  Registering and signing in. Where accounts are verified automatically, whoever registers can sign in with the
  address and the password of the registration, however they spell the case of the address,
  and gets the session of the account created; only a database failure can stand in the way.
\<close>

theorem register_then_login:
  assumes db: "mongo_atomic U docs user_clash"
    and bcrypt: "\<And>s p. bcrypt_compare A p (bcrypt_hash A s p)" "\<And>s p. bcrypt_hash A s p \<noteq> []" "js_length A [] = 0"
    and cast: "\<And>s. C SString (JStr s) = Some (JStr s)" "\<And>j. C SObjectId (JOid j) = Some (JOid j)"
    and body: "get ''email'' body = JStr e" "get ''password'' body = JStr pw"
    and cfg: "AUTO_VERIFY_USERS cfg"
    and run: "registerUser A C cfg U c env body = (c', Inr (resp, cookie))"
    and again: "tidy e' = tidy e"
  shows "case loginUser A C cfg U c' [(''email'', JStr e'), (''password'', JStr pw)] of
      Inl err \<Rightarrow> \<not> isApiError err
    | Inr (_, cookie') \<Rightarrow> cookie' = cookie"
proof -
  from registerUser_success [OF db run] obtain u uname where
    built: "user_build A C env [(''fullname'', get ''fullname'' body), (''email'', JStr e), (''password'', JStr pw),
        (''username'', JStr uname)] = Inr u"
    and docs: "docs c' = add_mset (u\<lparr>isVerified := True\<rparr>) (docs c)" "\<forall>x \<in># docs c. \<not> user_clash u x"
    and cookie: "cookie = session_cookie cfg (generateAccessToken A u)"
    by (auto simp: body cfg)
  note u = register_build [OF built]
  let ?u = "u\<lparr>isVerified := True\<rparr>"
  have e: "tidy e \<noteq> []" "u_email u = tidy e" and pw: "6 \<le> js_length A pw" "password u = Some (bcrypt_hash A (ae_salt env) pw)"
    using u(7,8) by (auto simp: cast as_text_def)
  from pw(1) bcrypt(3) have pw': "pw \<noteq> []" by auto
  from e(1) again have e': "e' \<noteq> []" by auto
  have fresh: "\<forall>x \<in># docs c. \<not> user_clash ?u x" using docs(2) by (simp add: user_clash_def)
  have token: "generateAccessToken A ?u = generateAccessToken A u" by (simp add: generateAccessToken_def)
  have "password ?u = Some (bcrypt_hash A (ae_salt env) pw)" "tidy e' = u_email ?u" "isVerified ?u" using again e(2) pw(2) by simp_all
  from login_by_email [where docs = docs and c = c' and C = C and cfg = cfg, OF mongo_atomic.axioms(1) [OF db] docs(1) fresh cast(1)
      e' this(2,3) pw' this(1) bcrypt(2) bcrypt(1)]
  show ?thesis unfolding token cookie .
qed

lemma example_auth_laws:
  "bcrypt_compare example_auth p (bcrypt_hash example_auth s p)" "bcrypt_hash example_auth s p \<noteq> []"
  "js_length example_auth [] = 0"
  by (simp_all add: example_auth_def)

lemma plain_cast_laws:
  "plain_cast SString (JStr s) = Some (JStr s)" "plain_cast SObjectId (JOid i) = Some (JOid i)"
  "plain_cast SObjectId (JStr i) = Some (JOid i)"
  by (simp_all add: plain_cast_def)

definition sign_up_run where
  "sign_up_run auto =
     registerUser example_auth plain_cast (example_config auto) example_users [] (example_env 0 ''u1'') sign_up"

theorem register_then_login_witness:
  "case loginUser example_auth plain_cast (example_config True) example_users (fst (sign_up_run True))
       [(''email'', JStr ''ann@X.IO''), (''password'', JStr ''secret1'')] of
     Inl _ \<Rightarrow> False
   | Inr (_, cookie) \<Rightarrow> map_sum id snd (snd (sign_up_run True)) = Inr cookie"
proof -
  have "\<not> is_Inl (snd (sign_up_run True))" by code_simp
  then obtain c' resp cookie where run: "sign_up_run True = (c', Inr (resp, cookie))"
    by (cases "sign_up_run True"; cases "snd (sign_up_run True)") auto
  have body: "get ''email'' sign_up = JStr '' Ann@x.io''" "get ''password'' sign_up = JStr ''secret1''"
    by (simp_all add: sign_up_def get_def)
  have cfg: "AUTO_VERIFY_USERS (example_config True)" by (simp add: example_config_def)
  have again: "tidy ''ann@X.IO'' = tidy '' Ann@x.io''" by code_simp
  let ?login = "loginUser example_auth plain_cast (example_config True) example_users (fst (sign_up_run True))
       [(''email'', JStr ''ann@X.IO''), (''password'', JStr ''secret1'')]"
  from register_then_login [where C = plain_cast and U = example_users and docs = mset and A = example_auth,
      OF mem_atomic.mongo_atomic_axioms example_auth_laws plain_cast_laws(1,2) body cfg run [unfolded sign_up_run_def] again]
  have "case ?login of Inl err \<Rightarrow> \<not> isApiError err | Inr (_, cookie') \<Rightarrow> cookie' = cookie" by (simp add: run)
  moreover have "\<not> is_Inl ?login" by code_simp
  ultimately show ?thesis by (cases ?login) (auto simp: run)
qed

text \<open>An account without a stored code is verified by an empty request.\<close>

lemma verified_without_code:
  assumes db: "mongo_atomic U docs user_clash" and cast: "\<And>j. C SObjectId (JStr j) = Some (JOid j)"
    and docs: "docs c' = add_mset u N" and fresh: "\<forall>x \<in># N. \<not> user_clash u x"
    and u: "\<not> isVerified u" "otp u = None" "otpExpire u = Some t" and soon: "now \<le> t"
  shows "case verifyUser C U c' now (u_id u) [] of
      (_, _, Inl e) \<Rightarrow> \<not> isApiError e
    | (c'', _, Inr (r, _)) \<Rightarrow> statusCode r = 200 \<and>
        docs c'' = add_mset (u\<lparr>isVerified := True, otp := None, otpExpire := None\<rparr>) N"
proof -
  note mdb = mongo_atomic.axioms(1) [OF db]
  let ?f = "\<lambda>d. d\<lparr>isVerified := True, otp := None, otpExpire := None\<rparr>"
  let ?run = "verifyUser C U c' now (u_id u) []"
  have "case ?run of (_, _, Inl e) \<Rightarrow> \<not> isApiError e
     | (c'', _, Inr (r, _)) \<Rightarrow> statusCode r = 200 \<and> docs c'' = add_mset (?f u) N"
  proof (cases "findUserById C U c' (JStr (u_id u))")
    case (Inl e)
    with found_by_id(3) [OF mdb Inl] show ?thesis by (simp add: verifyUser_def)
  next
    case (Inr found)
    have "found \<noteq> None" using found_by_id(2) [OF mdb, of C c' "JStr (u_id u)"] Inr docs by (auto simp: cast as_oid_def)
    then obtain x where x: "found = Some (without_password x)" "x \<in># docs c'" "u_id x = u_id u"
      using found_by_id(1) [OF mdb, of C c' "JStr (u_id u)"] Inr by (auto simp: cast as_oid_def)
    have "x = u" by (rule sole_match [where u' = u and M = N]) (use x docs fresh in simp_all)
    obtain c'' r where save: "saveUser U c' (u_id u) ?f = (c'', r)" by (cases "saveUser U c' (u_id u) ?f")
    have run: "?run = (case (c'', r) of (c1, Inl e) \<Rightarrow> (c1, [], Inl e)
        | (c1, Inr _) \<Rightarrow> (c1, [verified_mail (without_password u)], Inr (ApiResponse 200 () ''User verified successfully'', KeepCookie)))"
      using Inr x(1) \<open>x = u\<close> u soon save
      by (simp add: verifyUser_def without_password_def js_text_def get_def)
    show ?thesis
    proof (cases r)
      case (Inl e)
      with save show ?thesis unfolding run by (auto dest: saveUser_thrown)
    next
      case (Inr v)
      then have "rewritten (docs c') (docs c'') (u_id u) ?f" using saveUser_effect(2) [OF db save] by simp
      then obtain d K where d: "docs c' = add_mset d K" "u_id d = u_id u" "docs c'' = add_mset (?f d) K"
        by (auto simp: rewritten_def)
      from d(1) have "d \<in># docs c'" by simp
      have "d = u" by (rule sole_match [where u' = u and M = N]) (use \<open>d \<in># docs c'\<close> d docs fresh in simp_all)
      with d docs have "docs c'' = add_mset (?f u) N" by simp
      then show ?thesis unfolding run Inr by simp
    qed
  qed
  then show ?thesis .
qed

text \<open>
  C29. Verification that verifies nothing. With automatic verification switched off, a registration still opens a session for
  the unverified account, and the guard of the protected routes accepts its token; and since
  no registration ever stores a code, a verification request without one, during the first twenty minutes,
  compares an absent code with an absent code and marks the account as verified.
\<close>

theorem verification_is_no_gate:
  assumes db: "mongo_atomic U docs user_clash"
    and jwt: "\<And>cl. \<exists>cl'. jwt_verify (jwt_sign A cl) = Inr cl' \<and> c_id cl' = c_id cl" "\<And>cl. jwt_sign A cl \<noteq> []"
    and cast: "\<And>j. C SObjectId (JStr j) = Some (JOid j)"
    and cfg: "\<not> AUTO_VERIFY_USERS cfg"
    and run: "registerUser A C cfg U c env body = (c', Inr (resp, cookie))"
    and soon: "now \<le> ae_now env + OTP_MS"
  shows "\<exists>u token. docs c' = add_mset u (docs c) \<and> \<not> isVerified u \<and>
    cookie = SetCookie (AUTH_COOKIE cfg) token (NODE_ENV cfg = ''production'') \<and>
    (case verifyJWT jwt_verify (Some token) of Inl _ \<Rightarrow> False | Inr cl \<Rightarrow> c_id cl = Some (u_id u)) \<and>
    (case verifyUser C U c' now (u_id u) [] of
       (_, _, Inl e) \<Rightarrow> \<not> isApiError e
     | (c'', _, Inr (r, _)) \<Rightarrow> statusCode r = 200 \<and>
         docs c'' = add_mset (u\<lparr>isVerified := True, otp := None, otpExpire := None\<rparr>) (docs c))"
proof -
  from registerUser_success [OF db run] obtain u uname where
    built: "user_build A C env [(''fullname'', get ''fullname'' body), (''email'', get ''email'' body),
        (''password'', get ''password'' body), (''username'', JStr uname)] = Inr u"
    and docs: "docs c' = add_mset (u\<lparr>isVerified := False\<rparr>) (docs c)" and fresh: "\<forall>x \<in># docs c. \<not> user_clash u x"
    and cookie: "cookie = session_cookie cfg (generateAccessToken A u)"
    by (auto simp: cfg)
  note u = register_build [OF built]
  have docs: "docs c' = add_mset u (docs c)" using docs u(2) by simp
  have "case verifyUser C U c' now (u_id u) [] of (_, _, Inl e) \<Rightarrow> \<not> isApiError e
     | (c'', _, Inr (r, _)) \<Rightarrow> statusCode r = 200 \<and>
         docs c'' = add_mset (u\<lparr>isVerified := True, otp := None, otpExpire := None\<rparr>) (docs c)"
    by (rule verified_without_code [where docs = docs and c' = c' and C = C, OF db cast docs fresh u(2-4) soon])
  moreover have "case verifyJWT jwt_verify (Some (generateAccessToken A u)) of Inl _ \<Rightarrow> False | Inr cl \<Rightarrow> c_id cl = Some (u_id u)"
    using jwt(1) [of "\<lparr>c_id = Some (u_id u), c_email = Some (u_email u), c_username = Some (username u)\<rparr>"] jwt(2)
    by (auto simp: verifyJWT_def generateAccessToken_def)
  ultimately show ?thesis using docs u(2) cookie
    by (intro exI [of _ u] exI [of _ "generateAccessToken A u"]) (simp add: session_cookie_def)
qed

text \<open>A decoder of the example's tokens.\<close>

definition example_verify :: "string \<Rightarrow> string option + claims" where
  "example_verify token =
     Inr \<lparr>c_id = (if token = ''jwt-'' then None else Some (drop 4 token)), c_email = None, c_username = None\<rparr>"

lemma example_jwt: "\<exists>cl'. example_verify (jwt_sign example_auth cl) = Inr cl' \<and> c_id cl' = c_id cl" "jwt_sign example_auth cl \<noteq> []"
  by (simp_all add: example_verify_def example_auth_def split: option.split)

theorem verification_is_no_gate_witness:
  "map isVerified (fst (sign_up_run False)) = [False] \<and>
   (\<exists>u. mset (fst (sign_up_run False)) = {#u#} \<and> \<not> isVerified u \<and>
     (case verifyUser plain_cast example_users (fst (sign_up_run False)) 1000 (u_id u) [] of
        (_, _, Inl _) \<Rightarrow> False
      | (c'', _, Inr (r, _)) \<Rightarrow> statusCode r = 200 \<and> list_all isVerified c''))"
proof -
  have "\<not> is_Inl (snd (sign_up_run False))" by code_simp
  then obtain c' resp cookie where run: "sign_up_run False = (c', Inr (resp, cookie))"
    by (cases "sign_up_run False"; cases "snd (sign_up_run False)") auto
  have cfg: "\<not> AUTO_VERIFY_USERS (example_config False)" by (simp add: example_config_def)
  have soon: "1000 \<le> ae_now (example_env 0 ''u1'') + OTP_MS" by (simp add: example_env_def OTP_MS_def)
  have stored: "map isVerified (fst (sign_up_run False)) = [False]" "map u_id (fst (sign_up_run False)) = [''u1'']" by code_simp+
  have verified: "\<not> is_Inl (snd (snd (verifyUser plain_cast example_users (fst (sign_up_run False)) 1000 ''u1'' [])))" by code_simp
  from verification_is_no_gate [where C = plain_cast and U = example_users and docs = mset and A = example_auth,
      OF mem_atomic.mongo_atomic_axioms example_jwt plain_cast_laws(3) cfg run [unfolded sign_up_run_def] soon]
  obtain u where u: "mset c' = {#u#}" "\<not> isVerified u"
    "case verifyUser plain_cast example_users c' 1000 (u_id u) [] of
       (_, _, Inl e) \<Rightarrow> \<not> isApiError e
     | (c'', _, Inr (r, _)) \<Rightarrow> statusCode r = 200 \<and>
         mset c'' = {#u\<lparr>isVerified := True, otp := None, otpExpire := None\<rparr>#}" by auto
  from u(1) have "c' = [u]" by simp
  with stored(2) run have "u_id u = ''u1''" by simp
  with u verified stored(1) run show ?thesis
    by (intro conjI exI [of _ u]) (auto split: prod.splits sum.splits)
qed

end
