(* ===== verification/Account_Recovery.thy ===== *)
theory Account_Recovery
  imports Account_Flows
begin

text \<open>
  The life of a password-reset link, and signing in with Google to an account that already
  exists.
\<close>

subsection \<open>Indexes\<close>

text \<open>The unique indexes hold of a collection.\<close>

definition indexed :: "user multiset \<Rightarrow> bool" where
  "indexed M \<longleftrightarrow> (\<forall>d N. M = add_mset d N \<longrightarrow> (\<forall>x \<in># N. \<not> user_clash d x))"

lemma indexed_sole:
  assumes "indexed M" and "M = add_mset d N" and "x \<in># M" and "u_id x = u_id d \<or> u_email x = u_email d"
  shows "x = d"
proof -
  from assms(1,2) have "\<forall>y \<in># N. \<not> user_clash d y" by (simp add: indexed_def)
  with assms(2-4) show ?thesis by (auto simp: user_clash_def)
qed

lemma indexed_single [simp]: "indexed {#u#}"
  by (auto simp: indexed_def)

text \<open>Rewriting the account a query found rewrites that account.\<close>

lemma rewritten_found:
  assumes "indexed M" and "x \<in># M" and "rewritten M M' (u_id x) f"
  shows "\<exists>N. M = add_mset x N \<and> M' = add_mset (f x) N \<and> (\<forall>y \<in># N. \<not> user_clash (f x) y)"
proof -
  from assms(3) obtain d N where d: "M = add_mset d N" "u_id d = u_id x" "M' = add_mset (f d) N" "\<forall>y \<in># N. \<not> user_clash (f d) y"
    by (auto simp: rewritten_def)
  from indexed_sole [OF assms(1) d(1) assms(2)] d(2) have "x = d" by simp
  with d show ?thesis by blast
qed

subsection \<open>Reset links\<close>

text \<open>
  Asking for a link: the answer is the same whether or not the account exists; only an
  existing account changes, by the hash and the expiry of a token, and is sent the link.
\<close>

lemma forgotPassword_uniform:
  assumes db: "mongo_atomic U docs user_clash" and idx: "indexed (docs c)"
    and run: "forgotPassword B A C cfg U c env body = (c', ms, r)"
  shows "case r of
      Inl e \<Rightarrow> ms = [] \<and> (e = ApiError 400 ''Email is required'' \<or> \<not> isApiError e)
    | Inr reply \<Rightarrow>
        reply = (ApiResponse 200 () ''If an account exists for that email, a reset link has been sent.'', KeepCookie) \<and>
        (docs c' = docs c \<and> ms = [] \<or>
         (\<exists>u N. docs c = add_mset u N \<and> docs c' = add_mset (generateForgotToken A env u) N \<and>
            map to_addr ms = [u_email u]))"
proof (cases "js_falsy (get ''email'' body) \<or> trim (js_string B (get ''email'' body)) = ''''")
  case True
  with run show ?thesis by (auto simp: forgotPassword_def Let_def)
next
  case False
  note mdb = mongo_atomic.axioms(1) [OF db]
  let ?s = "trim (js_string B (get ''email'' body))"
  have found: "findUserByEmail C U c ?s = Inl e \<Longrightarrow> \<not> isApiError e" for e
    by (auto simp: findUserByEmail_def map_sum_def dest: text_condition_thrown find_user_thrown split: sum.splits)
  have some: "\<exists>x. x \<in># docs c \<and> v = without_password x" if "findUserByEmail C U c ?s = Inr (Some v)" for v
  proof -
    from that obtain p where "map_sum id (map_option without_password) (find_user U c (\<lambda>u. p (u_email u))) = Inr (Some v)"
      by (auto simp: findUserByEmail_def split: sum.splits)
    then obtain x where "find_user U c (\<lambda>u. p (u_email u)) = Inr (Some x)" "v = without_password x"
      by (cases "find_user U c (\<lambda>u. p (u_email u))") auto
    with find_user_some(1) [OF mdb] show ?thesis by blast
  qed
  show ?thesis
  proof (cases "findUserByEmail C U c ?s")
    case (Inl e)
    with run False found [OF Inl] show ?thesis by (auto simp: forgotPassword_def Let_def)
  next
    case (Inr f)
    show ?thesis
    proof (cases f)
      case None
      with run False Inr show ?thesis by (auto simp: forgotPassword_def Let_def)
    next
      case (Some v)
      with some Inr obtain x where x: "x \<in># docs c" "v = without_password x" by blast
      obtain c1 q where save: "saveUser U c (u_id v) (generateForgotToken A env) = (c1, q)"
        by (cases "saveUser U c (u_id v) (generateForgotToken A env)")
      have id: "u_id v = u_id x" "u_email v = u_email x" by (simp_all add: x(2) without_password_def)
      show ?thesis
      proof (cases q)
        case (Inl e)
        with run False Inr Some save saveUser_thrown [of U c _ _ c1 e] show ?thesis
          by (auto simp: forgotPassword_def Let_def)
      next
        case ok: (Inr w)
        from saveUser_effect(2) [OF db save] ok have "rewritten (docs c) (docs c1) (u_id x) (generateForgotToken A env)"
          by (simp add: id)
        from rewritten_found [OF idx x(1) this] obtain N where
          "docs c = add_mset x N" "docs c1 = add_mset (generateForgotToken A env x) N" by blast
        moreover have "(c', ms, r) = (c1, [reset_mail v (reset_url cfg (ae_bytes env))],
            Inr (ApiResponse 200 () ''If an account exists for that email, a reset link has been sent.'', KeepCookie))"
          unfolding run [symmetric] using False Inr Some save ok by (simp add: forgotPassword_def Let_def)
        ultimately show ?thesis
          by (simp only: prod.inject sum.case simp_thms, intro disjI2 exI [of _ x] exI [of _ N]) (simp add: reset_mail_def id)
      qed
    qed
  qed
qed

text \<open>
  C12. Reset links. A password is reset only through a link whose token hashes to what is stored
  for an account and whose fifteen minutes are not over; exactly that account changes, its new
  password is at least six characters and is stored as a hash, and its owner is told; and the
  same link never works again, whenever and with whatever body it is used.
\<close>

theorem reset_link_single_use:
  assumes db: "mongo_atomic U docs user_clash" and idx: "indexed (docs c)"
    and one: "size {#u \<in># docs c. forgotPasswordToken u = Some (hashResetToken A token)#} \<le> 1"
    and run: "resetPassword B A C U c env token body = (c', ms, Inr reply)"
  shows "(\<exists>u N p t. docs c = add_mset u N \<and> forgotPasswordToken u = Some (hashResetToken A token) \<and>
      forgotPasswordExpire u = Some t \<and> ae_now env < t \<and>
      as_text (C SString (get ''newPassword'' body)) = Some p \<and> 6 \<le> js_length A p \<and>
      docs c' = add_mset (u\<lparr>forgotPasswordToken := None, forgotPasswordExpire := None,
                            password := Some (bcrypt_hash A (ae_salt env) p)\<rparr>) N \<and>
      map to_addr ms = [u_email u]) \<and>
    (case resetPassword B A C U c' env' token body' of (c'', ms', r) \<Rightarrow> docs c'' = docs c' \<and> ms' = [] \<and> is_Inl r)"
proof -
  note mdb = mongo_atomic.axioms(1) [OF db]
  let ?new = "get ''newPassword'' body" and ?h = "hashResetToken A token"
  let ?clear = "\<lambda>d. d\<lparr>forgotPasswordToken := None, forgotPasswordExpire := None\<rparr>"
  let ?P = "\<lambda>now u. forgotPasswordToken u = Some ?h \<and> (case forgotPasswordExpire u of None \<Rightarrow> False | Some t \<Rightarrow> now < t)"
  from run obtain u v where find: "findUserByForgotToken A U c (ae_now env) token = Inr (Some u)"
    and save: "savePassword A C U c env (u_id u) ?new ?clear = (c', Inr v)" and ms: "ms = [reset_done_mail u]"
    by (auto simp: resetPassword_def Let_def split: if_splits sum.splits option.splits prod.splits)
  from find have tok: "token \<noteq> []" "find_user U c (?P (ae_now env)) = Inr (Some u)"
    by (auto simp: findUserByForgotToken_def split: if_splits)
  from find_user_some [OF mdb tok(2)] have u: "u \<in># docs c" "?P (ae_now env) u" .
  then obtain t where t: "forgotPasswordExpire u = Some t" "ae_now env < t" by (auto split: option.splits)
  from save obtain p where p: "as_text (C SString ?new) = Some p" "6 \<le> js_length A p"
    and saved: "saveUser U c (u_id u) (\<lambda>d. (?clear d)\<lparr>password := Some (bcrypt_hash A (ae_salt env) p)\<rparr>) = (c', Inr v)"
    by (auto simp: savePassword_def split: option.splits if_splits)
  from rewritten_found [OF idx u(1) saveUser_effect(2) [OF db saved]] obtain N where
    N: "docs c = add_mset u N" "docs c' = add_mset ((?clear u)\<lparr>password := Some (bcrypt_hash A (ae_salt env) p)\<rparr>) N" by auto
  have none: "forgotPasswordToken x \<noteq> Some ?h" if "x \<in># docs c'" for x
  proof
    assume x: "forgotPasswordToken x = Some ?h"
    with that N(2) have "x \<in># N" by auto
    with x have "x \<in># filter_mset (\<lambda>u. forgotPasswordToken u = Some ?h) N" by simp
    then obtain K where "filter_mset (\<lambda>u. forgotPasswordToken u = Some ?h) N = add_mset x K" by (metis mset_add)
    with one u(2) show False by (simp add: N(1))
  qed
  have "case resetPassword B A C U c' env' token body' of (c'', ms', r) \<Rightarrow> docs c'' = docs c' \<and> ms' = [] \<and> is_Inl r"
  proof -
    have "findUserByForgotToken A U c' (ae_now env') token \<noteq> Inr (Some x)" for x
    proof
      assume "findUserByForgotToken A U c' (ae_now env') token = Inr (Some x)"
      then have "find_user U c' (?P (ae_now env')) = Inr (Some x)" by (simp add: findUserByForgotToken_def tok)
      from find_user_some [OF mdb this] none show False by blast
    qed
    then show ?thesis by (auto simp: resetPassword_def Let_def split: sum.split option.split)
  qed
  with u t p N ms show ?thesis
    by (intro conjI exI [of _ u] exI [of _ N] exI [of _ p] exI [of _ t]) (simp_all add: reset_done_mail_def)
qed

text \<open>Ann asks for a link, uses it, and uses it again.\<close>

definition asked_reset :: "user list" where
  "asked_reset = fst (forgotPassword plain_bson example_auth plain_cast (example_config True) example_users
     (one_account True) (example_env 5 '''') [(''email'', JStr ''ann@x.io'')])"

definition reset_run where
  "reset_run pw c = resetPassword plain_bson example_auth plain_cast example_users c (example_env 100 '''') ''r4nd0m''
     [(''newPassword'', JStr pw)]"

theorem reset_link_single_use_witness:
  "map password (fst (reset_run ''better1'' asked_reset)) = [Some ''s:better1''] \<and>
   is_Inl (snd (snd (reset_run ''better2'' (fst (reset_run ''better1'' asked_reset)))))"
proof -
  obtain c' ms r where run: "reset_run ''better1'' asked_reset = (c', ms, r)" by (cases "reset_run ''better1'' asked_reset") auto
  have "\<not> is_Inl (snd (snd (reset_run ''better1'' asked_reset)))" by code_simp
  with run obtain reply where r: "r = Inr reply" by (cases r) auto
  have len: "length asked_reset = 1" by code_simp
  then obtain a where a: "asked_reset = [a]" by (auto simp: length_Suc_conv)
  have idx: "indexed (mset asked_reset)" by (simp add: a)
  have one: "size {#u \<in># mset asked_reset. forgotPasswordToken u = Some (hashResetToken example_auth ''r4nd0m'')#} \<le> 1"
    by (simp add: a)
  from reset_link_single_use [where C = plain_cast and U = example_users and docs = mset and A = example_auth and
      env' = "example_env 100 ''''" and body' = "[(''newPassword'', JStr ''better2'')]",
      OF mem_atomic.mongo_atomic_axioms idx one run [unfolded reset_run_def r]]
  have "is_Inl (snd (snd (reset_run ''better2'' c')))" unfolding reset_run_def by (auto split: prod.splits)
  moreover have "map password (fst (reset_run ''better1'' asked_reset)) = [Some ''s:better1'']" by code_simp
  ultimately show ?thesis by (simp add: run)
qed

subsection \<open>Signing in with Google\<close>

lemma google_identity_sound:
  assumes "google_identity verify cfg v = Inr (p, email)"
  shows "\<exists>token. v = JStr token \<and> verify token (GOOGLE_CLIENT_ID cfg) = Inr (Some p) \<and> GOOGLE_CLIENT_ID cfg \<noteq> [] \<and>
    g_iss p \<in> set VALID_ISSUERS \<and> g_email_verified p \<and> (\<exists>e. g_email p = Some e \<and> e \<noteq> [] \<and> email = to_lower e)"
  using assms by (auto simp: google_identity_def truthy_str_def split: if_splits js.splits sum.splits option.splits)

lemma google_build:
  assumes cast: "\<And>s. C SString (JStr s) = Some (JStr s)" "\<And>b. C SBoolean (JBool b) = Some (JBool b)"
    and built: "user_build A C env (google_fields p un email) = Inr u"
  shows "googleId u = Some (g_sub p)" "u_email u = tidy email" "isVerified u" "u_provider u = Google" "password u = None"
proof -
  note simps = user_build_def google_fields_def assign_user_def cast as_text_def as_bool_def optional_def js_text_def
    user_defaults_def hash_password_def
  have "googleId u = Some (g_sub p) \<and> u_email u = tidy email \<and> isVerified u \<and> u_provider u = Google \<and> password u = None"
    using built by (auto simp: simps split: option.splits if_splits)
  then show "googleId u = Some (g_sub p)" "u_email u = tidy email" "isVerified u" "u_provider u = Google" "password u = None"
    by simp_all
qed

text \<open>The three ways to an account: by subject, by address, or a new one.\<close>

lemma google_account_success:
  assumes db: "mongo_atomic U docs user_clash" and idx: "indexed (docs c)"
    and cast: "\<And>s. C SString (JStr s) = Some (JStr s)" "\<And>b. C SBoolean (JBool b) = Some (JBool b)"
    and run: "google_account A C U c env p email = (c', Inr u)"
  shows "googleId u = Some (g_sub p) \<and>
    (u \<in># docs c \<and> docs c' = docs c \<or>
     (\<exists>x N. docs c = add_mset x N \<and> u_email x = tidy email \<and> u = linked p x \<and> docs c' = add_mset u N \<and>
        (\<forall>y \<in># N. \<not> user_clash u y)) \<or>
     (docs c' = add_mset u (docs c) \<and> u_email u = tidy email \<and> isVerified u \<and> u_provider u = Google \<and> password u = None \<and>
        (\<forall>y \<in># docs c. \<not> user_clash u y)))"
proof -
  note mdb = mongo_atomic.axioms(1) [OF db]
  let ?byId = "find_user U c (\<lambda>u. googleId u = Some (g_sub p))" and ?byEmail = "find_user U c (\<lambda>u. u_email u = tidy email)"
  show ?thesis
  proof (cases "\<exists>x. ?byId = Inr (Some x)")
    case True
    then obtain x where "?byId = Inr (Some x)" by blast
    with run find_user_some [OF mdb this] show ?thesis by (simp add: google_account_def)
  next
    case False
    with run have byId: "?byId = Inr None" by (auto simp: google_account_def split: sum.splits option.splits)
    show ?thesis
    proof (cases "\<exists>x. ?byEmail = Inr (Some x)")
      case True
      then obtain x where x: "?byEmail = Inr (Some x)" by blast
      let ?f = "\<lambda>d. d\<lparr>googleId := Some (g_sub p), isVerified := True,
          avatar := (if avatar x = '''' \<and> truthy_str (g_picture p) then nullish (g_picture p) [] else avatar d)\<rparr>"
      from run byId x obtain w where save: "saveUser U c (u_id x) ?f = (c', Inr w)" and u: "u = linked p x"
        by (auto simp: google_account_def split: sum.splits prod.splits)
      from rewritten_found [OF idx find_user_some(1) [OF mdb x] saveUser_effect(2) [OF db save]] obtain N where
        N: "docs c = add_mset x N" "docs c' = add_mset (?f x) N" "\<forall>y \<in># N. \<not> user_clash (?f x) y" by auto
      have "?f x = linked p x" by (simp add: linked_def)
      then have "docs c' = add_mset u N" "\<forall>y \<in># N. \<not> user_clash u y" using N u by simp_all
      moreover have "googleId u = Some (g_sub p)" by (simp add: u linked_def)
      ultimately show ?thesis
        using N(1) find_user_some(2) [OF mdb x] u by (intro conjI disjI2 disjI1 exI [of _ x] exI [of _ N])
    next
      case False
      with run byId have byEmail: "?byEmail = Inr None" by (auto simp: google_account_def split: sum.splits option.splits)
      with run byId obtain un where un: "createUser A C U c env (google_fields p un email) = (c', Inr u)"
        by (auto simp: google_account_def split: sum.splits)
      from createUser_effect(2) [OF db un] google_build [OF cast, of A env p un email u] show ?thesis by auto
    qed
  qed
qed

lemma googleAuth_success:
  assumes mdb: "mongo U docs user_clash" and run: "googleAuth A C cfg verify U c env body = (c', Inr (resp, cookie))"
  shows "\<exists>p email u. google_identity verify cfg (get ''credential'' body) = Inr (p, email) \<and>
    google_account A C U c env p email = (c', Inr u) \<and> cookie = session_cookie cfg (generateAccessToken A u)"
  using run by (auto simp: googleAuth_def Let_def split: sum.splits prod.splits)

text \<open>
  C18. Google sign-in. A session is opened only on a token that Google's library accepts for this
  application's own client id, from one of Google's issuers, with an address Google says is
  verified; the session is that of the account bound to the token's subject, which is one that
  already was, or the one stored under that address, or a new one without password; and no
  other account changes.
\<close>

theorem google_sign_in_sound:
  assumes db: "mongo_atomic U docs user_clash" and idx: "indexed (docs c)"
    and cast: "\<And>s. C SString (JStr s) = Some (JStr s)" "\<And>b. C SBoolean (JBool b) = Some (JBool b)"
    and run: "googleAuth A C cfg verify U c env body = (c', Inr (resp, cookie))"
  shows "\<exists>token p e u. get ''credential'' body = JStr token \<and>
    verify token (GOOGLE_CLIENT_ID cfg) = Inr (Some p) \<and> GOOGLE_CLIENT_ID cfg \<noteq> [] \<and> g_iss p \<in> set VALID_ISSUERS \<and>
    g_email_verified p \<and> g_email p = Some e \<and> e \<noteq> [] \<and>
    cookie = session_cookie cfg (generateAccessToken A u) \<and> googleId u = Some (g_sub p) \<and>
    (u \<in># docs c \<and> docs c' = docs c \<or>
     (\<exists>x N. docs c = add_mset x N \<and> u_email x = tidy e \<and> u = linked p x \<and> docs c' = add_mset u N) \<or>
     (docs c' = add_mset u (docs c) \<and> u_email u = tidy e \<and> u_provider u = Google \<and> password u = None))"
proof -
  from googleAuth_success [OF mongo_atomic.axioms(1) [OF db] run] obtain p email u where
    p: "google_identity verify cfg (get ''credential'' body) = Inr (p, email)"
    and u: "google_account A C U c env p email = (c', Inr u)" "cookie = session_cookie cfg (generateAccessToken A u)"
    by blast
  from google_identity_sound [OF p] obtain token e where
    token: "get ''credential'' body = JStr token" "verify token (GOOGLE_CLIENT_ID cfg) = Inr (Some p)"
      "GOOGLE_CLIENT_ID cfg \<noteq> []" "g_iss p \<in> set VALID_ISSUERS" "g_email_verified p" "g_email p = Some e" "e \<noteq> []"
      "email = to_lower e"
    by blast
  from google_account_success [OF db idx cast u(1)] token u(2) show ?thesis
    by (intro exI [of _ token] exI [of _ p] exI [of _ e] exI [of _ u]) auto
qed

text \<open>
  C31. Linking keeps a stranger's password. When Google vouches for an address under which somebody
  else registered first, without ever proving that the address was theirs, the account is
  linked and marked verified with its old password left in place: whoever chose that password
  then signs in to the very session the owner of the address was given.
\<close>

theorem google_linking_keeps_password:
  assumes db: "mongo_atomic U docs user_clash" and idx: "indexed (docs c)"
    and cast: "\<And>s. C SString (JStr s) = Some (JStr s)" "\<And>b. C SBoolean (JBool b) = Some (JBool b)"
      "\<And>j. C SObjectId (JOid j) = Some (JOid j)"
    and x: "x \<in># docs c" "password x = Some h" "h \<noteq> []" "bcrypt_compare A pw h" "pw \<noteq> []" "u_email x \<noteq> []"
    and new: "\<And>y. y \<in># docs c \<Longrightarrow> googleId y \<noteq> Some (g_sub p)"
    and p: "google_identity verify cfg (get ''credential'' body) = Inr (p, u_email x)" "tidy (u_email x) = u_email x"
    and run: "googleAuth A C cfg verify U c env body = (c', Inr (resp, cookie))"
  shows "case loginUser A C cfg U c' [(''email'', JStr (u_email x)), (''password'', JStr pw)] of
      Inl e \<Rightarrow> \<not> isApiError e
    | Inr (_, cookie') \<Rightarrow> cookie' = cookie"
proof -
  note mdb = mongo_atomic.axioms(1) [OF db]
  from googleAuth_success [OF mdb run] p(1) obtain u where
    u: "google_account A C U c env p (u_email x) = (c', Inr u)" "cookie = session_cookie cfg (generateAccessToken A u)"
    by auto
  from google_account_success [OF db idx cast(1,2) u(1)] new p(2) x(1)
  obtain N where N: "docs c' = add_mset u N" "\<forall>y \<in># N. \<not> user_clash u y" and "u = linked p x"
  proof -
    have "\<exists>N. docs c' = add_mset u N \<and> (\<forall>y \<in># N. \<not> user_clash u y) \<and> u = linked p x"
      using google_account_success [OF db idx cast(1,2) u(1)] new p(2) x(1) indexed_sole [OF idx]
      by (auto simp: user_clash_def linked_def)
    with that show thesis by blast
  qed
  have u': "password u = Some h" "isVerified u" "u_email u = u_email x" by (simp_all add: \<open>u = linked p x\<close> linked_def x(2))
  have "tidy (u_email x) = u_email u" using p(2) u'(3) by simp
  from login_by_email [where docs = docs and c = c' and C = C and cfg = cfg, OF mdb N cast(1) x(6) this u'(2) x(5) u'(1) x(3,4)]
  show ?thesis unfolding u(2) .
qed

text \<open>
  Somebody registers Ann's address, unverified, with a password of their own; then Ann signs in
  with Google.
\<close>

definition ann_at_google :: google_payload where
  "ann_at_google =
     \<lparr>g_iss = ''accounts.google.com'', g_sub = ''sub-ann'', g_email = Some ''Ann@x.io'', g_email_verified = True,
      g_name = Some ''Ann'', g_picture = None\<rparr>"

definition example_google :: "string \<Rightarrow> string \<Rightarrow> string + google_payload option" where
  "example_google token audience =
     (if token = ''ann-token'' \<and> audience = ''client'' then Inr (Some ann_at_google) else Inl ''Wrong recipient'')"

definition google_run where
  "google_run c token = googleAuth example_auth plain_cast (example_config False) example_google example_users c
     (example_env 9 ''u2'') [(''credential'', JStr token)]"

lemma plain_cast_bool: "plain_cast SBoolean (JBool b) = Some (JBool b)"
  by (simp add: plain_cast_def)

lemma one_account_single: obtains a where "one_account auto = [a]"
proof -
  have "length (one_account True) = 1" "length (one_account False) = 1" by code_simp+
  then have "length (one_account auto) = 1" by (cases auto) simp_all
  with that show thesis by (auto simp: length_Suc_conv)
qed

theorem google_sign_in_sound_witness:
  "(\<exists>c' resp u. google_run [] ''ann-token'' = (c', Inr (resp, session_cookie (example_config False) (generateAccessToken example_auth u))) \<and>
      googleId u = Some ''sub-ann'' \<and> map u_id c' = [''u2'']) \<and>
   map_sum e_status id (snd (google_run [] ''stolen'')) = Inl (Some 401)"
proof -
  obtain c' r where run: "google_run [] ''ann-token'' = (c', r)" by (cases "google_run [] ''ann-token''")
  have "\<not> is_Inl (snd (google_run [] ''ann-token''))" by code_simp
  with run obtain resp cookie where r: "r = Inr (resp, cookie)" by (cases r) auto
  have idx: "indexed (mset [])" by (simp add: indexed_def)
  from google_sign_in_sound [where C = plain_cast and U = example_users and docs = mset,
      OF mem_atomic.mongo_atomic_axioms idx plain_cast_laws(1) plain_cast_bool run [unfolded google_run_def r]]
  obtain token p u where u: "example_google token (GOOGLE_CLIENT_ID (example_config False)) = Inr (Some p)"
    "cookie = session_cookie (example_config False) (generateAccessToken example_auth u)" "googleId u = Some (g_sub p)"
    by blast
  have "p = ann_at_google" using u(1) by (auto simp: example_google_def split: if_splits)
  with u(3) have "googleId u = Some ''sub-ann''" by (simp add: ann_at_google_def)
  moreover have "map u_id (fst (google_run [] ''ann-token'')) = [''u2'']" by code_simp
  moreover have "map_sum e_status id (snd (google_run [] ''stolen'')) = Inl (Some 401)" by code_simp
  ultimately show ?thesis using run r u(2) by auto
qed

theorem google_linking_keeps_password_witness:
  "map isVerified (one_account False) = [False] \<and>
   (case loginUser example_auth plain_cast (example_config False) example_users
        (fst (google_run (one_account False) ''ann-token'')) [(''email'', JStr ''ann@x.io''), (''password'', JStr ''secret1'')] of
      Inl _ \<Rightarrow> False
    | Inr (_, cookie) \<Rightarrow> map_sum id snd (snd (google_run (one_account False) ''ann-token'')) = Inr cookie)"
proof -
  obtain a where a: "one_account False = [a]" by (rule one_account_single)
  have stored: "map isVerified (one_account False) = [False]" "map password (one_account False) = [Some ''s:secret1'']"
    "map u_email (one_account False) = [''ann@x.io'']" "map googleId (one_account False) = [None]" by code_simp+
  obtain c' r where run: "google_run (one_account False) ''ann-token'' = (c', r)"
    by (cases "google_run (one_account False) ''ann-token''")
  have "\<not> is_Inl (snd (google_run (one_account False) ''ann-token''))" by code_simp
  with run obtain resp cookie where r: "r = Inr (resp, cookie)" by (cases r) auto
  have idx: "indexed (mset (one_account False))" by (simp add: a)
  have identity: "google_identity example_google (example_config False) (get ''credential'' [(''credential'', JStr ''ann-token'')]) =
      Inr (ann_at_google, ''ann@x.io'')" by code_simp
  have tidied: "tidy ''ann@x.io'' = ''ann@x.io''" by code_simp
  have p: "google_identity example_google (example_config False) (get ''credential'' [(''credential'', JStr ''ann-token'')]) =
      Inr (ann_at_google, u_email a)" "tidy (u_email a) = u_email a"
    using stored(3) identity tidied by (simp_all add: a)
  have x: "a \<in># mset (one_account False)" "password a = Some ''s:secret1''" "''s:secret1'' \<noteq> ''''"
    "bcrypt_compare example_auth ''secret1'' ''s:secret1''" "''secret1'' \<noteq> ''''" "u_email a \<noteq> ''''"
    using stored unfolding a by (simp_all add: example_auth_def)
  have new: "googleId y \<noteq> Some (g_sub ann_at_google)" if "y \<in># mset (one_account False)" for y
    using that stored(4) by (simp add: a)
  from google_linking_keeps_password [where C = plain_cast and U = example_users and docs = mset and A = example_auth
      and pw = "''secret1''" and p = ann_at_google,
      OF mem_atomic.mongo_atomic_axioms idx plain_cast_laws(1) plain_cast_bool plain_cast_laws(2) x new p
        run [unfolded google_run_def r]]
  have "case loginUser example_auth plain_cast (example_config False) example_users c'
        [(''email'', JStr (u_email a)), (''password'', JStr ''secret1'')] of
      Inl e \<Rightarrow> \<not> isApiError e | Inr (_, cookie') \<Rightarrow> cookie' = cookie" .
  moreover have "\<not> is_Inl (loginUser example_auth plain_cast (example_config False) example_users
        (fst (google_run (one_account False) ''ann-token'')) [(''email'', JStr ''ann@x.io''), (''password'', JStr ''secret1'')])"
    by code_simp
  moreover from stored(3) have "u_email a = ''ann@x.io''" by (simp add: a)
  ultimately show ?thesis using run r stored(1) by (auto split: sum.splits)
qed

end
