(* ===== verification/Channels.thy ===== *)
theory Channels
  imports Tenancy Notify Http Mail
begin

text \<open>
  The notification channels, \<open>Backend/src/controllers/channel.controller.js\<close> over
  \<open>Backend/src/models/channel.model.js\<close> and the delivery log
  \<open>Backend/src/models/notificationLog.model.js\<close>: listing, creating, changing, deleting and
  testing a destination.
\<close>

subsection \<open>The schemas\<close>

definition channel_attr :: "channel \<Rightarrow> string \<Rightarrow> js" where
  "channel_attr ch k =
     (if k = ''_id'' then JOid (ch_id ch)
      else if k = ''userId'' then JOid (ch_userId ch)
      else if k = ''type'' then JStr (ch_type ch)
      else if k = ''target'' then JStr (ch_target ch)
      else if k = ''active'' then JBool (ch_active ch)
      else JUndef)"

definition TYPES :: "string list" where
  "TYPES = [''Email'', ''Slack'', ''Webhook'', ''SMS'']"

definition assign_channel :: "caster \<Rightarrow> string \<Rightarrow> js \<Rightarrow> channel \<Rightarrow> channel option" where
  "assign_channel C k v ch =
     (if k = ''type'' then
        Option.bind (as_text (C SString v)) (\<lambda>s. if s \<in> set TYPES then Some (ch\<lparr>ch_type := s\<rparr>) else None)
      else if k = ''target'' then
        Option.bind (as_text (C SString v)) (\<lambda>s. if trim s = '''' then None else Some (ch\<lparr>ch_target := trim s\<rparr>))
      else if k = ''active'' then map_option (\<lambda>b. ch\<lparr>ch_active := b\<rparr>) (as_bool (C SBoolean v))
      else if k = ''userId'' then map_option (\<lambda>i. ch\<lparr>ch_userId := i\<rparr>) (as_oid (C SObjectId v))
      else Some ch)"

definition blank_channel :: "oid \<Rightarrow> channel" where
  "blank_channel i = \<lparr>ch_id = i, ch_userId = '''', ch_type = ''Email'', ch_target = '''', ch_active = True\<rparr>"

definition channel_build :: "caster \<Rightarrow> oid \<Rightarrow> fields \<Rightarrow> db_error + channel" where
  "channel_build C i fs =
     (case apply_fields (assign_channel C) fs (blank_channel i) of
        None \<Rightarrow> Inl (DbFailure ''Channel validation failed'')
      | Some ch \<Rightarrow>
          if ch_userId ch = '''' \<or> ch_target ch = '''' then Inl (DbFailure ''Channel validation failed'') else Inr ch)"

definition channel_set :: "caster \<Rightarrow> fields \<Rightarrow> channel \<Rightarrow> channel" where
  "channel_set C fs ch = (case apply_fields (assign_channel C) fs ch of None \<Rightarrow> ch | Some ch' \<Rightarrow> ch')"

definition channel_validate :: "caster \<Rightarrow> fields \<Rightarrow> db_error option" where
  "channel_validate C fs =
     (if apply_fields (assign_channel C) fs (blank_channel '''') = None then Some (DbFailure ''Validation failed'') else None)"

definition channel_model ::
    "('c, channel) coll \<Rightarrow> (js \<Rightarrow> channel \<Rightarrow> bool) \<Rightarrow> caster \<Rightarrow> oid \<Rightarrow> ('c, channel) mongoose_model" where
  "channel_model ops matches C i =
     \<lparr>collection = ops, matches_filter = matches, default_select = (\<lambda>ch. ch), build = channel_build C i,
      set_fields = channel_set C, validate = channel_validate C, field_value = (\<lambda>k ch. channel_attr ch k)\<rparr>"

subsection \<open>Requests\<close>

text \<open>\<open>/^\S+@\S+\.\S+$/\<close>: no white space, and an at sign with a dot after it, each with something on both sides.\<close>

definition email_shape :: "string \<Rightarrow> bool" where
  "email_shape s \<longleftrightarrow>
     list_all (\<lambda>c. \<not> is_space c) s \<and>
     list_ex (\<lambda>i. s ! i = CHR ''@'' \<and> list_ex (\<lambda>j. s ! j = CHR ''.'') [i + 2..<length s - 1]) [1..<length s]"

definition listChannels :: "bson \<Rightarrow> ('c, channel) dao \<Rightarrow> 'c \<Rightarrow> (channel \<Rightarrow> int) \<Rightarrow> js \<Rightarrow> thrown + channel list response" where
  "listChannels B D c createdAt user_id =
     map_sum dao_thrown (\<lambda>chs. ApiResponse 200 chs ''Channels retrieved successfully'')
       (dao_find B D c user_id [] (no_options\<lparr>o_sort := Some createdAt\<rparr>))"

text \<open>\<open>type || 'Email'\<close>.\<close>

definition type_or_email :: "js \<Rightarrow> js" where
  "type_or_email t = (if js_falsy t then JStr ''Email'' else t)"

definition known_type :: "js \<Rightarrow> bool" where
  "known_type t = (case t of JStr s \<Rightarrow> s \<in> set TYPES | _ \<Rightarrow> False)"

definition createChannel :: "bson \<Rightarrow> ('c, channel) dao \<Rightarrow> 'c \<Rightarrow> js \<Rightarrow> fields \<Rightarrow> 'c \<times> (thrown + channel response)" where
  "createChannel B D c user_id body =
     (let ty = get ''type'' body; target = get ''target'' body; fields =
            [(''type'', type_or_email ty), (''target'', JStr (trim (js_string B target)))]
      in if js_falsy target \<or> trim (js_string B target) = '''' then (c, Inl (ApiError 400 ''Target is required''))
         else if \<not> js_falsy ty \<and> \<not> known_type ty
         then (c, Inl (ApiError 400 ''Type must be one of: Email, Slack, Webhook, SMS''))
         else if type_or_email ty = JStr ''Email'' \<and> \<not> email_shape (js_string B target)
         then (c, Inl (ApiError 400 ''Enter a valid email address''))
         else case dao_findOne B D c user_id fields no_options of
                Inl e \<Rightarrow> (c, Inl (dao_thrown e))
              | Inr (Some _) \<Rightarrow> (c, Inl (ApiError 409 ''That channel already exists''))
              | Inr None \<Rightarrow>
                  (case dao_create B D c user_id fields of
                     (c1, Inl e) \<Rightarrow> (c1, Inl (dao_thrown e))
                   | (c1, Inr ch) \<Rightarrow> (c1, Inr (ApiResponse 201 ch ''Channel created successfully''))))"

definition channel_patch :: "bson \<Rightarrow> fields \<Rightarrow> thrown + fields" where
  "channel_patch B body =
     (let active = (case get ''active'' body of JBool b \<Rightarrow> [(''active'', JBool b)] | _ \<Rightarrow> []);
          target = (if js_falsy (get ''target'' body) then []
                    else [(''target'', JStr (trim (js_string B (get ''target'' body))))])
      in if js_falsy (get ''type'' body) then Inr (active @ target)
         else if \<not> known_type (get ''type'' body) then Inl (ApiError 400 ''Invalid type'')
         else Inr (active @ target @ [(''type'', get ''type'' body)]))"

definition updateChannel ::
    "bson \<Rightarrow> ('c, channel) dao \<Rightarrow> 'c \<Rightarrow> js \<Rightarrow> js \<Rightarrow> fields \<Rightarrow> 'c \<times> (thrown + channel response)" where
  "updateChannel B D c user_id channelId body =
     (case channel_patch B body of
        Inl e \<Rightarrow> (c, Inl e)
      | Inr patch \<Rightarrow>
          (case dao_updateById B D c user_id channelId patch of
             (c1, Inl e) \<Rightarrow> (c1, Inl (dao_thrown e))
           | (c1, Inr None) \<Rightarrow> (c1, Inl (ApiError 404 ''Channel not found''))
           | (c1, Inr (Some ch)) \<Rightarrow> (c1, Inr (ApiResponse 200 ch ''Channel updated successfully''))))"

definition deleteChannel :: "bson \<Rightarrow> ('c, channel) dao \<Rightarrow> 'c \<Rightarrow> js \<Rightarrow> js \<Rightarrow> 'c \<times> (thrown + channel response)" where
  "deleteChannel B D c user_id channelId =
     (case dao_deleteById B D c user_id channelId of
        (c1, Inl e) \<Rightarrow> (c1, Inl (dao_thrown e))
      | (c1, Inr None) \<Rightarrow> (c1, Inl (ApiError 404 ''Channel not found''))
      | (c1, Inr (Some ch)) \<Rightarrow> (c1, Inr (ApiResponse 200 ch ''Channel deleted successfully'')))"

subsection \<open>The test dispatch\<close>

definition test_mail :: "channel \<Rightarrow> email" where
  "test_mail ch =
     \<lparr>to_addr = ch_target ch, subject = ''WatchTower test notification'', message = None,
      html = Some (join_with CHR 0x0A
        [''<p>This is a test notification from WatchTower.</p>'',
         ''               <p>If you received this, your <strong>'' @ ch_type ch @
         ''</strong> channel is configured correctly.</p>''])\<rparr>"

text \<open>What the dispatch came to; \<open>send\<close> is the mailer, \<open>Inl\<close> the message of its error.\<close>

definition test_outcome :: "(email \<Rightarrow> string + string) \<Rightarrow> channel \<Rightarrow> notif_status \<times> string" where
  "test_outcome send ch =
     (if ch_type ch = ''Email'' then
        (case send (test_mail ch) of
           Inr _ \<Rightarrow> (Delivered, ''Test dispatch sent'')
         | Inl msg \<Rightarrow> (Failed, str_or (Some msg) ''Dispatch failed''))
      else (Skipped, ch_type ch @ '' delivery is not configured on this deployment''))"

definition status_text :: "notif_status \<Rightarrow> string" where
  "status_text s = (case s of Delivered \<Rightarrow> ''Delivered'' | Failed \<Rightarrow> ''Failed'' | Skipped \<Rightarrow> ''Skipped'')"

definition test_row :: "channel \<Rightarrow> notif_status \<times> string \<Rightarrow> fields" where
  "test_row ch out =
     [(''event'', JStr ''TEST_DISPATCH''), (''channel'', JStr (ch_type ch)), (''target'', JStr (ch_target ch)),
      (''status'', JStr (status_text (fst out))), (''detail'', JStr (snd out))]"

definition testChannel ::
    "bson \<Rightarrow> (email \<Rightarrow> string + string) \<Rightarrow> ('c, channel) dao \<Rightarrow> 'c \<Rightarrow> ('l, log_row) dao \<Rightarrow> 'l \<Rightarrow> js \<Rightarrow> js \<Rightarrow>
     'l \<times> (thrown + (notif_status \<times> string) response)" where
  "testChannel B send D c L l user_id channelId =
     (case dao_findById B D c user_id channelId no_options of
        Inl e \<Rightarrow> (l, Inl (dao_thrown e))
      | Inr None \<Rightarrow> (l, Inl (ApiError 404 ''Channel not found''))
      | Inr (Some ch) \<Rightarrow>
          (let out = test_outcome send ch
           in case dao_create B L l user_id (test_row ch out) of
                (l1, Inl e) \<Rightarrow> (l1, Inl (dao_thrown e))
              | (l1, Inr _) \<Rightarrow>
                  (l1, if fst out = Failed then Inl (ApiError 502 (snd out)) else Inr (ApiResponse 200 out (snd out)))))"

definition listNotificationLogs ::
    "bson \<Rightarrow> ('l, log_row) dao \<Rightarrow> 'l \<Rightarrow> (log_row \<Rightarrow> int) \<Rightarrow> (log_row \<Rightarrow> log_row) \<Rightarrow> js \<Rightarrow>
     thrown + log_row list response" where
  "listNotificationLogs B L l createdAt populate user_id =
     map_sum dao_thrown (\<lambda>rows. ApiResponse 200 rows ''Notification logs retrieved successfully'')
       (dao_find B L l user_id [] (no_options\<lparr>o_sort := Some (\<lambda>r. - createdAt r), o_limit := Some 50, o_populate := Some populate\<rparr>))"

subsection \<open>What is stored\<close>

definition channel_ok :: "channel \<Rightarrow> bool" where
  "channel_ok ch \<longleftrightarrow> ch_type ch \<in> set TYPES \<and> ch_target ch \<noteq> '''' \<and> ch_userId ch \<noteq> ''''"

lemma assign_channel_ok:
  "assign_channel C k v ch = Some ch' \<Longrightarrow> k \<noteq> ''userId'' \<Longrightarrow> channel_ok ch \<Longrightarrow> channel_ok ch'"
  by (auto simp: assign_channel_def channel_ok_def bind_eq_Some_conv split: if_splits)

lemma assign_channel_type: "assign_channel C k v ch = Some ch' \<Longrightarrow> ch_type ch \<in> set TYPES \<Longrightarrow> ch_type ch' \<in> set TYPES"
  by (auto simp: assign_channel_def bind_eq_Some_conv split: if_splits)

lemma channel_build_ok: "channel_build C i fs = Inr ch \<Longrightarrow> channel_ok ch"
proof -
  assume "channel_build C i fs = Inr ch"
  then have ch: "apply_fields (assign_channel C) fs (blank_channel i) = Some ch" "ch_userId ch \<noteq> ''''" "ch_target ch \<noteq> ''''"
    by (auto simp: channel_build_def split: option.splits if_splits)
  have "ch_type ch \<in> set TYPES"
    by (rule apply_fields_invariant [where I = "\<lambda>ch. ch_type ch \<in> set TYPES", OF _ ch(1)])
      (rule assign_channel_type, assumption+, simp add: blank_channel_def TYPES_def)
  with ch show ?thesis by (simp add: channel_ok_def)
qed

lemma channel_set_ok:
  assumes "''userId'' \<notin> fst ` set fs" and "channel_ok ch"
  shows "channel_ok (channel_set C fs ch)"
proof (cases "apply_fields (assign_channel C) fs ch")
  case (Some ch')
  have "channel_ok ch'"
  proof (rule apply_fields_invariant [where I = channel_ok, OF _ Some assms(2)])
    fix k v d d'
    assume step: "assign_channel C k v d = Some d'" "k \<in> set (map fst fs)" "channel_ok d"
    from step(2) assms(1) have "k \<noteq> ''userId''" by force
    with step show "channel_ok d'" by (simp add: assign_channel_ok)
  qed
  then show ?thesis by (simp add: channel_set_def Some)
qed (simp add: channel_set_def assms)

lemma channel_patch_keys: "channel_patch B body = Inr patch \<Longrightarrow> fst ` set patch \<subseteq> {''active'', ''target'', ''type''}"
  by (auto simp: channel_patch_def Let_def split: if_splits js.splits)

text \<open>
  Creating, changing and deleting channels keeps every stored channel a known type with a
  target and an owner, whatever the bodies say and even when the database fails.
\<close>

theorem channels_well_formed:
  assumes db: "mongo_atomic ops docs clash" and ok: "\<forall>ch \<in># docs c. channel_ok ch"
  shows "(\<forall>ch \<in># docs (fst (createChannel B (direct_dao (channel_model ops mt C i)) c user_id body)). channel_ok ch) \<and>
    (\<forall>ch \<in># docs (fst (updateChannel B (direct_dao (channel_model ops mt C i)) c user_id channelId body)). channel_ok ch) \<and>
    (\<forall>ch \<in># docs (fst (deleteChannel B (direct_dao (channel_model ops mt C i)) c user_id channelId)). channel_ok ch)"
proof -
  let ?D = "direct_dao (channel_model ops mt C i)"
  have create: "\<forall>ch \<in># docs c1. channel_ok ch" if run: "dao_create B ?D c user_id fs = (c1, r)" for fs c1 r
  proof (cases "scopeFor B ?D user_id")
    case scope: (Inr scope)
    show ?thesis
    proof (cases "channel_build C i (spread fs scope)")
      case (Inr d)
      obtain c2 r2 where c2: "create_doc ops c d = (c2, r2)" by (cases "create_doc ops c d")
      with run scope Inr have "c1 = c2" by (simp add: dao_create_def direct_dao_def channel_model_def lift_db_def)
      with mongo_atomic.create_effect [OF db c2] channel_build_ok [OF Inr] ok show ?thesis by auto
    qed (use run scope ok in \<open>simp add: dao_create_def direct_dao_def channel_model_def\<close>)
  qed (use run ok in \<open>simp add: dao_create_def\<close>)
  have update: "\<forall>ch \<in># docs c1. channel_ok ch"
    if run: "dao_updateById B ?D c user_id channelId patch = (c1, r)" and keys: "channel_patch B body = Inr patch" for patch c1 r
  proof -
    have no: "''userId'' \<notin> fst ` set patch" using channel_patch_keys [OF keys] by auto
    show ?thesis
    proof (cases "isValidObjectId B channelId \<and> channel_validate C patch = None \<and> \<not> is_Inl (scoped_filter B ?D user_id [(''_id'', channelId)])")
      case True
      then obtain q where q: "scoped_filter B ?D user_id [(''_id'', channelId)] = Inr q"
        by (cases "scoped_filter B ?D user_id [(''_id'', channelId)]") auto
      obtain c2 r2 where c2: "update_one ops c (mt (JObj q)) (channel_set C patch) = (c2, r2)"
        by (cases "update_one ops c (mt (JObj q)) (channel_set C patch)")
      with run True q have "c1 = c2"
        by (auto simp: dao_updateById_def direct_dao_def channel_model_def lift_db_def seen_through_def split: prod.splits)
      with mongo_atomic.update_effect [OF db c2] channel_set_ok [OF no] ok show ?thesis by auto
    qed (use run ok in \<open>auto simp: dao_updateById_def direct_dao_def channel_model_def split: sum.splits option.splits if_splits\<close>)
  qed
  have delete: "\<forall>ch \<in># docs c1. channel_ok ch" if run: "dao_deleteById B ?D c user_id channelId = (c1, r)" for c1 r
  proof (cases "isValidObjectId B channelId \<and> \<not> is_Inl (scoped_filter B ?D user_id [(''_id'', channelId)])")
    case True
    then obtain q where q: "scoped_filter B ?D user_id [(''_id'', channelId)] = Inr q"
      by (cases "scoped_filter B ?D user_id [(''_id'', channelId)]") auto
    obtain c2 r2 where c2: "delete_one ops c (mt (JObj q)) = (c2, r2)" by (cases "delete_one ops c (mt (JObj q))")
    with run True q have "c1 = c2"
      by (auto simp: dao_deleteById_def direct_dao_def channel_model_def lift_db_def seen_through_def split: prod.splits)
    with mongo_atomic.delete_effect [OF db c2] ok show ?thesis by auto
  qed (use run ok in \<open>auto simp: dao_deleteById_def split: sum.splits if_splits\<close>)
  have "\<forall>ch \<in># docs (fst (createChannel B ?D c user_id body)). channel_ok ch"
    using ok create by (auto simp: createChannel_def Let_def split: sum.split option.split prod.split)
  moreover have "\<forall>ch \<in># docs (fst (updateChannel B ?D c user_id channelId body)). channel_ok ch"
    using ok update by (auto simp: updateChannel_def split: sum.split option.split prod.split)
  moreover have "\<forall>ch \<in># docs (fst (deleteChannel B ?D c user_id channelId)). channel_ok ch"
    using ok delete by (auto simp: deleteChannel_def split: sum.split option.split prod.split)
  ultimately show ?thesis by simp
qed

text \<open>The address check of a new channel, which changing its target does not repeat.\<close>

definition ann_channel :: channel where
  "ann_channel = (blank_channel ''c1'')\<lparr>ch_userId := ''ann'', ch_target := ''ann@x.io''\<rparr>"

definition example_channel_dao :: "(channel list, channel) dao" where
  "example_channel_dao =
     direct_dao (channel_model (list_coll (\<lambda>a b. ch_id a = ch_id b)) (\<lambda>q ch. evalq Some (channel_attr ch) q) plain_cast ''c2'')"

lemma channel_update_skips_address_check:
  "map_sum e_status id (snd (createChannel plain_bson example_channel_dao [ann_channel] (JStr ''ann'')
       [(''target'', JStr ''nowhere'')])) = Inl (Some 400) \<and>
   map ch_target (fst (updateChannel plain_bson example_channel_dao [ann_channel] (JStr ''ann'') (JStr ''c1'')
       [(''target'', JStr ''nowhere'')])) = [''nowhere''] \<and>
   map ch_type (fst (updateChannel plain_bson example_channel_dao [ann_channel] (JStr ''ann'') (JStr ''c1'')
       [(''target'', JStr ''nowhere'')])) = [''Email'']"
  by (intro conjI) code_simp+

end
