(* ===== verification/Operations.thy ===== *)
theory Operations
  imports Scheduler Http Mail
begin

text \<open>
  The process around the program: connecting to the database
  (\<open>Backend/src/config/database.js\<close>), liveness and readiness
  (\<open>controllers/health.controller.js\<close>), the metrics registry and its guard
  (\<open>observability/metrics.js\<close>, \<open>routes/observability.route.js\<close>), the request filters of
  \<open>app.middleware.js\<close>, and the shutdown sequence of \<open>Backend/server.js\<close>.
\<close>

subsection \<open>Connecting\<close>

definition MAX_ATTEMPTS :: nat where
  "MAX_ATTEMPTS = 5"

definition BASE_DELAY_MS :: nat where
  "BASE_DELAY_MS = 500"

text \<open>
  \<open>outcome n\<close> tells whether the attempt numbered \<open>n\<close> connects. The result is the attempt that
  did, or \<open>None\<close> when the process exits with status one, and the delays waited.
\<close>

fun connect_from :: "(nat \<Rightarrow> bool) \<Rightarrow> nat \<Rightarrow> nat \<Rightarrow> nat option \<times> nat list" where
  "connect_from outcome attempt 0 = (None, [])"
| "connect_from outcome attempt (Suc left) =
     (if outcome attempt then (Some attempt, [])
      else if attempt = MAX_ATTEMPTS then (None, [])
      else case connect_from outcome (attempt + 1) left of
             (r, waits) \<Rightarrow> (r, BASE_DELAY_MS * 2 ^ (attempt - 1) # waits))"

definition ConnectDB :: "(nat \<Rightarrow> bool) \<Rightarrow> nat option \<times> nat list" where
  "ConnectDB outcome = connect_from outcome 1 MAX_ATTEMPTS"

subsection \<open>Health\<close>

record mongo_check =
  mc_up :: bool
  mc_detail :: "string option"
  mc_latencyMs :: "int option"

definition ready_states :: "string list" where
  "ready_states = [''disconnected'', ''connected'', ''connecting'', ''disconnecting'']"

text \<open>\<open>ping\<close> is the answer of the server to the admin command, and how long it took.\<close>

definition checkMongo :: "nat \<Rightarrow> (string + unit) \<times> int \<Rightarrow> mongo_check" where
  "checkMongo readyState ping =
     (if readyState \<noteq> 1 then
        \<lparr>mc_up = False,
         mc_detail = Some (''connection is '' @ (if readyState < length ready_states then ready_states ! readyState else ''unknown'')),
         mc_latencyMs = None\<rparr>
      else case ping of
             (Inr _, ms) \<Rightarrow> \<lparr>mc_up = True, mc_detail = None, mc_latencyMs = Some ms\<rparr>
           | (Inl msg, ms) \<Rightarrow> \<lparr>mc_up = False, mc_detail = Some msg, mc_latencyMs = Some ms\<rparr>)"

datatype scheduler_check =
    Disabled
  | Starting
  | Stale int int bool nat
  | Ticking int int bool nat
    \<comment> \<open>the age of the last tick, the limit, leadership and the checks running\<close>

definition seconds_of :: "int \<Rightarrow> int" where
  "seconds_of ms = (ms + 500) div 1000"

definition staleAfterMs :: "sched_config \<Rightarrow> int" where
  "staleAfterMs cfg = max (TICK_MS cfg * 5) 60000"

definition checkScheduler :: "sched_config \<Rightarrow> stats \<times> nat \<Rightarrow> time \<Rightarrow> scheduler_check" where
  "checkScheduler cfg snapshot now =
     (let (st, running_now) = snapshot
      in if \<not> ENABLED cfg then Disabled
         else case lastTickAt st of
                None \<Rightarrow> Starting
              | Some t \<Rightarrow>
                  (let age = now - t; limit = staleAfterMs cfg
                   in if age > limit then Stale (seconds_of age) (seconds_of limit) (st_isLeader st) running_now
                      else Ticking (seconds_of age) (seconds_of limit) (st_isLeader st) running_now))"

record mail_check =
  mk_configured :: bool
  mk_provider :: string
  mk_note :: bool

definition checkMail :: "app_config \<Rightarrow> mail_check" where
  "checkMail cfg =
     (if isBrevoConfigured cfg then \<lparr>mk_configured = True, mk_provider = ''brevo'', mk_note = False\<rparr>
      else if SMTP_HOST cfg = '''' \<or> SMTP_USER cfg = '''' \<or> SMTP_PASS cfg = ''''
      then \<lparr>mk_configured = False, mk_provider = ''smtp'', mk_note = False\<rparr>
      else \<lparr>mk_configured = True, mk_provider = ''smtp'', mk_note = True\<rparr>)"

record readiness =
  rd_ready :: bool
  rd_mongo :: mongo_check
  rd_scheduler :: scheduler_check
  rd_mail :: mail_check

definition HealthController :: "string response" where
  "HealthController = ApiResponse 200 ''ok'' ''All Good!''"

text \<open>The reply, and the value of the \<open>mongoUp\<close> gauge.\<close>

definition ReadinessController ::
    "app_config \<Rightarrow> sched_config \<Rightarrow> nat \<Rightarrow> (string + unit) \<times> int \<Rightarrow> stats \<times> nat \<Rightarrow> time \<Rightarrow> readiness response \<times> rat" where
  "ReadinessController app cfg readyState ping snapshot now =
     (let m = checkMongo readyState ping;
          s = checkScheduler cfg snapshot now;
          ready = (mc_up m \<and> (case s of Stale _ _ _ _ \<Rightarrow> False | _ \<Rightarrow> True))
      in (ApiResponse (if ready then 200 else 503)
            \<lparr>rd_ready = ready, rd_mongo = m, rd_scheduler = s, rd_mail = checkMail app\<rparr>
            (if ready then ''Ready to serve traffic'' else ''Not ready''),
          if mc_up m then 1 else 0))"

subsection \<open>Metrics\<close>

text \<open>A series is a metric with its label values; a series never touched is absent.\<close>

type_synonym series = "string \<times> (string \<times> string) list"

record metrics =
  samples :: "series \<Rightarrow> rat option"

definition inc :: "series \<Rightarrow> rat \<Rightarrow> metrics \<Rightarrow> metrics" where
  "inc s v m = m\<lparr>samples := (samples m)(s \<mapsto> nullish (samples m s) 0 + v)\<rparr>"

definition set_gauge :: "string \<Rightarrow> rat \<Rightarrow> metrics \<Rightarrow> metrics" where
  "set_gauge g v m = m\<lparr>samples := (samples m)((g, []) \<mapsto> v)\<rparr>"

definition seeded_series :: "series list" where
  "seeded_series =
     concat (map (\<lambda>s. [(''checksExecutedTotal'', [(''status'', s)]), (''checkDurationSeconds'', [(''status'', s)])]) [''UP'', ''DOWN'']) @
     map (\<lambda>r. (''checksSkippedTotal'', [(''reason'', r)])) [''overlap'', ''breaker_open''] @
     concat (map (\<lambda>ch. (''notificationFailuresTotal'', [(''channel'', ch)]) #
         map (\<lambda>st. (''notificationsTotal'', [(''channel'', ch), (''status'', st)])) [''Delivered'', ''Failed'', ''Skipped''])
       [''Email'', ''Webhook'', ''Slack''])"

definition initialiseMetrics :: "metrics \<Rightarrow> metrics" where
  "initialiseMetrics m = foldl (\<lambda>acc s. inc s 0 acc) m seeded_series"

definition syncSchedulerGauges :: "(stats \<times> nat) option \<Rightarrow> metrics \<Rightarrow> metrics" where
  "syncSchedulerGauges snapshot m =
     (case snapshot of
        None \<Rightarrow> m
      | Some (st, running_now) \<Rightarrow>
          let m1 = set_gauge ''schedulerIsLeader'' (if st_isLeader st then 1 else 0) m;
              m2 = set_gauge ''schedulerInFlightChecks'' (of_nat running_now) m1;
              m3 = set_gauge ''schedulerLagSeconds'' (of_int (maxLagMs st) / 1000) m2
          in case lastTickAt st of
               None \<Rightarrow> m3
             | Some t \<Rightarrow> set_gauge ''schedulerLastTickTimestamp'' (of_int t / 1000) m3)"

text \<open>\<open>(authorization || '').replace(/^Bearer\s+/i, '')\<close>.\<close>

definition strip_bearer :: "string \<Rightarrow> string" where
  "strip_bearer h =
     (let rest = drop 6 h
      in if to_lower (take 6 h) = ''bearer'' \<and> rest \<noteq> '''' \<and> is_space (hd rest) then dropWhile is_space rest else h)"

definition requireMetricsToken :: "string option \<Rightarrow> string option \<Rightarrow> bool" where
  "requireMetricsToken expected authorization =
     (\<not> truthy_str expected \<or> Some (strip_bearer (nullish authorization [])) = expected)"

subsection \<open>Request filters\<close>

definition unwantedPaths :: "string list" where
  "unwantedPaths = [''.env'', ''.git'', ''wp-admin'', ''phpmyadmin'']"

definition blockUnwantedRequests :: "string \<Rightarrow> bool" where
  "blockUnwantedRequests url = list_ex (\<lambda>p. str_includes p url) unwantedPaths"

text \<open>The limiters: a window, a budget, and whether successful requests are free.\<close>

record limiter =
  windowMs :: nat
  limit :: nat
  skipSuccessful :: bool

definition apiLimiter :: limiter where
  "apiLimiter = \<lparr>windowMs = 15 * 60 * 1000, limit = 300, skipSuccessful = False\<rparr>"

definition authLimiter :: limiter where
  "authLimiter = \<lparr>windowMs = 15 * 60 * 1000, limit = 10, skipSuccessful = True\<rparr>"

definition passwordResetLimiter :: limiter where
  "passwordResetLimiter = \<lparr>windowMs = 60 * 60 * 1000, limit = 5, skipSuccessful = False\<rparr>"

text \<open>A mount path covers itself and everything under it.\<close>

definition under :: "string \<Rightarrow> string \<Rightarrow> bool" where
  "under mount p \<longleftrightarrow> p = mount \<or> starts_with (mount @ ''/'') p"

definition limiter_mounts :: "(string \<times> limiter) list" where
  "limiter_mounts =
     [(''/api/auth/login'', authLimiter), (''/api/auth/register'', authLimiter), (''/api/auth/google'', authLimiter),
      (''/api/auth/verify'', authLimiter), (''/api/auth/change-password'', authLimiter),
      (''/api/auth/forgot-password'', passwordResetLimiter), (''/api/auth/reset-password'', passwordResetLimiter),
      (''/api'', apiLimiter)]"

text \<open>\<open>apiLimiter\<close> skips the public status pages; its own mount path is cut off first.\<close>

definition limiters_of :: "string \<Rightarrow> limiter list" where
  "limiters_of p =
     map snd (filter (\<lambda>(mount, l). under mount p \<and> \<not> (mount = ''/api'' \<and> starts_with ''/status/'' (drop 4 p))) limiter_mounts)"

text \<open>How long a static file may be cached.\<close>

definition ends_with :: "string \<Rightarrow> string \<Rightarrow> bool" where
  "ends_with e s = starts_with (rev e) (rev s)"

definition cache_control :: "string \<Rightarrow> string" where
  "cache_control file =
     (if ends_with ''index.html'' (to_lower file) then ''no-cache, must-revalidate''
      else if str_includes ''/assets/'' (map (\<lambda>c. if c = CHR 0x5C then CHR ''/'' else c) file)
      then ''public, max-age=31536000, immutable''
      else ''public, max-age=3600'')"

definition self_source :: string where
  "self_source = CHR 0x27 # ''self'' @ [CHR 0x27]"

definition csp_directives :: "app_config \<Rightarrow> (string \<times> string list) list" where
  "csp_directives cfg =
     (if GOOGLE_CLIENT_ID cfg = '''' then []
      else [(''scriptSrc'', [self_source, ''https://accounts.google.com'', ''https://apis.google.com'']),
            (''frameSrc'', [self_source, ''https://accounts.google.com'']),
            (''connectSrc'', [self_source, ''https://accounts.google.com'']),
            (''imgSrc'', [self_source, ''data:'', ''https://lh3.googleusercontent.com''])])"

subsection \<open>Shutdown\<close>

datatype shutdown_step = CloseServer | StopScheduler | CloseMail | ExitWith int

definition FAILSAFE_MS :: int where
  "FAILSAFE_MS = 30000"

text \<open>
  One signal. \<open>closing\<close> is how long the HTTP server takes to close, \<open>None\<close> when a connection
  never ends; \<open>stopping\<close> how long the scheduler takes to stop, or that it throws.
\<close>

definition shutdown :: "bool \<Rightarrow> int option \<Rightarrow> int option \<Rightarrow> bool \<times> shutdown_step list" where
  "shutdown shuttingDown closing stopping =
     (if shuttingDown then (True, [])
      else (True, CloseServer #
        (case closing of
           None \<Rightarrow> [ExitWith 1]
         | Some t \<Rightarrow>
             if t \<ge> FAILSAFE_MS then [ExitWith 1]
             else StopScheduler #
               (case stopping of
                  None \<Rightarrow> [ExitWith 1]
                | Some d \<Rightarrow> if t + d \<ge> FAILSAFE_MS then [ExitWith 1] else [CloseMail, ExitWith 0]))))"

subsection \<open>What an operator can rely on\<close>

text \<open>
  Readiness. An instance answers 200 exactly when the database answers a ping and a scheduler that is
  meant to run has not been silent for more than five ticks and a minute; before the first
  tick, on an instance without scheduler, and whatever the state of the mail transport, it is ready.
\<close>

theorem readiness_decision:
  "statusCode (fst (ReadinessController app cfg readyState ping (st, n) now)) =
     (if readyState = 1 \<and> \<not> is_Inl (fst ping) \<and>
         \<not> (ENABLED cfg \<and> (case lastTickAt st of None \<Rightarrow> False | Some t \<Rightarrow> max (5 * TICK_MS cfg) 60000 < now - t))
      then 200 else 503) \<and>
   rd_ready (data (fst (ReadinessController app cfg readyState ping (st, n) now))) =
     (statusCode (fst (ReadinessController app cfg readyState ping (st, n) now)) = 200) \<and>
   snd (ReadinessController app cfg readyState ping (st, n) now) =
     (if readyState = 1 \<and> \<not> is_Inl (fst ping) then 1 else 0)"
  by (cases ping; cases "fst ping")
    (auto simp: ReadinessController_def checkMongo_def checkScheduler_def staleAfterMs_def Let_def split: option.split)


text \<open>Seeding adds the known series at zero and changes no value.\<close>

lemma foldl_inc_zero:
  "samples (foldl (\<lambda>acc s. inc s 0 acc) m ss) s =
     (if s \<in> set ss then Some (nullish (samples m s) 0) else samples m s)"
  by (induction ss arbitrary: m) (auto simp: inc_def nullish_def split: option.split)

lemma initialiseMetrics_seeds:
  "samples (initialiseMetrics m) s = (if s \<in> set seeded_series then Some (nullish (samples m s) 0) else samples m s)"
  by (simp add: initialiseMetrics_def foldl_inc_zero)

text \<open>The database: the first attempt of five that succeeds, or none; at most seven and a half seconds of waiting.\<close>

lemma ConnectDB_unrolled: "ConnectDB outcome = connect_from outcome 1 (Suc (Suc (Suc (Suc (Suc 0)))))"
  by (simp add: ConnectDB_def MAX_ATTEMPTS_def eval_nat_numeral)

lemma ConnectDB_bounded:
  "fst (ConnectDB outcome) = find outcome [1, 2, 3, 4, 5] \<and> sum_list (snd (ConnectDB outcome)) \<le> 7500"
  by (simp add: ConnectDB_unrolled MAX_ATTEMPTS_def BASE_DELAY_MS_def del: One_nat_def split: prod.split)

text \<open>
  Every credential endpoint is behind a limiter of its own and behind the general one; a public status page
  behind neither of these.
\<close>

lemma limiters_of_endpoints:
  "list_all (\<lambda>p. limiters_of p = [authLimiter, apiLimiter])
     [''/api/auth/login'', ''/api/auth/register'', ''/api/auth/google'', ''/api/auth/verify/42'', ''/api/auth/change-password''] \<and>
   list_all (\<lambda>p. limiters_of p = [passwordResetLimiter, apiLimiter])
     [''/api/auth/forgot-password'', ''/api/auth/reset-password/t''] \<and>
   limiters_of ''/api/status/acme'' = [] \<and> limiters_of ''/api/status-pages'' = [apiLimiter]"
  by (simp add: limiters_of_def limiter_mounts_def under_def starts_with_def)

end
