(* ===== verification/Uri.thy ===== *)
theory Uri
  imports Prelude
begin

text \<open>
  Path segments on the wire: the language's \<open>encodeURIComponent\<close>, which the client applies
  to the two identifiers it does not control, and \<open>decodeURIComponent\<close>, which the router
  applies to every parameter of a path. Text is UTF-8 bytes, so the codec is bytewise; the
  decoder of the language also refuses bytes that are not UTF-8, which no encoded text has.
\<close>

subsection \<open>The codec\<close>

definition unreserved :: "char \<Rightarrow> bool" where
  "unreserved c =
     (let n = of_char c :: nat
      in 48 \<le> n \<and> n \<le> 57 \<or> 65 \<le> n \<and> n \<le> 90 \<or> 97 \<le> n \<and> n \<le> 122 \<or>
         n \<in> {0x2D, 0x5F, 0x2E, 0x21, 0x7E, 0x2A, 0x27, 0x28, 0x29})"

definition hex_char :: "nat \<Rightarrow> char" where
  "hex_char n = (if n < 10 then char_of (48 + n) else char_of (55 + n))"

definition hex_value :: "char \<Rightarrow> nat option" where
  "hex_value c =
     (let n = of_char c :: nat
      in if 48 \<le> n \<and> n \<le> 57 then Some (n - 48)
         else if 65 \<le> n \<and> n \<le> 70 then Some (n - 55)
         else if 97 \<le> n \<and> n \<le> 102 then Some (n - 87)
         else None)"

definition encode_char :: "char \<Rightarrow> string" where
  "encode_char c =
     (if unreserved c then [c]
      else let n = of_char c :: nat in [CHR ''%'', hex_char (n div 16), hex_char (n mod 16)])"

definition encodeURIComponent :: "string \<Rightarrow> string" where
  "encodeURIComponent s = concat (map encode_char s)"

fun decodeURIComponent :: "string \<Rightarrow> string option" where
  "decodeURIComponent [] = Some []"
| "decodeURIComponent (c # s) =
     (if c \<noteq> CHR ''%'' then map_option ((#) c) (decodeURIComponent s)
      else case s of
             a # b # rest \<Rightarrow>
               (case (hex_value a, hex_value b) of
                  (Some x, Some y) \<Rightarrow> map_option ((#) (char_of (16 * x + y))) (decodeURIComponent rest)
                | _ \<Rightarrow> None)
           | _ \<Rightarrow> None)"

lemma encodeURIComponent_Nil [simp]: "encodeURIComponent [] = []"
  and encodeURIComponent_Cons: "encodeURIComponent (c # s) = encode_char c @ encodeURIComponent s"
  by (simp_all add: encodeURIComponent_def)

lemma hex_value_digit [simp]:
  assumes "n < 16" shows "hex_value (hex_char n) = Some n"
proof (cases "n < 10")
  case True
  then show ?thesis by (simp add: hex_value_def hex_char_def)
next
  case False
  with assms show ?thesis by (simp add: hex_value_def hex_char_def)
qed

lemma of_char_small: "(of_char c :: nat) div 16 < 16"
proof -
  have "(of_char c :: nat) < 256" by simp
  then show ?thesis by (simp only: less_mult_imp_div_less)
qed

lemma decode_encode_char: "decodeURIComponent (encode_char c @ s) = map_option ((#) c) (decodeURIComponent s)"
proof (cases "unreserved c")
  case True
  then have "c \<noteq> CHR ''%''" by (auto simp: unreserved_def)
  with True show ?thesis by (simp add: encode_char_def)
next
  case False
  let ?n = "of_char c :: nat"
  have n: "?n div 16 < 16" "?n mod 16 < 16" using of_char_small [of c] by auto
  have "16 * (?n div 16) + ?n mod 16 = ?n" by simp
  with False n show ?thesis by (simp add: encode_char_def Let_def)
qed

text \<open>What the client writes into a path, the router reads back.\<close>

lemma decode_encode [simp]: "decodeURIComponent (encodeURIComponent s) = Some s"
  by (induction s) (simp_all add: encodeURIComponent_Cons decode_encode_char)

lemma encode_inj [simp]: "encodeURIComponent a = encodeURIComponent b \<longleftrightarrow> a = b"
  by (metis decode_encode option.inject)

lemma hex_digit_unreserved: "n < 16 \<Longrightarrow> unreserved (hex_char n)"
  by (auto simp: hex_char_def unreserved_def Let_def)

text \<open>An encoded text is one segment: no separator, query or fragment appears in it.\<close>

lemma encode_chars: "c \<in> set (encodeURIComponent s) \<Longrightarrow> unreserved c \<or> c = CHR ''%''"
proof (induction s)
  case (Cons d s)
  note of_char_small [of d]
  with Cons show ?case
    by (auto simp: encodeURIComponent_Cons encode_char_def Let_def hex_digit_unreserved split: if_splits)
qed simp

lemma encode_no_slash [simp]: "CHR ''/'' \<notin> set (encodeURIComponent s)"
  using encode_chars [of "CHR ''/''" s] by (auto simp: unreserved_def)

lemma encode_empty [simp]: "encodeURIComponent s = [] \<longleftrightarrow> s = []"
  by (cases s) (simp_all add: encodeURIComponent_Cons encode_char_def Let_def)

lemma encode_unreserved: "list_all unreserved s \<Longrightarrow> encodeURIComponent s = s"
  by (induction s) (simp_all add: encodeURIComponent_Cons encode_char_def)

end
