(* ===== verification/Client_Api.thy ===== *)
theory Client_Api
  imports Dao Uri
begin

text \<open>
  The client's requests: its configuration \<open>Frontend/src/config/env.js\<close>, the one function
  every request goes through, \<open>Frontend/src/lib/api/apiRequest.js\<close> over
  \<open>lib/api/axios.js\<close>, and the services of \<open>features/*/services\<close>. A request is what
  reaches axios: the method, the path, the body (or that none is passed), the query object
  and the time limit. Sending it, the base URL and the cookie are axios's.
\<close>

subsection \<open>Configuration\<close>

definition fromEnv :: "js \<Rightarrow> string \<Rightarrow> string" where
  "fromEnv v fallback =
     (let trimmed = (case v of JStr s \<Rightarrow> trim s | _ \<Rightarrow> '''')
      in if length trimmed > 0 then trimmed else fallback)"

record client_env =
  BACKEND_URL :: string
  REGISTER_API :: string
  LOGIN_API :: string
  LOGOUT_API :: string
  GET_USER_API :: string
  FORGOT_PASSWORD_API :: string
  CHANGE_PASSWORD_API :: string
  RESET_PASSWORD_API :: string
  GOOGLE_AUTH_API :: string
  CLIENT_GOOGLE_ID :: string
  CREATE_MONITORING_API :: string
  INCIDENTS_API :: string
  LOGS_API :: string
  GET_LOGS_API :: string
  METRICS_API :: string
  CHANNELS_API :: string
  HEALTH_API :: string

text \<open>The argument is \<open>import.meta.env\<close>, what the bundle was built with.\<close>

definition client_env_of :: "(string \<Rightarrow> js) \<Rightarrow> client_env" where
  "client_env_of vars =
     \<lparr>BACKEND_URL = fromEnv (vars ''VITE_BACKEND_URL'') '''',
      REGISTER_API = fromEnv (vars ''VITE_REGISTER_API'') ''/api/auth/register'',
      LOGIN_API = fromEnv (vars ''VITE_LOGIN_API'') ''/api/auth/login'',
      LOGOUT_API = fromEnv (vars ''VITE_LOGOUT_API'') ''/api/auth/logout'',
      GET_USER_API = fromEnv (vars ''VITE_GET_USER_API'') ''/api/auth/profile'',
      FORGOT_PASSWORD_API = fromEnv (vars ''VITE_FORGOT_PASSWORD_API'') ''/api/auth/forgot-password'',
      CHANGE_PASSWORD_API = fromEnv (vars ''VITE_CHANGE_PASSWORD_API'') ''/api/auth/change-password'',
      RESET_PASSWORD_API = fromEnv (vars ''VITE_RESET_PASSWORD_API'') ''/api/auth/reset-password'',
      GOOGLE_AUTH_API = fromEnv (vars ''VITE_GOOGLE_AUTH_API'') ''/api/auth/google'',
      CLIENT_GOOGLE_ID = fromEnv (vars ''VITE_GOOGLE_CLIENT_ID'') '''',
      CREATE_MONITORING_API = fromEnv (vars ''VITE_CREATE_MONITORING_API'') ''/api/monitor'',
      INCIDENTS_API = fromEnv (vars ''VITE_INCIDENTS_API'') ''/api/incidents'',
      LOGS_API = fromEnv (vars ''VITE_GET_LOGS_API'') ''/api/logs'',
      GET_LOGS_API = fromEnv (vars ''VITE_GET_LOGS_API'') ''/api/logs'',
      METRICS_API = fromEnv (vars ''VITE_METRICS_API'') ''/api/metrics'',
      CHANNELS_API = fromEnv (vars ''VITE_CHANNELS_API'') ''/api/channels'',
      HEALTH_API = fromEnv (vars ''VITE_HEALTH_API'') ''/api/health''\<rparr>"

lemma fromEnv_default [simp]: "fromEnv JUndef d = d"
  by (simp add: fromEnv_def)

lemma fromEnv_nonempty: "d \<noteq> [] \<Longrightarrow> fromEnv v d \<noteq> []"
  by (simp add: fromEnv_def Let_def)

subsection \<open>One function for every request\<close>

record request_config =
  rq_method :: "string option"
  rq_url :: "string option"
  rq_data :: js
  rq_params :: js
  rq_timeout :: "int option"

text \<open>\<open>call_body = None\<close>: the shorthand of the method takes no body at all.\<close>

record http_call =
  verb :: string
  address :: string
  call_body :: "js option"
  query :: js
  time_limit :: int

definition BODYLESS_METHODS :: "string list" where
  "BODYLESS_METHODS = [''get'', ''delete'', ''head'', ''options'']"

text \<open>The shorthands axios documents; another name is not a function of the instance.\<close>

definition axios_verbs :: "string list" where
  "axios_verbs = BODYLESS_METHODS @ [''post'', ''put'', ''patch'']"

definition API_timeout :: int where
  "API_timeout = 10000"

definition apiRequest :: "request_config \<Rightarrow> string + http_call" where
  "apiRequest cfg =
     (if \<not> truthy_str (rq_url cfg) \<or> \<not> truthy_str (rq_method cfg)
      then Inl ''API Request Error: URL and method are required''
      else
        let v = to_lower (the (rq_method cfg)) in
        if v \<notin> set axios_verbs then Inl ''API[verb] is not a function''
        else Inr \<lparr>verb = v, address = the (rq_url cfg),
                  call_body =
                    (if v \<in> set BODYLESS_METHODS then None
                     else Some (if rq_data cfg \<in> {js.JNull, JUndef} then JUndef else rq_data cfg)),
                  query = (if js_falsy (rq_params cfg) then JUndef else rq_params cfg),
                  time_limit = num_or (rq_timeout cfg) API_timeout\<rparr>)"

text \<open>The two ways to call it: \<open>{ method, url, data, timeout }\<close>, and \<open>(method, url, data, params)\<close>
  whose absent arguments are \<open>null\<close>.\<close>

definition request_of :: "string \<Rightarrow> string \<Rightarrow> js \<Rightarrow> int option \<Rightarrow> string + http_call" where
  "request_of m u d t =
     apiRequest \<lparr>rq_method = Some m, rq_url = Some u, rq_data = d, rq_params = JUndef, rq_timeout = t\<rparr>"

definition request_args :: "string \<Rightarrow> string \<Rightarrow> js \<Rightarrow> js \<Rightarrow> string + http_call" where
  "request_args m u d p =
     apiRequest \<lparr>rq_method = Some m, rq_url = Some u, rq_data = d, rq_params = p, rq_timeout = None\<rparr>"

text \<open>
  What reaches axios: a method without a body never carries one and keeps its query; a
  method with one carries the data given and never the JSON text \<open>null\<close>, which the server's
  body parser refuses; the time limit is the call's own, or ten seconds.
\<close>

theorem apiRequest_dispatch:
  assumes "apiRequest cfg = Inr call"
  shows "verb call = to_lower (the (rq_method cfg)) \<and> address call = the (rq_url cfg) \<and>
    (call_body call = None \<longleftrightarrow> verb call \<in> {''get'', ''delete'', ''head'', ''options''}) \<and>
    call_body call \<noteq> Some js.JNull \<and>
    (\<not> js_falsy (rq_params cfg) \<longrightarrow> query call = rq_params cfg) \<and>
    (\<forall>b. call_body call = Some b \<and> rq_data cfg \<notin> {js.JNull, JUndef} \<longrightarrow> b = rq_data cfg) \<and>
    time_limit call = num_or (rq_timeout cfg) 10000"
  using assms
  by (auto simp: apiRequest_def Let_def BODYLESS_METHODS_def API_timeout_def split: if_splits)

lemma lower_post: "to_lower ''POST'' = ''post''"
  by code_simp

theorem apiRequest_dispatch_witness:
  "\<exists>call. apiRequest \<lparr>rq_method = Some ''POST'', rq_url = Some ''/api/x'', rq_data = js.JNull, rq_params = JUndef,
     rq_timeout = None\<rparr> = Inr call \<and> call_body call \<noteq> Some js.JNull \<and> time_limit call = 10000"
proof -
  have "apiRequest \<lparr>rq_method = Some ''POST'', rq_url = Some ''/api/x'', rq_data = js.JNull, rq_params = JUndef,
      rq_timeout = None\<rparr> =
    Inr \<lparr>verb = ''post'', address = ''/api/x'', call_body = Some JUndef, query = JUndef, time_limit = 10000\<rparr>"
    by (simp add: apiRequest_def lower_post axios_verbs_def BODYLESS_METHODS_def API_timeout_def js_falsy_def)
  from apiRequest_dispatch [OF this] this show ?thesis by auto
qed

subsection \<open>Services\<close>

text \<open>\<open>features/auth/services/auth.api.js\<close> and the verification of \<open>asyncThunk.api.js\<close>.\<close>

definition api_register :: "client_env \<Rightarrow> js \<Rightarrow> string + http_call" where
  "api_register E userData = request_of ''post'' (REGISTER_API E) userData None"

definition api_login :: "client_env \<Rightarrow> js \<Rightarrow> string + http_call" where
  "api_login E userData = request_of ''post'' (LOGIN_API E) userData None"

definition api_profile :: "client_env \<Rightarrow> string + http_call" where
  "api_profile E = request_of ''get'' (GET_USER_API E) JUndef None"

definition api_forgotPassword :: "client_env \<Rightarrow> js \<Rightarrow> string + http_call" where
  "api_forgotPassword E email =
     request_of ''post'' (FORGOT_PASSWORD_API E) (JObj [(''email'', email)]) (Some 30000)"

definition api_resetPassword :: "client_env \<Rightarrow> string \<Rightarrow> js \<Rightarrow> string + http_call" where
  "api_resetPassword E token newPassword =
     request_of ''post'' (RESET_PASSWORD_API E @ ''/'' @ encodeURIComponent token)
       (JObj [(''newPassword'', newPassword)]) None"

definition api_googleSignIn :: "client_env \<Rightarrow> js \<Rightarrow> string + http_call" where
  "api_googleSignIn E credential =
     request_of ''post'' (GOOGLE_AUTH_API E) (JObj [(''credential'', credential)]) None"

definition api_changePassword :: "client_env \<Rightarrow> js \<Rightarrow> string + http_call" where
  "api_changePassword E passwordData = request_of ''post'' (CHANGE_PASSWORD_API E) passwordData None"

definition api_logout :: "client_env \<Rightarrow> string + http_call" where
  "api_logout E = request_of ''post'' (LOGOUT_API E) JUndef None"

definition api_updateProfile :: "client_env \<Rightarrow> js \<Rightarrow> string + http_call" where
  "api_updateProfile E changes = request_of ''patch'' (GET_USER_API E) changes None"

text \<open>The thunk calls \<open>API.post\<close> itself.\<close>

definition api_verifyOtp :: "string \<Rightarrow> js \<Rightarrow> http_call" where
  "api_verifyOtp user code =
     \<lparr>verb = ''post'', address = ''/api/auth/verify/'' @ user, call_body = Some (JObj [(''otp'', code)]),
      query = JUndef, time_limit = API_timeout\<rparr>"

text \<open>\<open>monitor.api.js\<close>, \<open>logs.api.js\<close>, \<open>incident.api.js\<close> and \<open>metrics.api.js\<close>.\<close>

definition api_createMonitoring :: "client_env \<Rightarrow> js \<Rightarrow> string + http_call" where
  "api_createMonitoring E monitorData = request_args ''post'' (CREATE_MONITORING_API E) monitorData js.JNull"

definition api_getMonitors :: "client_env \<Rightarrow> string + http_call" where
  "api_getMonitors E = request_args ''get'' (CREATE_MONITORING_API E) js.JNull js.JNull"

definition api_deleteMonitor :: "client_env \<Rightarrow> string \<Rightarrow> string + http_call" where
  "api_deleteMonitor E i = request_args ''delete'' (CREATE_MONITORING_API E @ ''/'' @ i) js.JNull js.JNull"

definition api_getAllLogs :: "client_env \<Rightarrow> string + http_call" where
  "api_getAllLogs E = request_of ''get'' (LOGS_API E) JUndef None"

definition api_getLogsByMonitorId :: "client_env \<Rightarrow> string \<Rightarrow> string + http_call" where
  "api_getLogsByMonitorId E i = request_of ''get'' (LOGS_API E @ ''/'' @ i) JUndef None"

definition api_getAllIncidents :: "client_env \<Rightarrow> string + http_call" where
  "api_getAllIncidents E = request_of ''get'' (INCIDENTS_API E) JUndef None"

definition api_getIncidentsByMonitorId :: "client_env \<Rightarrow> string \<Rightarrow> string + http_call" where
  "api_getIncidentsByMonitorId E i = request_of ''get'' (INCIDENTS_API E @ ''/'' @ i) JUndef None"

definition api_getIncidentById :: "client_env \<Rightarrow> string \<Rightarrow> string + http_call" where
  "api_getIncidentById E i = request_of ''get'' (INCIDENTS_API E @ ''/detail/'' @ i) JUndef None"

definition api_getUptimeMetrics :: "client_env \<Rightarrow> string \<Rightarrow> string + http_call" where
  "api_getUptimeMetrics E i = request_of ''get'' (METRICS_API E @ ''/uptime/'' @ i) JUndef None"

definition api_getLatencyMetrics :: "client_env \<Rightarrow> string \<Rightarrow> string + http_call" where
  "api_getLatencyMetrics E i = request_of ''get'' (METRICS_API E @ ''/latency/'' @ i) JUndef None"

definition api_getStatusTimeline :: "client_env \<Rightarrow> string \<Rightarrow> string + http_call" where
  "api_getStatusTimeline E i = request_of ''get'' (METRICS_API E @ ''/status-timeline/'' @ i) JUndef None"

text \<open>\<open>channel.api.js\<close> and \<open>statusPage.api.js\<close>: their base paths are fixed.\<close>

definition CHANNEL_BASE :: string where
  "CHANNEL_BASE = ''/api/channels''"

definition STATUS_PAGE_BASE :: string where
  "STATUS_PAGE_BASE = ''/api/status-pages''"

definition api_getChannels :: "string + http_call" where
  "api_getChannels = request_of ''get'' CHANNEL_BASE JUndef None"

definition api_createChannel :: "js \<Rightarrow> string + http_call" where
  "api_createChannel d = request_of ''post'' CHANNEL_BASE d None"

definition api_updateChannel :: "string \<Rightarrow> js \<Rightarrow> string + http_call" where
  "api_updateChannel i d = request_of ''patch'' (CHANNEL_BASE @ ''/'' @ i) d None"

definition api_deleteChannel :: "string \<Rightarrow> string + http_call" where
  "api_deleteChannel i = request_of ''delete'' (CHANNEL_BASE @ ''/'' @ i) JUndef None"

definition api_testChannel :: "string \<Rightarrow> string + http_call" where
  "api_testChannel i = request_of ''post'' (CHANNEL_BASE @ ''/'' @ i @ ''/test'') JUndef (Some 30000)"

definition api_getNotificationLogs :: "string + http_call" where
  "api_getNotificationLogs = request_of ''get'' (CHANNEL_BASE @ ''/logs'') JUndef None"

definition api_getStatusPages :: "string + http_call" where
  "api_getStatusPages = request_of ''get'' STATUS_PAGE_BASE JUndef None"

definition api_createStatusPage :: "js \<Rightarrow> string + http_call" where
  "api_createStatusPage d = request_of ''post'' STATUS_PAGE_BASE d None"

definition api_updateStatusPage :: "string \<Rightarrow> js \<Rightarrow> string + http_call" where
  "api_updateStatusPage i d = request_of ''patch'' (STATUS_PAGE_BASE @ ''/'' @ i) d None"

definition api_deleteStatusPage :: "string \<Rightarrow> string + http_call" where
  "api_deleteStatusPage i = request_of ''delete'' (STATUS_PAGE_BASE @ ''/'' @ i) JUndef None"

definition api_getPublicStatusPage :: "string \<Rightarrow> string + http_call" where
  "api_getPublicStatusPage slug = request_of ''get'' (''/api/status/'' @ encodeURIComponent slug) JUndef None"

lemmas service_defs = api_register_def api_login_def api_profile_def api_forgotPassword_def api_resetPassword_def
  api_googleSignIn_def api_changePassword_def api_logout_def api_updateProfile_def api_createMonitoring_def
  api_getMonitors_def api_deleteMonitor_def api_getAllLogs_def api_getLogsByMonitorId_def api_getAllIncidents_def
  api_getIncidentsByMonitorId_def api_getIncidentById_def api_getUptimeMetrics_def api_getLatencyMetrics_def
  api_getStatusTimeline_def api_getChannels_def api_createChannel_def api_updateChannel_def api_deleteChannel_def
  api_testChannel_def api_getNotificationLogs_def api_getStatusPages_def api_createStatusPage_def
  api_updateStatusPage_def api_deleteStatusPage_def api_getPublicStatusPage_def CHANNEL_BASE_def STATUS_PAGE_BASE_def

text \<open>Every service names a known method in lower case, so only an empty path could stop it.\<close>

lemma known_verbs:
  "to_lower ''get'' = ''get''" "to_lower ''post'' = ''post''" "to_lower ''patch'' = ''patch''"
  "to_lower ''delete'' = ''delete''"
  by code_simp+

lemma request_of_sends:
  assumes "u \<noteq> []" and "m \<in> {''get'', ''post'', ''patch'', ''delete''}"
  shows "\<exists>call. request_of m u d t = Inr call \<and> verb call = m \<and> address call = u"
  using assms
  by (auto simp: request_of_def apiRequest_def Let_def axios_verbs_def BODYLESS_METHODS_def known_verbs)

lemma request_args_sends:
  assumes "u \<noteq> []" and "m \<in> {''get'', ''post'', ''patch'', ''delete''}"
  shows "\<exists>call. request_args m u d p = Inr call \<and> verb call = m \<and> address call = u"
  using assms
  by (auto simp: request_args_def apiRequest_def Let_def axios_verbs_def BODYLESS_METHODS_def known_verbs)

end
