(* ===== verification/Routes.thy ===== *)
theory Routes
  imports Http Uri
begin

text \<open>
  Which handler answers which request: the routers of \<open>Backend/src/routes\<close> as
  \<open>Backend/src/app.js\<close> mounts them, in registration order. A route names its method, its
  path, whether \<open>verifyJWT\<close> stands before its handler, and the handler. Matching is
  Express's: segment by segment, ignoring case and one trailing slash, a parameter taking
  one non-empty segment, which is then decoded.
\<close>

subsection \<open>Routes and matching\<close>

datatype segment = Lit string | Param string

record route =
  r_method :: string
  r_path :: "segment list"
  r_guarded :: bool
  r_handler :: string

definition segment_of :: "string \<Rightarrow> segment" where
  "segment_of s = (case s of [] \<Rightarrow> Lit [] | c # n \<Rightarrow> if c = CHR '':'' then Param n else Lit s)"

text \<open>The segments of a path, without its leading slash and at most one trailing slash.\<close>

definition path_segments :: "string \<Rightarrow> string list" where
  "path_segments p =
     (let ws = tl (split_on CHR ''/'' p) in if ws \<noteq> [] \<and> last ws = [] then butlast ws else ws)"

fun segments_match :: "segment list \<Rightarrow> string list \<Rightarrow> bool" where
  "segments_match [] [] = True"
| "segments_match (Lit l # ps) (s # ss) = (to_lower s = l \<and> segments_match ps ss)"
| "segments_match (Param n # ps) (s # ss) = (s \<noteq> [] \<and> segments_match ps ss)"
| "segments_match _ _ = False"

fun segment_params :: "segment list \<Rightarrow> string list \<Rightarrow> (string \<times> string) list" where
  "segment_params (Param n # ps) (s # ss) = (n, s) # segment_params ps ss"
| "segment_params (Lit l # ps) (s # ss) = segment_params ps ss"
| "segment_params _ _ = []"

definition decode_params :: "(string \<times> string) list \<Rightarrow> (string \<times> string) list option" where
  "decode_params ps =
     (if list_all (\<lambda>(n, v). decodeURIComponent v \<noteq> None) ps
      then Some (map (\<lambda>(n, v). (n, the (decodeURIComponent v))) ps) else None)"

text \<open>A HEAD request is answered by the GET route.\<close>

definition route_method :: "string \<Rightarrow> string" where
  "route_method m = (if m = ''head'' then ''get'' else m)"

datatype routed =
    Handled string bool "(string \<times> string) list" \<comment> \<open>handler, whether a session is required, parameters\<close>
  | BadParameter
  | Docs
  | ApiNotFound
  | Shell
  | NoRoute

definition mounted :: "string \<Rightarrow> (string \<times> string \<times> bool \<times> string) list \<Rightarrow> route list" where
  "mounted mount rs =
     map (\<lambda>(m, p, g, h). \<lparr>r_method = m, r_path = map segment_of (path_segments (mount @ p)), r_guarded = g, r_handler = h\<rparr>) rs"

subsection \<open>The table\<close>

definition HealthRouter :: "(string \<times> string \<times> bool \<times> string) list" where
  "HealthRouter = [(''get'', ''/'', False, ''HealthController''), (''get'', ''/ready'', False, ''ReadinessController'')]"

definition authRouter :: "(string \<times> string \<times> bool \<times> string) list" where
  "authRouter =
     [(''post'', ''/register'', False, ''registerUser''),
      (''post'', ''/login'', False, ''loginUser''),
      (''post'', ''/google'', False, ''googleAuth''),
      (''post'', ''/logout'', True, ''logoutUser''),
      (''post'', ''/verify/:id'', False, ''verifyUser''),
      (''post'', ''/forgot-password'', False, ''forgotPassword''),
      (''post'', ''/reset-password/:token'', False, ''resetPassword''),
      (''post'', ''/change-password'', True, ''changePassword''),
      (''get'', ''/profile'', True, ''getUserProfile''),
      (''patch'', ''/profile'', True, ''updateProfile'')]"

definition MonitorRouter :: "(string \<times> string \<times> bool \<times> string) list" where
  "MonitorRouter =
     [(''post'', ''/'', True, ''createMonitorController''),
      (''get'', ''/'', True, ''getAllMonitorsController''),
      (''delete'', ''/:monitorId'', True, ''deleteMonitorController''),
      (''put'', ''/:monitorId'', True, ''updateMonitorController'')]"

definition LogsRouter :: "(string \<times> string \<times> bool \<times> string) list" where
  "LogsRouter =
     [(''get'', ''/'', True, ''getAllLogsController''), (''get'', ''/:monitorId'', True, ''monitorLogsByIdController'')]"

definition IncidentRouter :: "(string \<times> string \<times> bool \<times> string) list" where
  "IncidentRouter =
     [(''get'', ''/'', True, ''getAllIncidentsController''),
      (''get'', ''/detail/:incidentId'', True, ''getIncidentByIdController''),
      (''get'', ''/:monitorId'', True, ''getIncidentsByMonitorIdController'')]"

definition metricsRouter :: "(string \<times> string \<times> bool \<times> string) list" where
  "metricsRouter =
     [(''get'', ''/latency/:monitorId'', True, ''getLatencyMetrics''),
      (''get'', ''/uptime/:monitorId'', True, ''getUptimeMetrics''),
      (''get'', ''/status-timeline/:monitorId'', True, ''getStatusTimeline'')]"

definition ChannelRouter :: "(string \<times> string \<times> bool \<times> string) list" where
  "ChannelRouter =
     [(''get'', ''/logs'', True, ''listNotificationLogs''),
      (''get'', ''/'', True, ''listChannels''),
      (''post'', ''/'', True, ''createChannel''),
      (''patch'', ''/:channelId'', True, ''updateChannel''),
      (''delete'', ''/:channelId'', True, ''deleteChannel''),
      (''post'', ''/:channelId/test'', True, ''testChannel'')]"

definition StatusPageRouter :: "(string \<times> string \<times> bool \<times> string) list" where
  "StatusPageRouter =
     [(''get'', ''/'', True, ''listStatusPages''),
      (''post'', ''/'', True, ''createStatusPage''),
      (''patch'', ''/:pageId'', True, ''updateStatusPage''),
      (''delete'', ''/:pageId'', True, ''deleteStatusPage'')]"

definition PublicStatusRouter :: "(string \<times> string \<times> bool \<times> string) list" where
  "PublicStatusRouter = [(''get'', ''/:slug'', False, ''getPublicStatusPage'')]"

text \<open>\<open>requireMetricsToken\<close> guards \<open>/metrics\<close>, and no session does.\<close>

definition routes :: "route list" where
  "routes =
     mounted '''' [(''get'', ''/metrics'', False, ''metrics'')] @
     mounted ''/api'' [(''get'', ''/docs.json'', False, ''openApiSpec'')] @
     mounted ''/api/health'' HealthRouter @ mounted ''/api/auth'' authRouter @ mounted ''/api/monitor'' MonitorRouter @
     mounted ''/api/logs'' LogsRouter @ mounted ''/api/incidents'' IncidentRouter @ mounted ''/api/metrics'' metricsRouter @
     mounted ''/api/channels'' ChannelRouter @ mounted ''/api/status-pages'' StatusPageRouter @
     mounted ''/api/status'' PublicStatusRouter"

text \<open>
  What is left: the documentation pages under \<open>/api/docs\<close>, served by their library; an
  unknown API path, answered in JSON; the single-page shell for a GET of any other path.
\<close>

definition routed_to :: "string \<Rightarrow> string \<Rightarrow> routed" where
  "routed_to m p =
     (let segs = path_segments p
      in case find (\<lambda>r. r_method r = route_method m \<and> segments_match (r_path r) segs) routes of
           Some r \<Rightarrow>
             (case decode_params (segment_params (r_path r) segs) of
                None \<Rightarrow> BadParameter
              | Some ps \<Rightarrow> Handled (r_handler r) (r_guarded r) ps)
         | None \<Rightarrow>
             if map to_lower (take 2 segs) = [''api'', ''docs''] then Docs
             else if map to_lower (take 1 segs) = [''api''] then ApiNotFound
             else if route_method m = ''get'' then Shell
             else NoRoute)"

text \<open>A guarded handler runs with the claims of the session, the others without.\<close>

definition admit ::
    "(string \<Rightarrow> string option + 'claims) \<Rightarrow> string option \<Rightarrow> string \<Rightarrow> string \<Rightarrow>
     thrown + string \<times> 'claims option \<times> (string \<times> string) list" where
  "admit jwt_verify cookie m p =
     (case routed_to m p of
        Handled h g ps \<Rightarrow>
          (if g then map_sum id (\<lambda>cl. (h, Some cl, ps)) (verifyJWT jwt_verify cookie)
           else Inr (h, None, ps))
      | BadParameter \<Rightarrow> Inl (\<lparr>isApiError = False, e_type = None, e_status = Some 400,
          e_message = ''Failed to decode param'', e_errors = []\<rparr>)
      | _ \<Rightarrow> Inl (ApiError 404 (''Route not found: '' @ m @ '' '' @ p)))"

subsection \<open>Who may reach what\<close>

definition public_handlers :: "string list" where
  "public_handlers =
     [''metrics'', ''openApiSpec'', ''HealthController'', ''ReadinessController'', ''registerUser'', ''loginUser'',
      ''googleAuth'', ''verifyUser'', ''forgotPassword'', ''resetPassword'', ''getPublicStatusPage'']"

lemma routes_guarded: "list_all (\<lambda>r. r_guarded r \<longleftrightarrow> r_handler r \<notin> set public_handlers) routes"
  by code_simp

lemma dispatch_route:
  assumes "routed_to m p = Handled h g ps"
  shows "\<exists>r \<in> set routes. r_handler r = h \<and> r_guarded r = g"
  using assms by (auto simp: routed_to_def Let_def dest!: find_SomeD split: option.splits if_splits)

lemma dispatch_guard:
  assumes "routed_to m p = Handled h g ps"
  shows "g \<longleftrightarrow> h \<notin> set public_handlers"
  using dispatch_route [OF assms] routes_guarded by (auto simp: list_all_iff)

text \<open>
  C10. Whatever the method, the spelling of the path and the cookie, a handler that is not one of
  the eleven public ones runs only with the claims of a session token that verified, and a
  request without one is answered 401; the public ones never see claims.
\<close>

theorem private_handlers_need_session:
  assumes "admit jwt_verify cookie m p = Inr (h, who, ps)"
  shows "(h \<notin> set public_handlers \<longrightarrow>
      (\<exists>token cl. cookie = Some token \<and> token \<noteq> [] \<and> jwt_verify token = Inr cl \<and> who = Some cl)) \<and>
    (h \<in> set public_handlers \<longrightarrow> who = None)"
proof -
  from assms obtain g where d: "routed_to m p = Handled h g ps"
    and r: "if g then map_sum id (\<lambda>cl. (h, Some cl, ps)) (verifyJWT jwt_verify cookie) = Inr (h, who, ps)
      else who = None"
    by (auto simp: admit_def map_sum_def verifyJWT_def split: routed.splits if_splits sum.splits)
  with dispatch_guard [OF d] show ?thesis
    by (cases cookie) (auto simp: verifyJWT_def split: if_splits sum.splits)
qed

definition example_jwt :: "string \<Rightarrow> string option + string" where
  "example_jwt t = (if t = ''t'' then Inr ''u1'' else Inl None)"

theorem private_handlers_need_session_witness:
  "\<exists>who. admit example_jwt (Some ''t'') ''get'' ''/api/channels/logs'' = Inr (''listNotificationLogs'', who, []) \<and>
     (\<exists>token cl. token = ''t'' \<and> example_jwt token = Inr cl \<and> who = Some cl)"
proof -
  have d: "routed_to ''get'' ''/api/channels/logs'' = Handled ''listNotificationLogs'' True []" by code_simp
  have a: "admit example_jwt (Some ''t'') ''get'' ''/api/channels/logs'' = Inr (''listNotificationLogs'', Some ''u1'', [])"
    by (simp add: admit_def d verifyJWT_def example_jwt_def)
  with private_handlers_need_session [OF a] show ?thesis
    by (auto simp: public_handlers_def example_jwt_def)
qed

end
