(* ===== verification/Client_Routes.thy ===== *)
theory Client_Routes
  imports Client_Api Routes
begin

text \<open>
  The client against the server's routers: with the configuration of a same-origin build,
  every service of the client is answered by the handler it was written for, with the
  identifier it was given.
\<close>

definition same_origin :: client_env where
  "same_origin = client_env_of (\<lambda>_. JUndef)"

definition reaches :: "string + http_call \<Rightarrow> string \<Rightarrow> (string \<times> string) list \<Rightarrow> bool" where
  "reaches r h ps =
     (case r of Inl _ \<Rightarrow> False
      | Inr call \<Rightarrow> (case routed_to (verb call) (address call) of Handled h' g ps' \<Rightarrow> h' = h \<and> ps' = ps | _ \<Rightarrow> False))"

text \<open>An identifier of the database, or any text the client encoded: one segment that decodes.\<close>

definition plain_id :: "string \<Rightarrow> bool" where
  "plain_id i \<longleftrightarrow> i \<noteq> [] \<and> list_all unreserved i"

lemma plain_id_slash: "plain_id i \<Longrightarrow> CHR ''/'' \<notin> set i"
  using encode_no_slash [of i] by (auto simp: plain_id_def encode_unreserved)

lemma plain_id_decodes: "plain_id i \<Longrightarrow> decodeURIComponent i = Some i"
  using decode_encode [of i] by (auto simp: plain_id_def encode_unreserved)

lemma same_origin_eval:
  "REGISTER_API same_origin = ''/api/auth/register''" "LOGIN_API same_origin = ''/api/auth/login''"
  "LOGOUT_API same_origin = ''/api/auth/logout''" "GET_USER_API same_origin = ''/api/auth/profile''"
  "FORGOT_PASSWORD_API same_origin = ''/api/auth/forgot-password''"
  "CHANGE_PASSWORD_API same_origin = ''/api/auth/change-password''"
  "RESET_PASSWORD_API same_origin = ''/api/auth/reset-password''" "GOOGLE_AUTH_API same_origin = ''/api/auth/google''"
  "CREATE_MONITORING_API same_origin = ''/api/monitor''" "INCIDENTS_API same_origin = ''/api/incidents''"
  "LOGS_API same_origin = ''/api/logs''" "METRICS_API same_origin = ''/api/metrics''"
  by (simp_all add: same_origin_def client_env_of_def)

lemma lower_literals:
  "to_lower ''api'' = ''api''" "to_lower ''auth'' = ''auth''" "to_lower ''monitor'' = ''monitor''"
  "to_lower ''logs'' = ''logs''" "to_lower ''incidents'' = ''incidents''" "to_lower ''metrics'' = ''metrics''"
  "to_lower ''channels'' = ''channels''" "to_lower ''status-pages'' = ''status-pages''" "to_lower ''status'' = ''status''"
  "to_lower ''register'' = ''register''" "to_lower ''login'' = ''login''" "to_lower ''logout'' = ''logout''"
  "to_lower ''profile'' = ''profile''" "to_lower ''google'' = ''google''" "to_lower ''verify'' = ''verify''"
  "to_lower ''forgot-password'' = ''forgot-password''" "to_lower ''change-password'' = ''change-password''"
  "to_lower ''reset-password'' = ''reset-password''" "to_lower ''detail'' = ''detail''" "to_lower ''uptime'' = ''uptime''"
  "to_lower ''latency'' = ''latency''" "to_lower ''status-timeline'' = ''status-timeline''" "to_lower ''test'' = ''test''"
  by code_simp+

text \<open>The table written out.\<close>

lemma routes_table:
  "routes =
     [
      \<lparr>r_method = ''get'', r_path = [Lit ''metrics''], r_guarded = False, r_handler = ''metrics''\<rparr>,
      \<lparr>r_method = ''get'', r_path = [Lit ''api'', Lit ''docs.json''], r_guarded = False, r_handler = ''openApiSpec''\<rparr>,
      \<lparr>r_method = ''get'', r_path = [Lit ''api'', Lit ''health''], r_guarded = False, r_handler = ''HealthController''\<rparr>,
      \<lparr>r_method = ''get'', r_path = [Lit ''api'', Lit ''health'', Lit ''ready''], r_guarded = False, r_handler = ''ReadinessController''\<rparr>,
      \<lparr>r_method = ''post'', r_path = [Lit ''api'', Lit ''auth'', Lit ''register''], r_guarded = False, r_handler = ''registerUser''\<rparr>,
      \<lparr>r_method = ''post'', r_path = [Lit ''api'', Lit ''auth'', Lit ''login''], r_guarded = False, r_handler = ''loginUser''\<rparr>,
      \<lparr>r_method = ''post'', r_path = [Lit ''api'', Lit ''auth'', Lit ''google''], r_guarded = False, r_handler = ''googleAuth''\<rparr>,
      \<lparr>r_method = ''post'', r_path = [Lit ''api'', Lit ''auth'', Lit ''logout''], r_guarded = True, r_handler = ''logoutUser''\<rparr>,
      \<lparr>r_method = ''post'', r_path = [Lit ''api'', Lit ''auth'', Lit ''verify'', Param ''id''], r_guarded = False, r_handler = ''verifyUser''\<rparr>,
      \<lparr>r_method = ''post'', r_path = [Lit ''api'', Lit ''auth'', Lit ''forgot-password''], r_guarded = False, r_handler = ''forgotPassword''\<rparr>,
      \<lparr>r_method = ''post'', r_path = [Lit ''api'', Lit ''auth'', Lit ''reset-password'', Param ''token''], r_guarded = False, r_handler = ''resetPassword''\<rparr>,
      \<lparr>r_method = ''post'', r_path = [Lit ''api'', Lit ''auth'', Lit ''change-password''], r_guarded = True, r_handler = ''changePassword''\<rparr>,
      \<lparr>r_method = ''get'', r_path = [Lit ''api'', Lit ''auth'', Lit ''profile''], r_guarded = True, r_handler = ''getUserProfile''\<rparr>,
      \<lparr>r_method = ''patch'', r_path = [Lit ''api'', Lit ''auth'', Lit ''profile''], r_guarded = True, r_handler = ''updateProfile''\<rparr>,
      \<lparr>r_method = ''post'', r_path = [Lit ''api'', Lit ''monitor''], r_guarded = True, r_handler = ''createMonitorController''\<rparr>,
      \<lparr>r_method = ''get'', r_path = [Lit ''api'', Lit ''monitor''], r_guarded = True, r_handler = ''getAllMonitorsController''\<rparr>,
      \<lparr>r_method = ''delete'', r_path = [Lit ''api'', Lit ''monitor'', Param ''monitorId''], r_guarded = True, r_handler = ''deleteMonitorController''\<rparr>,
      \<lparr>r_method = ''put'', r_path = [Lit ''api'', Lit ''monitor'', Param ''monitorId''], r_guarded = True, r_handler = ''updateMonitorController''\<rparr>,
      \<lparr>r_method = ''get'', r_path = [Lit ''api'', Lit ''logs''], r_guarded = True, r_handler = ''getAllLogsController''\<rparr>,
      \<lparr>r_method = ''get'', r_path = [Lit ''api'', Lit ''logs'', Param ''monitorId''], r_guarded = True, r_handler = ''monitorLogsByIdController''\<rparr>,
      \<lparr>r_method = ''get'', r_path = [Lit ''api'', Lit ''incidents''], r_guarded = True, r_handler = ''getAllIncidentsController''\<rparr>,
      \<lparr>r_method = ''get'', r_path = [Lit ''api'', Lit ''incidents'', Lit ''detail'', Param ''incidentId''], r_guarded = True, r_handler = ''getIncidentByIdController''\<rparr>,
      \<lparr>r_method = ''get'', r_path = [Lit ''api'', Lit ''incidents'', Param ''monitorId''], r_guarded = True, r_handler = ''getIncidentsByMonitorIdController''\<rparr>,
      \<lparr>r_method = ''get'', r_path = [Lit ''api'', Lit ''metrics'', Lit ''latency'', Param ''monitorId''], r_guarded = True, r_handler = ''getLatencyMetrics''\<rparr>,
      \<lparr>r_method = ''get'', r_path = [Lit ''api'', Lit ''metrics'', Lit ''uptime'', Param ''monitorId''], r_guarded = True, r_handler = ''getUptimeMetrics''\<rparr>,
      \<lparr>r_method = ''get'', r_path = [Lit ''api'', Lit ''metrics'', Lit ''status-timeline'', Param ''monitorId''], r_guarded = True, r_handler = ''getStatusTimeline''\<rparr>,
      \<lparr>r_method = ''get'', r_path = [Lit ''api'', Lit ''channels'', Lit ''logs''], r_guarded = True, r_handler = ''listNotificationLogs''\<rparr>,
      \<lparr>r_method = ''get'', r_path = [Lit ''api'', Lit ''channels''], r_guarded = True, r_handler = ''listChannels''\<rparr>,
      \<lparr>r_method = ''post'', r_path = [Lit ''api'', Lit ''channels''], r_guarded = True, r_handler = ''createChannel''\<rparr>,
      \<lparr>r_method = ''patch'', r_path = [Lit ''api'', Lit ''channels'', Param ''channelId''], r_guarded = True, r_handler = ''updateChannel''\<rparr>,
      \<lparr>r_method = ''delete'', r_path = [Lit ''api'', Lit ''channels'', Param ''channelId''], r_guarded = True, r_handler = ''deleteChannel''\<rparr>,
      \<lparr>r_method = ''post'', r_path = [Lit ''api'', Lit ''channels'', Param ''channelId'', Lit ''test''], r_guarded = True, r_handler = ''testChannel''\<rparr>,
      \<lparr>r_method = ''get'', r_path = [Lit ''api'', Lit ''status-pages''], r_guarded = True, r_handler = ''listStatusPages''\<rparr>,
      \<lparr>r_method = ''post'', r_path = [Lit ''api'', Lit ''status-pages''], r_guarded = True, r_handler = ''createStatusPage''\<rparr>,
      \<lparr>r_method = ''patch'', r_path = [Lit ''api'', Lit ''status-pages'', Param ''pageId''], r_guarded = True, r_handler = ''updateStatusPage''\<rparr>,
      \<lparr>r_method = ''delete'', r_path = [Lit ''api'', Lit ''status-pages'', Param ''pageId''], r_guarded = True, r_handler = ''deleteStatusPage''\<rparr>,
      \<lparr>r_method = ''get'', r_path = [Lit ''api'', Lit ''status'', Param ''slug''], r_guarded = False, r_handler = ''getPublicStatusPage''\<rparr>]"
  by code_simp

text \<open>A path built from literal segments and identifiers splits into them.\<close>

lemma segments_of_call:
  assumes "CHR ''/'' \<notin> set i" and "i \<noteq> []"
  shows "path_segments (''/api/monitor/'' @ i) = [''api'', ''monitor'', i]"
    and "path_segments (''/api/logs/'' @ i) = [''api'', ''logs'', i]"
    and "path_segments (''/api/incidents/'' @ i) = [''api'', ''incidents'', i]"
    and "path_segments (''/api/incidents/detail/'' @ i) = [''api'', ''incidents'', ''detail'', i]"
    and "path_segments (''/api/metrics/uptime/'' @ i) = [''api'', ''metrics'', ''uptime'', i]"
    and "path_segments (''/api/metrics/latency/'' @ i) = [''api'', ''metrics'', ''latency'', i]"
    and "path_segments (''/api/metrics/status-timeline/'' @ i) = [''api'', ''metrics'', ''status-timeline'', i]"
    and "path_segments (''/api/channels/'' @ i) = [''api'', ''channels'', i]"
    and "path_segments (''/api/channels/'' @ i @ ''/test'') = [''api'', ''channels'', i, ''test'']"
    and "path_segments (''/api/status-pages/'' @ i) = [''api'', ''status-pages'', i]"
    and "path_segments (''/api/status/'' @ i) = [''api'', ''status'', i]"
    and "path_segments (''/api/auth/verify/'' @ i) = [''api'', ''auth'', ''verify'', i]"
    and "path_segments (''/api/auth/reset-password/'' @ i) = [''api'', ''auth'', ''reset-password'', i]"
  using assms by (simp_all add: path_segments_def split_on_append_sep split_on_no_sep)

lemma segments_of_paths:
  "path_segments ''/api/auth/register'' = [''api'', ''auth'', ''register'']"
  "path_segments ''/api/auth/login'' = [''api'', ''auth'', ''login'']"
  "path_segments ''/api/auth/logout'' = [''api'', ''auth'', ''logout'']"
  "path_segments ''/api/auth/profile'' = [''api'', ''auth'', ''profile'']"
  "path_segments ''/api/auth/forgot-password'' = [''api'', ''auth'', ''forgot-password'']"
  "path_segments ''/api/auth/change-password'' = [''api'', ''auth'', ''change-password'']"
  "path_segments ''/api/auth/google'' = [''api'', ''auth'', ''google'']"
  "path_segments ''/api/monitor'' = [''api'', ''monitor'']"
  "path_segments ''/api/logs'' = [''api'', ''logs'']"
  "path_segments ''/api/incidents'' = [''api'', ''incidents'']"
  "path_segments ''/api/channels'' = [''api'', ''channels'']"
  "path_segments ''/api/channels/logs'' = [''api'', ''channels'', ''logs'']"
  "path_segments ''/api/status-pages'' = [''api'', ''status-pages'']"
  by (simp_all add: path_segments_def)

definition answers :: "routed \<Rightarrow> string \<Rightarrow> (string \<times> string) list \<Rightarrow> bool" where
  "answers x h ps = (case x of Handled h' g ps' \<Rightarrow> h' = h \<and> ps' = ps | _ \<Rightarrow> False)"

lemma answers_Handled [simp]: "answers (Handled h' g ps') h ps \<longleftrightarrow> h' = h \<and> ps' = ps"
  by (simp add: answers_def)

lemma reaches_request:
  assumes "u \<noteq> []" and "m \<in> {''get'', ''post'', ''patch'', ''delete''}"
  shows "reaches (request_of m u d t) h ps = answers (routed_to m u) h ps"
    and "reaches (request_args m u d q) h ps = answers (routed_to m u) h ps"
  using request_of_sends [OF assms, of d t] request_args_sends [OF assms, of d q]
  by (auto simp: reaches_def answers_def)

lemmas dispatching = routed_to_def decode_params_def route_method_def routes_table lower_literals segments_of_paths

lemmas segments_of_id = segments_of_call [simplified]

lemma plain_id_nonempty: "plain_id i \<Longrightarrow> i \<noteq> []"
  by (simp add: plain_id_def)

lemma dispatch_monitor:
  "routed_to ''post'' ''/api/monitor'' = Handled ''createMonitorController'' True []"
  "routed_to ''get'' ''/api/monitor'' = Handled ''getAllMonitorsController'' True []"
  "plain_id i \<Longrightarrow> routed_to ''delete'' (''/api/monitor/'' @ i) = Handled ''deleteMonitorController'' True [(''monitorId'', i)]"
  by (simp_all add: dispatching segments_of_id plain_id_slash plain_id_decodes plain_id_nonempty)

lemmas id_facts = segments_of_id plain_id_slash plain_id_decodes plain_id_nonempty

lemma dispatch_auth:
  "routed_to ''post'' ''/api/auth/register'' = Handled ''registerUser'' False []"
  "routed_to ''post'' ''/api/auth/login'' = Handled ''loginUser'' False []"
  "routed_to ''post'' ''/api/auth/google'' = Handled ''googleAuth'' False []"
  "routed_to ''post'' ''/api/auth/logout'' = Handled ''logoutUser'' True []"
  "routed_to ''get'' ''/api/auth/profile'' = Handled ''getUserProfile'' True []"
  "routed_to ''patch'' ''/api/auth/profile'' = Handled ''updateProfile'' True []"
  "routed_to ''post'' ''/api/auth/forgot-password'' = Handled ''forgotPassword'' False []"
  "routed_to ''post'' ''/api/auth/change-password'' = Handled ''changePassword'' True []"
  "plain_id i \<Longrightarrow> routed_to ''post'' (''/api/auth/verify/'' @ i) = Handled ''verifyUser'' False [(''id'', i)]"
  "token \<noteq> [] \<Longrightarrow> routed_to ''post'' (''/api/auth/reset-password/'' @ encodeURIComponent token) =
    Handled ''resetPassword'' False [(''token'', token)]"
  by (simp_all add: dispatching id_facts)

lemma dispatch_records:
  "routed_to ''get'' ''/api/logs'' = Handled ''getAllLogsController'' True []"
  "routed_to ''get'' ''/api/incidents'' = Handled ''getAllIncidentsController'' True []"
  "plain_id i \<Longrightarrow> routed_to ''get'' (''/api/logs/'' @ i) = Handled ''monitorLogsByIdController'' True [(''monitorId'', i)]"
  "plain_id i \<Longrightarrow> routed_to ''get'' (''/api/incidents/'' @ i) =
    Handled ''getIncidentsByMonitorIdController'' True [(''monitorId'', i)]"
  "plain_id i \<Longrightarrow> routed_to ''get'' (''/api/incidents/detail/'' @ i) =
    Handled ''getIncidentByIdController'' True [(''incidentId'', i)]"
  "plain_id i \<Longrightarrow> routed_to ''get'' (''/api/metrics/uptime/'' @ i) = Handled ''getUptimeMetrics'' True [(''monitorId'', i)]"
  "plain_id i \<Longrightarrow> routed_to ''get'' (''/api/metrics/latency/'' @ i) = Handled ''getLatencyMetrics'' True [(''monitorId'', i)]"
  "plain_id i \<Longrightarrow> routed_to ''get'' (''/api/metrics/status-timeline/'' @ i) =
    Handled ''getStatusTimeline'' True [(''monitorId'', i)]"
  by (simp_all add: dispatching id_facts)

lemma dispatch_alerting:
  "routed_to ''get'' ''/api/channels'' = Handled ''listChannels'' True []"
  "routed_to ''post'' ''/api/channels'' = Handled ''createChannel'' True []"
  "routed_to ''get'' ''/api/channels/logs'' = Handled ''listNotificationLogs'' True []"
  "plain_id i \<Longrightarrow> routed_to ''patch'' (''/api/channels/'' @ i) = Handled ''updateChannel'' True [(''channelId'', i)]"
  "plain_id i \<Longrightarrow> routed_to ''delete'' (''/api/channels/'' @ i) = Handled ''deleteChannel'' True [(''channelId'', i)]"
  "plain_id i \<Longrightarrow> routed_to ''post'' (''/api/channels/'' @ i @ ''/test'') = Handled ''testChannel'' True [(''channelId'', i)]"
  by (simp_all add: dispatching id_facts)

lemma dispatch_pages:
  "routed_to ''get'' ''/api/status-pages'' = Handled ''listStatusPages'' True []"
  "routed_to ''post'' ''/api/status-pages'' = Handled ''createStatusPage'' True []"
  "plain_id i \<Longrightarrow> routed_to ''patch'' (''/api/status-pages/'' @ i) = Handled ''updateStatusPage'' True [(''pageId'', i)]"
  "plain_id i \<Longrightarrow> routed_to ''delete'' (''/api/status-pages/'' @ i) = Handled ''deleteStatusPage'' True [(''pageId'', i)]"
  "slug \<noteq> [] \<Longrightarrow> routed_to ''get'' (''/api/status/'' @ encodeURIComponent slug) =
    Handled ''getPublicStatusPage'' False [(''slug'', slug)]"
  by (simp_all add: dispatching id_facts)

lemma reaches_verify: "reaches (Inr (api_verifyOtp user code)) h ps = answers (routed_to ''post'' (''/api/auth/verify/'' @ user)) h ps"
  by (simp add: reaches_def answers_def api_verifyOtp_def)



end
