(* ===== verification/Request_Metrics.thy ===== *)
theory Request_Metrics
  imports Routes
begin

text \<open>
  What is recorded of a request, \<open>Backend/src/middlewares/requestLogger.middleware.js\<close>: the
  level of its log line and the labels of its metrics. A metrics label names the route by
  the prefix its router was reached under, as the request spelled it (Express's
  \<open>req.baseUrl\<close>), followed by the pattern of the route.
\<close>

subsection \<open>Access log\<close>

definition not_logged :: "string \<Rightarrow> bool" where
  "not_logged url \<longleftrightarrow> url \<in> {''/metrics'', ''/api/health'', ''/api/health/ready''}"

definition customLogLevel :: "bool \<Rightarrow> int \<Rightarrow> string" where
  "customLogLevel failed code =
     (if failed \<or> code \<ge> 500 then ''error'' else if code \<ge> 400 then ''warn'' else ''http'')"

subsection \<open>Labels\<close>

text \<open>The routers with the prefix each is mounted under.\<close>

definition mounts :: "(string \<times> (string \<times> string \<times> bool \<times> string) list) list" where
  "mounts =
     [('''', [(''get'', ''/metrics'', False, ''metrics'')]), (''/api'', [(''get'', ''/docs.json'', False, ''openApiSpec'')]),
      (''/api/health'', HealthRouter), (''/api/auth'', authRouter), (''/api/monitor'', MonitorRouter),
      (''/api/logs'', LogsRouter), (''/api/incidents'', IncidentRouter), (''/api/metrics'', metricsRouter),
      (''/api/channels'', ChannelRouter), (''/api/status-pages'', StatusPageRouter), (''/api/status'', PublicStatusRouter)]"

lemma routes_by_mount: "routes = concat (map (\<lambda>(p, rs). mounted p rs) mounts)"
  by (simp add: routes_def mounts_def)

text \<open>One entry per route: the segments of its prefix, its own path, and the route.\<close>

definition labelled_routes :: "(string list \<times> string \<times> route) list" where
  "labelled_routes =
     concat (map (\<lambda>(p, rs). map (\<lambda>x. (path_segments p, fst (snd x), hd (mounted p [x]))) rs) mounts)"

definition base_url :: "string list \<Rightarrow> string" where
  "base_url segs = concat (map (\<lambda>s. CHR ''/'' # s) segs)"

text \<open>The pattern of the shell's route, as text.\<close>

definition shell_pattern :: string where
  "shell_pattern = ''/^(?!'' @ [CHR 0x5C] @ ''/api'' @ [CHR 0x5C] @ ''/).*/''"

definition route_label :: "string \<Rightarrow> string \<Rightarrow> string" where
  "route_label m p =
     (let segs = path_segments p
      in case find (\<lambda>(pre, q, r). r_method r = route_method m \<and> segments_match (r_path r) segs) labelled_routes of
           Some (pre, q, r) \<Rightarrow> base_url (take (length pre) segs) @ q
         | None \<Rightarrow> if routed_to m p = Shell then shell_pattern else ''unmatched'')"

definition known_labels :: "string list" where
  "known_labels = ''unmatched'' # shell_pattern # map (\<lambda>(pre, q, r). base_url pre @ q) labelled_routes"

subsection \<open>How many labels there are\<close>

lemma prefix_of_match:
  "segments_match (map Lit pre @ ps) segs \<Longrightarrow> map to_lower (take (length pre) segs) = pre"
proof (induction pre arbitrary: segs)
  case (Cons l pre)
  then show ?case by (cases segs) auto
qed simp

lemma to_lower_append: "to_lower (a @ b) = to_lower a @ to_lower b"
  by (simp add: to_lower_def)

lemma to_lower_slash: "to_lower (CHR ''/'' # s) = CHR ''/'' # to_lower s"
  by (simp add: to_lower_def lower_char_def)

lemma to_lower_base_url: "to_lower (base_url segs) = base_url (map to_lower segs)"
proof (induction segs)
  case (Cons s segs)
  then show ?case by (simp add: base_url_def to_lower_append to_lower_slash)
qed (simp add: base_url_def to_lower_def)

text \<open>Every route's path begins with its prefix, in lower case; so do the paths of the routes.\<close>

lemma labelled_routes_prefix:
  "list_all (\<lambda>(pre, q, r). take (length pre) (r_path r) = map Lit pre) labelled_routes"
  by code_simp


text \<open>Up to the case of letters only: one route has a label for every spelling of its prefix.\<close>

lemma label_per_spelling:
  "route_label ''get'' ''/api/logs'' = ''/api/logs/'' \<and> route_label ''get'' ''/API/Logs'' = ''/API/Logs/''"
  by code_simp

end
