(* ===== verification/Validation.thy ===== *)
theory Validation
  imports Dao
begin

text \<open>
  The request schemas of the monitor routes, \<open>Backend/src/validators/monitor.validator.js\<close>:
  what each declared field accepts and becomes, and the object they make, in which nothing
  else survives. Zod is a library; these are the combinators of it the file uses, with the
  coercions they document: \<open>to_number\<close> is the language's \<open>Number(v)\<close> (\<open>None\<close> for \<open>NaN\<close>),
  and \<open>z.coerce.boolean()\<close> is \<open>Boolean(v)\<close>.
\<close>

subsection \<open>The schemas\<close>

definition monitorType :: "string list" where
  "monitorType =
     [''website'', ''api'', ''http'', ''ping'', ''tcp'', ''dns'', ''HTTP/HTTPS'', ''Ping'', ''TCP'', ''DNS'']"

definition is_hex :: "char \<Rightarrow> bool" where
  "is_hex c = (let n = of_char c :: nat in 48 \<le> n \<and> n \<le> 57 \<or> 65 \<le> n \<and> n \<le> 70 \<or> 97 \<le> n \<and> n \<le> 102)"

definition objectId :: "js \<Rightarrow> bool" where
  "objectId v = (case v of JStr s \<Rightarrow> length s = 24 \<and> list_all is_hex s | _ \<Rightarrow> False)"

definition z_text :: "bool \<Rightarrow> nat \<Rightarrow> js \<Rightarrow> js option" where
  "z_text trimmed least v =
     (case v of
        JStr s \<Rightarrow> (let t = if trimmed then trim s else s in if length t < least then None else Some (JStr t))
      | _ \<Rightarrow> None)"

definition z_positive :: "(js \<Rightarrow> rat option) \<Rightarrow> js \<Rightarrow> js option" where
  "z_positive to_number v = (case to_number v of Some n \<Rightarrow> if n > 0 then Some (JNum n) else None | None \<Rightarrow> None)"

definition z_threshold :: "(js \<Rightarrow> rat option) \<Rightarrow> js \<Rightarrow> js option" where
  "z_threshold to_number v =
     (case to_number v of
        Some n \<Rightarrow> if of_int \<lfloor>n\<rfloor> = n \<and> 1 \<le> n \<and> n \<le> 100 then Some (JNum n) else None
      | None \<Rightarrow> None)"

definition authHeaders_schema :: "js \<Rightarrow> js option" where
  "authHeaders_schema v =
     (case v of
        JNull \<Rightarrow> Some v
      | JObj hs \<Rightarrow> if list_all (\<lambda>(k, w). is_text w) hs then Some v else None
      | _ \<Rightarrow> None)"

text \<open>A declared field that was sent: its parsed value, or a refusal.\<close>

definition monitorFields :: "(js \<Rightarrow> rat option) \<Rightarrow> (string \<times> (js \<Rightarrow> js option)) list" where
  "monitorFields to_number =
     [(''type'', \<lambda>v. case v of JStr s \<Rightarrow> if s \<in> set monitorType then Some v else None | _ \<Rightarrow> None),
      (''title'', z_text True 1), (''name'', z_text True 1), (''url'', z_text False 1),
      (''description'', z_text True 0),
      (''interval'', z_positive to_number), (''timeout'', z_positive to_number),
      (''active'', \<lambda>v. Some (JBool (\<not> js_falsy v))), (''ignoreTlsErrors'', \<lambda>v. Some (JBool (\<not> js_falsy v))),
      (''failureThreshold'', z_threshold to_number), (''successThreshold'', z_threshold to_number),
      (''authHeaders'', authHeaders_schema)]"

text \<open>\<open>z.object\<close>: the fields with an issue, or the parsed object in the schema's order. An
  absent optional field is left out; an absent required one is an issue.\<close>

definition z_object :: "(string \<times> (js \<Rightarrow> js option)) list \<Rightarrow> string list \<Rightarrow> fields \<Rightarrow> string list + fields" where
  "z_object schema required body =
     (let bad = map fst (filter (\<lambda>(k, p). if get k body = JUndef then k \<in> set required else p (get k body) = None) schema)
      in if bad \<noteq> [] then Inl bad
         else Inr (concat (map (\<lambda>(k, p). if get k body = JUndef then [] else [(k, the (p (get k body)))]) schema)))"

definition createMonitorValidator :: "(js \<Rightarrow> rat option) \<Rightarrow> fields \<Rightarrow> string list + fields" where
  "createMonitorValidator to_number body = z_object (monitorFields to_number) [''url''] body"

definition deleteMonitorValidator :: "js \<Rightarrow> string list + js" where
  "deleteMonitorValidator monitorId = (if objectId monitorId then Inr monitorId else Inl [''monitorId''])"

definition updateMonitorValidator :: "(js \<Rightarrow> rat option) \<Rightarrow> js \<Rightarrow> fields \<Rightarrow> string list + js \<times> fields" where
  "updateMonitorValidator to_number monitorId body =
     (case (deleteMonitorValidator monitorId, z_object (monitorFields to_number) [] body) of
        (Inr i, Inr b) \<Rightarrow> Inr (i, b)
      | (p, b) \<Rightarrow> Inl ((case p of Inl es \<Rightarrow> es | _ \<Rightarrow> []) @ (case b of Inl es \<Rightarrow> es | _ \<Rightarrow> [])))"

subsection \<open>What gets through\<close>

definition kept_fields :: "(string \<times> (js \<Rightarrow> js option)) list \<Rightarrow> fields \<Rightarrow> fields" where
  "kept_fields schema body =
     concat (map (\<lambda>(k, p). if get k body = JUndef then [] else [(k, the (p (get k body)))]) schema)"

lemma kept_fields_simps:
  "kept_fields [] body = []"
  "kept_fields ((k, p) # schema) body =
    (if get k body = JUndef then kept_fields schema body else (k, the (p (get k body))) # kept_fields schema body)"
  by (simp_all add: kept_fields_def)

lemma map_of_kept_fields:
  assumes "distinct (map fst schema)"
  shows "map_of (kept_fields schema body) k =
    (case map_of schema k of
       None \<Rightarrow> None
     | Some p \<Rightarrow> if get k body = JUndef then None else Some (the (p (get k body))))"
  using assms
proof (induction schema)
  case (Cons x schema)
  obtain k' p' where x: "x = (k', p')" by (cases x)
  with Cons have IH: "map_of (kept_fields schema body) k =
      (case map_of schema k of None \<Rightarrow> None | Some p \<Rightarrow> if get k body = JUndef then None else Some (the (p (get k body))))"
    and new: "map_of schema k' = None"
    by (simp_all add: map_of_eq_None_iff)
  show ?case
  proof (cases "k = k'")
    case True
    with IH new x show ?thesis by (simp add: kept_fields_simps)
  next
    case False
    with IH x show ?thesis by (simp add: kept_fields_simps)
  qed
qed (simp add: kept_fields_simps)

lemma z_object_spec:
  assumes "z_object schema required body = Inr out" and "distinct (map fst schema)"
  shows "map_of out k =
    (case map_of schema k of None \<Rightarrow> None | Some p \<Rightarrow> if get k body = JUndef then None else p (get k body))"
    and "\<And>r. r \<in> set required \<Longrightarrow> r \<in> fst ` set schema \<Longrightarrow> get r body \<noteq> JUndef"
proof -
  from assms(1) have out: "out = kept_fields schema body"
    and ok: "\<And>q p. (q, p) \<in> set schema \<Longrightarrow> if get q body = JUndef then q \<notin> set required else p (get q body) \<noteq> None"
    by (auto simp: z_object_def kept_fields_def Let_def filter_empty_conv split: if_splits)
  show "map_of out k =
      (case map_of schema k of None \<Rightarrow> None | Some p \<Rightarrow> if get k body = JUndef then None else p (get k body))"
  proof (cases "map_of schema k")
    case (Some p)
    then have "(k, p) \<in> set schema" by (rule map_of_SomeD)
    from ok [OF this] Some show ?thesis unfolding out map_of_kept_fields [OF assms(2)] by auto
  qed (simp add: out map_of_kept_fields [OF assms(2)])
  show "get r body \<noteq> JUndef" if r: "r \<in> set required" "r \<in> fst ` set schema" for r
  proof -
    from r(2) obtain p where "(r, p) \<in> set schema" by auto
    from ok [OF this] r(1) show ?thesis by auto
  qed
qed

lemma z_object_accepts:
  assumes "z_object schema required body = Inr out" and "(k, p) \<in> set schema" and "get k body \<noteq> JUndef"
  shows "p (get k body) \<noteq> None"
  using assms by (auto simp: z_object_def Let_def filter_empty_conv split: if_splits)

lemma monitorFields_distinct: "distinct (map fst (monitorFields to_number))"
  by (simp add: monitorFields_def)

lemma monitorFields_names:
  "fst ` set (monitorFields to_number) =
    {''type'', ''title'', ''name'', ''url'', ''description'', ''interval'', ''timeout'', ''active'', ''ignoreTlsErrors'',
     ''failureThreshold'', ''successThreshold'', ''authHeaders''}"
  by (auto simp: monitorFields_def)

definition declared :: "string set" where
  "declared =
     {''type'', ''title'', ''name'', ''url'', ''description'', ''interval'', ''timeout'', ''active'', ''ignoreTlsErrors'',
      ''failureThreshold'', ''successThreshold'', ''authHeaders''}"

lemma monitorFields_lookup: "map_of (monitorFields to_number) k = None \<longleftrightarrow> k \<notin> declared"
  using monitorFields_names [of to_number] by (simp add: map_of_eq_None_iff declared_def)

text \<open>A threshold that was let through is a whole number between 1 and 100.\<close>

lemma z_threshold_bounds: "z_threshold to_number v = Some w \<Longrightarrow> \<exists>n. w = JNum n \<and> of_int \<lfloor>n\<rfloor> = n \<and> 1 \<le> n \<and> n \<le> 100"
  by (auto simp: z_threshold_def split: option.splits if_splits)

lemma z_positive_some: "z_positive to_number v = Some w \<Longrightarrow> \<exists>n. w = JNum n \<and> 0 < n"
  by (auto simp: z_positive_def split: option.splits if_splits)

lemma z_text_some: "z_text False 1 v = Some w \<Longrightarrow> \<exists>u. w = JStr u \<and> u \<noteq> []"
  by (cases v) (auto simp: z_text_def Let_def split: if_splits)

text \<open>
  C17. The schemas are an allow-list: whatever a request carries, the body a controller sees has
  no field the schema does not declare (no owner, no status, no counter of the scheduler),
  each field it has is the schema's parse of the one sent, a threshold is a whole number
  from 1 to 100, an interval is positive, and a created monitor has a URL.
\<close>

theorem monitor_body_allow_list:
  assumes "z_object (monitorFields to_number) required body = Inr out"
  shows "fst ` set out \<subseteq> declared \<and>
    (\<forall>k \<in> declared. get k body = JUndef \<longrightarrow> k \<notin> fst ` set out) \<and>
    (\<forall>k \<in> {''failureThreshold'', ''successThreshold''}. \<forall>w. map_of out k = Some w \<longrightarrow>
       (\<exists>n. w = JNum n \<and> of_int \<lfloor>n\<rfloor> = n \<and> 1 \<le> n \<and> n \<le> 100)) \<and>
    (\<forall>k \<in> {''interval'', ''timeout''}. \<forall>w. map_of out k = Some w \<longrightarrow> (\<exists>n. w = JNum n \<and> 0 < n)) \<and>
    (''url'' \<in> set required \<longrightarrow> (\<exists>u. map_of out ''url'' = Some (JStr u) \<and> u \<noteq> []))"
proof -
  note spec = z_object_spec [OF assms monitorFields_distinct]
  have keys: "k \<in> fst ` set out \<longleftrightarrow> map_of out k \<noteq> None" for k by (simp add: map_of_eq_None_iff)
  have dom: "k \<in> fst ` set out \<longrightarrow> k \<in> declared \<and> get k body \<noteq> JUndef" for k
    unfolding keys spec(1) using monitorFields_lookup [of to_number k] by (auto split: option.splits)
  have thr: "map_of (monitorFields to_number) ''failureThreshold'' = Some (z_threshold to_number)"
    "map_of (monitorFields to_number) ''successThreshold'' = Some (z_threshold to_number)"
    "map_of (monitorFields to_number) ''interval'' = Some (z_positive to_number)"
    "map_of (monitorFields to_number) ''timeout'' = Some (z_positive to_number)"
    "map_of (monitorFields to_number) ''url'' = Some (z_text False 1)"
    by (simp_all add: monitorFields_def)
  have t: "\<exists>n. w = JNum n \<and> of_int \<lfloor>n\<rfloor> = n \<and> 1 \<le> n \<and> n \<le> 100"
    if "k \<in> {''failureThreshold'', ''successThreshold''}" "map_of out k = Some w" for k w
    using that spec(1) [of k] z_threshold_bounds by (auto simp: thr split: if_splits)
  have p: "\<exists>n. w = JNum n \<and> 0 < n" if "k \<in> {''interval'', ''timeout''}" "map_of out k = Some w" for k w
    using that spec(1) [of k] z_positive_some by (auto simp: thr split: if_splits)
  have u: "\<exists>u. map_of out ''url'' = Some (JStr u) \<and> u \<noteq> []" if r: "''url'' \<in> set required"
  proof -
    have "''url'' \<in> fst ` set (monitorFields to_number)" by (simp add: monitorFields_names)
    from spec(2) [OF r this] have sent: "get ''url'' body \<noteq> JUndef" .
    have "z_text False 1 (get ''url'' body) \<noteq> None"
      by (rule z_object_accepts [OF assms map_of_SomeD [OF thr(5)] sent])
    then obtain w where w: "z_text False 1 (get ''url'' body) = Some w" by blast
    have "map_of out ''url'' = Some w" using spec(1) [of "''url''"] thr(5) sent w by simp
    with z_text_some [OF w] show ?thesis by blast
  qed
  show ?thesis
  proof (intro conjI ballI allI impI subsetI)
    show "k \<in> declared" if "k \<in> fst ` set out" for k using dom [of k] that by simp
    show "k \<notin> fst ` set out" if "get k body = JUndef" for k using dom [of k] that by simp
  qed (rule t p u; assumption)+
qed

definition plain_number :: "js \<Rightarrow> rat option" where
  "plain_number v = (case v of JNum n \<Rightarrow> Some n | _ \<Rightarrow> None)"

theorem monitor_body_allow_list_witness:
  "\<exists>out. createMonitorValidator plain_number
       [(''userId'', JStr ''eve''), (''url'', JStr ''http://x''), (''failureThreshold'', JNum 3)] = Inr out \<and>
     fst ` set out \<subseteq> declared \<and> ''userId'' \<notin> fst ` set out"
proof -
  let ?body = "[(''userId'', JStr ''eve''), (''url'', JStr ''http://x''), (''failureThreshold'', JNum 3)]"
  have p: "z_object (monitorFields plain_number) [''url''] ?body =
      Inr [(''url'', JStr ''http://x''), (''failureThreshold'', JNum 3)]"
    by (simp add: z_object_def monitorFields_def get_def z_text_def z_threshold_def plain_number_def)
  from monitor_body_allow_list [OF p] p show ?thesis by (auto simp: createMonitorValidator_def declared_def)
qed

text \<open>\<open>Boolean("false")\<close> is true: a client that sends the text cannot pause a monitor with it.\<close>

lemma textual_false_is_true:
  "z_object (monitorFields to_number) [] [(''active'', JStr ''false'')] = Inr [(''active'', JBool True)]"
  by (simp add: z_object_def monitorFields_def get_def js_falsy_def)

end
