(* ===== verification/Store.thy ===== *)
theory Store
  imports Http
begin

text \<open>
  The client's store, \<open>Frontend/src/app/app.store.js\<close> and the slices under
  \<open>Frontend/src/features/\<close>: monitors, incidents, logs, statuses and the session. A row
  is the JavaScript object the API sent; an action carries its slice, as the prefix of its
  type does in the source; \<open>Date.now()\<close> is an argument of the reducers.
\<close>

subsection \<open>Rows\<close>

type_synonym row = fields

definition row_id :: "row \<Rightarrow> js" where
  "row_id r = get ''_id'' r"

text \<open>\<open>row.k = v\<close>, and the same guarded by \<open>v !== undefined\<close>.\<close>

definition put :: "string \<Rightarrow> js \<Rightarrow> row \<Rightarrow> row" where
  "put k v r = spread r [(k, v)]"

definition put_defined :: "string \<Rightarrow> js \<Rightarrow> row \<Rightarrow> row" where
  "put_defined k v r = (if v = JUndef then r else put k v r)"

subsection \<open>Slices\<close>

record request_state =
  loading :: bool
  error :: "string option"

record fetched_state = request_state +
  lastFetched :: "time option"

record monitor_slice = fetched_state +
  monitors :: "row list"

record incident_slice = fetched_state +
  incidents :: "row list"

record log_slice = fetched_state +
  logs :: "row list"
  selectedLogs :: "row list"

record status_entry =
  shown_status :: string
  shown_lastChecked :: js
  shown_logs :: "row list"

record status_slice = request_state +
  statusData :: "string \<Rightarrow> status_entry option"

record otp_state =
  otp_sent :: bool
  otp_verifying :: bool
  otp_error :: "string option"
  otp_success :: bool

record auth_slice = request_state +
  auth_user :: js
  isAuthenticated :: bool
  otp :: otp_state
  userId :: js

definition monitor_initial :: monitor_slice where
  "monitor_initial = \<lparr>loading = False, error = None, lastFetched = None, monitors = []\<rparr>"

definition incident_initial :: incident_slice where
  "incident_initial = \<lparr>loading = False, error = None, lastFetched = None, incidents = []\<rparr>"

definition log_initial :: log_slice where
  "log_initial = \<lparr>loading = False, error = None, lastFetched = None, logs = [], selectedLogs = []\<rparr>"

definition status_initial :: status_slice where
  "status_initial = \<lparr>loading = False, error = None, statusData = (\<lambda>_. None)\<rparr>"

definition otp_initial :: otp_state where
  "otp_initial = \<lparr>otp_sent = False, otp_verifying = False, otp_error = None, otp_success = False\<rparr>"

definition auth_initial :: auth_slice where
  "auth_initial =
     \<lparr>loading = False, error = None, auth_user = JNull, isAuthenticated = False, otp = otp_initial, userId = JNull\<rparr>"

subsection \<open>Actions and reducers\<close>

datatype monitor_action =
    Monitor_setLoading bool
  | Monitor_setError "string option"
  | SetMonitors "row list"
  | AddMonitor row
  | RemoveMonitor js
  | UpdateMonitorStatus js js js \<comment> \<open>\<open>_id\<close>, \<open>status\<close>, \<open>lastChecked\<close>\<close>

datatype incident_action =
    SetIncidentLoading bool
  | SetIncidentError "string option"
  | SetIncidents "row list"
  | AddIncident row
  | UpdateIncident js js js js \<comment> \<open>\<open>_id\<close>, \<open>status\<close>, \<open>endTime\<close>, \<open>duration\<close>\<close>
  | RemoveIncident js

datatype log_action =
    SetLogsLoading bool
  | SetLogsError "string option"
  | SetLogs "row list"
  | SetSelectedLogs "row list"
  | AddLog row
  | ClearSelectedLogs

datatype status_action =
    SetStatusLoading bool
  | SetStatusError "string option"
  | SetMonitorStatus string status_entry

datatype auth_action =
    SetUser js
  | Auth_setLoading bool
  | Auth_setError "string option"
  | SetAuthenticated bool
  | SetUserId js
  | SetOtpSent bool
  | ClearAuthState
  | VerifyOtp_pending
  | VerifyOtp_fulfilled
  | VerifyOtp_rejected "string option"

datatype action =
    Monitor monitor_action
  | Incident incident_action
  | Log log_action
  | Status status_action
  | Auth auth_action

text \<open>\<open>setLoading\<close> and \<open>setError\<close> of the four data slices.\<close>

definition set_loading :: "bool \<Rightarrow> 'a request_state_scheme \<Rightarrow> 'a request_state_scheme" where
  "set_loading b s = s\<lparr>loading := b\<rparr>"

definition fail_request :: "string option \<Rightarrow> 'a request_state_scheme \<Rightarrow> 'a request_state_scheme" where
  "fail_request e s = s\<lparr>error := e, loading := False\<rparr>"

primrec monitor_reducer :: "time \<Rightarrow> monitor_slice \<Rightarrow> monitor_action \<Rightarrow> monitor_slice" where
  "monitor_reducer now s (Monitor_setLoading b) = set_loading b s"
| "monitor_reducer now s (Monitor_setError e) = fail_request e s"
| "monitor_reducer now s (SetMonitors rs) = s\<lparr>monitors := rs, error := None, lastFetched := Some now\<rparr>"
| "monitor_reducer now s (AddMonitor r) = s\<lparr>monitors := r # monitors s, error := None\<rparr>"
| "monitor_reducer now s (RemoveMonitor i) =
     s\<lparr>monitors := filter (\<lambda>r. row_id r \<noteq> i) (monitors s), error := None\<rparr>"
| "monitor_reducer now s (UpdateMonitorStatus i st lc) =
     s\<lparr>monitors := update_first (\<lambda>r. row_id r = i)
        (\<lambda>r. put_defined ''lastChecked'' lc (put_defined ''status'' st r)) (monitors s)\<rparr>"

primrec incident_reducer :: "time \<Rightarrow> incident_slice \<Rightarrow> incident_action \<Rightarrow> incident_slice" where
  "incident_reducer now s (SetIncidentLoading b) = set_loading b s"
| "incident_reducer now s (SetIncidentError e) = fail_request e s"
| "incident_reducer now s (SetIncidents rs) = s\<lparr>incidents := rs, error := None, lastFetched := Some now\<rparr>"
| "incident_reducer now s (AddIncident r) = s\<lparr>incidents := r # incidents s, error := None\<rparr>"
| "incident_reducer now s (UpdateIncident i st et du) =
     s\<lparr>incidents := update_first (\<lambda>r. row_id r = i)
        (\<lambda>r. put_defined ''duration'' du (put_defined ''endTime'' et (put_defined ''status'' st r))) (incidents s)\<rparr>"
| "incident_reducer now s (RemoveIncident i) =
     s\<lparr>incidents := filter (\<lambda>r. row_id r \<noteq> i) (incidents s)\<rparr>"

primrec log_reducer :: "time \<Rightarrow> log_slice \<Rightarrow> log_action \<Rightarrow> log_slice" where
  "log_reducer now s (SetLogsLoading b) = set_loading b s"
| "log_reducer now s (SetLogsError e) = fail_request e s"
| "log_reducer now s (SetLogs rs) = s\<lparr>logs := rs, error := None, lastFetched := Some now\<rparr>"
| "log_reducer now s (SetSelectedLogs rs) = s\<lparr>selectedLogs := rs, error := None\<rparr>"
| "log_reducer now s (AddLog r) = s\<lparr>logs := r # logs s\<rparr>"
| "log_reducer now s ClearSelectedLogs = s\<lparr>selectedLogs := []\<rparr>"

primrec status_reducer :: "status_slice \<Rightarrow> status_action \<Rightarrow> status_slice" where
  "status_reducer s (SetStatusLoading b) = set_loading b s"
| "status_reducer s (SetStatusError e) = fail_request e s"
| "status_reducer s (SetMonitorStatus i e) = s\<lparr>statusData := (statusData s)(i \<mapsto> e), error := None\<rparr>"

text \<open>\<open>auth/setError\<close> leaves \<open>loading\<close> alone; the last three are the thunk's lifecycle.\<close>

primrec auth_reducer :: "auth_slice \<Rightarrow> auth_action \<Rightarrow> auth_slice" where
  "auth_reducer s (SetUser u) = s\<lparr>auth_user := u\<rparr>"
| "auth_reducer s (Auth_setLoading b) = s\<lparr>loading := b\<rparr>"
| "auth_reducer s (Auth_setError e) = s\<lparr>error := e\<rparr>"
| "auth_reducer s (SetAuthenticated b) = s\<lparr>isAuthenticated := b\<rparr>"
| "auth_reducer s (SetUserId u) = s\<lparr>userId := u\<rparr>"
| "auth_reducer s (SetOtpSent b) = s\<lparr>otp := (otp s)\<lparr>otp_sent := b\<rparr>\<rparr>"
| "auth_reducer s ClearAuthState =
     s\<lparr>auth_user := JNull, loading := False, error := None, isAuthenticated := False, userId := JNull,
       otp := \<lparr>otp_sent = False, otp_verifying = False, otp_error = None, otp_success = False\<rparr>\<rparr>"
| "auth_reducer s VerifyOtp_pending = s\<lparr>otp := (otp s)\<lparr>otp_verifying := True, otp_error := None\<rparr>\<rparr>"
| "auth_reducer s VerifyOtp_fulfilled =
     s\<lparr>otp := (otp s)\<lparr>otp_verifying := False, otp_success := True, otp_error := None\<rparr>\<rparr>"
| "auth_reducer s (VerifyOtp_rejected e) =
     s\<lparr>otp := (otp s)\<lparr>otp_verifying := False, otp_error := Some (str_or e ''OTP verification failed'')\<rparr>\<rparr>"

subsection \<open>The store\<close>

record store =
  auth :: auth_slice
  monitor :: monitor_slice
  incident :: incident_slice
  log :: log_slice
  status :: status_slice

definition initial_store :: store where
  "initial_store =
     \<lparr>auth = auth_initial, monitor = monitor_initial, incident = incident_initial, log = log_initial,
      status = status_initial\<rparr>"

text \<open>\<open>combineReducers\<close>: an absent state means every slice starts from its initial state.\<close>

definition appReducer :: "time \<Rightarrow> store option \<Rightarrow> action \<Rightarrow> store" where
  "appReducer now prior a =
     (let s = nullish prior initial_store
      in case a of
           Monitor m \<Rightarrow> s\<lparr>monitor := monitor_reducer now (monitor s) m\<rparr>
         | Incident i \<Rightarrow> s\<lparr>incident := incident_reducer now (incident s) i\<rparr>
         | Log l \<Rightarrow> s\<lparr>log := log_reducer now (log s) l\<rparr>
         | Status x \<Rightarrow> s\<lparr>status := status_reducer (status s) x\<rparr>
         | Auth x \<Rightarrow> s\<lparr>auth := auth_reducer (auth s) x\<rparr>)"

definition rootReducer :: "time \<Rightarrow> store \<Rightarrow> action \<Rightarrow> store" where
  "rootReducer now s a =
     (if a = Auth ClearAuthState then appReducer now None a else appReducer now (Some s) a)"

text \<open>A run of the store: the dispatched actions with the moments they are dispatched at.\<close>

primrec run :: "(time \<times> action) list \<Rightarrow> store \<Rightarrow> store" where
  "run [] s = s"
| "run (x # xs) s = run xs (rootReducer (fst x) s (snd x))"

lemma run_append [simp]: "run (xs @ ys) s = run ys (run xs s)"
  by (induction xs arbitrary: s) simp_all

lemma rootReducer_clear [simp]: "rootReducer now s (Auth ClearAuthState) = initial_store"
  by (simp add: rootReducer_def appReducer_def initial_store_def auth_initial_def otp_initial_def)

lemma rootReducer_simps [simp]:
  "rootReducer now s (Monitor m) = s\<lparr>monitor := monitor_reducer now (monitor s) m\<rparr>"
  "rootReducer now s (Incident i) = s\<lparr>incident := incident_reducer now (incident s) i\<rparr>"
  "rootReducer now s (Log l) = s\<lparr>log := log_reducer now (log s) l\<rparr>"
  "rootReducer now s (Status x) = s\<lparr>status := status_reducer (status s) x\<rparr>"
  "a \<noteq> ClearAuthState \<Longrightarrow> rootReducer now s (Auth a) = s\<lparr>auth := auth_reducer (auth s) a\<rparr>"
  by (simp_all add: rootReducer_def appReducer_def)

text \<open>
  Signing out separates two sessions on one tab: whatever was dispatched before the
  sign-out, in whatever state the store was, everything afterwards is as in a tab that has
  just been opened.
\<close>

theorem sign_out_separates_sessions:
  "run (earlier @ (t, Auth ClearAuthState) # afterwards) s = run afterwards initial_store"
  by simp

subsection \<open>A list of rows as a finite map\<close>

text \<open>What the screens read of a list: the first row of each identifier.\<close>

definition row_map :: "row list \<Rightarrow> js \<Rightarrow> row option" where
  "row_map rs = map_of (map (\<lambda>r. (row_id r, r)) rs)"

lemma row_map_Cons [simp]: "row_map (r # rs) = (row_map rs)(row_id r \<mapsto> r)"
  by (simp add: row_map_def)

lemma row_map_Nil [simp]: "row_map [] = (\<lambda>_. None)"
  by (simp add: row_map_def)

lemma row_map_find: "row_map rs i = find (\<lambda>r. row_id r = i) rs"
  by (induction rs) auto

lemma row_map_filter: "row_map (filter (\<lambda>r. row_id r \<noteq> i) rs) = (row_map rs)(i := None)"
  by (induction rs) (auto simp: fun_eq_iff)

lemma row_map_update_first:
  assumes "\<And>r. row_id (f r) = row_id r"
  shows "row_map (update_first (\<lambda>r. row_id r = i) f rs) =
    (case row_map rs i of None \<Rightarrow> row_map rs | Some r \<Rightarrow> (row_map rs)(i \<mapsto> f r))"
  using assms by (induction rs) (auto simp: fun_eq_iff split: option.splits)

lemma get_put: "get k (put k' v r) = (if k = k' then v else get k r)"
  by (simp add: get_def put_def map_of_spread)

lemma row_id_put_defined [simp]: "k \<noteq> ''_id'' \<Longrightarrow> row_id (put_defined k v r) = row_id r"
  by (auto simp: put_defined_def row_id_def get_put)

text \<open>A slice of rows: what its operations do to the list, and so to the map.\<close>

locale keyed_rows =
  fixes rows :: "'s \<Rightarrow> row list" and add :: "row \<Rightarrow> 's \<Rightarrow> 's" and remove :: "js \<Rightarrow> 's \<Rightarrow> 's"
    and update :: "js \<Rightarrow> 'u \<Rightarrow> 's \<Rightarrow> 's" and patch :: "'u \<Rightarrow> row \<Rightarrow> row"
  assumes rows_add: "rows (add r s) = r # rows s"
    and rows_remove: "rows (remove i s) = filter (\<lambda>r. row_id r \<noteq> i) (rows s)"
    and rows_update: "rows (update i u s) = update_first (\<lambda>r. row_id r = i) (patch u) (rows s)"
    and patch_id: "row_id (patch u r) = row_id r"
begin

lemma add_refines: "row_map (rows (add r s)) = (row_map (rows s))(row_id r \<mapsto> r)"
  by (simp add: rows_add)

lemma remove_refines: "row_map (rows (remove i s)) = (row_map (rows s))(i := None)"
  by (simp add: rows_remove row_map_filter)

lemma update_refines:
  "row_map (rows (update i u s)) =
    (case row_map (rows s) i of None \<Rightarrow> row_map (rows s) | Some r \<Rightarrow> (row_map (rows s))(i \<mapsto> patch u r))"
  by (simp add: rows_update row_map_update_first patch_id)

lemmas refines = add_refines remove_refines update_refines

end

text \<open>What an update of a monitor and of an incident writes into its row.\<close>

definition monitor_patch :: "js \<times> js \<Rightarrow> row \<Rightarrow> row" where
  "monitor_patch u r = put_defined ''lastChecked'' (snd u) (put_defined ''status'' (fst u) r)"

definition incident_patch :: "js \<times> js \<times> js \<Rightarrow> row \<Rightarrow> row" where
  "incident_patch u r =
     put_defined ''duration'' (snd (snd u)) (put_defined ''endTime'' (fst (snd u)) (put_defined ''status'' (fst u) r))"

interpretation mon: keyed_rows monitors "\<lambda>r s. monitor_reducer now s (AddMonitor r)"
  "\<lambda>i s. monitor_reducer now s (RemoveMonitor i)"
  "\<lambda>i u s. monitor_reducer now s (UpdateMonitorStatus i (fst u) (snd u))" monitor_patch
  for now by unfold_locales (simp_all add: monitor_patch_def [abs_def])

interpretation inc: keyed_rows incidents "\<lambda>r s. incident_reducer now s (AddIncident r)"
  "\<lambda>i s. incident_reducer now s (RemoveIncident i)"
  "\<lambda>i u s. incident_reducer now s (UpdateIncident i (fst u) (fst (snd u)) (snd (snd u)))" incident_patch
  for now by unfold_locales (simp_all add: incident_patch_def [abs_def])

text \<open>
  The lists of the store refine finite maps: prepending a row is an insertion, the removal
  drops every copy of an identifier, and an update rewrites the row the screens read and no
  other; an update of an identifier the client does not hold changes nothing.
\<close>

theorem client_rows_refine_map:
  "row_map (monitors (monitor_reducer now s (AddMonitor r))) = (row_map (monitors s))(row_id r \<mapsto> r) \<and>
   row_map (monitors (monitor_reducer now s (RemoveMonitor i))) = (row_map (monitors s))(i := None) \<and>
   row_map (monitors (monitor_reducer now s (UpdateMonitorStatus i st lc))) =
     (case row_map (monitors s) i of None \<Rightarrow> row_map (monitors s)
      | Some x \<Rightarrow> (row_map (monitors s))(i \<mapsto> monitor_patch (st, lc) x)) \<and>
   row_map (incidents (incident_reducer now q (AddIncident r))) = (row_map (incidents q))(row_id r \<mapsto> r) \<and>
   row_map (incidents (incident_reducer now q (RemoveIncident i))) = (row_map (incidents q))(i := None) \<and>
   row_map (incidents (incident_reducer now q (UpdateIncident i st et du))) =
     (case row_map (incidents q) i of None \<Rightarrow> row_map (incidents q)
      | Some x \<Rightarrow> (row_map (incidents q))(i \<mapsto> incident_patch (st, et, du) x))"
  by (intro conjI mon.add_refines mon.remove_refines mon.update_refines [where u = "(st, lc)", simplified fst_conv snd_conv]
      inc.add_refines inc.remove_refines inc.update_refines [where u = "(st, et, du)", simplified fst_conv snd_conv])

end
