(* ===== verification/Client_Session.thy ===== *)
theory Client_Session
  imports Store
begin

text \<open>
  The client's asynchronous handlers: \<open>useAuth.js\<close>, \<open>useMonitor.js\<close>, \<open>useIncident.js\<close>,
  \<open>useLogs.js\<close>, \<open>useStatus.js\<close> and the session restore of \<open>App.jsx\<close>. A handler dispatches
  some actions, waits for one request, and dispatches the rest when it settles; between the
  two any other handler may run. What a handler reads of the store is what its component
  last rendered, an argument of its own. Every list endpoint answers \<open>{ data: [...] }\<close>, so
  the alternatives of \<open>response?.data?.data || response?.data || \<dots>\<close> come down to \<open>data\<close>.
\<close>

subsection \<open>Requests in two halves\<close>

text \<open>\<open>err.message\<close> and \<open>err.response?.data?.message\<close>.\<close>

record client_error =
  x_message :: "string option"
  x_reply :: "string option"

definition error_text :: "client_error \<Rightarrow> string \<Rightarrow> string" where
  "error_text e fallback = str_or (x_reply e) (str_or (x_message e) fallback)"

text \<open>The actions before the request and after it, and whether the failure reaches the caller.\<close>

record 'r task =
  before :: "action list"
  after :: "client_error + 'r \<Rightarrow> action list"
  rethrows :: bool

subsection \<open>Monitors\<close>

definition CACHE_TIME :: int where
  "CACHE_TIME = 2 * 60 * 1000"

definition is_fresh :: "time option \<Rightarrow> time \<Rightarrow> bool" where
  "is_fresh fetched now = (case fetched of None \<Rightarrow> False | Some t \<Rightarrow> t \<noteq> 0 \<and> now - t < CACHE_TIME)"

definition handleCreateMonitor :: "row response task" where
  "handleCreateMonitor =
     \<lparr>before = [Monitor (Monitor_setLoading True)],
      after = (\<lambda>r. (case r of
                 Inr resp \<Rightarrow> [Monitor (AddMonitor (data resp))]
               | Inl e \<Rightarrow> [Monitor (Monitor_setError (x_message e))]) @ [Monitor (Monitor_setLoading False)]),
      rethrows = False\<rparr>"

definition handleGetMonitors :: "monitor_slice \<Rightarrow> time \<Rightarrow> bool \<Rightarrow> row list response task option" where
  "handleGetMonitors seen now forceRefetch =
     (if monitors seen \<noteq> [] \<and> is_fresh (lastFetched seen) now \<and> \<not> forceRefetch then None
      else Some \<lparr>before = [Monitor (Monitor_setLoading True)],
        after = (\<lambda>r. (case r of
                   Inr resp \<Rightarrow> [Monitor (SetMonitors (data resp))]
                 | Inl e \<Rightarrow> [Monitor (Monitor_setError (x_message e))]) @ [Monitor (Monitor_setLoading False)]),
        rethrows = False\<rparr>)"

definition handleDeleteMonitor :: "string \<Rightarrow> unit response task" where
  "handleDeleteMonitor monitorId =
     \<lparr>before = [Monitor (Monitor_setLoading True)],
      after = (\<lambda>r. (case r of
                 Inr _ \<Rightarrow> [Monitor (RemoveMonitor (JStr monitorId))]
               | Inl e \<Rightarrow> [Monitor (Monitor_setError (Some (error_text e ''Failed to delete monitor'')))]) @
               [Monitor (Monitor_setLoading False)]),
      rethrows = True\<rparr>"

subsection \<open>Incidents, logs and statuses\<close>

text \<open>\<open>x || y\<close>; \<open>ms\<close> stands for \<open>new Date(x).getTime()\<close>.\<close>

definition or_else :: "js \<Rightarrow> js \<Rightarrow> js" where
  "or_else x y = (if js_falsy x then y else x)"

definition incident_date :: "row \<Rightarrow> js" where
  "incident_date r = or_else (get ''createdAt'' r) (get ''startTime'' r)"

definition log_date :: "row \<Rightarrow> js" where
  "log_date r = or_else (or_else (get ''createdAt'' r) (get ''timestamp'' r)) (JNum 0)"

text \<open>A stable sort, latest first.\<close>

definition latest_first :: "(js \<Rightarrow> int) \<Rightarrow> (row \<Rightarrow> js) \<Rightarrow> row list \<Rightarrow> row list" where
  "latest_first ms date rs = sort_key (\<lambda>r. - ms (date r)) rs"

definition handleGetAllIncidents :: "(js \<Rightarrow> int) \<Rightarrow> incident_slice \<Rightarrow> time \<Rightarrow> bool \<Rightarrow> row list response task option" where
  "handleGetAllIncidents ms seen now forceRefetch =
     (if incidents seen \<noteq> [] \<and> is_fresh (lastFetched seen) now \<and> \<not> forceRefetch then None
      else Some \<lparr>before = [Incident (SetIncidentLoading True)],
        after = (\<lambda>r. (case r of
                   Inr resp \<Rightarrow> [Incident (SetIncidents (latest_first ms incident_date (data resp)))]
                 | Inl e \<Rightarrow> [Incident (SetIncidentError (x_message e))]) @ [Incident (SetIncidentLoading False)]),
        rethrows = False\<rparr>)"

definition handleGetAllLogs :: "(js \<Rightarrow> int) \<Rightarrow> log_slice \<Rightarrow> time \<Rightarrow> bool \<Rightarrow> row list response task option" where
  "handleGetAllLogs ms seen now forceRefetch =
     (if logs seen \<noteq> [] \<and> is_fresh (lastFetched seen) now \<and> \<not> forceRefetch then None
      else Some \<lparr>before = [Log (SetLogsLoading True)],
        after = (\<lambda>r. (case r of
                   Inr resp \<Rightarrow> [Log (SetLogs (latest_first ms log_date (data resp)))]
                 | Inl e \<Rightarrow> [Log (SetLogsError (x_message e))]) @ [Log (SetLogsLoading False)]),
        rethrows = False\<rparr>)"

definition handleGetLogsByMonitorId :: "(js \<Rightarrow> int) \<Rightarrow> row list response task" where
  "handleGetLogsByMonitorId ms =
     \<lparr>before = [Log (SetLogsLoading True)],
      after = (\<lambda>r. (case r of
                 Inr resp \<Rightarrow> [Log (SetSelectedLogs (latest_first ms log_date (data resp)))]
               | Inl e \<Rightarrow> [Log (SetLogsError (x_message e))]) @ [Log (SetLogsLoading False)]),
      rethrows = False\<rparr>"

text \<open>\<open>(x || '').toUpperCase()\<close>, \<open>None\<close> when \<open>x\<close> has no such method.\<close>

definition upper_char :: "char \<Rightarrow> char" where
  "upper_char c =
     (let n = of_char c :: nat in if 97 \<le> n \<and> n \<le> 122 then char_of (n - 32) else c)"

definition upper_text :: "js \<Rightarrow> string option" where
  "upper_text v = (if js_falsy v then Some '''' else case v of JStr s \<Rightarrow> Some (map upper_char s) | _ \<Rightarrow> None)"

definition reads_as_down :: "string \<Rightarrow> string \<Rightarrow> bool" where
  "reads_as_down logStatus logMessage \<longleftrightarrow>
     logStatus \<in> {''DOWN'', ''ERROR'', ''FAILING''} \<or>
     list_ex (\<lambda>w. str_includes w logMessage) [''FAIL'', ''ERROR'', ''DOWN'', ''TIMEOUT'']"

text \<open>The entry shown for a monitor, from its sorted logs.\<close>

definition status_entry_of :: "row list \<Rightarrow> status_entry option" where
  "status_entry_of sortedLogs =
     (case sortedLogs of
        [] \<Rightarrow> Some \<lparr>shown_status = ''PENDING'', shown_lastChecked = js.JNull, shown_logs = []\<rparr>
      | latest # _ \<Rightarrow>
          (case (upper_text (get ''status'' latest), upper_text (or_else (get ''message'' latest) (get ''reason'' latest))) of
             (Some st, Some msg) \<Rightarrow>
               Some \<lparr>shown_status = (if reads_as_down st msg then ''DOWN'' else ''UP''),
                     shown_lastChecked = or_else (get ''createdAt'' latest) (get ''timestamp'' latest),
                     shown_logs = sortedLogs\<rparr>
           | _ \<Rightarrow> None))"

definition handleGetMonitorStatus ::
    "(js \<Rightarrow> int) \<Rightarrow> status_slice \<Rightarrow> string \<Rightarrow> bool \<Rightarrow> row list response task option" where
  "handleGetMonitorStatus ms seen monitorId forceRefetch =
     (if statusData seen monitorId \<noteq> None \<and> \<not> forceRefetch then None
      else Some \<lparr>before = [Status (SetStatusLoading True)],
        after = (\<lambda>r. (case r of
                   Inr resp \<Rightarrow>
                     (case status_entry_of (latest_first ms log_date (data resp)) of
                        Some e \<Rightarrow> [Status (SetMonitorStatus monitorId e)]
                      | None \<Rightarrow> [Status (SetStatusError (Some ''toUpperCase is not a function''))])
                 | Inl e \<Rightarrow> [Status (SetStatusError (Some (str_or (x_message e) ''Failed to fetch monitor status'')))]) @
                 [Status (SetStatusLoading False)]),
        rethrows = False\<rparr>)"

text \<open>The sort keeps every row, puts the latest first, and leaves rows of one moment in their order.\<close>

lemma latest_first_sorts:
  "mset (latest_first ms date rs) = mset rs"
  "sorted_wrt (\<lambda>a b. ms (date b) \<le> ms (date a)) (latest_first ms date rs)"
  "filter (\<lambda>r. - ms (date r) = k) (latest_first ms date rs) = filter (\<lambda>r. - ms (date r) = k) rs"
proof -
  show "mset (latest_first ms date rs) = mset rs" by (simp add: latest_first_def)
  have "sorted (map (\<lambda>r. - ms (date r)) (latest_first ms date rs))" by (simp add: latest_first_def)
  then show "sorted_wrt (\<lambda>a b. ms (date b) \<le> ms (date a)) (latest_first ms date rs)"
    by (simp add: sorted_map)
  show "filter (\<lambda>r. - ms (date r) = k) (latest_first ms date rs) = filter (\<lambda>r. - ms (date r) = k) rs"
    by (simp add: latest_first_def sort_key_stable)
qed

text \<open>The status shown for a monitor is read from a log no other is later than.\<close>

lemma shown_status_of_latest:
  assumes "rs \<noteq> []" and "status_entry_of (latest_first ms log_date rs) = Some e"
  shows "\<exists>r \<in> set rs. (\<forall>q \<in> set rs. ms (log_date q) \<le> ms (log_date r)) \<and>
    (\<exists>st msg. upper_text (get ''status'' r) = Some st \<and>
       upper_text (or_else (get ''message'' r) (get ''reason'' r)) = Some msg \<and>
       (shown_status e = ''DOWN'' \<longleftrightarrow> reads_as_down st msg))"
proof -
  note l = latest_first_sorts [where ms = ms and date = log_date and rs = rs]
  from assms(1) l(1) obtain r rest where r: "latest_first ms log_date rs = r # rest"
    by (cases "latest_first ms log_date rs") auto
  have same: "set rs = insert r (set rest)" using l(1) r by (metis list.simps(15) set_mset_mset)
  from l(2) r have "\<forall>q \<in> set rs. ms (log_date q) \<le> ms (log_date r)" by (simp add: same)
  moreover have "\<exists>st msg. upper_text (get ''status'' r) = Some st \<and>
       upper_text (or_else (get ''message'' r) (get ''reason'' r)) = Some msg \<and>
       (shown_status e = ''DOWN'' \<longleftrightarrow> reads_as_down st msg)"
    using assms(2) unfolding r by (auto simp: status_entry_of_def split: option.splits if_splits)
  ultimately show ?thesis using same by blast
qed

subsection \<open>The session\<close>

text \<open>The part of a session reply the client reads: \<open>data.user\<close> and \<open>data.token\<close>.\<close>

record session_reply =
  sr_user :: row
  sr_token :: "string option"

definition auth_failure :: "client_error \<Rightarrow> string \<Rightarrow> action list" where
  "auth_failure e fallback = [Auth (Auth_setError (Some (error_text e fallback)))]"

definition auth_task :: "string \<Rightarrow> ('r \<Rightarrow> action list) \<Rightarrow> 'r task" where
  "auth_task fallback accept =
     \<lparr>before = [Auth (Auth_setLoading True)],
      after = (\<lambda>r. (case r of Inr x \<Rightarrow> accept x | Inl e \<Rightarrow> auth_failure e fallback) @ [Auth (Auth_setLoading False)]),
      rethrows = True\<rparr>"

definition signed_in :: "session_reply \<Rightarrow> action list" where
  "signed_in d =
     (if truthy_str (sr_token d) then [Auth (SetUser (JObj (sr_user d))), Auth (SetAuthenticated True)] else [])"

definition handleRegister :: "session_reply response task" where
  "handleRegister =
     auth_task ''Registration failed''
       (\<lambda>resp. signed_in (data resp) @ [Auth (SetUserId (row_id (sr_user (data resp)))), Auth (SetOtpSent True)])"

definition handleLogin :: "session_reply response task" where
  "handleLogin = auth_task ''Login failed'' (\<lambda>resp. signed_in (data resp))"

definition handleGoogleSignIn :: "session_reply response task" where
  "handleGoogleSignIn = auth_task ''Google sign-in failed'' (\<lambda>resp. signed_in (data resp))"

definition handleGetUserProfile :: "row response task" where
  "handleGetUserProfile =
     auth_task ''Failed to fetch user profile'' (\<lambda>resp. [Auth (SetUser (JObj (data resp)))])"

definition handleForgotPassword :: "unit response task" where
  "handleForgotPassword = auth_task ''Failed to initiate forgot password process'' (\<lambda>_. [])"

definition handleChangePassword :: "unit response task" where
  "handleChangePassword = auth_task ''Failed to change password'' (\<lambda>_. [])"

text \<open>The thunk turns a failure into its message; \<open>unwrap\<close> throws that text, which has no
  \<open>message\<close> of its own.\<close>

definition handleVerifyOtp :: "unit response task" where
  "handleVerifyOtp =
     \<lparr>before = [Auth VerifyOtp_pending],
      after = (\<lambda>r. case r of
                 Inr _ \<Rightarrow> [Auth VerifyOtp_fulfilled]
               | Inl e \<Rightarrow> [Auth (VerifyOtp_rejected (Some (str_or (x_reply e) ''OTP verification failed''))),
                           Auth (Auth_setError (Some ''OTP verification failed''))]),
      rethrows = True\<rparr>"

text \<open>A failed sign-out is logged and changes nothing of what follows.\<close>

definition handleLogout :: "unit response task" where
  "handleLogout =
     \<lparr>before = [Auth (Auth_setLoading True)],
      after = (\<lambda>_. [Auth (Auth_setLoading False), Auth ClearAuthState]),
      rethrows = False\<rparr>"

text \<open>\<open>App.jsx\<close>: restore the session from the cookie; a failure stays in the slice.\<close>

definition initAuth :: "row response task" where
  "initAuth =
     handleGetUserProfile\<lparr>after := (\<lambda>r. after handleGetUserProfile r @
        (case r of Inr _ \<Rightarrow> [Auth (SetAuthenticated True)] | Inl _ \<Rightarrow> [])), rethrows := False\<rparr>"

text \<open>\<open>ProtectedRoute.jsx\<close>.\<close>

definition ProtectedRoute :: "auth_slice \<Rightarrow> bool" where
  "ProtectedRoute a = isAuthenticated a"

subsection \<open>The client at run time\<close>

text \<open>What each handler may dispatch once its request has settled.\<close>

definition endings :: "'r task \<Rightarrow> action list set" where
  "endings t = range (after t)"

text \<open>
  The requests a screen may start: every handler, with whatever it last rendered and
  whatever moment it is.
\<close>

inductive starts :: "action list \<Rightarrow> action list set \<Rightarrow> bool" where
  create_monitor: "starts (before handleCreateMonitor) (endings handleCreateMonitor)"
| get_monitors: "handleGetMonitors seen now force = Some t \<Longrightarrow> starts (before t) (endings t)"
| delete_monitor: "starts (before (handleDeleteMonitor i)) (endings (handleDeleteMonitor i))"
| get_incidents: "handleGetAllIncidents ms seen_i now force = Some t \<Longrightarrow> starts (before t) (endings t)"
| get_logs: "handleGetAllLogs ms seen_l now force = Some t \<Longrightarrow> starts (before t) (endings t)"
| get_selected_logs: "starts (before (handleGetLogsByMonitorId ms)) (endings (handleGetLogsByMonitorId ms))"
| get_status: "handleGetMonitorStatus ms seen_s i force = Some t \<Longrightarrow> starts (before t) (endings t)"
| register: "starts (before handleRegister) (endings handleRegister)"
| login: "starts (before handleLogin) (endings handleLogin)"
| google_sign_in: "starts (before handleGoogleSignIn) (endings handleGoogleSignIn)"
| profile: "starts (before handleGetUserProfile) (endings handleGetUserProfile)"
| restore: "starts (before initAuth) (endings initAuth)"
| forgot_password: "starts (before handleForgotPassword) (endings handleForgotPassword)"
| change_password: "starts (before handleChangePassword) (endings handleChangePassword)"
| verify_otp: "starts (before handleVerifyOtp) (endings handleVerifyOtp)"
| logout: "starts (before handleLogout) (endings handleLogout)"

record client =
  c_store :: store
  inflight :: "action list set list"

abbreviation dispatch_all :: "time \<Rightarrow> action list \<Rightarrow> store \<Rightarrow> store" where
  "dispatch_all now as s \<equiv> run (map (Pair now) as) s"

text \<open>A request starts, or any request in flight settles in any way.\<close>

inductive client_step :: "client \<Rightarrow> client \<Rightarrow> bool" where
  begins: "starts b A \<Longrightarrow>
    client_step \<lparr>c_store = s, inflight = fl\<rparr> \<lparr>c_store = dispatch_all now b s, inflight = fl @ [A]\<rparr>"
| settles: "as \<in> A \<Longrightarrow>
    client_step \<lparr>c_store = s, inflight = fl @ A # fl'\<rparr> \<lparr>c_store = dispatch_all now as s, inflight = fl @ fl'\<rparr>"

inductive client_reaches :: "client \<Rightarrow> bool" where
  opened: "client_reaches \<lparr>c_store = initial_store, inflight = []\<rparr>"
| next_step: "client_reaches c \<Longrightarrow> client_step c c' \<Longrightarrow> client_reaches c'"

text \<open>The flags behind the spinners.\<close>

definition flags :: "(store \<Rightarrow> bool) list" where
  "flags =
     [\<lambda>s. loading (monitor s), \<lambda>s. loading (incident s), \<lambda>s. loading (log s), \<lambda>s. loading (status s),
      \<lambda>s. loading (auth s), \<lambda>s. otp_verifying (otp (auth s))]"

text \<open>No ending raises a flag, and the endings of a request that raised one lower it.\<close>

definition quiet :: "(store \<Rightarrow> bool) \<Rightarrow> action list set \<Rightarrow> bool" where
  "quiet f A \<longleftrightarrow> (\<forall>as \<in> A. \<forall>now s. f (dispatch_all now as s) \<longrightarrow> f s)"

definition lowers :: "(store \<Rightarrow> bool) \<Rightarrow> action list set \<Rightarrow> bool" where
  "lowers f A \<longleftrightarrow> (\<forall>as \<in> A. \<forall>now s. \<not> f (dispatch_all now as s))"

definition well_behaved :: "(store \<Rightarrow> bool) \<Rightarrow> action list \<Rightarrow> action list set \<Rightarrow> bool" where
  "well_behaved f b A \<longleftrightarrow> quiet f A \<and> ((\<forall>now s. f (dispatch_all now b s) \<longrightarrow> f s) \<or> lowers f A)"

lemmas client_handler_defs = handleCreateMonitor_def handleGetMonitors_def handleDeleteMonitor_def handleGetAllIncidents_def
  handleGetAllLogs_def handleGetLogsByMonitorId_def handleGetMonitorStatus_def handleRegister_def handleLogin_def
  handleGoogleSignIn_def handleGetUserProfile_def initAuth_def handleForgotPassword_def handleChangePassword_def
  handleVerifyOtp_def handleLogout_def auth_task_def auth_failure_def signed_in_def

lemma starts_well_behaved:
  assumes "starts b A" and "f \<in> set flags"
  shows "well_behaved f b A"
  using assms(1)
proof cases
  case (get_monitors seen now force t)
  with assms(2) show ?thesis
    by (auto simp: flags_def well_behaved_def quiet_def lowers_def endings_def handleGetMonitors_def set_loading_def fail_request_def
        split: if_splits sum.splits)
next
  case logout
  with assms(2) show ?thesis
    by (auto simp: flags_def well_behaved_def quiet_def lowers_def endings_def handleLogout_def initial_store_def auth_initial_def
        otp_initial_def monitor_initial_def incident_initial_def log_initial_def status_initial_def)
qed (use assms(2) in \<open>auto simp: flags_def well_behaved_def quiet_def lowers_def endings_def client_handler_defs set_loading_def fail_request_def
        split: if_splits sum.splits option.splits\<close>)

text \<open>A raised flag is owed to a request in flight whose endings will lower it.\<close>

definition spinner_owed :: "(store \<Rightarrow> bool) \<Rightarrow> client \<Rightarrow> bool" where
  "spinner_owed f c \<longleftrightarrow>
     (\<forall>A \<in> set (inflight c). quiet f A) \<and> (f (c_store c) \<longrightarrow> (\<exists>A \<in> set (inflight c). lowers f A))"

lemma spinner_owed_step:
  assumes "client_step c c'" and "spinner_owed f c" and f: "f \<in> set flags"
  shows "spinner_owed f c'"
  using assms(1)
proof cases
  case (begins b A s fl now)
  from starts_well_behaved [OF begins(3) f] have "quiet f A" "f (dispatch_all now b s) \<longrightarrow> f s \<or> lowers f A"
    by (auto simp: well_behaved_def)
  with assms(2) show ?thesis unfolding begins(1,2) spinner_owed_def by auto
next
  case (settles as A s fl fl' now)
  with assms(2) have q: "f (dispatch_all now as s) \<longrightarrow> f s" by (auto simp: spinner_owed_def quiet_def)
  have "\<not> f (dispatch_all now as s)" if "lowers f A" using that settles(3) by (auto simp: lowers_def)
  with assms(2) q show ?thesis unfolding settles(1,2) spinner_owed_def by auto
qed

text \<open>
  C15. No spinner is left turning: however the client's requests start, overlap, succeed or fail,
  once none is in flight every loading flag of the store is down, the one-time code's too.
\<close>

theorem no_spinner_left:
  assumes "client_reaches c" and "inflight c = []"
  shows "\<not> loading (monitor (c_store c)) \<and> \<not> loading (incident (c_store c)) \<and> \<not> loading (log (c_store c)) \<and>
    \<not> loading (status (c_store c)) \<and> \<not> loading (auth (c_store c)) \<and> \<not> otp_verifying (otp (auth (c_store c)))"
proof -
  have "spinner_owed f c" if f: "f \<in> set flags" for f
    using assms(1)
  proof induction
    case opened
    from f show ?case
      by (auto simp: spinner_owed_def flags_def initial_store_def auth_initial_def otp_initial_def monitor_initial_def
          incident_initial_def log_initial_def status_initial_def)
  qed (rule spinner_owed_step [OF _ _ f])
  with assms(2) have "\<forall>f \<in> set flags. \<not> f (c_store c)" by (auto simp: spinner_owed_def)
  then show ?thesis by (simp add: flags_def)
qed

text \<open>One run, with two requests that overlap: the monitors are asked for, the user signs out, the
  sign-out is answered first.\<close>

definition example_row :: row where
  "example_row = [(''_id'', JStr ''m1''), (''url'', JStr ''https://internal'')]"

definition monitors_answer :: "row list response" where
  "monitors_answer = ApiResponse 200 [example_row] ''Monitors fetched successfully''"

definition fetch_task :: "row list response task" where
  "fetch_task = the (handleGetMonitors monitor_initial 0 False)"

lemma fetch_task_eq: "handleGetMonitors monitor_initial 0 False = Some fetch_task"
  by (simp add: fetch_task_def handleGetMonitors_def monitor_initial_def)

lemma fetch_task_simps:
  "before fetch_task = [Monitor (Monitor_setLoading True)]"
  "after fetch_task (Inr r) = [Monitor (SetMonitors (data r)), Monitor (Monitor_setLoading False)]"
  by (simp_all add: fetch_task_def handleGetMonitors_def monitor_initial_def)

definition left_behind :: "time \<Rightarrow> store" where
  "left_behind t = dispatch_all t (after fetch_task (Inr monitors_answer)) initial_store"

lemma left_behind_reached: "client_reaches \<lparr>c_store = left_behind t, inflight = []\<rparr>"
proof -
  let ?c = "\<lambda>s fl. \<lparr>c_store = s, inflight = fl\<rparr>"
  let ?F = "endings fetch_task" and ?L = "endings handleLogout"
  let ?s1 = "dispatch_all t (before fetch_task) initial_store"
  let ?s2 = "dispatch_all t (before handleLogout) ?s1"
  let ?s3 = "dispatch_all t (after handleLogout (Inl \<lparr>x_message = None, x_reply = None\<rparr>)) ?s2"
  have "client_reaches (?c ?s1 [?F])"
    using next_step [OF opened begins [OF get_monitors [OF fetch_task_eq], of initial_store "[]" t]] by simp
  from next_step [OF this begins [OF logout, of ?s1 "[?F]" t]] have "client_reaches (?c ?s2 [?F, ?L])" by simp
  from next_step [OF this settles [of "after handleLogout (Inl \<lparr>x_message = None, x_reply = None\<rparr>)" ?L ?s2 "[?F]" "[]", of t, simplified]]
  have "client_reaches (?c ?s3 [?F])" by (simp add: endings_def)
  moreover have "?s3 = initial_store" by (simp add: handleLogout_def)
  ultimately have "client_reaches (?c initial_store [?F])" by simp
  from next_step [OF this settles [of "after fetch_task (Inr monitors_answer)" ?F initial_store "[]" "[]" t, simplified]]
  show ?thesis by (simp add: endings_def left_behind_def)
qed

theorem no_spinner_left_witness: "\<not> loading (monitor (left_behind 5)) \<and> \<not> loading (auth (left_behind 5))"
  using no_spinner_left [OF left_behind_reached [of 5]] by simp

text \<open>
  C16. An answer can outlive the session that asked for it: there is a run in which a user's
  monitors arrive after the sign-out has wiped the store; the tab is signed out and holds
  them, and for two minutes the next account's own request for its monitors is not sent,
  because the list is taken to be fresh.
\<close>

theorem answer_outlives_session:
  assumes "t \<noteq> 0" and "now - t < 120000"
  shows "client_reaches \<lparr>c_store = left_behind t, inflight = []\<rparr> \<and>
    \<not> isAuthenticated (auth (left_behind t)) \<and> monitors (monitor (left_behind t)) = data monitors_answer \<and>
    handleGetMonitors (monitor (left_behind t)) now False = None"
proof -
  have "monitors (monitor (left_behind t)) = data monitors_answer" "lastFetched (monitor (left_behind t)) = Some t"
    "\<not> isAuthenticated (auth (left_behind t))"
    by (simp_all add: left_behind_def fetch_task_simps set_loading_def initial_store_def auth_initial_def)
  with assms left_behind_reached [of t] show ?thesis
    by (simp add: handleGetMonitors_def monitors_answer_def is_fresh_def CACHE_TIME_def)
qed

theorem answer_outlives_session_witness:
  "handleGetMonitors (monitor (left_behind 1000)) 61000 False = None \<and> monitors (monitor (left_behind 1000)) = [example_row]"
  using answer_outlives_session [of 1000 61000] by (simp add: monitors_answer_def)

end
