(* ===== verification/Realtime.thy ===== *)
theory Realtime
  imports Sockets
begin

text \<open>
  The client's live connection, \<open>Frontend/src/lib/socket/useRealtime.js\<close> over
  \<open>socket.js\<close>: the state shown to the user, when everything is refetched, and what the
  browser's events do. The Socket.IO client is a library; of its events the model fixes when
  they may fire, as it documents: \<open>connect\<close> and the errors of an attempt while it is trying,
  \<open>disconnect\<close> while it is connected, no attempt of its own after a terminal disconnect.
\<close>

subsection \<open>The hook\<close>

datatype connection_state = CONNECTING | CONNECTED | RECONNECTING | DISCONNECTED | UNAUTHORIZED

text \<open>The hook's own state, then the socket's: \<open>connected\<close>, and whether it is trying; \<open>resyncs\<close>
  counts the refetches started.\<close>

record realtime =
  rt_state :: connection_state
  lastConnectedAt :: "time option"
  reconnectAttempt :: nat
  hasConnectedBefore :: bool
  resyncs :: nat
  connected :: bool
  trying :: bool

definition resync :: "realtime \<Rightarrow> realtime" where
  "resync r = r\<lparr>resyncs := resyncs r + 1\<rparr>"

definition connectSocket :: "realtime \<Rightarrow> realtime" where
  "connectSocket r = (if connected r then r else r\<lparr>trying := True\<rparr>)"

definition isTerminalDisconnect :: "string \<Rightarrow> bool" where
  "isTerminalDisconnect reason \<longleftrightarrow> reason = ''io client disconnect'' \<or> reason = ''io server disconnect''"

text \<open>The first render, over a socket that may already be connected.\<close>

definition mount :: "bool \<Rightarrow> realtime" where
  "mount live =
     connectSocket
       \<lparr>rt_state = CONNECTING, lastConnectedAt = None, reconnectAttempt = 0, hasConnectedBefore = False,
        resyncs = 0, connected = live, trying = False\<rparr>"

definition handleConnect :: "time \<Rightarrow> realtime \<Rightarrow> realtime" where
  "handleConnect now r =
     (let r1 = r\<lparr>rt_state := CONNECTED, lastConnectedAt := Some now, reconnectAttempt := 0\<rparr>;
          r2 = if hasConnectedBefore r1 then resync r1 else r1
      in r2\<lparr>hasConnectedBefore := True\<rparr>)"

definition handleDisconnect :: "string \<Rightarrow> realtime \<Rightarrow> realtime" where
  "handleDisconnect reason r =
     r\<lparr>rt_state := (if isTerminalDisconnect reason then DISCONNECTED else RECONNECTING)\<rparr>"

text \<open>\<open>socket.disconnect()\<close> of an attempt that failed stops the attempts and fires nothing.\<close>

definition handleConnectError :: "string option \<Rightarrow> realtime \<Rightarrow> realtime" where
  "handleConnectError msg r =
     (let unauthorized = str_includes ''unauthorized'' (to_lower (str_or msg '''')) in
      if unauthorized then r\<lparr>rt_state := UNAUTHORIZED, trying := False\<rparr> else r\<lparr>rt_state := RECONNECTING\<rparr>)"

definition handleReconnectAttempt :: "nat \<Rightarrow> realtime \<Rightarrow> realtime" where
  "handleReconnectAttempt attempt r = r\<lparr>rt_state := RECONNECTING, reconnectAttempt := attempt\<rparr>"

definition handleVisibility :: "bool \<Rightarrow> realtime \<Rightarrow> realtime" where
  "handleVisibility visible r =
     (if \<not> visible then r else if connected r then resync r else connectSocket r)"

definition handleOnline :: "realtime \<Rightarrow> realtime" where
  "handleOnline r = connectSocket r"

definition handleOffline :: "realtime \<Rightarrow> realtime" where
  "handleOffline r = r\<lparr>rt_state := RECONNECTING\<rparr>"

definition retryNow :: "realtime \<Rightarrow> realtime" where
  "retryNow r = connectSocket (r\<lparr>rt_state := CONNECTING\<rparr>)"

definition isConnected :: "realtime \<Rightarrow> bool" where
  "isConnected r = (rt_state r = CONNECTED)"

definition isStale :: "realtime \<Rightarrow> bool" where
  "isStale r = (rt_state r = RECONNECTING \<or> rt_state r = DISCONNECTED)"

text \<open>\<open>disconnectSocket\<close>, which the sign-out calls: a connected socket reports its own disconnect.\<close>

definition disconnectSocket :: "realtime \<Rightarrow> realtime" where
  "disconnectSocket r =
     (if connected r then handleDisconnect ''io client disconnect'' (r\<lparr>connected := False, trying := False\<rparr>) else r)"

subsection \<open>Events\<close>

datatype rt_event =
    Connect time
  | Disconnect string
  | ConnectError "string option"
  | ReconnectAttempt nat
  | Visibility bool
  | Online
  | Offline
  | RetryNow
  | SignOut

text \<open>What the library may fire; the browser and the user are always free.\<close>

definition enabled :: "rt_event \<Rightarrow> realtime \<Rightarrow> bool" where
  "enabled e r =
     (case e of
        Connect _ \<Rightarrow> \<not> connected r \<and> trying r
      | ConnectError _ \<Rightarrow> \<not> connected r \<and> trying r
      | ReconnectAttempt _ \<Rightarrow> \<not> connected r \<and> trying r
      | Disconnect _ \<Rightarrow> connected r
      | _ \<Rightarrow> True)"

text \<open>The socket's flags change first, then the hook's handler runs.\<close>

definition rt_next :: "realtime \<Rightarrow> rt_event \<Rightarrow> realtime" where
  "rt_next r e =
     (case e of
        Connect now \<Rightarrow> handleConnect now (r\<lparr>connected := True, trying := False\<rparr>)
      | Disconnect reason \<Rightarrow>
          handleDisconnect reason (r\<lparr>connected := False, trying := \<not> isTerminalDisconnect reason\<rparr>)
      | ConnectError msg \<Rightarrow> handleConnectError msg r
      | ReconnectAttempt n \<Rightarrow> handleReconnectAttempt n r
      | Visibility v \<Rightarrow> handleVisibility v r
      | Online \<Rightarrow> handleOnline r
      | Offline \<Rightarrow> handleOffline r
      | RetryNow \<Rightarrow> retryNow r
      | SignOut \<Rightarrow> disconnectSocket r)"

inductive rt_step :: "realtime \<Rightarrow> rt_event \<Rightarrow> realtime \<Rightarrow> bool" where
  fires: "enabled e r \<Longrightarrow> rt_step r e (rt_next r e)"

inductive rt_steps :: "realtime \<Rightarrow> rt_event list \<Rightarrow> realtime \<Rightarrow> bool" where
  no_event: "rt_steps r [] r"
| one_event: "rt_step r e r' \<Longrightarrow> rt_steps r' es r'' \<Longrightarrow> rt_steps r (e # es) r''"

inductive_simps rt_step_iff: "rt_step r e r'"
inductive_simps rt_steps_Nil [simp]: "rt_steps r [] r'"
inductive_simps rt_steps_Cons: "rt_steps r (e # es) r'"

lemma rt_steps_Cons_iff [simp]: "rt_steps r (e # es) r' \<longleftrightarrow> enabled e r \<and> rt_steps (rt_next r e) es r'"
  by (auto simp: rt_steps_Cons rt_step_iff)

lemma rt_steps_append: "rt_steps r (es @ es') r'' \<longleftrightarrow> (\<exists>r'. rt_steps r es r' \<and> rt_steps r' es' r'')"
  by (induction es arbitrary: r) auto

lemmas rt_handler_defs = handleConnect_def handleDisconnect_def handleConnectError_def handleReconnectAttempt_def
  handleVisibility_def handleOnline_def handleOffline_def retryNow_def disconnectSocket_def connectSocket_def resync_def
  Let_def

lemmas rt_next_defs = rt_next_def rt_handler_defs

subsection \<open>What the indicator promises\<close>

definition indicator_ok :: "realtime \<Rightarrow> bool" where
  "indicator_ok r \<longleftrightarrow>
     (rt_state r = CONNECTED \<longrightarrow> connected r) \<and>
     (rt_state r \<in> {DISCONNECTED, UNAUTHORIZED} \<longrightarrow> \<not> connected r)"

lemma indicator_ok_next [inv_intros]: "enabled e r \<Longrightarrow> indicator_ok r \<Longrightarrow> indicator_ok (rt_next r e)"
  by (cases e) (auto simp: indicator_ok_def enabled_def rt_next_defs)

lemma indicator_ok_mount [inv_intros]: "indicator_ok (mount live)"
  by (simp add: indicator_ok_def mount_def connectSocket_def)

lemma indicator_ok_steps: "rt_steps r es r' \<Longrightarrow> indicator_ok r \<Longrightarrow> indicator_ok r'"
  by (induction rule: rt_steps.induct) (auto simp: rt_step_iff intro: inv_intros)

text \<open>
  C20. The indicator never claims more than the socket has: in every run of the hook, over a
  fresh or an inherited socket, it shows the connection as live only while the socket is
  connected, and as offline or expired only while it is not.
\<close>

theorem indicator_never_overclaims:
  assumes "rt_steps (mount live) es r"
  shows "(isConnected r \<longrightarrow> connected r) \<and> (rt_state r \<in> {DISCONNECTED, UNAUTHORIZED} \<longrightarrow> \<not> connected r)"
  using indicator_ok_steps [OF assms indicator_ok_mount] by (simp add: indicator_ok_def isConnected_def)

theorem indicator_never_overclaims_witness:
  "\<exists>r. rt_steps (mount False) [Connect 5, Disconnect ''transport close'', ConnectError (Some ''Unauthorized'')] r \<and>
     rt_state r = UNAUTHORIZED \<and> \<not> connected r"
proof -
  let ?es = "[Connect 5, Disconnect ''transport close'', ConnectError (Some ''Unauthorized'')]"
  have u: "str_includes ''unauthorized'' (to_lower ''Unauthorized'')" by code_simp
  let ?r = "rt_next (rt_next (rt_next (mount False) (?es ! 0)) (?es ! 1)) (?es ! 2)"
  have s: "rt_steps (mount False) ?es ?r" and x: "rt_state ?r = UNAUTHORIZED"
    by (simp_all add: u mount_def enabled_def rt_next_defs isTerminalDisconnect_def)
  from indicator_never_overclaims [OF s] s x show ?thesis by blast
qed

subsection \<open>Catching up\<close>

definition caught_up :: "realtime \<Rightarrow> bool" where
  "caught_up r \<longleftrightarrow> (connected r \<longrightarrow> hasConnectedBefore r)"

lemma caught_up_next [inv_intros]: "enabled e r \<Longrightarrow> caught_up r \<Longrightarrow> caught_up (rt_next r e)"
  by (cases e) (auto simp: caught_up_def enabled_def rt_next_defs)

lemma caught_up_steps: "rt_steps r es r' \<Longrightarrow> caught_up r \<Longrightarrow> caught_up r'"
  by (induction rule: rt_steps.induct) (auto simp: rt_step_iff intro: inv_intros)

text \<open>Once set, the mark of a first connection stays, and refetches are never taken back.\<close>

lemma history_next:
  "(hasConnectedBefore r \<longrightarrow> hasConnectedBefore (rt_next r e)) \<and> resyncs r \<le> resyncs (rt_next r e)"
  by (cases e) (auto simp: rt_next_defs)

lemma history_steps:
  "rt_steps r es r' \<Longrightarrow> (hasConnectedBefore r \<longrightarrow> hasConnectedBefore r') \<and> resyncs r \<le> resyncs r'"
proof (induction rule: rt_steps.induct)
  case (one_event r e r' es r'')
  then show ?case using history_next [of r e] by (auto simp: rt_step_iff)
qed simp



subsection \<open>A live socket that is not shown as live\<close>

definition overlooked :: "realtime \<Rightarrow> bool" where
  "overlooked r \<longleftrightarrow> connected r \<and> \<not> isConnected r"

text \<open>Everything but the end of the connection.\<close>

definition keeps_connection :: "rt_event \<Rightarrow> bool" where
  "keeps_connection e = (case e of Disconnect _ \<Rightarrow> False | SignOut \<Rightarrow> False | _ \<Rightarrow> True)"

lemma overlooked_next [inv_intros]: "enabled e r \<Longrightarrow> keeps_connection e \<Longrightarrow> overlooked r \<Longrightarrow> overlooked (rt_next r e)"
  by (cases e) (auto simp: overlooked_def isConnected_def enabled_def keeps_connection_def rt_next_defs)

lemma overlooked_steps:
  "rt_steps r es r' \<Longrightarrow> list_all keeps_connection es \<Longrightarrow> overlooked r \<Longrightarrow> overlooked r'"
  by (induction rule: rt_steps.induct) (auto simp: rt_step_iff intro: inv_intros)

text \<open>
  A live socket can be overlooked, and then nothing but losing it puts that right: a hook
  mounted over a connected socket, one whose browser reported a moment offline, and one
  whose user pressed retry on that badge show a connection that is not live while the
  socket is, and keep doing so through every event that leaves the connection alone,
  coming back online and returning to the tab included.
\<close>

theorem live_socket_overlooked:
  assumes "list_all keeps_connection es"
  shows "(rt_steps (mount True) es r \<longrightarrow> connected r \<and> \<not> isConnected r) \<and>
    (rt_steps (mount False) ([Connect t, Offline, Online] @ es) r \<longrightarrow> connected r \<and> \<not> isConnected r) \<and>
    (rt_steps (mount False) ([Connect t, Offline, RetryNow] @ es) r \<longrightarrow> connected r \<and> \<not> isConnected r)"
proof -
  have "overlooked (mount True)" by (simp add: overlooked_def isConnected_def mount_def connectSocket_def)
  moreover have "overlooked (rt_next (rt_next (rt_next (mount False) (Connect t)) Offline) e)"
    if "e \<in> {Online, RetryNow}" for e
    using that by (auto simp: overlooked_def isConnected_def mount_def rt_next_defs)
  ultimately show ?thesis
    using overlooked_steps [OF _ assms] by (auto simp: overlooked_def)
qed

theorem live_socket_overlooked_witness:
  "\<exists>r. rt_steps (mount False) [Connect 1, Offline, Online, Visibility True] r \<and> connected r \<and> \<not> isConnected r \<and>
     isStale r"
proof -
  let ?r = "rt_next (rt_next (rt_next (rt_next (mount False) (Connect 1)) Offline) Online) (Visibility True)"
  have s: "rt_steps (mount False) ([Connect 1, Offline, Online] @ [Visibility True]) ?r" and x: "isStale ?r"
    by (simp_all add: mount_def enabled_def rt_next_defs isStale_def)
  have "list_all keeps_connection [Visibility True]" by (simp add: keeps_connection_def)
  from live_socket_overlooked [OF this, of ?r 1] s x show ?thesis by auto
qed

text \<open>Over an inherited socket the first outage ends without a refetch.\<close>

lemma inherited_socket_misses_outage:
  "rt_steps (mount True) [Disconnect ''transport close'', Connect t] r \<Longrightarrow> resyncs r = 0"
  by (auto simp: mount_def enabled_def rt_next_defs)

text \<open>A refused handshake says so in the words the hook looks for.\<close>

lemma refused_handshake_is_unauthorized:
  assumes "handshake decode verify cookie_name header auth_token = Inl msg"
  shows "rt_state (handleConnectError (Some msg) r) = UNAUTHORIZED \<and> \<not> trying (handleConnectError (Some msg) r)"
proof -
  have "msg = ''Unauthorized''" using assms by (auto simp: handshake_def split: sum.splits option.splits if_splits)
  moreover have "str_includes ''unauthorized'' (to_lower ''Unauthorized'')" by code_simp
  ultimately show ?thesis by (simp add: handleConnectError_def)
qed

end
