(* ===== verification/Chat_Client.thy ===== *)
theory Chat_Client
  imports Assistant
begin

text \<open>
  The conversation as the client keeps it, \<open>Frontend/src/features/chat/useChat.js\<close>: what
  each event of the server does to the list of messages, and what a question sends. The
  server's side is \<open>handleSocketChat\<close>; the last properties put the two together.
\<close>

subsection \<open>The hook\<close>

record chat_message =
  m_key :: string \<comment> \<open>\<open>id\<close>\<close>
  m_role :: string
  m_content :: string
  m_error :: bool

record chat =
  messages :: "chat_message list"
  typing :: bool

definition upsertAssistant :: "string \<Rightarrow> (string \<Rightarrow> string) \<Rightarrow> chat_message list \<Rightarrow> chat_message list" where
  "upsertAssistant i updater prev =
     (if find (\<lambda>m. m_key m = i) prev = None
      then prev @ [\<lparr>m_key = i, m_role = ''assistant'', m_content = updater '''', m_error = False\<rparr>]
      else update_first (\<lambda>m. m_key m = i) (\<lambda>m. m\<lparr>m_content := updater (m_content m)\<rparr>) prev)"

definition error_key :: "time \<Rightarrow> string" where
  "error_key now = ''err-'' @ show_int now"

definition user_key :: "time \<Rightarrow> string" where
  "user_key now = ''u-'' @ show_int now"

text \<open>One event; the acknowledgement is not listened to.\<close>

definition on_event :: "time \<Rightarrow> chat_event \<Rightarrow> chat \<Rightarrow> chat" where
  "on_event now e c =
     (case e of
        Chat_chunk i t \<Rightarrow> c\<lparr>messages := upsertAssistant i (\<lambda>prev. prev @ t) (messages c)\<rparr>
      | Chat_reply i m \<Rightarrow> c\<lparr>messages := upsertAssistant i (\<lambda>_. m) (messages c)\<rparr>
      | Typing v \<Rightarrow> c\<lparr>typing := v\<rparr>
      | Chat_error msg \<Rightarrow>
          c\<lparr>typing := False,
            messages := messages c @
              [\<lparr>m_key = error_key now, m_role = ''assistant'', m_content = msg, m_error = True\<rparr>]\<rparr>
      | Ack _ \<Rightarrow> c)"

text \<open>The turns a question carries: everything said so far but the errors.\<close>

definition history_of :: "chat_message list \<Rightarrow> history_entry list" where
  "history_of ms =
     map (\<lambda>m. \<lparr>h_role = m_role m, h_content = Some (m_content m)\<rparr>) (filter (\<lambda>m. \<not> m_error m) ms)"

text \<open>\<open>rendered\<close> is the list of the last render; the payload sent, if any, and the new state.\<close>

definition send :: "time \<Rightarrow> string \<Rightarrow> chat_message list \<Rightarrow> chat \<Rightarrow> chat \<times> (string \<times> history_entry list) option" where
  "send now input rendered c =
     (let trimmed = trim input in
      if trimmed = '''' then (c, None)
      else (c\<lparr>messages := messages c @
                [\<lparr>m_key = user_key now, m_role = ''user'', m_content = trimmed, m_error = False\<rparr>]\<rparr>,
            Some (trimmed, history_of rendered)))"

definition receive :: "(time \<times> chat_event) list \<Rightarrow> chat \<Rightarrow> chat" where
  "receive es c = foldl (\<lambda>c (now, e). on_event now e c) c es"

lemma receive_simps [simp]:
  "receive [] c = c" "receive ((now, e) # es) c = receive es (on_event now e c)"
  "receive (es @ es') c = receive es' (receive es c)"
  by (simp_all add: receive_def)

subsection \<open>One answer among others\<close>

definition answer_of :: "string \<Rightarrow> chat_message list \<Rightarrow> string option" where
  "answer_of i ms = map_option m_content (find (\<lambda>m. m_key m = i) ms)"

lemma find_append: "find P (xs @ ys) = (case find P xs of None \<Rightarrow> find P ys | Some x \<Rightarrow> Some x)"
  by (induction xs) auto

lemma answer_of_append:
  "answer_of i (xs @ ys) = (case answer_of i xs of None \<Rightarrow> answer_of i ys | Some x \<Rightarrow> Some x)"
  by (simp add: answer_of_def find_append split: option.splits)

lemma answer_of_update_first:
  "answer_of j (update_first (\<lambda>m. m_key m = i) (\<lambda>m. m\<lparr>m_content := f (m_content m)\<rparr>) ms) =
    (if i = j then map_option f (answer_of j ms) else answer_of j ms)"
  by (induction ms) (auto simp: answer_of_def)

lemma answer_of_upsert:
  "answer_of j (upsertAssistant i f ms) =
    (if i = j then Some (f (nullish (answer_of i ms) '''')) else answer_of j ms)"
proof (cases "find (\<lambda>m. m_key m = i) ms")
  case None
  then show ?thesis by (auto simp: upsertAssistant_def answer_of_def find_append split: option.splits)
next
  case (Some m)
  then show ?thesis by (auto simp: upsertAssistant_def answer_of_update_first) (simp add: answer_of_def)
qed

text \<open>What an event says about the answer \<open>i\<close>.\<close>

definition about :: "string \<Rightarrow> chat_event \<Rightarrow> bool" where
  "about i e = (case e of Chat_chunk j _ \<Rightarrow> j = i | Chat_reply j _ \<Rightarrow> j = i | _ \<Rightarrow> False)"

definition advance :: "string option \<Rightarrow> chat_event \<Rightarrow> string option" where
  "advance a e =
     (case e of Chat_chunk _ t \<Rightarrow> Some (nullish a '''' @ t) | Chat_reply _ m \<Rightarrow> Some m | _ \<Rightarrow> a)"

lemma answer_of_event:
  assumes "\<not> starts_with ''err-'' i"
  shows "answer_of i (messages (on_event now e c)) =
    (if about i e then advance (answer_of i (messages c)) e else answer_of i (messages c))"
proof (cases e)
  case (Chat_error msg)
  have "error_key now \<noteq> i" using assms by (auto simp: error_key_def starts_with_def)
  with Chat_error show ?thesis
    by (auto simp: on_event_def about_def answer_of_append split: option.splits) (simp add: answer_of_def)
qed (auto simp: on_event_def about_def advance_def answer_of_upsert)

lemma answer_of_receive:
  assumes "\<not> starts_with ''err-'' i"
  shows "answer_of i (messages (receive es c)) =
    foldl advance (answer_of i (messages c)) (filter (about i) (map snd es))"
proof (induction es arbitrary: c)
  case (Cons x es)
  then show ?case using answer_of_event [OF assms, of "fst x" "snd x" c] by (cases x) auto
qed simp

lemma advance_chunks: "foldl advance a (map (Chat_chunk i) ts) = (if ts = [] then a else Some (nullish a '''' @ concat ts))"
  by (induction ts arbitrary: a) (auto simp: advance_def)

text \<open>The events of one exchange, and the share of them that concerns its answer.\<close>

lemma about_exchange:
  assumes "trim (str_or message []) \<noteq> []"
    and "streamAssistantReply llm prompt (drop (length history - 10) history) (trim (str_or message [])) = (chunks, res)"
  shows "filter (about i) (handleSocketChat llm prompt i wants message history) =
    map (Chat_chunk i) chunks @ (if is_Inl res then [] else [Chat_reply i (concat chunks)])"
  using assms
  by (cases res; cases wants) (auto simp: handleSocketChat_def Let_def about_def comp_def)

text \<open>
  C22. What the client shows is what the server said: however the events of this answer are
  interleaved with those of other questions, once they have all arrived the message shown
  for it is the reply of the server, or, when the server gave up, the text streamed until
  then; and no other answer is touched by it.
\<close>

theorem chat_shows_server_reply:
  assumes "trim (str_or message []) \<noteq> []" and "\<not> starts_with ''err-'' i" and "answer_of i (messages c) = None"
    and "filter (about i) (map snd es) = filter (about i) (handleSocketChat llm prompt i wants message history)"
  shows "(\<forall>reply. Chat_reply i reply \<in> set (handleSocketChat llm prompt i wants message history) \<longrightarrow>
      answer_of i (messages (receive es c)) = Some reply) \<and>
    ((\<nexists>reply. Chat_reply i reply \<in> set (handleSocketChat llm prompt i wants message history)) \<longrightarrow>
      nullish (answer_of i (messages (receive es c))) '''' =
        concat (chunk_events (handleSocketChat llm prompt i wants message history)))"
proof -
  obtain chunks res where
    r: "streamAssistantReply llm prompt (drop (length history - 10) history) (trim (str_or message [])) = (chunks, res)"
    by fastforce
  let ?H = "handleSocketChat llm prompt i wants message history"
  have ans: "answer_of i (messages (receive es c)) =
      foldl advance None (map (Chat_chunk i) chunks @ (if is_Inl res then [] else [Chat_reply i (concat chunks)]))"
    using answer_of_receive [OF assms(2), of es c] assms(3,4) about_exchange [OF assms(1) r] by simp
  have said: "chunk_events ?H = chunks"
    "\<And>reply. Chat_reply i reply \<in> set ?H \<longleftrightarrow> \<not> is_Inl res \<and> reply = concat chunks"
    using assms(1) r by (cases res; cases wants; auto simp: handleSocketChat_def Let_def)+
  show ?thesis
  proof (cases res)
    case (Inl e)
    then show ?thesis by (simp add: said ans advance_chunks)
  next
    case (Inr full)
    then have "answer_of i (messages (receive es c)) = Some (concat chunks)" by (simp add: ans advance_def)
    with Inr show ?thesis by (simp add: said)
  qed
qed

definition example_llm :: chat_model where
  "example_llm = \<lparr>stream = (\<lambda>_. ([Some ''all'', None, Some '' up''], False)), invoke = (\<lambda>_. Inl [])\<rparr>"

theorem chat_shows_server_reply_witness:
  "answer_of ''7'' (messages (receive
     [(1, Typing True), (2, Chat_chunk ''7'' ''all''), (3, Chat_chunk ''8'' ''no''), (4, Chat_chunk ''7'' '' up''),
      (5, Chat_reply ''7'' ''all up''), (6, Chat_error ''x''), (7, Typing False)] \<lparr>messages = [], typing = False\<rparr>)) =
   Some ''all up''"
proof -
  have t: "trim (str_or (Some ''hi'') []) = ''hi''" by (simp add: trim_def is_space_def)
  have t': "trim ''hi'' = ''hi''" using t by simp
  have h: "handleSocketChat (Some example_llm) [] ''7'' False (Some ''hi'') [] =
      [Typing True, Chat_chunk ''7'' ''all'', Chat_chunk ''7'' '' up'', Chat_reply ''7'' ''all up'', Typing False]"
    by (simp add: handleSocketChat_def t' example_llm_def streamAssistantReply_def chunk_texts_def Let_def)
  show ?thesis
    using chat_shows_server_reply [of "Some ''hi''" "''7''" "\<lparr>messages = [], typing = False\<rparr>"
        "[(1, Typing True), (2, Chat_chunk ''7'' ''all''), (3, Chat_chunk ''8'' ''no''), (4, Chat_chunk ''7'' '' up''),
          (5, Chat_reply ''7'' ''all up''), (6, Chat_error ''x''), (7, Typing False)]"
        "Some example_llm" "[]" False "[]"] t
    by (simp add: h about_def answer_of_def starts_with_def)
qed

end
