(* ===== verification/Screens.thy ===== *)
theory Screens
  imports Client_Session Channels
begin

text \<open>
  What the forms and the lists decide, under \<open>Frontend/src/features\<close>: the checks of the
  forms, the dialog of a new monitor, and the optimistic switches of the alert channels.
  Rendering is not modelled.
\<close>

subsection \<open>Forms\<close>

text \<open>\<open>/^[^\s@]+@[^\s@]+\.[^\s@]+$/\<close>: the account name, and a domain with a dot inside.\<close>

definition client_email :: "string \<Rightarrow> bool" where
  "client_email s \<longleftrightarrow>
     list_all (\<lambda>c. \<not> is_space c) s \<and>
     (case split_on CHR ''@'' s of
        [name, domain] \<Rightarrow> name \<noteq> [] \<and> list_ex (\<lambda>j. domain ! j = CHR ''.'') [1..<length domain - 1]
      | _ \<Rightarrow> False)"

definition email_errors :: "string \<Rightarrow> (string \<times> string) list" where
  "email_errors email =
     (if trim email = '''' then [(''email'', ''Email is required'')]
      else if \<not> client_email email then [(''email'', ''Invalid email format'')] else [])"

text \<open>\<open>validateForm\<close> of \<open>Login.jsx\<close> and \<open>Register.jsx\<close>: the messages, by field.\<close>

definition login_errors :: "string \<Rightarrow> string \<Rightarrow> (string \<times> string) list" where
  "login_errors email pw =
     email_errors email @ (if pw = '''' then [(''password'', ''Password is required'')] else [])"

record register_form =
  f_fullname :: string
  f_username :: string
  f_email :: string
  f_password :: string
  f_confirm :: string

definition register_errors :: "register_form \<Rightarrow> (string \<times> string) list" where
  "register_errors f =
     (if trim (f_fullname f) = '''' then [(''fullname'', ''Full name is required'')] else []) @
     (if trim (f_username f) = '''' then [(''username'', ''Username is required'')] else []) @
     email_errors (f_email f) @
     (if f_password f = '''' then [(''password'', ''Password is required'')] else []) @
     (if f_password f \<noteq> f_confirm f then [(''confirmPassword'', ''Passwords do not match'')] else [])"

text \<open>\<open>ResetPassword.jsx\<close>; a length counts what \<open>String.length\<close> counts.\<close>

definition MIN_PASSWORD_LENGTH :: nat where
  "MIN_PASSWORD_LENGTH = 6"

definition reset_errors :: "(string \<Rightarrow> nat) \<Rightarrow> string \<Rightarrow> string \<Rightarrow> (string \<times> string) list" where
  "reset_errors len pw confirm =
     (if pw = '''' then [(''password'', ''Password is required'')]
      else if len pw < MIN_PASSWORD_LENGTH then [(''password'', ''Password must be at least 6 characters'')] else []) @
     (if confirm \<noteq> pw then [(''confirm'', ''Passwords do not match'')] else [])"

text \<open>Joining what a split gave is the text again, so a split with one separator names both halves.\<close>

lemma join_with_Cons: "join_with d ((c # w) # ws) = c # join_with d (w # ws)"
  by (cases ws) simp_all

lemma join_with_Nil: "ws \<noteq> [] \<Longrightarrow> join_with d ([] # ws) = d # join_with d ws"
  by (cases ws) simp_all

lemma join_split: "join_with d (split_on d s) = s"
  by (induction d s rule: split_on.induct) (auto simp: join_with_Cons join_with_Nil split: list.splits)

lemma split_on_pair: "split_on d s = [a, b] \<Longrightarrow> s = a @ d # b"
  using join_split [of d s] by simp

text \<open>
  An address the client lets through is one the server's own test accepts, so a form never
  sends an address of a shape the channel handler would refuse.
\<close>

theorem client_email_accepted:
  assumes "client_email s"
  shows "email_shape s"
proof -
  obtain name domain j where s: "split_on CHR ''@'' s = [name, domain]" "name \<noteq> []"
    and j: "domain ! j = CHR ''.''" "1 \<le> j" "j < length domain - 1"
    using assms by (auto simp: client_email_def list_ex_iff split: list.splits)
  have e: "s = name @ CHR ''@'' # domain" by (rule split_on_pair [OF s(1)])
  let ?i = "length name"
  have a: "?i \<in> set [1..<length s]" "s ! ?i = CHR ''@''"
    using s(2) unfolding e by (simp_all add: Suc_le_eq)
  have b: "?i + 1 + j \<in> set [?i + 2..<length s - 1]" "s ! (?i + 1 + j) = CHR ''.''"
    using j unfolding e by (simp_all add: nth_append)
  have w: "list_all (\<lambda>c. \<not> is_space c) s" using assms by (simp add: client_email_def)
  show ?thesis unfolding email_shape_def list_ex_iff using w a b by blast
qed

theorem client_email_accepted_witness: "client_email ''ops@example.com'' \<and> email_shape ''ops@example.com''"
proof -
  have "client_email ''ops@example.com''" by code_simp
  with client_email_accepted [OF this] show ?thesis by simp
qed

subsection \<open>New monitor\<close>

datatype dialog_effect = ResetForm | CloseDialog | ShowError string

text \<open>\<open>onSubmit\<close> of \<open>AddMonitoring.jsx\<close>: what the dialog does once the handler is done. Only
  a failure the handler throws reaches its \<open>catch\<close>.\<close>

definition add_monitor_submit :: "bool \<Rightarrow> client_error + row response \<Rightarrow> dialog_effect list" where
  "add_monitor_submit authenticated outcome =
     (if \<not> authenticated then [ShowError ''You must be logged in to create a monitor'']
      else case outcome of
             Inl e \<Rightarrow>
               if rethrows handleCreateMonitor then [ShowError (error_text e ''Failed to create monitor'')]
               else [ResetForm, CloseDialog]
           | Inr _ \<Rightarrow> [ResetForm, CloseDialog])"

text \<open>A refused monitor closes the dialog and discards what was typed, as an accepted one does.\<close>

lemma refused_monitor_closes_dialog: "add_monitor_submit True (Inl e) = [ResetForm, CloseDialog]"
  by (simp add: add_monitor_submit_def handleCreateMonitor_def)

subsection \<open>Optimistic updates\<close>

text \<open>\<open>Alerts.jsx\<close>: the switch of a channel, shown at once and put back on failure.\<close>

definition set_active :: "js \<Rightarrow> js \<Rightarrow> row list \<Rightarrow> row list" where
  "set_active i v rs = map (\<lambda>c. if row_id c = i then put ''active'' v c else c) rs"

definition toggle_begin :: "row \<Rightarrow> row list \<Rightarrow> row list" where
  "toggle_begin ch rs = set_active (row_id ch) (JBool (js_falsy (get ''active'' ch))) rs"

definition toggle_fail :: "row \<Rightarrow> row list \<Rightarrow> row list" where
  "toggle_fail ch rs = set_active (row_id ch) (get ''active'' ch) rs"

definition channel_deleted :: "row \<Rightarrow> row list \<Rightarrow> row list" where
  "channel_deleted ch rs = filter (\<lambda>c. row_id c \<noteq> row_id ch) rs"

lemma row_id_put_active [simp]: "row_id (put ''active'' v r) = row_id r"
  by (simp add: row_id_def get_put)

lemma put_present: "k \<in> fst ` set r \<Longrightarrow> put k v r = map (\<lambda>(x, w). (x, if x = k then v else w)) r"
  by (auto simp: put_def spread_def)

lemma put_absent: "k \<notin> fst ` set r \<Longrightarrow> put k v r = r @ [(k, v)]"
  by (simp add: put_def spread_disjoint)

lemma put_put: "put k v (put k w r) = put k v r"
proof (cases "k \<in> fst ` set r")
  case True
  then have "k \<in> fst ` set (put k w r)" by (simp add: put_def spread_keys)
  with True show ?thesis by (simp add: put_present comp_def case_prod_beta)
next
  case False
  have "map (\<lambda>(x, u). (x, if x = k then v else u)) r = r"
    by (rule map_idI) (use False in force)
  with False show ?thesis by (simp add: put_absent put_present)
qed

lemma set_active_twice: "set_active i v (set_active i w rs) = set_active i v rs"
  by (simp add: set_active_def put_put comp_def)

lemma set_active_commute: "i \<noteq> j \<Longrightarrow> set_active i v (set_active j w rs) = set_active j w (set_active i v rs)"
  by (auto simp: set_active_def)

lemma put_same: "distinct (map fst r) \<Longrightarrow> k \<in> fst ` set r \<Longrightarrow> put k (get k r) r = r"
proof -
  assume d: "distinct (map fst r)" and k: "k \<in> fst ` set r"
  show "put k (get k r) r = r"
    unfolding put_present [OF k]
    by (rule map_idI) (use d in \<open>auto simp: get_def\<close>)
qed

text \<open>The rows of an answer: objects with one field of each name, the switch among them.\<close>

definition channel_rows_ok :: "row list \<Rightarrow> bool" where
  "channel_rows_ok rs \<longleftrightarrow> distinct (map row_id rs) \<and> (\<forall>r \<in> set rs. distinct (map fst r) \<and> ''active'' \<in> fst ` set r)"

lemma set_active_same:
  assumes "channel_rows_ok rs" and "ch \<in> set rs"
  shows "set_active (row_id ch) (get ''active'' ch) rs = rs"
  unfolding set_active_def
proof (rule map_idI)
  fix c assume c: "c \<in> set rs"
  show "(if row_id c = row_id ch then put ''active'' (get ''active'' ch) c else c) = c"
  proof (cases "row_id c = row_id ch")
    case True
    have "inj_on row_id (set rs)" using assms(1) by (simp add: channel_rows_ok_def distinct_map)
    with True assms(2) c have "c = ch" by (meson inj_onD)
    with assms c show ?thesis by (simp add: channel_rows_ok_def put_same)
  qed simp
qed

text \<open>
  A failed switch leaves no trace: whatever switches of other channels are flipped, kept or
  put back between the click and the failure, the list is as if this one had never been
  touched.
\<close>

theorem failed_toggle_leaves_no_trace:
  assumes "channel_rows_ok rs" and "ch \<in> set rs" and "\<forall>(i, v) \<in> set flips. i \<noteq> row_id ch"
  shows "toggle_fail ch (foldl (\<lambda>l (i, v). set_active i v l) (toggle_begin ch rs) flips) =
    foldl (\<lambda>l (i, v). set_active i v l) rs flips"
proof -
  have "toggle_fail ch (foldl (\<lambda>l (i, v). set_active i v l) l flips) =
      foldl (\<lambda>l (i, v). set_active i v l) (toggle_fail ch l) flips" for l
    using assms(3)
  proof (induction flips arbitrary: l)
    case (Cons x xs)
    then show ?case by (cases x) (auto simp: toggle_fail_def set_active_commute)
  qed simp
  moreover have "toggle_fail ch (toggle_begin ch rs) = rs"
    using set_active_same [OF assms(1,2)] by (simp add: toggle_fail_def toggle_begin_def set_active_twice)
  ultimately show ?thesis by simp
qed

definition example_channels :: "row list" where
  "example_channels =
     [[(''_id'', JStr ''a''), (''active'', JBool True)], [(''_id'', JStr ''b''), (''active'', JBool True)]]"

theorem failed_toggle_leaves_no_trace_witness:
  "toggle_fail (hd example_channels) (set_active (JStr ''b'') (JBool False) (toggle_begin (hd example_channels) example_channels)) =
     [[(''_id'', JStr ''a''), (''active'', JBool True)], [(''_id'', JStr ''b''), (''active'', JBool False)]]"
proof -
  have ok: "channel_rows_ok example_channels" "hd example_channels \<in> set example_channels"
    by (simp_all add: channel_rows_ok_def example_channels_def row_id_def get_def)
  have "\<forall>(i, v) \<in> set [(JStr ''b'', JBool False)]. i \<noteq> row_id (hd example_channels)"
    by (simp add: example_channels_def row_id_def get_def)
  from failed_toggle_leaves_no_trace [OF ok this] show ?thesis
    by (simp add: example_channels_def set_active_def row_id_def get_def put_def spread_def)
qed

end
