(* ===== verification/Settings_Screen.thy ===== *)
theory Settings_Screen
  imports Store User_Api
begin

text \<open>
  The account settings, \<open>Frontend/src/features/monitoring/pages/Settings.jsx\<close>: the picture,
  the preference switches and the password form; and the limit the server's body parser
  puts on all of them, \<open>Backend/src/app.middleware.js\<close>.
\<close>

subsection \<open>The picture\<close>

text \<open>\<open>/^image\/(png|jpe?g|webp|gif)$/\<close>.\<close>

definition image_types :: "string list" where
  "image_types = [''image/png'', ''image/jpg'', ''image/jpeg'', ''image/webp'', ''image/gif'']"

text \<open>The message shown instead of an upload, if any.\<close>

definition avatar_refusal :: "string \<Rightarrow> int \<Rightarrow> string option" where
  "avatar_refusal file_type file_size =
     (if file_type \<notin> set image_types then Some ''Please choose a PNG, JPG, WEBP or GIF image.''
      else if file_size > 800 * 1024 then Some ''Image is too large. Max size is 800KB.''
      else None)"

text \<open>What \<open>FileReader.readAsDataURL\<close> makes of a file: four characters for every three bytes.\<close>

definition data_url :: "string \<Rightarrow> string \<Rightarrow> string" where
  "data_url file_type base64 = ''data:'' @ file_type @ '';base64,'' @ base64"

definition base64_length :: "int \<Rightarrow> int" where
  "base64_length n = 4 * ((n + 2) div 3)"

text \<open>The JSON text of \<open>{ avatar: dataUrl }\<close>; a data URL holds no character to escape.\<close>

definition avatar_json :: "string \<Rightarrow> string" where
  "avatar_json url = CHR 0x7B # CHR 0x22 # ''avatar'' @ CHR 0x22 # CHR '':'' # CHR 0x22 # url @ [CHR 0x22, CHR 0x7D]"

subsection \<open>The body parser\<close>

text \<open>\<open>express.json({ limit: '16kb' })\<close>, before any route.\<close>

definition BODY_LIMIT :: int where
  "BODY_LIMIT = 16 * 1024"

definition too_large :: thrown where
  "too_large = \<lparr>isApiError = False, e_type = Some ''entity.too.large'', e_status = Some 413,
     e_message = ''request entity too large'', e_errors = []\<rparr>"

definition json_body :: "string \<Rightarrow> 'a \<Rightarrow> thrown + 'a" where
  "json_body raw parsed = (if int (length raw) > BODY_LIMIT then Inl too_large else Inr parsed)"

lemma length_avatar_json: "length (avatar_json url) = length url + 13"
  by (simp add: avatar_json_def)

text \<open>
  The advertised limit cannot be used: a picture of a type the page and the controller both
  accept, from twelve kilobytes up to the 800 both announce, passes the page's check and the
  controller's, and is refused by the body parser before any controller runs, with 413.
\<close>

theorem avatar_within_limits_refused:
  assumes "file_type \<in> set image_types" and "12 * 1024 \<le> n" and "n \<le> 800 * 1024"
    and "int (length base64) = base64_length n"
    and "js_length A (data_url file_type base64) = length (data_url file_type base64)"
  shows "avatar_refusal file_type n = None \<and>
    profile_patch A [(''avatar'', JStr (data_url file_type base64))] =
      Inr [(''avatar'', JStr (data_url file_type base64))] \<and>
    asyncHandler env (json_body (avatar_json (data_url file_type base64)) r) =
      reply.Refused 413 \<lparr>b_statusCode = 413, b_success = False, b_message = ''Request body is too large'', b_errors = [],
        b_has_stack = (env = Some ''development'')\<rparr>"
proof (intro conjI)
  let ?u = "data_url file_type base64"
  have ft: "9 \<le> length file_type" "length file_type \<le> 10" using assms(1) by (auto simp: image_types_def)
  then have len: "int (length ?u) = int (length file_type) + 13 + base64_length n"
    using assms(4) by (simp add: data_url_def)
  have b: "16384 \<le> base64_length n" "base64_length n \<le> 1092268"
    using assms(2,3) by (simp_all add: base64_length_def)
  show "avatar_refusal file_type n = None" using assms(1,3) by (simp add: avatar_refusal_def)
  have "image_url ?u" using assms(1) by (auto simp: image_types_def image_url_def data_url_def starts_with_def)
  moreover have "\<not> 1200000 < js_length A ?u" using len b ft unfolding assms(5) by linarith
  ultimately show "profile_patch A [(''avatar'', JStr ?u)] = Inr [(''avatar'', JStr ?u)]"
    by (simp add: profile_patch_def get_def)
  have "int (length (avatar_json ?u)) > BODY_LIMIT"
    using len b ft by (simp add: length_avatar_json BODY_LIMIT_def)
  then show "asyncHandler env (json_body (avatar_json ?u) r) =
      reply.Refused 413 \<lparr>b_statusCode = 413, b_success = False, b_message = ''Request body is too large'', b_errors = [],
        b_has_stack = (env = Some ''development'')\<rparr>"
    by (simp add: json_body_def asyncHandler_def errorMiddleware_def classify_def too_large_def
        BODY_PARSER_ERRORS_def ApiError_def)
qed

definition plain_auth :: auth_api where
  "plain_auth =
     \<lparr>js_length = length, bcrypt_hash = (\<lambda>_ p. p), bcrypt_compare = (=), sha256_hex = id, jwt_sign = (\<lambda>_. ''t'')\<rparr>"

theorem avatar_within_limits_refused_witness:
  "\<exists>base64. avatar_refusal ''image/png'' 20000 = None \<and>
     is_Inl (json_body (avatar_json (data_url ''image/png'' base64)) (ApiResponse 200 () '''')) \<and>
     \<not> is_Inl (profile_patch plain_auth [(''avatar'', JStr (data_url ''image/png'' base64))])"
proof -
  define base64 where "base64 = replicate (nat (base64_length 20000)) (CHR ''A'')"
  have l: "int (length base64) = base64_length 20000" by (simp add: base64_def base64_length_def)
  have t: "''image/png'' \<in> set image_types" by (simp add: image_types_def)
  have j: "js_length plain_auth (data_url ''image/png'' base64) = length (data_url ''image/png'' base64)"
    by (simp add: plain_auth_def)
  have lo: "(12 * 1024 :: int) \<le> 20000" and hi: "(20000 :: int) \<le> 800 * 1024" by simp_all
  note r = avatar_within_limits_refused [OF t lo hi l j, of None "ApiResponse 200 () ''''"]
  from r have "is_Inl (json_body (avatar_json (data_url ''image/png'' base64)) (ApiResponse 200 () ''''))"
    by (cases "json_body (avatar_json (data_url ''image/png'' base64)) (ApiResponse 200 () '''')") (simp_all add: asyncHandler_def)
  with r show ?thesis by (intro exI [of _ base64]) simp
qed

subsection \<open>Preferences\<close>

type_synonym prefs = "string \<Rightarrow> bool option"

text \<open>The switch flipped in what the screen rendered; the request carries that key alone.\<close>

definition flip :: "string \<Rightarrow> prefs \<Rightarrow> prefs" where
  "flip key p = p(key \<mapsto> \<not> nullish (p key) False)"

text \<open>A failure puts back the rendering the click started from; a success brings the
  account's preferences in over what is shown.\<close>

definition pref_failed :: "prefs \<Rightarrow> prefs \<Rightarrow> prefs" where
  "pref_failed rendered p = rendered"

definition pref_saved :: "prefs \<Rightarrow> prefs \<Rightarrow> prefs" where
  "pref_saved account p = p ++ account"

text \<open>
  A failed switch can undo another: when a second switch is flipped while the first is
  still being saved, is saved, and the first then fails, the screen shows the second as it
  was before, although the account has the new value.
\<close>

lemma failed_preference_undoes_another:
  assumes "account = flip b p" and "rendered = flip a p" and "shown = pref_saved account (flip b rendered)"
  shows "pref_failed p shown b = p b \<and> pref_failed p shown b \<noteq> account b"
  using assms by (cases "p b") (auto simp: pref_failed_def flip_def)

subsection \<open>The password form\<close>

text \<open>The request sent, or the message shown.\<close>

definition password_request :: "string \<Rightarrow> string \<Rightarrow> string \<Rightarrow> string + fields" where
  "password_request current new confirm =
     (if new \<noteq> confirm then Inl ''Passwords do not match!''
      else Inr [(''oldPassword'', JStr current), (''newPassword'', JStr new)])"

end
