(* ===== verification/Status_Screens.thy ===== *)
theory Status_Screens
  imports Store Status_Page
begin

text \<open>
  The screens that report: the dashboard and its panels, the public status page and the
  editor of a status page, under \<open>Frontend/src/features/monitoring\<close>. What they compute from
  what the server sent, not how it is drawn.
\<close>

subsection \<open>Dashboard\<close>

definition upper :: "string \<Rightarrow> string" where
  "upper s = map (\<lambda>c. let n = of_char c :: nat in if 97 \<le> n \<and> n \<le> 122 then char_of (n - 32) else c) s"

definition row_status :: "row \<Rightarrow> string" where
  "row_status r = (case get ''status'' r of JStr s \<Rightarrow> upper s | _ \<Rightarrow> '''')"

record dashboard_stats =
  ds_total :: nat
  ds_up :: nat
  ds_down :: nat

definition dashboard_stats_of :: "row list \<Rightarrow> dashboard_stats" where
  "dashboard_stats_of ms =
     \<lparr>ds_total = length ms,
      ds_up = length (filter (\<lambda>m. row_status m \<in> {''UP'', ''HEALTHY''}) ms),
      ds_down = length (filter (\<lambda>m. row_status m \<in> {''DOWN'', ''FAILING''}) ms)\<rparr>"

lemma dashboard_counts_disjoint: "ds_up (dashboard_stats_of ms) + ds_down (dashboard_stats_of ms) \<le> ds_total (dashboard_stats_of ms)"
proof -
  let ?u = "\<lambda>m. row_status m \<in> {''UP'', ''HEALTHY''}" and ?d = "\<lambda>m. row_status m \<in> {''DOWN'', ''FAILING''}"
  have "filter ?d ms = filter ?d (filter (\<lambda>m. \<not> ?u m) ms)" by (induction ms) auto
  then have "length (filter ?d ms) \<le> length (filter (\<lambda>m. \<not> ?u m) ms)" by (metis length_filter_le)
  with sum_length_filter_compl [of ?u ms] show ?thesis by (simp add: dashboard_stats_of_def)
qed

text \<open>The effect that keeps the selected monitor valid, run after every render.\<close>

definition keep_selection :: "row list \<Rightarrow> js \<Rightarrow> js" where
  "keep_selection ms selected =
     (case ms of
        [] \<Rightarrow> JStr ''''
      | m # _ \<Rightarrow> if \<exists>x \<in> set ms. row_id x = selected then selected else row_id m)"

text \<open>It chooses a monitor of the list and then stays, so the render it causes causes no other.\<close>

lemma selection_settles:
  "keep_selection ms (keep_selection ms selected) = keep_selection ms selected \<and>
   (ms \<noteq> [] \<longrightarrow> keep_selection ms selected \<in> row_id ` set ms)"
  by (cases ms) (auto simp: keep_selection_def)

text \<open>\<open>tierFor\<close> of \<open>UptimeWindows.jsx\<close>.\<close>

definition tierFor :: "rat option \<Rightarrow> string" where
  "tierFor uptime =
     (case uptime of
        None \<Rightarrow> ''No data''
      | Some u \<Rightarrow> if u \<ge> 999 / 10 then ''Healthy'' else if u \<ge> 99 then ''Degraded'' else ''Unhealthy'')"

text \<open>\<open>ongoing\<close> of \<open>Navbar.jsx\<close>, and \<open>fmtDuration\<close> of \<open>IncidentDetail.jsx\<close>.\<close>

definition ongoing_count :: "row list \<Rightarrow> nat" where
  "ongoing_count is = length (filter (\<lambda>i. get ''status'' i = JStr ''ONGOING'') is)"

definition fmtDuration :: "int option \<Rightarrow> string" where
  "fmtDuration seconds =
     (let s = num_or seconds 0 in
      if s < 60 then show_int s @ ''s''
      else let m = s div 60; r = s mod 60
           in if m < 60 then show_int m @ ''m '' @ show_int r @ ''s''
              else show_int (m div 60) @ ''h '' @ show_int (m mod 60) @ ''m'')"

definition timeAgo :: "time \<Rightarrow> time option \<Rightarrow> string" where
  "timeAgo now date =
     (case date of
        None \<Rightarrow> ''''
      | Some d \<Rightarrow>
          (let diff = (now - d) div 1000 in
           if diff < 60 then show_int diff @ ''s ago''
           else if diff < 3600 then show_int (diff div 60) @ ''m ago''
           else if diff < 86400 then show_int (diff div 3600) @ ''h ago''
           else show_int (diff div 86400) @ ''d ago''))"

subsection \<open>The public page\<close>

definition tone_label :: "shown_status \<Rightarrow> string" where
  "tone_label s = (case s of SUp \<Rightarrow> ''Operational'' | SDown \<Rightarrow> ''Down'' | SPaused \<Rightarrow> ''Paused'' | SUnknown \<Rightarrow> ''Paused'')"

definition headline :: "public_page \<Rightarrow> string" where
  "headline p = (if pp_degraded p then ''Some systems are degraded.'' else ''All systems are operational.'')"

text \<open>
  The headline and the rows of the public page agree: whatever services the server put on
  it, all systems are called operational exactly when no row reads Down.
\<close>

lemma headline_agrees_with_rows:
  assumes "public_reply page now (Inr services) = Inr resp"
  shows "headline (data resp) = ''All systems are operational.'' \<longleftrightarrow>
    (\<forall>s \<in> set (pp_services (data resp)). tone_label (sv_status s) \<noteq> ''Down'')"
proof -
  have tone: "tone_label x = ''Down'' \<longleftrightarrow> x = SDown" for x by (cases x) (simp_all add: tone_label_def)
  have "pp_services (data resp) = services" "pp_degraded (data resp) = list_ex (\<lambda>s. sv_status s = SDown) services"
    using assms by (auto simp: public_reply_def)
  then show ?thesis unfolding tone headline_def by (simp add: list_ex_iff)
qed

text \<open>The states of a service in order of severity, so that the worst of a page is a maximum.\<close>

definition severity :: "shown_status \<Rightarrow> nat" where
  "severity s = (case s of SUp \<Rightarrow> 0 | SUnknown \<Rightarrow> 1 | SPaused \<Rightarrow> 2 | SDown \<Rightarrow> 3)"

instantiation shown_status :: linorder
begin

definition less_eq_shown_status :: "shown_status \<Rightarrow> shown_status \<Rightarrow> bool" where
  "less_eq_shown_status a b \<longleftrightarrow> severity a \<le> severity b"

definition less_shown_status :: "shown_status \<Rightarrow> shown_status \<Rightarrow> bool" where
  "less_shown_status a b \<longleftrightarrow> severity a < severity b"

instance
proof
  fix a b c :: shown_status
  show "a < b \<longleftrightarrow> a \<le> b \<and> \<not> b \<le> a" "a \<le> a" "a \<le> b \<or> b \<le> a"
    by (auto simp: less_eq_shown_status_def less_shown_status_def)
  show "a \<le> c" if "a \<le> b" "b \<le> c" using that by (simp add: less_eq_shown_status_def)
  show "a = b" if "a \<le> b" "b \<le> a"
    using that by (cases a; cases b) (simp_all add: less_eq_shown_status_def severity_def)
qed

end

text \<open>A page is degraded exactly when the worst state on it is down.\<close>

lemma degraded_is_worst:
  assumes "public_reply page now (Inr services) = Inr resp" and "services \<noteq> []"
  shows "pp_degraded (data resp) \<longleftrightarrow> Max (sv_status ` set services) = SDown"
proof -
  have top: "s \<le> SDown" for s by (cases s) (simp_all add: less_eq_shown_status_def severity_def)
  have "Max (sv_status ` set services) = SDown \<longleftrightarrow> SDown \<in> sv_status ` set services"
  proof
    assume "Max (sv_status ` set services) = SDown"
    then show "SDown \<in> sv_status ` set services" using Max_in [of "sv_status ` set services"] assms(2) by simp
  next
    assume "SDown \<in> sv_status ` set services"
    then show "Max (sv_status ` set services) = SDown" by (intro Max_eqI) (auto simp: top)
  qed
  moreover have "pp_degraded (data resp) \<longleftrightarrow> SDown \<in> sv_status ` set services"
  proof -
    have "pp_degraded (data resp) = list_ex (\<lambda>s. sv_status s = SDown) services"
      using assms(1) by (auto simp: public_reply_def)
    then show ?thesis unfolding list_ex_iff image_iff by metis
  qed
  ultimately show ?thesis by simp
qed

text \<open>A monitor that has never been checked is shown to visitors as paused.\<close>

lemma unchecked_shown_paused: "m_active m \<noteq> Some False \<Longrightarrow> m_status m = None \<Longrightarrow> tone_label (shown m) = ''Paused''"
  by (simp add: shown_def tone_label_def)

subsection \<open>The editor of a status page\<close>

definition slugPreview :: "(string \<Rightarrow> string) \<Rightarrow> string \<Rightarrow> string" where
  "slugPreview nfkd v = take 60 (strip_dashes (dashify (trim (to_lower (nfkd v)))))"

text \<open>The message that stops the form, if any.\<close>

definition page_form_error :: "(string \<Rightarrow> string) \<Rightarrow> string \<Rightarrow> string option" where
  "page_form_error nfkd nm =
     (if trim nm = '''' then Some ''Name is required''
      else if slugPreview nfkd nm = '''' then Some ''Name needs at least one letter or number''
      else None)"

definition toggleMonitor :: "'a \<Rightarrow> 'a list \<Rightarrow> 'a list" where
  "toggleMonitor i chosen = (if i \<in> set chosen then filter (\<lambda>x. x \<noteq> i) chosen else chosen @ [i])"

text \<open>The chosen monitors stay without repetition, and choosing twice changes nothing in effect.\<close>

lemma toggleMonitor_choice:
  "distinct chosen \<Longrightarrow> distinct (toggleMonitor i chosen)"
  "set (toggleMonitor i chosen) = (if i \<in> set chosen then set chosen - {i} else insert i (set chosen))"
  "set (toggleMonitor i (toggleMonitor i chosen)) = set chosen"
  by (auto simp: toggleMonitor_def)

end
