(* ===== verification/Client_Router.thy ===== *)
theory Client_Router
  imports Client_Routes Operations
begin

text \<open>
  The pages of the client, \<open>Frontend/src/app/app.routes.jsx\<close> with \<open>ProtectedRoute.jsx\<close>, and the
  redirections of the sign-in pages: which page an address leads to, with and without a
  session. Matching is React Router's: segment by segment, ignoring case and one trailing
  slash, a parameter taking one non-empty segment, decoded where it can be.
\<close>

subsection \<open>The table\<close>

record page_route =
  p_path :: "segment list"
  p_page :: string
  p_protected :: bool

definition protectedPages :: "(string \<times> string) list" where
  "protectedPages =
     [(''/dashboard'', ''Dashboard''), (''/monitors'', ''Monitoring''), (''/incidents'', ''Incidents''),
      (''/incidents/:incidentId'', ''IncidentDetail''), (''/alerts'', ''Alerts''),
      (''/status-pages'', ''StatusPages''), (''/settings'', ''Settings'')]"

definition openPages :: "(string \<times> string) list" where
  "openPages =
     [(''/'', ''Home''), (''/login'', ''Login''), (''/register'', ''Register''), (''/forgot-password'', ''ForgotPassword''),
      (''/reset-password/:token'', ''ResetPassword''), (''/status/:slug'', ''PublicStatus'')]"

definition page_routes :: "bool \<Rightarrow> (string \<times> string) list \<Rightarrow> page_route list" where
  "page_routes g = map (\<lambda>(p, page). \<lparr>p_path = map segment_of (path_segments p), p_page = page, p_protected = g\<rparr>)"

definition router :: "page_route list" where
  "router = page_routes False openPages @ page_routes True protectedPages"

text \<open>The library ranks the routes that match; no two of these ever match together.\<close>

fun overlap :: "segment list \<Rightarrow> segment list \<Rightarrow> bool" where
  "overlap [] [] = True"
| "overlap (Lit a # ps) (Lit b # qs) = (a = b \<and> overlap ps qs)"
| "overlap (_ # ps) (_ # qs) = overlap ps qs"
| "overlap _ _ = False"

lemma segments_match_tl: "segments_match (p # ps) (s # ss) \<Longrightarrow> segments_match ps ss"
  by (cases p) simp_all

lemma overlap_match: "segments_match ps ss \<Longrightarrow> segments_match qs ss \<Longrightarrow> overlap ps qs"
proof (induction ps qs arbitrary: ss rule: overlap.induct)
  case (2 a ps b qs)
  then show ?case by (cases ss) auto
qed (auto dest: segments_match_tl elim: segments_match.elims)

lemma router_unambiguous:
  assumes "r \<in> set router" and "r' \<in> set router" and "segments_match (p_path r) ss" and "segments_match (p_path r') ss"
  shows "r = r'"
proof -
  have "list_all (\<lambda>r. list_all (\<lambda>r'. overlap (p_path r) (p_path r') \<longrightarrow> r = r') router) router" by code_simp
  with assms overlap_match [OF assms(3,4)] show ?thesis by (simp add: list_all_iff)
qed

subsection \<open>Navigation\<close>

text \<open>What a location shows: a page with its parameters, or a redirection replacing it.\<close>

datatype shown_view = Page string "(string \<times> string) list" | Navigate string

definition param_value :: "string \<Rightarrow> string" where
  "param_value v = nullish (decodeURIComponent v) v"

definition ProtectedRouteView :: "bool \<Rightarrow> shown_view \<Rightarrow> shown_view" where
  "ProtectedRouteView isAuth children = (if isAuth then children else Navigate ''/login'')"

definition Home :: "bool \<Rightarrow> shown_view" where
  "Home isAuth = (if isAuth then Navigate ''/dashboard'' else Page ''Login'' [])"

text \<open>The effect of \<open>Login.jsx\<close> and \<open>Register.jsx\<close>: nobody with a session stays on them.\<close>

definition signed_out_only :: "bool \<Rightarrow> string \<Rightarrow> shown_view" where
  "signed_out_only isAuth page = (if isAuth then Navigate ''/dashboard'' else Page page [])"

definition element_of :: "bool \<Rightarrow> page_route \<Rightarrow> string list \<Rightarrow> shown_view" where
  "element_of isAuth r segs =
     (let page = Page (p_page r) (map (\<lambda>(n, v). (n, param_value v)) (segment_params (p_path r) segs))
      in if p_protected r then ProtectedRouteView isAuth page
         else if p_page r = ''Home'' then Home isAuth
         else if p_page r \<in> {''Login'', ''Register''} then signed_out_only isAuth (p_page r)
         else page)"

definition location_view :: "bool \<Rightarrow> string \<Rightarrow> shown_view" where
  "location_view isAuth p =
     (let segs = path_segments p
      in case find (\<lambda>r. segments_match (p_path r) segs) router of
           None \<Rightarrow> Page ''NotFound'' []
         | Some r \<Rightarrow> element_of isAuth r segs)"

text \<open>Following redirections until a page stays; \<open>None\<close> is a loop.\<close>

partial_function (option) visit :: "bool \<Rightarrow> string \<Rightarrow> (string \<times> (string \<times> string) list) option" where
  "visit isAuth p =
     (case location_view isAuth p of
        Page page ps \<Rightarrow> Some (page, ps)
      | Navigate q \<Rightarrow> visit isAuth q)"

definition workspace_pages :: "string list" where
  "workspace_pages = map snd protectedPages"

lemma location_view_redirects:
  "location_view isAuth p = Navigate q \<Longrightarrow> q = (if isAuth then ''/dashboard'' else ''/login'')"
  by (auto simp: location_view_def element_of_def Let_def ProtectedRouteView_def Home_def signed_out_only_def
      split: option.splits if_splits)

lemma redirect_targets:
  "location_view True ''/dashboard'' = Page ''Dashboard'' []"
  "location_view False ''/login'' = Page ''Login'' []"
  by code_simp+

lemma router_pages:
  "r \<in> set router \<Longrightarrow> (p_protected r \<longleftrightarrow> p_page r \<in> set workspace_pages) \<and> p_page r \<noteq> ''NotFound''"
proof -
  have "list_all (\<lambda>r. (p_protected r \<longleftrightarrow> p_page r \<in> set workspace_pages) \<and> p_page r \<noteq> ''NotFound'') router" by code_simp
  then show "r \<in> set router \<Longrightarrow> ?thesis" by (simp add: list_all_iff)
qed

lemma location_view_guarded:
  assumes "location_view isAuth p = Page page ps"
  shows "(page \<in> set workspace_pages \<longrightarrow> isAuth) \<and> (page \<in> {''Login'', ''Register''} \<longrightarrow> \<not> isAuth)"
proof (cases "find (\<lambda>r. segments_match (p_path r) (path_segments p)) router")
  case None
  with assms show ?thesis by (auto simp: location_view_def workspace_pages_def protectedPages_def)
next
  case (Some r)
  then have r: "r \<in> set router" by (auto dest: find_SomeD)
  have w: "''Login'' \<notin> set workspace_pages" "''Register'' \<notin> set workspace_pages"
    by (simp_all add: workspace_pages_def protectedPages_def)
  from assms Some have "element_of isAuth r (path_segments p) = Page page ps" by (simp add: location_view_def)
  with router_pages [OF r] w show ?thesis
    by (auto simp: element_of_def Let_def ProtectedRouteView_def Home_def signed_out_only_def split: if_splits)
qed

text \<open>
  C11. Navigation always settles: from every address, with or without a session, following the
  redirections ends on a page; a page of the workspace is only ever shown with a session, a
  sign-in page only ever without one, and nobody is sent anywhere but to the dashboard or to
  the sign-in page.
\<close>

theorem navigation_settles:
  "\<exists>page ps. visit isAuth p = Some (page, ps) \<and>
     (page \<in> set workspace_pages \<longrightarrow> isAuth) \<and> (page \<in> {''Login'', ''Register''} \<longrightarrow> \<not> isAuth) \<and>
     (location_view isAuth p = Page page ps \<or> page = (if isAuth then ''Dashboard'' else ''Login''))"
proof (cases "location_view isAuth p")
  case (Page page ps)
  then have "visit isAuth p = Some (page, ps)" by (subst visit.simps) simp
  with Page location_view_guarded [OF Page] show ?thesis by auto
next
  case (Navigate q)
  then have "visit isAuth p = visit isAuth q" by (subst visit.simps) simp
  also have "\<dots> = Some (if isAuth then ''Dashboard'' else ''Login'', [])"
    using location_view_redirects [OF Navigate] by (subst visit.simps) (simp add: redirect_targets)
  finally show ?thesis by (auto simp: workspace_pages_def protectedPages_def)
qed

text \<open>A signed-out visitor of an incident is sent to the sign-in page.\<close>

theorem navigation_settles_witness:
  "visit False ''/Incidents/64b7/'' = Some (''Login'', []) \<and> ''Login'' \<notin> set workspace_pages"
proof -
  have n: "location_view False ''/Incidents/64b7/'' = Navigate ''/login''" by code_simp
  from navigation_settles [of False "''/Incidents/64b7/''"] obtain ps where v: "visit False ''/Incidents/64b7/'' = Some (''Login'', ps)"
    unfolding n by auto
  moreover have "visit False ''/Incidents/64b7/'' = Some (''Login'', [])"
    by (subst visit.simps, simp add: n) (subst visit.simps, simp add: redirect_targets)
  ultimately show ?thesis by (simp add: workspace_pages_def protectedPages_def)
qed

end
