(* ===== verification/Reset_Journey.thy ===== *)
theory Reset_Journey
  imports Client_Router Account_Recovery Status_Page
begin

text \<open>
  A forgotten password, from one end to the other: the link the server mails is opened in a
  browser, passes the server's filters, reaches the page of the client that uses it, and what
  that page sends resets the password. Also the addresses the path filter makes unreachable.
\<close>

subsection \<open>The path filter\<close>

lemma starts_with_subset: "starts_with p s \<Longrightarrow> set p \<subseteq> set s"
  using set_take_subset [of "length p" s] by (simp add: starts_with_def)

lemma str_includes_subset: "str_includes p s \<Longrightarrow> set p \<subseteq> set s"
proof (induction p s rule: str_includes.induct)
  case (2 p c s)
  then show ?case using starts_with_subset [of p "c # s"] by auto
qed simp

lemma starts_with_append: "starts_with p (p @ s)"
  by (simp add: starts_with_def)

lemma str_includes_start: "starts_with p s \<Longrightarrow> str_includes p s"
  by (cases s) (simp_all add: starts_with_def)

lemma str_includes_append: "str_includes p s \<Longrightarrow> str_includes p (a @ s)"
  by (induction a) simp_all

lemma starts_with_split: "starts_with p s \<Longrightarrow> s = p @ drop (length p) s"
  by (metis append_take_drop_id starts_with_def)

text \<open>A text without a full stop and without an \<open>m\<close> is never blocked.\<close>

lemma not_blocked: "CHR ''.'' \<notin> set url \<Longrightarrow> CHR ''m'' \<notin> set url \<Longrightarrow> \<not> blockUnwantedRequests url"
  by (auto simp: blockUnwantedRequests_def unwantedPaths_def dest!: str_includes_subset)

subsection \<open>Opening the link\<close>

text \<open>The tokens of \<open>crypto.randomBytes(...).toString('hex')\<close>.\<close>

definition hex_token :: "string \<Rightarrow> bool" where
  "hex_token t \<longleftrightarrow> t \<noteq> [] \<and> list_all (\<lambda>c. c \<in> set ''0123456789abcdef'') t"

lemma hex_token_chars:
  assumes "hex_token t"
  shows "CHR ''/'' \<notin> set t" "CHR ''.'' \<notin> set t" "CHR ''m'' \<notin> set t" "t \<noteq> []" "list_all unreserved t"
proof -
  have d: "list_all (\<lambda>c. c \<noteq> CHR ''/'' \<and> c \<noteq> CHR ''.'' \<and> c \<noteq> CHR ''m'' \<and> unreserved c) ''0123456789abcdef''" by code_simp
  have "\<forall>c \<in> set t. c \<in> set ''0123456789abcdef''" using assms unfolding hex_token_def list_all_iff by blast
  with d have c: "\<forall>c \<in> set t. c \<noteq> CHR ''/'' \<and> c \<noteq> CHR ''.'' \<and> c \<noteq> CHR ''m'' \<and> unreserved c"
    unfolding list_all_iff by blast
  then show "CHR ''/'' \<notin> set t" "CHR ''.'' \<notin> set t" "CHR ''m'' \<notin> set t" by blast+
  from c show "list_all unreserved t" unfolding list_all_iff by blast
  from assms show "t \<noteq> []" unfolding hex_token_def by blast
qed

lemma hex_token_codec:
  assumes "hex_token t" shows "encodeURIComponent t = t" "decodeURIComponent t = Some t"
  using hex_token_chars(5) [OF assms] decode_encode [of t] encode_unreserved [of t] by simp_all

lemma router_finds:
  assumes "r \<in> set router" and "segments_match (p_path r) segs"
  shows "find (\<lambda>r. segments_match (p_path r) segs) router = Some r"
proof (cases "find (\<lambda>r. segments_match (p_path r) segs) router")
  case None
  with assms show ?thesis by (auto simp: find_None_iff)
next
  case (Some r')
  with find_SomeD [OF Some] router_unambiguous [OF assms(1)] assms(2) show ?thesis by auto
qed

lemma two_segments:
  assumes "CHR ''/'' \<notin> set a" "CHR ''/'' \<notin> set b" "b \<noteq> []"
  shows "path_segments (CHR ''/'' # a @ CHR ''/'' # b) = [a, b]"
  using assms by (simp add: path_segments_def split_on_append_sep split_on_no_sep)

text \<open>Whoever opens it, signed in or not, is shown the form for that token.\<close>

lemma reset_page_shown:
  assumes "CHR ''/'' \<notin> set t" and "t \<noteq> []" and "decodeURIComponent t = Some t"
  shows "visit isAuth (''/reset-password/'' @ t) = Some (''ResetPassword'', [(''token'', t)])"
proof -
  let ?r = "\<lparr>p_path = [Lit ''reset-password'', Param ''token''], p_page = ''ResetPassword'', p_protected = False\<rparr>"
  have segs: "path_segments (''/reset-password/'' @ t) = [''reset-password'', t]"
    using two_segments [of "''reset-password''" t] assms by simp
  have "?r \<in> set router" by code_simp
  moreover have "segments_match (p_path ?r) [''reset-password'', t]" using assms(2) by (simp add: lower_literals)
  ultimately have "find (\<lambda>r. segments_match (p_path r) [''reset-password'', t]) router = Some ?r" by (rule router_finds)
  then have "location_view isAuth (''/reset-password/'' @ t) = Page ''ResetPassword'' [(''token'', t)]"
    unfolding location_view_def segs using assms(3) by (simp add: element_of_def param_value_def)
  then show ?thesis by (subst visit.simps) simp
qed

lemma reset_path_is_shell:
  assumes "CHR ''/'' \<notin> set t" and "t \<noteq> []"
  shows "routed_to ''get'' (''/reset-password/'' @ t) = Shell"
proof -
  have segs: "path_segments (''/reset-password/'' @ t) = [''reset-password'', t]"
    using two_segments [of "''reset-password''" t] assms by simp
  show ?thesis unfolding routed_to_def segs routes_table by (simp add: lower_literals route_method_def)
qed

subsection \<open>The journey\<close>

text \<open>A token stored for one account resets that account's password; only the database can fail.\<close>

lemma stored_token_resets:
  assumes db: "mongo_atomic U docs user_clash"
    and docs: "docs c = add_mset x N" "\<forall>y \<in># N. \<not> user_clash x y"
    and tok: "token \<noteq> []" "forgotPasswordToken x = Some (hashResetToken A token)" "forgotPasswordExpire x = Some t" "ae_now env < t"
    and fresh: "\<forall>y \<in># N. forgotPasswordToken y \<noteq> Some (hashResetToken A token)"
    and pw: "pw \<noteq> []" "C SString (JStr pw) = Some (JStr pw)" "6 \<le> js_length A pw"
  shows "case resetPassword B A C U c env token [(''newPassword'', JStr pw)] of
      (c', _, Inl e) \<Rightarrow> \<not> isApiError e
    | (c', ms, Inr _) \<Rightarrow> map to_addr ms = [u_email x] \<and>
        docs c' = add_mset (x\<lparr>forgotPasswordToken := None, forgotPasswordExpire := None,
                             password := Some (bcrypt_hash A (ae_salt env) pw)\<rparr>) N"
proof -
  note mdb = mongo_atomic.axioms(1) [OF db]
  have as_is: "js_string B (JStr pw) = pw" by (simp add: js_string_def)
  let ?f = "\<lambda>d. d\<lparr>forgotPasswordToken := None, forgotPasswordExpire := None, password := Some (bcrypt_hash A (ae_salt env) pw)\<rparr>"
  let ?P = "\<lambda>u. forgotPasswordToken u = Some (hashResetToken A token) \<and>
             (case forgotPasswordExpire u of None \<Rightarrow> False | Some t \<Rightarrow> ae_now env < t)"
  have fields: "get ''newPassword'' [(''newPassword'', JStr pw)] = JStr pw" "as_text (C SString (JStr pw)) = Some pw"
    "\<not> js_falsy (JStr pw)" using pw by (simp_all add: get_def as_text_def js_falsy_def)
  have find: "findUserByForgotToken A U c (ae_now env) token = find_user U c ?P"
    using tok(1) by (simp add: findUserByForgotToken_def)
  show ?thesis
  proof (cases "find_user U c ?P")
    case (Inl e)
    from find_user_thrown [OF Inl] show ?thesis
      unfolding resetPassword_def Let_def fields find Inl using pw as_is fields by simp
  next
    case (Inr found)
    have "found \<noteq> None" using find_user_none [OF mdb, of c ?P x] Inr docs(1) tok by auto
    then obtain y where y: "found = Some y" by blast
    have "y \<in># docs c" "?P y" using find_user_some [OF mdb Inr [unfolded y]] by simp_all
    with docs(1) fresh have "y = x" by auto
    obtain c' q where save: "saveUser U c (u_id x) ?f = (c', q)" by (cases "saveUser U c (u_id x) ?f")
    have run: "resetPassword B A C U c env token [(''newPassword'', JStr pw)] =
        (case (c', q) of (c1, Inl e) \<Rightarrow> (c1, [], Inl e)
         | (c1, Inr _) \<Rightarrow> (c1, [reset_done_mail x],
             Inr (ApiResponse 200 () ''Password reset successfully. You can now sign in with your new password.'', KeepCookie)))"
      unfolding resetPassword_def Let_def fields find Inr y \<open>y = x\<close> savePassword_def
      using pw as_is fields save by simp
    show ?thesis
    proof (cases q)
      case (Inl e)
      with saveUser_thrown [OF save [unfolded Inl]] show ?thesis unfolding run by simp
    next
      case ok: (Inr v)
      with saveUser_effect(2) [OF db save] have "rewritten (docs c) (docs c') (u_id x) ?f" by simp
      then obtain d K where d: "docs c = add_mset d K" "u_id d = u_id x" "docs c' = add_mset (?f d) K"
        by (auto simp: rewritten_def)
      from d(1) have "d \<in># docs c" by simp
      have "d = x" by (rule sole_match [where u' = x and M = N]) (use \<open>d \<in># docs c\<close> d docs in simp_all)
      with d docs(1) show ?thesis unfolding run ok by (simp add: reset_done_mail_def)
    qed
  qed
qed

lemma forgotPassword_mail:
  assumes "forgotPassword B A C cfg U c env body = (c', [m], r)"
  shows "\<exists>v. m = reset_mail v (reset_url cfg (ae_bytes env))"
  using assms by (auto simp: forgotPassword_def Let_def split: if_splits sum.splits option.splits prod.splits)

text \<open>
  C13. A forgotten password is recovered: the mail an account is sent holds an address of the
  configured front end that passes the server's path filter and its routes as the client's
  shell, shows the form for its token to anyone who opens it, and whose form sends a request
  that passes the filter too and reaches the reset with that token; within fifteen minutes it
  gives exactly that account the password typed, unless the database fails.
\<close>

theorem forgotten_password_recovered:
  assumes db: "mongo_atomic U docs user_clash" and idx: "indexed (docs c)"
    and fresh: "\<And>u. u \<in># docs c \<Longrightarrow> forgotPasswordToken u \<noteq> Some (hashResetToken A (ae_bytes env))"
    and hex: "hex_token (ae_bytes env)"
    and ask: "forgotPassword B A C cfg U c env body = (c1, [m], Inr reply)"
    and pw: "pw \<noteq> []" "C SString (JStr pw) = Some (JStr pw)" "6 \<le> js_length A pw"
    and soon: "ae_now env' < ae_now env + RESET_MS"
  shows "\<exists>u N before after path. docs c = add_mset u N \<and> to_addr m = u_email u \<and>
    message m = Some (before @ drop_slashes (FRONTEND_URL cfg) @ path @ after) \<and>
    \<not> blockUnwantedRequests path \<and> routed_to ''get'' path = Shell \<and>
    visit isAuth path = Some (''ResetPassword'', [(''token'', ae_bytes env)]) \<and>
    (case api_resetPassword same_origin (ae_bytes env) (JStr pw) of
       Inl _ \<Rightarrow> False
     | Inr call \<Rightarrow> \<not> blockUnwantedRequests (address call) \<and> verb call = ''post'' \<and>
         call_body call = Some (JObj [(''newPassword'', JStr pw)]) \<and>
         routed_to (verb call) (address call) = Handled ''resetPassword'' False [(''token'', ae_bytes env)]) \<and>
    (case resetPassword B A C U c1 env' (ae_bytes env) [(''newPassword'', JStr pw)] of
       (c2, _, Inl e) \<Rightarrow> \<not> isApiError e
     | (c2, _, Inr _) \<Rightarrow>
         docs c2 = add_mset (u\<lparr>forgotPasswordToken := None, forgotPasswordExpire := None,
                               password := Some (bcrypt_hash A (ae_salt env') pw)\<rparr>) N)"
proof -
  let ?t = "ae_bytes env"
  let ?path = "''/reset-password/'' @ ?t"
  note h = hex_token_chars [OF hex] hex_token_codec [OF hex]
  from forgotPassword_uniform [OF db idx ask] obtain u N where u: "docs c = add_mset u N" "to_addr m = u_email u"
    and c1: "docs c1 = add_mset (generateForgotToken A env u) N" by auto
  have clash: "\<forall>y \<in># N. \<not> user_clash (generateForgotToken A env u) y"
    using idx u(1) by (auto simp: indexed_def user_clash_def generateForgotToken_def)
  have others: "\<forall>y \<in># N. forgotPasswordToken y \<noteq> Some (hashResetToken A ?t)" using fresh u(1) by auto
  have stored: "forgotPasswordToken (generateForgotToken A env u) = Some (hashResetToken A ?t)"
    "forgotPasswordExpire (generateForgotToken A env u) = Some (ae_now env + RESET_MS)"
    by (simp_all add: generateForgotToken_def)
  have reset: "case resetPassword B A C U c1 env' ?t [(''newPassword'', JStr pw)] of
      (c2, _, Inl e) \<Rightarrow> \<not> isApiError e
    | (c2, _, Inr _) \<Rightarrow>
        docs c2 = add_mset (u\<lparr>forgotPasswordToken := None, forgotPasswordExpire := None,
                              password := Some (bcrypt_hash A (ae_salt env') pw)\<rparr>) N"
    using stored_token_resets [where docs = docs and A = A and C = C and U = U and B = B and c = c1 and env = env',
        OF db c1 clash h(4) stored soon others pw]
    by (auto simp: generateForgotToken_def split: prod.splits sum.splits)
  from forgotPassword_mail [OF ask] obtain v where v: "m = reset_mail v (reset_url cfg ?t)" ..
  obtain before after where mail: "message m = Some (before @ drop_slashes (FRONTEND_URL cfg) @ ?path @ after)"
    unfolding v reset_mail_def reset_url_def lines_def email.simps join_with.simps append_assoc by blast
  have "api_resetPassword same_origin ?t (JStr pw) =
      Inr \<lparr>verb = ''post'', address = ''/api/auth/reset-password/'' @ ?t,
           call_body = Some (JObj [(''newPassword'', JStr pw)]), query = JUndef, time_limit = API_timeout\<rparr>"
    unfolding api_resetPassword_def same_origin_eval h(6)
    by (simp add: request_of_def apiRequest_def axios_verbs_def BODYLESS_METHODS_def known_verbs js_falsy_def)
  moreover have "\<not> blockUnwantedRequests ?path" "\<not> blockUnwantedRequests (''/api/auth/reset-password/'' @ ?t)"
    by (rule not_blocked; use h(2,3) in simp)+
  moreover note dispatch_auth(10) [OF h(4), unfolded h(6)] reset_path_is_shell [OF h(1,4)] reset_page_shown [OF h(1,4,7)]
  ultimately show ?thesis
    using u mail reset by (intro exI [of _ u] exI [of _ N] exI [of _ before] exI [of _ after] exI [of _ ?path]) simp
qed

text \<open>Ann asks, opens the link of the mail and types a new password a minute later.\<close>

definition ann_env :: auth_env where
  "ann_env = (example_env 5 '''')\<lparr>ae_bytes := ''c0ffee''\<rparr>"

definition ann_asks :: "user list \<times> email list \<times> (thrown + unit handled)" where
  "ann_asks = forgotPassword plain_bson example_auth plain_cast (example_config True) example_users (one_account True) ann_env
     [(''email'', JStr ''ann@x.io'')]"

theorem forgotten_password_recovered_witness:
  "visit False ''/reset-password/c0ffee'' = Some (''ResetPassword'', [(''token'', ''c0ffee'')]) \<and>
   map password (fst (resetPassword plain_bson example_auth plain_cast example_users (fst ann_asks) (example_env 60000 '''')
     ''c0ffee'' [(''newPassword'', JStr ''better1'')])) = [Some ''s:better1'']"
proof -
  obtain c1 ms r where run: "ann_asks = (c1, ms, r)" by (cases ann_asks) auto
  have "length (fst (snd ann_asks)) = 1 \<and> \<not> is_Inl (snd (snd ann_asks))" by code_simp
  then have "length ms = 1" "\<not> is_Inl r" unfolding run by simp_all
  then obtain m reply where "ms = [m]" "r = Inr reply" by (cases r) (auto simp: length_Suc_conv)
  with run have ask: "ann_asks = (c1, [m], Inr reply)" by simp
  obtain a where a: "one_account True = [a]" by (rule one_account_single)
  have "list_all (\<lambda>u. forgotPasswordToken u = None) (one_account True)" by code_simp
  then have fresh: "forgotPasswordToken u \<noteq> Some (hashResetToken example_auth (ae_bytes ann_env))"
    if "u \<in># mset (one_account True)" for u using that by (simp add: a)
  have hex: "hex_token (ae_bytes ann_env)" by code_simp
  have idx: "indexed (mset (one_account True))" by (simp add: a)
  have pw: "''better1'' \<noteq> []" "plain_cast SString (JStr ''better1'') = Some (JStr ''better1'')"
    "6 \<le> js_length example_auth ''better1''" by code_simp+
  have soon: "ae_now (example_env 60000 '''') < ae_now ann_env + RESET_MS" by code_simp
  from forgotten_password_recovered [where docs = mset and C = plain_cast and isAuth = False,
      OF mem_atomic.mongo_atomic_axioms idx fresh hex ask [unfolded ann_asks_def] pw soon]
  have "\<exists>path. visit False path = Some (''ResetPassword'', [(''token'', ae_bytes ann_env)])" by blast
  moreover have "visit False ''/reset-password/c0ffee'' = Some (''ResetPassword'', [(''token'', ''c0ffee'')])"
  proof -
    have "CHR ''/'' \<notin> set ''c0ffee''" "''c0ffee'' \<noteq> []" "decodeURIComponent ''c0ffee'' = Some ''c0ffee''" by code_simp+
    from reset_page_shown [OF this, of False] show ?thesis by simp
  qed
  moreover have "map password (fst (resetPassword plain_bson example_auth plain_cast example_users (fst ann_asks)
      (example_env 60000 '''') ''c0ffee'' [(''newPassword'', JStr ''better1'')])) = [Some ''s:better1'']" by code_simp
  ultimately show ?thesis by blast
qed

subsection \<open>Addresses nobody can read\<close>

lemma blocked_inside: "p \<in> set unwantedPaths \<Longrightarrow> blockUnwantedRequests (a @ p @ b)"
  using str_includes_append [OF str_includes_start [OF starts_with_append]]
  by (auto simp: blockUnwantedRequests_def list_ex_iff)



end
