(* ===== verification/Google_Button.thy ===== *)
theory Google_Button
  imports Client_Session
begin

text \<open>
  The "Continue with Google" button, \<open>Frontend/src/features/auth/components/GoogleSignInButton.jsx\<close>:
  how the library's script is loaded once for a document, and what the button shows. The script,
  its events and the account chooser are the browser's and Google's: of a script element the
  model fixes that it reports one end, loaded or failed, and no second one. One button is
  mounted at a time, as the sign-in and the registration page each have one.
\<close>

subsection \<open>State\<close>

datatype script = Script_loading | Script_loaded | Script_failed

datatype promise = Promise_pending | Promise_fulfilled

record google_button =
  ready :: bool
  button_pending :: bool
  button_error :: string

text \<open>\<open>gsiPromise = None\<close> is \<open>null\<close>; \<open>has_google\<close>: \<open>window.google.accounts.id\<close> is there.\<close>

record google_page =
  gsiPromise :: "promise option"
  gsi_script :: "script option"
  has_google :: bool
  button :: "google_button option"

definition new_page :: google_page where
  "new_page = \<lparr>gsiPromise = None, gsi_script = None, has_google = False, button = None\<rparr>"

definition fresh_button :: google_button where
  "fresh_button = \<lparr>ready = False, button_pending = False, button_error = ''''\<rparr>"

subsection \<open>The handlers\<close>

definition loadGoogleScript :: "google_page \<Rightarrow> google_page" where
  "loadGoogleScript p =
     (case gsiPromise p of
        Some _ \<Rightarrow> p
      | None \<Rightarrow>
          if has_google p then p\<lparr>gsiPromise := Some Promise_fulfilled\<rparr>
          else case gsi_script p of
                 Some _ \<Rightarrow> p\<lparr>gsiPromise := Some Promise_pending\<rparr>
               | None \<Rightarrow> p\<lparr>gsiPromise := Some Promise_pending, gsi_script := Some Script_loading\<rparr>)"

text \<open>The effect's \<open>then\<close>: initialise the library if it is there.\<close>

definition on_fulfilled :: "google_page \<Rightarrow> google_page" where
  "on_fulfilled p =
     p\<lparr>button := map_option (\<lambda>b. if has_google p then b\<lparr>ready := True\<rparr> else b) (button p)\<rparr>"

definition mount_button :: "google_page \<Rightarrow> google_page" where
  "mount_button p =
     (let p1 = loadGoogleScript (p\<lparr>button := Some fresh_button\<rparr>)
      in if gsiPromise p1 = Some Promise_fulfilled then on_fulfilled p1 else p1)"

definition script_onload :: "bool \<Rightarrow> google_page \<Rightarrow> google_page" where
  "script_onload provides p =
     on_fulfilled (p\<lparr>gsi_script := Some Script_loaded, has_google := provides, gsiPromise := Some Promise_fulfilled\<rparr>)"

text \<open>The promise is forgotten; the element stays in the document.\<close>

definition script_onerror :: "google_page \<Rightarrow> google_page" where
  "script_onerror p =
     p\<lparr>gsi_script := Some Script_failed, gsiPromise := None,
       button := map_option (\<lambda>b. b\<lparr>button_error :=
         ''Google sign-in could not be loaded. You can still sign in with your email.''\<rparr>) (button p)\<rparr>"

definition handleClick :: "google_button \<Rightarrow> google_button" where
  "handleClick b = b\<lparr>button_error := '''', button_pending := True\<rparr>"

definition prompt_skipped :: "google_button \<Rightarrow> google_button" where
  "prompt_skipped b = b\<lparr>button_pending := False, button_error :=
     ''Google sign-in was blocked by the browser. Check that third-party sign-in is allowed, or use your email below.''\<rparr>"

text \<open>\<open>handleResponse\<close>: \<open>outcome\<close> is what the parent's \<open>onCredential\<close> came to.\<close>

definition handleResponse :: "string option \<Rightarrow> client_error + unit \<Rightarrow> google_button \<Rightarrow> google_button" where
  "handleResponse credential outcome b =
     (if \<not> truthy_str credential then
        b\<lparr>button_pending := False, button_error := ''Google did not return a credential. Please try again.''\<rparr>
      else (case outcome of
              Inr _ \<Rightarrow> b
            | Inl e \<Rightarrow> b\<lparr>button_error := str_or (x_reply e) ''Could not sign in with Google. Please try again.''\<rparr>)
        \<lparr>button_pending := False\<rparr>)"

subsection \<open>Runs\<close>

datatype google_event =
    Mount
  | Unmount
  | Script_loads bool
  | Script_fails
  | Click
  | Skipped
  | Answer "string option" "client_error + unit"

definition google_enabled :: "google_event \<Rightarrow> google_page \<Rightarrow> bool" where
  "google_enabled e p =
     (case e of
        Mount \<Rightarrow> button p = None
      | Unmount \<Rightarrow> button p \<noteq> None
      | Script_loads _ \<Rightarrow> gsi_script p = Some Script_loading
      | Script_fails \<Rightarrow> gsi_script p = Some Script_loading
      | Click \<Rightarrow> (case button p of None \<Rightarrow> False | Some b \<Rightarrow> ready b \<and> \<not> button_pending b)
      | Skipped \<Rightarrow> (case button p of None \<Rightarrow> False | Some b \<Rightarrow> button_pending b)
      | Answer _ _ \<Rightarrow> (case button p of None \<Rightarrow> False | Some b \<Rightarrow> button_pending b))"

definition google_next :: "google_page \<Rightarrow> google_event \<Rightarrow> google_page" where
  "google_next p e =
     (case e of
        Mount \<Rightarrow> mount_button p
      | Unmount \<Rightarrow> p\<lparr>button := None\<rparr>
      | Script_loads provides \<Rightarrow> script_onload provides p
      | Script_fails \<Rightarrow> script_onerror p
      | Click \<Rightarrow> p\<lparr>button := map_option handleClick (button p)\<rparr>
      | Skipped \<Rightarrow> p\<lparr>button := map_option prompt_skipped (button p)\<rparr>
      | Answer credential outcome \<Rightarrow> p\<lparr>button := map_option (handleResponse credential outcome) (button p)\<rparr>)"

inductive google_steps :: "google_page \<Rightarrow> google_event list \<Rightarrow> google_page \<Rightarrow> bool" where
  google_rest: "google_steps p [] p"
| google_more: "google_enabled e p \<Longrightarrow> google_steps (google_next p e) es p' \<Longrightarrow> google_steps p (e # es) p'"

inductive_simps google_steps_simps [simp]:
  "google_steps p [] p'"
  "google_steps p (e # es) p'"

lemmas google_handler_defs = mount_button_def loadGoogleScript_def on_fulfilled_def script_onload_def script_onerror_def
  handleClick_def prompt_skipped_def handleResponse_def fresh_button_def

subsection \<open>What the button promises\<close>

text \<open>
  The library is there whenever the button can be clicked, an open chooser belongs to a button that is
  ready, and the promise, the element and the library agree.
\<close>

definition google_ok :: "google_page \<Rightarrow> bool" where
  "google_ok p \<longleftrightarrow>
     (case button p of None \<Rightarrow> True | Some b \<Rightarrow> (ready b \<longrightarrow> has_google p) \<and> (button_pending b \<longrightarrow> ready b)) \<and>
     (has_google p \<longrightarrow> gsi_script p = Some Script_loaded) \<and>
     (gsiPromise p = Some Promise_fulfilled \<longrightarrow> gsi_script p = Some Script_loaded) \<and>
     (gsi_script p = Some Script_loading \<longrightarrow> gsiPromise p = Some Promise_pending)"

lemma google_ok_next [inv_intros]: "google_enabled e p \<Longrightarrow> google_ok p \<Longrightarrow> google_ok (google_next p e)"
  by (cases e)
    (auto simp: google_ok_def google_next_def google_enabled_def google_handler_defs Let_def split: option.splits sum.splits)

lemma google_ok_steps: "google_steps p es p' \<Longrightarrow> google_ok p \<Longrightarrow> google_ok p'"
  by (induction rule: google_steps.induct) (auto intro: inv_intros)

lemma google_ok_new: "google_ok new_page"
  by (simp add: google_ok_def new_page_def)

text \<open>Whatever happens, a click finds the library it calls.\<close>

lemma click_finds_library:
  assumes "google_steps new_page es p" and "google_enabled Click p"
  shows "has_google p"
  using google_ok_steps [OF assms(1) google_ok_new] assms(2)
  by (auto simp: google_ok_def google_enabled_def split: option.splits)

text \<open>A failed load, once the button that saw it is gone: nobody waits for an event that can come.\<close>

definition dead_script :: "google_page \<Rightarrow> bool" where
  "dead_script p \<longleftrightarrow> gsi_script p = Some Script_failed \<and> \<not> has_google p \<and> gsiPromise p \<noteq> Some Promise_fulfilled \<and>
     button p \<in> {None, Some fresh_button}"

lemma dead_script_next [inv_intros]: "google_enabled e p \<Longrightarrow> dead_script p \<Longrightarrow> dead_script (google_next p e)"
  by (cases e)
    (auto simp: dead_script_def google_next_def google_enabled_def google_handler_defs Let_def split: option.splits)

lemma dead_script_steps: "google_steps p es p' \<Longrightarrow> dead_script p \<Longrightarrow> dead_script p'"
  by (induction rule: google_steps.induct) (auto intro: inv_intros)

lemma google_steps_append: "google_steps p (es @ es') p'' \<longleftrightarrow> (\<exists>p'. google_steps p es p' \<and> google_steps p' es' p'')"
  by (induction es arbitrary: p) auto

text \<open>
  A load that failed is never tried again: whatever came before, once the script has failed
  and the page that showed the failure is left, no button mounted in that document is ever ready
  and none shows an error either; it stays a dead control, however often the sign-in pages are
  visited, although forgetting the promise is meant to let a later one retry.
\<close>

theorem failed_load_never_retried:
  assumes "google_steps new_page (earlier @ [Script_fails, Unmount] @ onwards) p"
  shows "gsi_script p = Some Script_failed \<and> \<not> has_google p \<and>
    (button p = None \<or> (\<exists>b. button p = Some b \<and> \<not> ready b \<and> button_error b = ''''))"
proof -
  from assms obtain q where q: "google_steps new_page earlier q" "google_enabled Script_fails q"
    and rest: "google_steps (google_next (google_next q Script_fails) Unmount) onwards p"
    by (auto simp: google_steps_append)
  from google_ok_steps [OF q(1) google_ok_new] q(2) have "\<not> has_google q"
    by (auto simp: google_ok_def google_enabled_def)
  then have "dead_script (google_next (google_next q Script_fails) Unmount)"
    by (simp add: dead_script_def google_next_def script_onerror_def)
  from dead_script_steps [OF rest this] show ?thesis by (auto simp: dead_script_def fresh_button_def)
qed

theorem failed_load_never_retried_witness:
  "\<exists>p. google_steps new_page [Mount, Script_fails, Unmount, Mount] p \<and> button p = Some fresh_button \<and> \<not> has_google p"
proof -
  let ?p = "foldl google_next new_page [Mount, Script_fails, Unmount, Mount]"
  have run: "google_steps new_page [Mount, Script_fails, Unmount, Mount] ?p"
    by (simp add: google_enabled_def google_next_def google_handler_defs new_page_def Let_def)
  moreover from failed_load_never_retried [of "[Mount]" "[Mount]" ?p] run have "\<not> has_google ?p" by simp
  moreover have "button ?p = Some fresh_button"
    by (simp add: google_next_def google_handler_defs new_page_def Let_def)
  ultimately show ?thesis by blast
qed

end
