(* ===== verification/Panels.thy ===== *)
theory Panels
  imports Status_Screens Client_Session
begin

text \<open>
  The panels that load for themselves, under \<open>Frontend/src/features/monitoring\<close>: the bell of
  \<open>components/Navbar.jsx\<close>, the journal of \<open>pages/Incidents.jsx\<close>, \<open>pages/IncidentDetail.jsx\<close>,
  \<open>components/UptimeWindows.jsx\<close> with the response times of \<open>pages/Dashboard.jsx\<close>, and
  \<open>pages/PublicStatus.jsx\<close>. Each keeps its own state and
  has requests in flight whose answers may come in any order; what it shows in each state is a
  function of it. The row answered for an identifier is kept with the identifier asked for.
\<close>

subsection \<open>The bell\<close>

record bell =
  b_incidents :: "row list"
  b_loading :: bool

definition new_bell :: bell where
  "new_bell = \<lparr>b_incidents = [], b_loading = False\<rparr>"

definition bell_load :: "bell \<Rightarrow> bell" where
  "bell_load b = b\<lparr>b_loading := True\<rparr>"

text \<open>The \<open>catch\<close> names no error and empties the list.\<close>

definition bell_answer :: "client_error + row list response \<Rightarrow> bell \<Rightarrow> bell" where
  "bell_answer r b =
     b\<lparr>b_incidents := (case r of Inr resp \<Rightarrow> data resp | Inl _ \<Rightarrow> []), b_loading := False\<rparr>"

definition badge :: "bell \<Rightarrow> string option" where
  "badge b =
     (let ongoing = ongoing_count (b_incidents b)
      in if ongoing = 0 then None else Some (if ongoing > 9 then ''9+'' else show_nat ongoing))"

datatype bell_body = Bell_spinner | Bell_message string | Bell_rows "row list"

definition bell_panel :: "bell \<Rightarrow> bell_body" where
  "bell_panel b =
     (if b_loading b \<and> b_incidents b = [] then Bell_spinner
      else if b_incidents b = [] then Bell_message ''No incidents. Everything is healthy.''
      else Bell_rows (take 8 (b_incidents b)))"

definition TITLES :: "(string \<times> string) list" where
  "TITLES =
     [(''/dashboard'', ''Overview''), (''/monitors'', ''Monitors''), (''/incidents'', ''Journal''),
      (''/alerts'', ''Alert Center''), (''/status-pages'', ''Status Pages''), (''/settings'', ''Settings'')]"

definition navbar_title :: "string \<Rightarrow> string" where
  "navbar_title pathname =
     (case map_of TITLES pathname of
        Some t \<Rightarrow> t
      | None \<Rightarrow> if starts_with ''/incidents/'' pathname then ''Incident'' else ''Overview'')"

subsection \<open>The journal\<close>

record journal =
  j_incidents :: "row list"
  j_loading :: bool
  j_error :: "string option"

definition new_journal :: journal where
  "new_journal = \<lparr>j_incidents = [], j_loading = False, j_error = None\<rparr>"

definition journal_load :: "journal \<Rightarrow> journal" where
  "journal_load j = j\<lparr>j_loading := True\<rparr>"

definition journal_answer :: "client_error + row list response \<Rightarrow> journal \<Rightarrow> journal" where
  "journal_answer r j =
     (case r of
        Inr resp \<Rightarrow> j\<lparr>j_incidents := data resp\<rparr>
      | Inl e \<Rightarrow> j\<lparr>j_error := Some (error_text e ''Failed to fetch incidents'')\<rparr>)\<lparr>j_loading := False\<rparr>"

datatype journal_body = Journal_skeleton | Journal_empty string | Journal_rows "row list"

definition journal_table :: "journal \<Rightarrow> journal_body" where
  "journal_table j =
     (if j_loading j \<and> j_incidents j = [] then Journal_skeleton
      else if j_incidents j = [] then Journal_empty
        ''Every monitored endpoint has been responding normally. Incidents appear here automatically when one fails its configured threshold.''
      else Journal_rows (j_incidents j))"

text \<open>The incidents of the dashboard: a failure is written to the console.\<close>

definition dashboard_incidents :: "client_error + row list response \<Rightarrow> row list \<Rightarrow> row list" where
  "dashboard_incidents r is = (case r of Inr resp \<Rightarrow> data resp | Inl _ \<Rightarrow> is)"

definition recent_incidents :: "row list \<Rightarrow> bell_body" where
  "recent_incidents is = (if is = [] then Bell_message ''Record is clear'' else Bell_rows (take 3 is))"

lemma journal_error_stays: "j_error (foldl (\<lambda>j resp. journal_answer (Inr resp) (journal_load j)) j oks) = j_error j"
  by (induction oks arbitrary: j) (simp_all add: journal_answer_def journal_load_def)

text \<open>
  A failure reads as good news: when the incidents cannot be loaded the bell drops the
  incidents it knew of, loses its badge and says that everything is healthy; the dashboard's record
  is clear; the journal's first failure stands beside the claim that every endpoint has been responding normally, and its
  message stays through any number of later successes.
\<close>

theorem failure_reads_as_health:
  "badge (bell_answer (Inl e) b) = None \<and>
   bell_panel (bell_answer (Inl e) b) = Bell_message ''No incidents. Everything is healthy.'' \<and>
   recent_incidents (dashboard_incidents (Inl e) []) = Bell_message ''Record is clear'' \<and>
   (\<exists>claim. journal_table (journal_answer (Inl e) (journal_load new_journal)) = Journal_empty claim) \<and>
   j_error (foldl (\<lambda>j resp. journal_answer (Inr resp) (journal_load j)) (journal_answer (Inl e) (journal_load j)) oks) =
     Some (error_text e ''Failed to fetch incidents'')"
  unfolding journal_error_stays
  by (simp add: bell_answer_def bell_panel_def badge_def ongoing_count_def journal_table_def journal_answer_def
      journal_load_def new_journal_def recent_incidents_def dashboard_incidents_def)

subsection \<open>An incident\<close>

record detail =
  d_id :: string
  d_incident :: "(string \<times> row) option"
  d_loading :: bool
  d_error :: "string option"
  d_inflight :: "string list"

definition detail_load :: "detail \<Rightarrow> detail" where
  "detail_load d = d\<lparr>d_loading := True, d_error := None, d_inflight := d_inflight d @ [d_id d]\<rparr>"

definition detail_open :: "string \<Rightarrow> detail" where
  "detail_open i = detail_load \<lparr>d_id = i, d_incident = None, d_loading = True, d_error = None, d_inflight = []\<rparr>"

text \<open>The address changes under the mounted page, and the effect loads again.\<close>

definition detail_navigate :: "string \<Rightarrow> detail \<Rightarrow> detail" where
  "detail_navigate i d = (if i = d_id d then d else detail_load (d\<lparr>d_id := i\<rparr>))"

text \<open>The request at position \<open>n\<close> settles.\<close>

definition detail_answer :: "nat \<Rightarrow> client_error + row response \<Rightarrow> detail \<Rightarrow> detail" where
  "detail_answer n r d =
     (let asked = d_inflight d ! n;
          d1 = d\<lparr>d_inflight := take n (d_inflight d) @ drop (Suc n) (d_inflight d), d_loading := False\<rparr>
      in case r of
           Inr resp \<Rightarrow> d1\<lparr>d_incident := Some (asked, data resp)\<rparr>
         | Inl e \<Rightarrow> d1\<lparr>d_error := Some (error_text e ''Failed to load incident'')\<rparr>)"

inductive detail_reaches :: "detail \<Rightarrow> bool" where
  detail_opened: "detail_reaches (detail_open i)"
| detail_refreshed: "detail_reaches d \<Longrightarrow> detail_reaches (detail_load d)"
| detail_navigated: "detail_reaches d \<Longrightarrow> detail_reaches (detail_navigate i d)"
| detail_answered: "detail_reaches d \<Longrightarrow> n < length (d_inflight d) \<Longrightarrow> detail_reaches (detail_answer n r d)"

text \<open>
  An incident can be shown under another's address: whoever goes from one incident to another
  while the first is loading may be left, nothing in flight and no error shown, with the first
  one's content at the second one's address, because the first answer came last.
\<close>

theorem incident_overtaken:
  fixes resp :: "row response"
  assumes "i \<noteq> j"
  shows "\<exists>d. detail_reaches d \<and> d_id d = j \<and> d_incident d = Some (i, data resp) \<and>
    d_inflight d = [] \<and> \<not> d_loading d \<and> d_error d = None"
proof -
  let ?d1 = "detail_navigate j (detail_open i)"
  let ?d2 = "detail_answer 1 (Inr resp) ?d1"
  let ?d3 = "detail_answer 0 (Inr resp) ?d2"
  have f1: "d_inflight ?d1 = [i, j]" using assms by (simp add: detail_navigate_def detail_open_def detail_load_def)
  then have f2: "d_inflight ?d2 = [i]" by (simp add: detail_answer_def)
  have "detail_reaches ?d1" by (intro detail_navigated detail_opened)
  then have "detail_reaches ?d2" by (rule detail_answered) (use f1 in simp)
  then have "detail_reaches ?d3" by (rule detail_answered) (use f2 in simp)
  moreover have "d_id ?d3 = j \<and> d_incident ?d3 = Some (i, data resp) \<and> d_inflight ?d3 = [] \<and>
      \<not> d_loading ?d3 \<and> d_error ?d3 = None"
    using assms by (simp add: detail_answer_def detail_navigate_def detail_open_def detail_load_def)
  ultimately show ?thesis by blast
qed

theorem incident_overtaken_witness:
  "\<exists>d. detail_reaches d \<and> d_id d = ''2'' \<and> d_incident d = Some (''1'', [(''reason'', JStr ''timeout'')])"
  using incident_overtaken [of "''1''" "''2''" "ApiResponse 200 [(''reason'', JStr ''timeout'')] ''''"] by auto

subsection \<open>Uptime windows and response times\<close>

datatype panel_state = Panel_idle | Panel_loading | Panel_ready | Panel_error

text \<open>
  \<open>UptimeWindows\<close> and the \<open>ResponseTimeHistory\<close> of the dashboard load in the same way; they start
  in different states. Every run of the effect has a number; its cleanup cancels the requests of earlier runs.
\<close>

record 'w loading_panel =
  u_monitor :: string
  u_run :: nat
  u_windows :: "(string \<times> 'w option) option"
  u_state :: panel_state
  u_inflight :: "(nat \<times> string) list"

definition panel_effect :: "string \<Rightarrow> 'w loading_panel \<Rightarrow> 'w loading_panel" where
  "panel_effect i p =
     (let p1 = p\<lparr>u_monitor := i, u_run := u_run p + 1\<rparr>
      in if i = '''' then p1
         else p1\<lparr>u_state := Panel_loading, u_inflight := u_inflight p @ [(u_run p + 1, i)]\<rparr>)"

definition panel_open :: "panel_state \<Rightarrow> string \<Rightarrow> 'w loading_panel" where
  "panel_open start_state i =
     panel_effect i \<lparr>u_monitor = '''', u_run = 0, u_windows = None, u_state = start_state, u_inflight = []\<rparr>"

text \<open>The effect runs again when the monitor differs from the one rendered before.\<close>

definition panel_select :: "string \<Rightarrow> 'w loading_panel \<Rightarrow> 'w loading_panel" where
  "panel_select i p = (if i = u_monitor p then p else panel_effect i p)"

definition panel_answer :: "nat \<Rightarrow> client_error + 'w option \<Rightarrow> 'w loading_panel \<Rightarrow> 'w loading_panel" where
  "panel_answer n r p =
     (let (started, asked) = u_inflight p ! n;
          p1 = p\<lparr>u_inflight := take n (u_inflight p) @ drop (Suc n) (u_inflight p)\<rparr>;
          cancelled = started \<noteq> u_run p
      in if cancelled then p1
         else case r of
                Inr w \<Rightarrow> p1\<lparr>u_windows := Some (asked, w), u_state := Panel_ready\<rparr>
              | Inl _ \<Rightarrow> p1\<lparr>u_state := Panel_error\<rparr>)"

inductive panel_reaches :: "panel_state \<Rightarrow> 'w loading_panel \<Rightarrow> bool" for start_state where
  panel_opened: "panel_reaches start_state (panel_open start_state i)"
| panel_selected: "panel_reaches start_state p \<Longrightarrow> panel_reaches start_state (panel_select i p)"
| panel_answered: "panel_reaches start_state p \<Longrightarrow> n < length (u_inflight p) \<Longrightarrow> panel_reaches start_state (panel_answer n r p)"

definition panel_ok :: "'w loading_panel \<Rightarrow> bool" where
  "panel_ok p \<longleftrightarrow>
     (\<forall>(g, i) \<in> set (u_inflight p). g \<le> u_run p \<and> (g = u_run p \<longrightarrow> i = u_monitor p)) \<and>
     (u_monitor p \<noteq> '''' \<and> u_state p = Panel_ready \<longrightarrow> (\<exists>w. u_windows p = Some (u_monitor p, w)))"

lemma panel_ok_effect [inv_intros]: "panel_ok p \<Longrightarrow> panel_ok (panel_effect i p)"
  by (fastforce simp: panel_ok_def panel_effect_def Let_def)

lemma panel_ok_answer [inv_intros]:
  assumes "panel_ok p" and n: "n < length (u_inflight p)"
  shows "panel_ok (panel_answer n r p)"
proof -
  obtain g i where gi: "u_inflight p ! n = (g, i)" by (cases "u_inflight p ! n")
  with n have "(g, i) \<in> set (u_inflight p)" by (metis nth_mem)
  moreover have "set (take n (u_inflight p) @ drop (Suc n) (u_inflight p)) \<subseteq> set (u_inflight p)"
    using set_take_subset set_drop_subset by fastforce
  ultimately show ?thesis
    using assms(1) gi by (auto simp: panel_ok_def panel_answer_def Let_def split: sum.split)
qed

lemma panel_reaches_ok: "panel_reaches start_state p \<Longrightarrow> start_state \<noteq> Panel_ready \<Longrightarrow> panel_ok p"
proof (induction rule: panel_reaches.induct)
  case (panel_opened i)
  show ?case unfolding panel_open_def by (rule panel_ok_effect) (simp add: panel_ok_def)
next
  case (panel_selected p i)
  then show ?case by (simp add: panel_select_def panel_ok_effect)
qed (rule panel_ok_answer)

text \<open>
  C23. The panels of the selected monitor are never overtaken: however monitors are selected and answers arrive, late
  ones of earlier selections included, the figures of a panel that is ready are those answered for the monitor
  selected.
\<close>

theorem uptime_panel_current:
  assumes "panel_reaches start_state p" and "start_state \<noteq> Panel_ready" and "u_state p = Panel_ready" and "u_monitor p \<noteq> ''''"
  shows "\<exists>w. u_windows p = Some (u_monitor p, w)"
  using panel_reaches_ok [OF assms(1,2)] assms(3,4) by (simp add: panel_ok_def)

text \<open>The first monitor's answer arrives last.\<close>

definition raced_panel :: "nat loading_panel" where
  "raced_panel = panel_answer 0 (Inr (Some 1)) (panel_answer 1 (Inr (Some 2)) (panel_select ''b'' (panel_open Panel_loading ''a'')))"

theorem uptime_panel_current_witness: "u_state raced_panel = Panel_ready \<and> (\<exists>w. u_windows raced_panel = Some (''b'', w))"
proof -
  let ?p1 = "panel_select ''b'' (panel_open Panel_loading ''a'' :: nat loading_panel)"
  let ?p2 = "panel_answer 1 (Inr (Some 2)) ?p1"
  have f1: "length (u_inflight ?p1) = 2" by (simp add: panel_select_def panel_open_def panel_effect_def)
  have f2: "length (u_inflight ?p2) = 1"
    by (simp add: panel_answer_def panel_select_def panel_open_def panel_effect_def)
  have "panel_reaches Panel_loading ?p1" by (intro panel_selected panel_opened)
  then have "panel_reaches Panel_loading ?p2" by (rule panel_answered) (simp add: f1)
  then have "panel_reaches Panel_loading raced_panel" unfolding raced_panel_def by (rule panel_answered) (use f2 in simp)
  moreover have m: "u_state raced_panel = Panel_ready" "u_monitor raced_panel = ''b''"
    by (simp_all add: raced_panel_def panel_answer_def panel_select_def panel_open_def panel_effect_def)
  ultimately show ?thesis using uptime_panel_current [of Panel_loading raced_panel] by simp
qed

text \<open>
  What each panel shows: the uptime panel says that it failed; the history of response times has
  no branch for that and draws what it holds.
\<close>

datatype 'w uptime_view = Uptime_absent | Uptime_skeleton | Uptime_failed | Uptime_figures "'w option"

definition uptime_shown :: "'w loading_panel \<Rightarrow> 'w uptime_view" where
  "uptime_shown p =
     (if u_monitor p = '''' then Uptime_absent
      else case u_state p of
             Panel_ready \<Rightarrow> Uptime_figures (Option.bind (u_windows p) snd)
           | Panel_error \<Rightarrow> Uptime_failed
           | _ \<Rightarrow> Uptime_skeleton)"

definition history_shown :: "'e list loading_panel \<Rightarrow> 'e list option" where
  "history_shown p = (if u_state p = Panel_loading then None else Some (nullish (Option.bind (u_windows p) snd) []))"

text \<open>
  A failure draws another monitor's history. When the response times of a newly selected
  monitor cannot be read, the chart keeps those of the monitor selected before, under the new
  one's name, with nothing to tell; in the same state the uptime panel reports the failure.
\<close>

theorem history_of_another_monitor:
  assumes "i \<noteq> j" and "i \<noteq> ''''" and "j \<noteq> ''''"
  shows "\<exists>p. panel_reaches start_state p \<and> u_monitor p = j \<and> u_inflight p = [] \<and> history_shown p = Some series \<and>
    u_windows p = Some (i, Some series) \<and> uptime_shown p = Uptime_failed"
proof -
  let ?p1 = "panel_answer 0 (Inr (Some series)) (panel_open start_state i)"
  let ?p2 = "panel_select j ?p1"
  let ?p3 = "panel_answer 0 (Inl e) ?p2"
  have f: "u_inflight (panel_open start_state i :: 'a list loading_panel) = [(1, i)]" "u_inflight ?p2 = [(2, j)]"
    using assms by (simp_all add: panel_open_def panel_effect_def panel_answer_def panel_select_def Let_def)
  have "panel_reaches start_state ?p1" by (rule panel_answered [OF panel_opened]) (simp add: f(1))
  then have "panel_reaches start_state ?p2" by (rule panel_selected)
  then have "panel_reaches start_state ?p3" by (rule panel_answered) (simp only: f(2), simp)
  moreover have "u_monitor ?p3 = j \<and> u_inflight ?p3 = [] \<and> u_windows ?p3 = Some (i, Some series) \<and> u_state ?p3 = Panel_error"
    using assms by (simp add: panel_open_def panel_effect_def panel_answer_def panel_select_def Let_def)
  ultimately show ?thesis
    using assms(3) by (intro exI [of _ ?p3]) (simp add: history_shown_def uptime_shown_def)
qed

theorem history_of_another_monitor_witness:
  "\<exists>p. panel_reaches Panel_idle p \<and> u_monitor p = ''b'' \<and> history_shown p = Some [120 :: int]"
  using history_of_another_monitor [of "''a''" "''b''" Panel_idle "[120 :: int]"] by auto

subsection \<open>The public page\<close>

record public_view =
  pv_page :: "public_page option"
  pv_loading :: bool
  pv_error :: string
  pv_refreshedAt :: "time option"

definition new_public_view :: public_view where
  "new_public_view = \<lparr>pv_page = None, pv_loading = True, pv_error = '''', pv_refreshedAt = None\<rparr>"

definition REFRESH_MS :: int where
  "REFRESH_MS = 60000"

definition public_load :: "bool \<Rightarrow> public_view \<Rightarrow> public_view" where
  "public_load quietly v = (if quietly then v else v\<lparr>pv_loading := True\<rparr>)"

text \<open>A failure is told apart by the status of its reply only.\<close>

definition public_answer :: "time \<Rightarrow> int option + public_page \<Rightarrow> public_view \<Rightarrow> public_view" where
  "public_answer now r v =
     (case r of
        Inr page \<Rightarrow> v\<lparr>pv_page := Some page, pv_error := '''', pv_refreshedAt := Some now\<rparr>
      | Inl code \<Rightarrow>
          v\<lparr>pv_error := (if code = Some 404 then ''This status page does not exist, or is not published.''
                        else ''Could not load this status page. Please try again shortly.'')\<rparr>)\<lparr>pv_loading := False\<rparr>"

datatype public_screen = Public_spinner | Public_unavailable string | Public_status public_page | Public_crash

text \<open>Rendering a page that is \<open>null\<close> throws.\<close>

definition public_screen_of :: "public_view \<Rightarrow> public_screen" where
  "public_screen_of v =
     (if pv_loading v then Public_spinner
      else if pv_error v \<noteq> '''' then Public_unavailable (pv_error v)
      else case pv_page v of None \<Rightarrow> Public_crash | Some p \<Rightarrow> Public_status p)"

definition public_run :: "public_view \<Rightarrow> (bool \<times> time \<times> (int option + public_page)) list \<Rightarrow> public_view" where
  "public_run = foldl (\<lambda>v (quietly, now, r). public_answer now r (public_load quietly v))"

text \<open>
  After any polls the page never crashes, and shows the last answer: a failed poll hides what
  was known, the next success brings the page back.
\<close>

lemma public_screen_follows_last_answer:
  "public_screen_of (public_run new_public_view (polls @ [(quietly, now, r)])) =
     (case r of
        Inr p \<Rightarrow> Public_status p
      | Inl s \<Rightarrow> Public_unavailable (if s = Some 404 then ''This status page does not exist, or is not published.''
                                 else ''Could not load this status page. Please try again shortly.''))"
  by (simp add: public_run_def public_answer_def public_load_def public_screen_of_def split: sum.split)

end
