(* ===== verification/Alert_Center.thy ===== *)
theory Alert_Center
  imports Screens Client_Api Status_Screens
begin

text \<open>
  The alert center, \<open>Frontend/src/features/monitoring/pages/Alerts.jsx\<close>: its state, what each
  of its handlers does before its request and when the answer is in, and the request sent. What
  the test of a channel says is set against what the notifiers do with the same channel.
\<close>

subsection \<open>The screen\<close>

text \<open>The message on show, of type \<open>success\<close> or \<open>error\<close>.\<close>

datatype notice = Good string | Bad string

record alert_center =
  ac_channels :: "row list"
  ac_logs :: "row list"
  ac_loading :: bool
  ac_notice :: "notice option"
  ac_showAdd :: bool
  ac_type :: string
  ac_target :: string
  ac_saving :: bool
  ac_busy :: "js option"

definition new_alert_center :: alert_center where
  "new_alert_center =
     \<lparr>ac_channels = [], ac_logs = [], ac_loading = True, ac_notice = None, ac_showAdd = False, ac_type = ''Email'',
      ac_target = '''', ac_saving = False, ac_busy = None\<rparr>"

text \<open>\<open>err.response?.data?.message || fallback\<close>.\<close>

definition reply_text :: "client_error \<Rightarrow> string \<Rightarrow> string" where
  "reply_text e fallback = str_or (x_reply e) fallback"

definition center_load :: "alert_center \<Rightarrow> alert_center" where
  "center_load s = s\<lparr>ac_loading := True\<rparr>"

text \<open>Both requests have settled; a list that could not be read stays as it was.\<close>

definition center_loaded ::
    "client_error + row list response \<Rightarrow> client_error + row list response \<Rightarrow> alert_center \<Rightarrow> alert_center" where
  "center_loaded chRes logRes s =
     s\<lparr>ac_channels := (case chRes of Inr resp \<Rightarrow> data resp | Inl _ \<Rightarrow> ac_channels s),
       ac_logs := (case logRes of Inr resp \<Rightarrow> data resp | Inl _ \<Rightarrow> ac_logs s),
       ac_notice := (case chRes of Inr _ \<Rightarrow> ac_notice s | Inl _ \<Rightarrow> Some (Bad ''Failed to load channels'')),
       ac_loading := False\<rparr>"

text \<open>An identifier in a path.\<close>

definition id_text :: "row \<Rightarrow> string" where
  "id_text r = (case row_id r of JStr s \<Rightarrow> s | JOid i \<Rightarrow> i | _ \<Rightarrow> '''')"

definition onToggle :: "row \<Rightarrow> alert_center \<Rightarrow> alert_center \<times> (string + http_call)" where
  "onToggle ch s =
     (s\<lparr>ac_channels := toggle_begin ch (ac_channels s)\<rparr>,
      api_updateChannel (id_text ch) (JObj [(''active'', JBool (js_falsy (get ''active'' ch)))]))"

definition toggle_settled :: "row \<Rightarrow> client_error + row response \<Rightarrow> alert_center \<Rightarrow> alert_center" where
  "toggle_settled ch r s =
     (case r of
        Inr _ \<Rightarrow> s
      | Inl e \<Rightarrow> s\<lparr>ac_channels := toggle_fail ch (ac_channels s),
                   ac_notice := Some (Bad (reply_text e ''Failed to update channel''))\<rparr>)"

definition onAdd :: "alert_center \<Rightarrow> alert_center \<times> (string + http_call) option" where
  "onAdd s =
     (if trim (ac_target s) = '''' then (s\<lparr>ac_notice := Some (Bad ''Target is required'')\<rparr>, None)
      else (s\<lparr>ac_saving := True\<rparr>,
            Some (api_createChannel (JObj [(''type'', JStr (ac_type s)), (''target'', JStr (trim (ac_target s)))]))))"

definition add_settled :: "client_error + row response \<Rightarrow> alert_center \<Rightarrow> alert_center" where
  "add_settled r s =
     (case r of
        Inr _ \<Rightarrow> center_load (s\<lparr>ac_type := ''Email'', ac_target := '''', ac_showAdd := False,
                               ac_notice := Some (Good ''Channel added'')\<rparr>)
      | Inl e \<Rightarrow> s\<lparr>ac_notice := Some (Bad (reply_text e ''Failed to add channel''))\<rparr>)\<lparr>ac_saving := False\<rparr>"

definition onDelete :: "bool \<Rightarrow> row \<Rightarrow> alert_center \<Rightarrow> alert_center \<times> (string + http_call) option" where
  "onDelete agreed ch s =
     (if \<not> agreed then (s, None)
      else (s\<lparr>ac_busy := Some (row_id ch)\<rparr>, Some (api_deleteChannel (id_text ch))))"

definition delete_settled :: "row \<Rightarrow> client_error + row response \<Rightarrow> alert_center \<Rightarrow> alert_center" where
  "delete_settled ch r s =
     (case r of
        Inr _ \<Rightarrow> s\<lparr>ac_channels := channel_deleted ch (ac_channels s), ac_notice := Some (Good ''Channel removed'')\<rparr>
      | Inl e \<Rightarrow> s\<lparr>ac_notice := Some (Bad (reply_text e ''Failed to remove channel''))\<rparr>)\<lparr>ac_busy := None\<rparr>"

definition onTest :: "row \<Rightarrow> alert_center \<Rightarrow> alert_center \<times> (string + http_call)" where
  "onTest ch s = (s\<lparr>ac_busy := Some (row_id ch)\<rparr>, api_testChannel (id_text ch))"

definition test_settled :: "client_error + 'a response \<Rightarrow> alert_center \<Rightarrow> alert_center" where
  "test_settled r s =
     (case r of
        Inr resp \<Rightarrow> center_load (s\<lparr>ac_notice := Some (Good (str_or (Some (response.message resp)) ''Test dispatch sent''))\<rparr>)
      | Inl e \<Rightarrow> s\<lparr>ac_notice := Some (Bad (reply_text e ''Test dispatch failed''))\<rparr>)\<lparr>ac_busy := None\<rparr>"

text \<open>The age of a dispatch; a row without a date shows a dash.\<close>

definition dispatch_age :: "time \<Rightarrow> time option \<Rightarrow> string" where
  "dispatch_age now date = (case date of None \<Rightarrow> [CHR 0xE2, CHR 0x80, CHR 0x94] | Some _ \<Rightarrow> timeAgo now date)"

text \<open>The lists of a load; flags come down with the answer they were raised for.\<close>

lemma center_flags:
  "\<not> ac_loading (center_loaded chRes logRes s)" "\<not> ac_saving (add_settled r s)"
  "ac_busy (delete_settled ch r' s) = None" "ac_busy (test_settled r'' s) = None"
  by (simp_all add: center_loaded_def add_settled_def delete_settled_def test_settled_def center_load_def
      split: sum.split)

text \<open>What a dialog sends passes the server's checks of presence and of type.\<close>

lemma added_channel_admitted:
  assumes "onAdd s = (s', Some q)" and "ac_type s \<in> set TYPES"
  shows "\<exists>body. q = api_createChannel (JObj body) \<and> known_type (get ''type'' body) \<and>
    (\<exists>t. get ''target'' body = JStr t \<and> trim t = t \<and> t \<noteq> '''')"
proof (intro exI conjI)
  let ?body = "[(''type'', JStr (ac_type s)), (''target'', JStr (trim (ac_target s)))]"
  show "q = api_createChannel (JObj ?body)" "trim (ac_target s) \<noteq> ''''"
    using assms(1) by (auto simp: onAdd_def split: if_splits)
  show "known_type (get ''type'' ?body)" using assms(2) by (simp add: known_type_def get_def)
  show "get ''target'' ?body = JStr (trim (ac_target s))" by (simp add: get_def)
qed (rule trim_idem)

subsection \<open>The test of a webhook\<close>

lemma register_keeps: "register n ns = Inr ns' \<Longrightarrow> nt_supports n = Some f \<Longrightarrow> n \<in> set ns'"
  by (auto simp: register_def split: if_splits)

lemma webhook_one_named: "(webhook_one post b ch)\<lparr>n_channel := later x (n_channel (webhook_one post b ch))\<rparr> = webhook_one post b ch"
  by (simp add: webhook_one_def later_def split: post_answer.split)

lemma settle_webhook:
  assumes "find_many chs c
      (\<lambda>ch. ch_userId ch = u_id (p_user p) \<and> ch_type ch \<in> {''Webhook'', ''Slack''} \<and> ch_active ch) (\<lambda>_. 0) None = Inr cs"
  shows "settle p (webhookNotifier fmt post chs c) [] = map (webhook_one post (buildBody fmt p)) cs"
  using assms
  by (simp add: settle_def webhookNotifier_def webhook_send_def normalise_def webhook_one_named comp_def)

text \<open>A channel the notifier finds and whose receiver answers with success is among the results of a dispatch.\<close>

lemma webhook_delivered:
  assumes db: "mongo chs docs clash"
    and found: "find_many chs c
      (\<lambda>ch. ch_userId ch = u_id (p_user p) \<and> ch_type ch \<in> {''Webhook'', ''Slack''} \<and> ch_active ch) (\<lambda>_. 0) None = Inr cs"
    and ch: "ch \<in># docs c" "ch_userId ch = u_id (p_user p)" "ch_type ch \<in> {''Webhook'', ''Slack''}" "ch_active ch"
    and ns: "default_notifiers fmt cfg net post chs c = Inr ns"
    and wanted: "incidentAlerts (p_user p)" "incident_event (p_event p)"
    and answer: "post (ch_target ch) (buildBody fmt p) = Answered code" "response_ok code"
  shows "\<exists>r \<in> set (fst (dispatch ops ns p l)).
    n_channel r = Some (ch_type ch) \<and> n_target r = Some (ch_target ch) \<and> n_status r = Delivered"
proof -
  let ?w = "webhookNotifier fmt post chs c"
  let ?r = "webhook_one post (buildBody fmt p) ch"
  have w: "?w \<in> set ns" using ns by (auto simp: default_notifiers_def webhookNotifier_def split: sum.splits intro: register_keeps)
  have "ch \<in> set cs" using mongo.find_all [OF db found] ch by auto
  then have "?r \<in> set (settle p ?w [])"
    by (simp add: settle_webhook [OF found])
  then have "?r \<in> set (fst (dispatch ops ns p l))"
    using w wanted by (auto simp: dispatch_results supports_def webhookNotifier_def)
  then show ?thesis by (rule bexI [rotated]) (use answer in \<open>simp add: webhook_one_def\<close>)
qed

text \<open>
  C32. The test of a channel denies what the notifiers do: for an active webhook or Slack channel
  whose receiver answers with success, an incident is delivered to it, while its test sends
  nothing, logs the dispatch as skipped, and answers success with the message that delivery of
  its type is not configured on this deployment, which the alert center shows as good news.
\<close>

theorem working_channel_called_unconfigured:
  assumes "mongo chs docs clash"
    and "find_many chs c
      (\<lambda>ch. ch_userId ch = u_id (p_user p) \<and> ch_type ch \<in> {''Webhook'', ''Slack''} \<and> ch_active ch) (\<lambda>_. 0) None = Inr cs"
    and "ch \<in># docs c" "ch_userId ch = u_id (p_user p)" "ch_type ch \<in> {''Webhook'', ''Slack''}" "ch_active ch"
    and "default_notifiers fmt cfg net post chs c = Inr ns"
    and "incidentAlerts (p_user p)" "incident_event (p_event p)"
    and "post (ch_target ch) (buildBody fmt p) = Answered code" "response_ok code"
    and tested: "dao_findById B D c user_id channelId no_options = Inr (Some ch)"
    and logged: "dao_create B L l user_id (test_row ch (test_outcome send ch)) = (l1, Inr entry)"
  shows "(\<exists>r \<in> set (fst (dispatch ops ns p l')).
       n_channel r = Some (ch_type ch) \<and> n_target r = Some (ch_target ch) \<and> n_status r = Delivered) \<and>
    get ''status'' (test_row ch (test_outcome send ch)) = JStr ''Skipped'' \<and>
    (\<exists>resp. testChannel B send D c L l user_id channelId = (l1, Inr resp) \<and>
       ac_notice (test_settled (Inr resp) s) = Some (Good (ch_type ch @ '' delivery is not configured on this deployment'')))"
proof -
  have out: "test_outcome send ch = (Skipped, ch_type ch @ '' delivery is not configured on this deployment'')"
    using assms(5) by (auto simp: test_outcome_def)
  have run: "testChannel B send D c L l user_id channelId =
      (l1, Inr (ApiResponse 200 (test_outcome send ch) (snd (test_outcome send ch))))"
    using logged by (simp add: testChannel_def tested out)
  show ?thesis
    by (intro conjI webhook_delivered [OF assms(1-11)]) (use assms(5) in \<open>auto simp: run out test_row_def status_text_def get_def test_settled_def center_load_def str_or_def\<close>)
qed

definition ops_webhook :: channel where
  "ops_webhook = \<lparr>ch_id = ''c9'', ch_userId = ''u'', ch_type = ''Slack'', ch_target = ''https://hooks/x'', ch_active = True\<rparr>"

definition example_log_dao :: "(log_row list, log_row) dao" where
  "example_log_dao = direct_dao
     \<lparr>collection = list_coll (\<lambda>_ _. False), matches_filter = (\<lambda>_ _. True), default_select = (\<lambda>r. r),
      build = (\<lambda>fs. Inr \<lparr>nl_userId = ''u'', nl_monitorId = '''', nl_event = ''TEST_DISPATCH'', nl_channel = ''Slack'',
        nl_target = Some ''https://hooks/x'', nl_status = Skipped, nl_detail = None\<rparr>),
      set_fields = (\<lambda>_ r. r), validate = (\<lambda>_. None), field_value = (\<lambda>_ _. JUndef)\<rparr>"

text \<open>Ann's Slack channel is told of an outage, and its test says it cannot be.\<close>

theorem working_channel_called_unconfigured_witness:
  "\<forall>fmt cfg net. \<exists>ns r resp.
     default_notifiers fmt cfg net (\<lambda>_ _. Answered 200) (list_coll (\<lambda>_ _. False)) [ops_webhook] = Inr ns \<and>
     r \<in> set (fst (dispatch (list_coll (\<lambda>_ _. False)) ns (example_payload ''Shop'' None) [])) \<and>
     n_channel r = Some ''Slack'' \<and> n_status r = Delivered \<and>
     snd (testChannel plain_bson (\<lambda>_. Inr '''') example_channel_dao [ops_webhook] example_log_dao [] (JStr ''u'') (JStr ''c9'')) = Inr resp \<and>
     ac_notice (test_settled (Inr resp) new_alert_center) = Some (Good ''Slack delivery is not configured on this deployment'')"
proof (intro allI)
  fix fmt :: format_api and cfg :: app_config and net :: network
  let ?post = "\<lambda>(_ :: string) (_ :: webhook_body). Answered 200"
  let ?chs = "list_coll (\<lambda>_ _. False) :: (channel list, channel) coll"
  let ?p = "example_payload ''Shop'' None"
  obtain ns where ns: "default_notifiers fmt cfg net ?post ?chs [ops_webhook] = Inr ns"
    by (simp add: default_notifiers_def register_def emailNotifier_def webhookNotifier_def)
  have tested: "dao_findById plain_bson example_channel_dao [ops_webhook] (JStr ''u'') (JStr ''c9'') no_options = Inr (Some ops_webhook)"
    by code_simp
  have scope: "scopeFor plain_bson example_log_dao (JStr ''u'') = Inr [(''userId'', JOid ''u'')]" by code_simp
  obtain l1 entry where logged: "dao_create plain_bson example_log_dao [] (JStr ''u'') (test_row ops_webhook (test_outcome (\<lambda>_. Inr '''') ops_webhook)) = (l1, Inr entry)"
    by (simp add: dao_create_def scope) (simp add: example_log_dao_def list_coll_def list_create_def lift_db_def)
  have found: "find_many ?chs [ops_webhook]
      (\<lambda>ch. ch_userId ch = u_id (p_user ?p) \<and> ch_type ch \<in> {''Webhook'', ''Slack''} \<and> ch_active ch) (\<lambda>_. 0) None = Inr [ops_webhook]"
    by (simp add: list_coll_def list_find_def ops_webhook_def)
  have event: "incident_event (p_event ?p)" and on: "incidentAlerts (p_user ?p)"
    by (simp_all add: example_payload_def user_defaults_def incident_event_def OPENED_def)
  note r = working_channel_called_unconfigured [OF mem.mongo_axioms found _ _ _ _ ns on event _ _ tested logged,
      where code = 200 and ops = "list_coll (\<lambda>_ _. False)" and l' = "[]" and s = new_alert_center]
  show "\<exists>ns r resp.
     default_notifiers fmt cfg net ?post ?chs [ops_webhook] = Inr ns \<and>
     r \<in> set (fst (dispatch (list_coll (\<lambda>_ _. False)) ns ?p [])) \<and>
     n_channel r = Some ''Slack'' \<and> n_status r = Delivered \<and>
     snd (testChannel plain_bson (\<lambda>_. Inr '''') example_channel_dao [ops_webhook] example_log_dao [] (JStr ''u'') (JStr ''c9'')) = Inr resp \<and>
     ac_notice (test_settled (Inr resp) new_alert_center) = Some (Good ''Slack delivery is not configured on this deployment'')"
    using r ns by (fastforce simp: ops_webhook_def response_ok_def)
qed

end
