(* ===== verification/Page_Editor.thy ===== *)
theory Page_Editor
  imports Alert_Center
begin

text \<open>
  The management of status pages, \<open>Frontend/src/features/monitoring/pages/StatusPages.jsx\<close>: the
  list, the editor, what each handler does before its request and when the answer is in, the
  request sent, and what the server of \<open>Status_Page\<close> makes of it. The API answers texts for
  names and descriptions.
\<close>

subsection \<open>The screen\<close>

record page_form =
  ef_name :: string
  ef_description :: string
  ef_monitors :: "js list"
  ef_isPublic :: bool

datatype editor = Creating page_form | Editing string page_form

record pages_screen =
  ps_pages :: "row list"
  ps_monitors :: "row list"
  ps_loading :: bool
  ps_notice :: "notice option"
  ps_editor :: "editor option"
  ps_saving :: bool
  ps_busy :: "js option"

definition new_pages_screen :: pages_screen where
  "new_pages_screen =
     \<lparr>ps_pages = [], ps_monitors = [], ps_loading = True, ps_notice = None, ps_editor = None, ps_saving = False,
      ps_busy = None\<rparr>"

definition pages_load :: "pages_screen \<Rightarrow> pages_screen" where
  "pages_load s = s\<lparr>ps_loading := True\<rparr>"

definition pages_loaded ::
    "client_error + row list response \<Rightarrow> client_error + row list response \<Rightarrow> pages_screen \<Rightarrow> pages_screen" where
  "pages_loaded pageRes monitorRes s =
     s\<lparr>ps_pages := (case pageRes of Inr resp \<Rightarrow> data resp | Inl _ \<Rightarrow> ps_pages s),
       ps_notice := (case pageRes of Inr _ \<Rightarrow> ps_notice s | Inl _ \<Rightarrow> Some (Bad ''Failed to load status pages'')),
       ps_monitors := (case monitorRes of Inr resp \<Rightarrow> data resp | Inl _ \<Rightarrow> ps_monitors s),
       ps_loading := False\<rparr>"

definition emptyForm :: page_form where
  "emptyForm = \<lparr>ef_name = '''', ef_description = '''', ef_monitors = [], ef_isPublic = True\<rparr>"

definition openCreate :: "pages_screen \<Rightarrow> pages_screen" where
  "openCreate s = s\<lparr>ps_editor := Some (Creating emptyForm)\<rparr>"

definition text_of :: "js \<Rightarrow> string" where
  "text_of v = (case v of JStr s \<Rightarrow> s | _ \<Rightarrow> '''')"

definition elements :: "js \<Rightarrow> js list" where
  "elements v = (case v of JArr xs \<Rightarrow> xs | _ \<Rightarrow> [])"

definition form_of :: "row \<Rightarrow> page_form" where
  "form_of page =
     \<lparr>ef_name = text_of (get ''name'' page), ef_description = text_of (get ''description'' page),
      ef_monitors = map (\<lambda>m. case m of JObj r \<Rightarrow> row_id r | _ \<Rightarrow> m) (elements (get ''monitors'' page)),
      ef_isPublic = (get ''isPublic'' page \<noteq> JBool False)\<rparr>"

definition openEdit :: "row \<Rightarrow> pages_screen \<Rightarrow> pages_screen" where
  "openEdit page s = s\<lparr>ps_editor := Some (Editing (id_text page) (form_of page))\<rparr>"

fun form :: "editor \<Rightarrow> page_form" where
  "form (Creating f) = f"
| "form (Editing _ f) = f"

text \<open>\<open>setField\<close> and \<open>toggleMonitor\<close> change the form of the editor that is open then.\<close>

fun edit_form :: "(page_form \<Rightarrow> page_form) \<Rightarrow> editor \<Rightarrow> editor" where
  "edit_form g (Creating f) = Creating (g f)"
| "edit_form g (Editing i f) = Editing i (g f)"

definition setField :: "(page_form \<Rightarrow> page_form) \<Rightarrow> pages_screen \<Rightarrow> pages_screen" where
  "setField g s = s\<lparr>ps_editor := map_option (edit_form g) (ps_editor s)\<rparr>"

definition choose_monitor :: "js \<Rightarrow> pages_screen \<Rightarrow> pages_screen" where
  "choose_monitor i = setField (\<lambda>f. f\<lparr>ef_monitors := toggleMonitor i (ef_monitors f)\<rparr>)"

definition page_payload :: "page_form \<Rightarrow> fields" where
  "page_payload f =
     [(''name'', JStr (trim (ef_name f))), (''description'', JStr (trim (ef_description f))),
      (''monitors'', JArr (ef_monitors f)), (''isPublic'', JBool (ef_isPublic f))]"

fun page_request :: "editor \<Rightarrow> string + http_call" where
  "page_request (Creating f) = api_createStatusPage (JObj (page_payload f))"
| "page_request (Editing i f) = api_updateStatusPage i (JObj (page_payload f))"

definition onSubmit :: "(string \<Rightarrow> string) \<Rightarrow> editor \<Rightarrow> pages_screen \<Rightarrow> pages_screen \<times> (string + http_call) option" where
  "onSubmit nfkd e s =
     (case page_form_error nfkd (ef_name (form e)) of
        Some msg \<Rightarrow> (s\<lparr>ps_notice := Some (Bad msg)\<rparr>, None)
      | None \<Rightarrow> (s\<lparr>ps_saving := True\<rparr>, Some (page_request e)))"

definition submit_settled :: "editor \<Rightarrow> client_error + 'a response \<Rightarrow> pages_screen \<Rightarrow> pages_screen" where
  "submit_settled e r s =
     (let creating = (case e of Creating _ \<Rightarrow> True | Editing _ _ \<Rightarrow> False)
      in case r of
           Inr _ \<Rightarrow> pages_load (s\<lparr>ps_editor := None,
               ps_notice := Some (Good (if creating then ''Status page created'' else ''Status page saved''))\<rparr>)
         | Inl x \<Rightarrow> s\<lparr>ps_notice := Some (Bad (reply_text x (''Failed to '' @ (if creating then ''create'' else ''save'') @ '' status page'')))\<rparr>)
     \<lparr>ps_saving := False\<rparr>"

definition page_onDelete :: "bool \<Rightarrow> row \<Rightarrow> pages_screen \<Rightarrow> pages_screen \<times> (string + http_call) option" where
  "page_onDelete agreed page s =
     (if \<not> agreed then (s, None)
      else (s\<lparr>ps_busy := Some (row_id page)\<rparr>, Some (api_deleteStatusPage (id_text page))))"

definition page_delete_settled :: "row \<Rightarrow> client_error + 'a response \<Rightarrow> pages_screen \<Rightarrow> pages_screen" where
  "page_delete_settled page r s =
     (case r of
        Inr _ \<Rightarrow> s\<lparr>ps_pages := filter (\<lambda>p. row_id p \<noteq> row_id page) (ps_pages s), ps_notice := Some (Good ''Status page deleted'')\<rparr>
      | Inl x \<Rightarrow> s\<lparr>ps_notice := Some (Bad (reply_text x ''Failed to delete status page''))\<rparr>)\<lparr>ps_busy := None\<rparr>"

definition publicUrlFor :: "string \<Rightarrow> string \<Rightarrow> string" where
  "publicUrlFor site slug = site @ ''/status/'' @ slug"

text \<open>The clipboard may refuse; then the address itself is the message.\<close>

definition copyLink :: "string \<Rightarrow> row \<Rightarrow> bool \<Rightarrow> pages_screen \<Rightarrow> pages_screen" where
  "copyLink site page written s =
     s\<lparr>ps_notice := Some (Good (if written then ''Public link copied'' else publicUrlFor site (text_of (get ''slug'' page))))\<rparr>"

text \<open>A failed save keeps the editor and all that was typed; a saved or refused one is no longer saving.\<close>

lemma failed_save_keeps_editor:
  "ps_editor (submit_settled e (Inl x) s) = ps_editor s" "\<not> ps_saving (submit_settled e r s)"
  by (simp_all add: submit_settled_def pages_load_def Let_def split: sum.split editor.split)

subsection \<open>What an edit does\<close>

lemma get_payload:
  "get ''name'' (page_payload f) = JStr (trim (ef_name f))"
  "get ''description'' (page_payload f) = JStr (trim (ef_description f))"
  "get ''monitors'' (page_payload f) = JArr (ef_monitors f)"
  "get ''isPublic'' (page_payload f) = JBool (ef_isPublic f)"
  "get ''slug'' (page_payload f) = JUndef"
  by (simp_all add: page_payload_def get_def)

text \<open>What the form makes of a page.\<close>

definition edited :: "page_form \<Rightarrow> oid list \<Rightarrow> status_page \<Rightarrow> status_page" where
  "edited f os p =
     p\<lparr>sp_name := trim (ef_name f), sp_description := trim (ef_description f), sp_isPublic := ef_isPublic f,
       sp_monitors := os\<rparr>"

lemma page_patch_payload:
  assumes "page_patch B nfkd MM mc pages c user_id pageId (page_payload f) = Inr fs"
  obtains os where "resolveOwnedMonitors B MM mc user_id (JArr (ef_monitors f)) = Inr (Some os)"
    and "fs = [(''name'', JStr (trim (ef_name f))), (''description'', JStr (trim (ef_description f))),
      (''isPublic'', JBool (ef_isPublic f)), (''monitors'', JArr (map JOid os))]"
proof -
  have "resolveOwnedMonitors B MM mc user_id (JArr (ef_monitors f)) \<noteq> Inr None"
    by (auto simp: resolveOwnedMonitors_def Let_def map_sum_def split: if_splits option.splits sum.splits)
  then show thesis using assms that
    by (auto simp: page_patch_def get_payload js_string_def Let_def split: if_splits sum.splits option.splits)
qed

definition faithful_cast :: "caster \<Rightarrow> bool" where
  "faithful_cast C \<longleftrightarrow>
     (\<forall>s. C SString (JStr s) = Some (JStr s)) \<and> (\<forall>b. C SBoolean (JBool b) = Some (JBool b)) \<and>
     (\<forall>j. C SObjectId (JOid j) = Some (JOid j))"

lemma page_set_edited:
  assumes "faithful_cast C"
  shows "page_set C [(''name'', JStr (trim (ef_name f))), (''description'', JStr (trim (ef_description f))),
      (''isPublic'', JBool (ef_isPublic f)), (''monitors'', JArr (map JOid os))] p \<in> {p, edited f os p}"
proof -
  have c: "C SString (JStr s) = Some (JStr s)" "C SBoolean (JBool b) = Some (JBool b)"
    and ids: "cast_oids C (map JOid os) = Some os" for s b
    using assms by (auto simp: faithful_cast_def intro: cast_oids_id)
  show ?thesis
    by (auto simp: page_set_def assign_page_def c ids as_text_def as_bool_def edited_def split: option.split if_splits)
qed

text \<open>
  C9. An edit keeps the address. Whatever is typed into the editor of a status page, saving it
  changes at most one page, one of the caller's own, and of that page only what the form shows:
  its name, its description, whether it is published, and its monitors, each of them resolved
  to one of the caller's. Every address, identifier and owner is as before, so links already
  shared keep working.
\<close>

theorem edit_keeps_address:
  assumes pq: "query_language mt page_attr" and pdb: "mongo_atomic ops docs clash" and cast: "faithful_cast C"
    and scope: "scopeFor B (direct_dao (page_model ops mt C n)) user_id = Inr scope"
    and owner: "newObjectId B (js_string B user_id) = Inr i"
    and run: "updateStatusPage B nfkd MM mc (direct_dao (page_model ops mt C n)) c user_id pageId (page_payload f) = (c', r)"
  shows "(docs c' = docs c \<or>
      (\<exists>p M os. docs c = add_mset p M \<and> sp_userId p = i \<and>
        resolveOwnedMonitors B MM mc user_id (JArr (ef_monitors f)) = Inr (Some os) \<and>
        docs c' = add_mset (edited f os p) M)) \<and>
    image_mset (\<lambda>p. (sp_id p, sp_userId p, sp_slug p)) (docs c') = image_mset (\<lambda>p. (sp_id p, sp_userId p, sp_slug p)) (docs c)"
proof -
  let ?D = "direct_dao (page_model ops mt C n)"
  have pq': "query_language (matches_filter (page_model ops mt C n)) page_attr" using pq by simp
  have "docs c' = docs c \<or> (\<exists>p M os. docs c = add_mset p M \<and> sp_userId p = i \<and>
      resolveOwnedMonitors B MM mc user_id (JArr (ef_monitors f)) = Inr (Some os) \<and> docs c' = add_mset (edited f os p) M)"
  proof (rule update_page_runs [of B nfkd MM mc ?D c user_id pageId "page_payload f"])
    fix fs
    assume c': "fst (updateStatusPage B nfkd MM mc ?D c user_id pageId (page_payload f)) = fst (dao_updateById B ?D c user_id pageId fs)"
      and fs: "page_patch B nfkd MM mc (collection (d_model ?D)) c user_id pageId (page_payload f) = Inr fs"
    from fs obtain os where os: "resolveOwnedMonitors B MM mc user_id (JArr (ef_monitors f)) = Inr (Some os)"
      and set: "\<And>p. page_set C fs p \<in> {p, edited f os p}"
      by (rule page_patch_payload) (use page_set_edited [OF cast, of f] in blast)
    from scoped_filter_defined [OF scope, of "[(''_id'', pageId)]"] obtain q where
      q: "scoped_filter B ?D user_id [(''_id'', pageId)] = Inr q" by blast
    have mine: "mt (JObj q) p \<Longrightarrow> sp_userId p = i" for p
      using scoped_id_filter [OF pq' scope owner q, of p] by (simp add: page_attr_def)
    obtain c1 r1 where c1: "update_one ops c (mt (JObj q)) (page_set C fs) = (c1, r1)"
      by (cases "update_one ops c (mt (JObj q)) (page_set C fs)")
    have "docs c1 = docs c \<or> (\<exists>p M. docs c = add_mset p M \<and> sp_userId p = i \<and> docs c1 = add_mset (edited f os p) M)"
      using mongo_atomic.update_effect [OF pdb c1] mine set by fastforce
    then show ?thesis using run c' os by (auto simp: dao_updateById_def q c1 split: option.splits)
  qed (use run in simp)
  then show ?thesis by (auto simp: edited_def)
qed

theorem edit_keeps_address_witness:
  "let created = createStatusPage plain_bson (\<lambda>t. t) example_monitor_model two_tenants example_page_dao []
        (JStr ''ann'') (page_body ''m1'');
       f = \<lparr>ef_name = '' Renamed '', ef_description = ''news'', ef_monitors = [JStr ''m1''], ef_isPublic = False\<rparr>;
       (c', r) = updateStatusPage plain_bson (\<lambda>t. t) example_monitor_model two_tenants example_page_dao (fst created)
        (JStr ''ann'') (JStr ''p1'') (page_payload f)
   in map sp_name c' = [''Renamed''] \<and> image_mset sp_slug (mset c') = {#''acme''#} \<and> map sp_isPublic c' = [False]"
proof -
  let ?c = "fst (createStatusPage plain_bson (\<lambda>t. t) example_monitor_model two_tenants example_page_dao []
        (JStr ''ann'') (page_body ''m1''))"
  let ?f = "\<lparr>ef_name = '' Renamed '', ef_description = ''news'', ef_monitors = [JStr ''m1''], ef_isPublic = False\<rparr>"
  let ?u = "updateStatusPage plain_bson (\<lambda>t. t) example_monitor_model two_tenants example_page_dao ?c
        (JStr ''ann'') (JStr ''p1'') (page_payload ?f)"
  obtain c' r where u: "?u = (c', r)" by (cases ?u)
  have runs: "map sp_slug ?c = [''acme'']" "map sp_name (fst ?u) = [''Renamed'']" "map sp_isPublic (fst ?u) = [False]"
    by code_simp+
  have cast: "faithful_cast plain_cast" by (simp add: faithful_cast_def plain_cast_def)
  have scope: "scopeFor plain_bson (direct_dao (page_model example_page_ops example_page_match plain_cast ''p1'')) (JStr ''ann'')
      = Inr [(''userId'', JOid ''ann'')]" by code_simp
  have owner: "newObjectId plain_bson (js_string plain_bson (JStr ''ann'')) = Inr ''ann''" by code_simp
  note kept = edit_keeps_address [OF example_page_ok cast scope owner u [unfolded example_page_dao_def], THEN conjunct2, folded example_page_dao_def]
  have "image_mset sp_slug (mset c') = image_mset (snd \<circ> snd) (image_mset (\<lambda>p. (sp_id p, sp_userId p, sp_slug p)) (mset c'))"
    by (simp add: multiset.map_comp comp_def)
  also have "\<dots> = image_mset (snd \<circ> snd) (image_mset (\<lambda>p. (sp_id p, sp_userId p, sp_slug p)) (mset ?c))"
    by (rule arg_cong [OF kept])
  also have "\<dots> = mset (map sp_slug ?c)" by (simp add: multiset.map_comp comp_def)
  finally show ?thesis using runs u by simp
qed

subsection \<open>The cards\<close>

text \<open>The monitors of a page as the list answers them: the controller populates their title, status and address.\<close>

definition listed_monitor :: "monitor \<Rightarrow> row" where
  "listed_monitor m =
     [(''_id'', JStr (m_id m)), (''title'', JStr (m_title m)),
      (''status'', case m_status m of None \<Rightarrow> js.JNull | Some st \<Rightarrow> JStr (status_name st)), (''url'', JStr (m_url m))]"

definition listed_page :: "monitor list \<Rightarrow> status_page \<Rightarrow> row" where
  "listed_page ms p =
     [(''_id'', JStr (sp_id p)), (''name'', JStr (sp_name p)), (''slug'', JStr (sp_slug p)),
      (''description'', JStr (sp_description p)),
      (''monitors'', JArr (map (JObj \<circ> listed_monitor) (populated ms (sp_monitors p)))), (''isPublic'', JBool (sp_isPublic p))]"

definition page_services :: "row list \<Rightarrow> row \<Rightarrow> row option list" where
  "page_services known page =
     map (\<lambda>m. case m of JStr _ \<Rightarrow> find (\<lambda>k. row_id k = m) (rev known) | JObj r \<Rightarrow> Some r | _ \<Rightarrow> None)
       (elements (get ''monitors'' page))"

definition services_down :: "row option list \<Rightarrow> nat" where
  "services_down services = length (filter (\<lambda>m. map_option (get ''status'') m = Some (JStr ''DOWN'')) services)"

definition page_badge :: "row list \<Rightarrow> row \<Rightarrow> string" where
  "page_badge known page =
     (let down = services_down (page_services known page)
      in if js_falsy (get ''isPublic'' page) then ''Unpublished''
         else if down > 0 then show_nat down @ '' down'' else ''Operational'')"

lemma get_listed_page:
  "get ''monitors'' (listed_page ms p) = JArr (map (JObj \<circ> listed_monitor) (populated ms (sp_monitors p)))"
  "get ''isPublic'' (listed_page ms p) = JBool (sp_isPublic p)" "get ''name'' (listed_page ms p) = JStr (sp_name p)"
  "get ''description'' (listed_page ms p) = JStr (sp_description p)" "row_id (listed_page ms p) = JStr (sp_id p)"
  by (simp_all add: listed_page_def get_def row_id_def)

lemma listed_monitor_id: "row_id (listed_monitor m) = JStr (m_id m)"
  by (simp add: listed_monitor_def row_id_def get_def)

text \<open>Opening the editor on a listed page and saving nothing new asks for what the page already has.\<close>

lemma untouched_edit:
  "form_of (listed_page ms p) =
     \<lparr>ef_name = sp_name p, ef_description = sp_description p,
      ef_monitors = map (\<lambda>m. JStr (m_id m)) (populated ms (sp_monitors p)), ef_isPublic = sp_isPublic p\<rparr>"
  by (simp add: form_of_def get_listed_page text_of_def elements_def listed_monitor_id comp_def)

lemma listed_down: "get ''status'' (listed_monitor m) = JStr ''DOWN'' \<longleftrightarrow> m_status m = Some DOWN"
  by (auto simp: listed_monitor_def get_def status_name_def split: option.splits status.splits)

lemma services_down_listed:
  "services_down (page_services known (listed_page ms p)) =
     length (filter (\<lambda>m. m_status m = Some DOWN) (populated ms (sp_monitors p)))"
  by (simp add: services_down_def page_services_def get_listed_page elements_def filter_map comp_def listed_down)

text \<open>
  The owner's card and the public page can contradict each other. The card counts every
  monitor whose last status was down, paused ones included, because the list is populated
  without the switch; the public page shows a paused monitor as paused. So for a published page
  whose down monitors are all paused the card says how many are down while visitors read that
  all systems are operational.
\<close>

theorem card_alarms_on_paused:
  assumes "sp_isPublic p" and "m \<in> set (populated ms (sp_monitors p))" and "m_status m = Some DOWN"
    and "\<forall>x \<in> set (populated ms (sp_monitors p)). m_status x = Some DOWN \<longrightarrow> m_active x = Some False"
    and "public_reply p now (Inr (map (\<lambda>x. service_of (ws x) x) (populated ms (sp_monitors p)))) = Inr resp"
  shows "\<exists>k > 0. page_badge known (listed_page ms p) = show_nat k @ '' down'' \<and>
    headline (data resp) = ''All systems are operational.''"
proof -
  let ?k = "length (filter (\<lambda>m. m_status m = Some DOWN) (populated ms (sp_monitors p)))"
  have "?k > 0" using assms(2,3) by (auto simp: filter_empty_conv)
  then have "page_badge known (listed_page ms p) = show_nat ?k @ '' down''"
    using assms(1) by (simp add: page_badge_def services_down_listed get_listed_page js_falsy_def)
  moreover have "\<not> pp_degraded (data resp)"
    using assms(4,5) by (auto simp: public_reply_def list_ex_iff service_down)
  ultimately show ?thesis using \<open>?k > 0\<close> by (auto simp: headline_def)
qed

definition paused_monitor :: monitor where
  "paused_monitor = (monitor_defaults ''m1'' ''ann'' ''https://a/'' 0)\<lparr>m_status := Some DOWN, m_active := Some False\<rparr>"

theorem card_alarms_on_paused_witness:
  "\<exists>k > 0. page_badge [] (listed_page [paused_monitor] ((blank_page ''p'')\<lparr>sp_monitors := [''m1'']\<rparr>)) = show_nat k @ '' down''"
proof -
  let ?p = "(blank_page ''p'')\<lparr>sp_monitors := [''m1'']\<rparr>"
  have m: "populated [paused_monitor] (sp_monitors ?p) = [paused_monitor]"
    by (simp add: populated_def paused_monitor_def monitor_defaults_def List.map_filter_def)
  obtain resp where r: "public_reply ?p 0 (Inr (map (\<lambda>x. service_of [] x) [paused_monitor])) = Inr resp"
    by (simp add: public_reply_def)
  show ?thesis
    using card_alarms_on_paused [of ?p paused_monitor "[paused_monitor]" 0 "\<lambda>_. []" resp "[]"] m r
    by (auto simp: blank_page_def paused_monitor_def)
qed

end
