(* ===== verification/Dashboard.thy ===== *)
theory Dashboard
  imports Panels Page_Editor
begin

text \<open>
  The rest of what \<open>Frontend/src/features/monitoring/pages/Dashboard.jsx\<close> and \<open>Monitoring.jsx\<close>
  compute: the summary of the response times, the pages of the registry, the distribution of
  the monitors, the ages in both tables, and the dialog that removes a monitor.
\<close>

subsection \<open>Response times\<close>

definition latency_summary :: "int list \<Rightarrow> string option" where
  "latency_summary series =
     (let latencies = filter (\<lambda>n. n > 0) series
      in if latencies = [] then None
         else Some (show_nat (length latencies) @ '' checks. Fastest '' @ show_int (Min (set latencies)) @ ''ms, slowest '' @
           show_int (Max (set latencies)) @ ''ms, latest '' @ show_int (last latencies) @ ''ms.''))"

subsection \<open>The pages of the registry\<close>

definition itemsPerPage :: nat where
  "itemsPerPage = 5"

text \<open>\<open>Math.ceil(n / itemsPerPage) || 1\<close>; pages count from one.\<close>

definition totalPages :: "nat \<Rightarrow> nat" where
  "totalPages n = (if n = 0 then 1 else (n + itemsPerPage - 1) div itemsPerPage)"

definition page_rows :: "nat \<Rightarrow> 'a list \<Rightarrow> 'a list" where
  "page_rows p ms = (let startIndex = (p - 1) * itemsPerPage in take itemsPerPage (drop startIndex ms))"

definition page_caption :: "nat \<Rightarrow> nat \<Rightarrow> nat \<times> nat \<times> nat" where
  "page_caption p n = (let startIndex = (p - 1) * itemsPerPage in (startIndex + 1, min (startIndex + itemsPerPage) n, n))"

text \<open>The two buttons, each disabled on one page only.\<close>

definition prev_page :: "nat \<Rightarrow> nat" where
  "prev_page p = (if p = 1 then p else max 1 (p - 1))"

definition next_page :: "nat \<Rightarrow> nat \<Rightarrow> nat" where
  "next_page n p = (if p = totalPages n then p else min (totalPages n) (p + 1))"

text \<open>The pages the buttons reach over a list of \<open>n\<close> rows.\<close>

inductive turns_to :: "nat \<Rightarrow> nat \<Rightarrow> bool" for n where
  first_page: "turns_to n 1"
| turned_back: "turns_to n p \<Longrightarrow> turns_to n (prev_page p)"
| turned_on: "turns_to n p \<Longrightarrow> turns_to n (next_page n p)"

lemma totalPages_bounds:
  "1 \<le> totalPages n" "n \<le> totalPages n * itemsPerPage" "0 < n \<Longrightarrow> (totalPages n - 1) * itemsPerPage < n"
  by (auto simp: totalPages_def itemsPerPage_def)

lemma turns_to_within: "turns_to n p \<Longrightarrow> 1 \<le> p \<and> p \<le> totalPages n"
  by (induction rule: turns_to.induct) (use totalPages_bounds(1) in \<open>auto simp: prev_page_def next_page_def\<close>)

lemma turns_to_every: "1 \<le> p \<Longrightarrow> p \<le> totalPages n \<Longrightarrow> turns_to n p"
proof (induction p rule: dec_induct)
  case (step p)
  then have "turns_to n (next_page n p)" by (intro turned_on) simp
  with step.prems show ?case by (simp add: next_page_def)
qed (rule first_page)

lemma pages_concat: "concat (map (\<lambda>p. page_rows (p + 1) ms) [0..<k]) = take (k * itemsPerPage) ms"
proof (induction k)
  case (Suc k)
  have "take (Suc k * itemsPerPage) ms = take (k * itemsPerPage) ms @ page_rows (k + 1) ms"
    unfolding mult_Suc add.commute [of itemsPerPage] take_add by (simp add: page_rows_def Let_def)
  with Suc show ?case by simp
qed simp

text \<open>
  The registry can be leafed through. Over a list that does not change, the two buttons reach
  exactly the pages there are; the pages in their order are the list, each row once; and no page
  is longer than five rows, nor empty while there are rows.
\<close>

theorem registry_pages_cover:
  "(\<forall>p. turns_to (length ms) p \<longleftrightarrow> 1 \<le> p \<and> p \<le> totalPages (length ms)) \<and>
   concat (map (\<lambda>p. page_rows p ms) [1..<totalPages (length ms) + 1]) = ms \<and>
   (\<forall>p. turns_to (length ms) p \<longrightarrow> length (page_rows p ms) \<le> itemsPerPage \<and> (ms \<noteq> [] \<longrightarrow> page_rows p ms \<noteq> []))"
proof (intro conjI allI impI)
  show "turns_to (length ms) p \<longleftrightarrow> 1 \<le> p \<and> p \<le> totalPages (length ms)" for p
    using turns_to_within turns_to_every by blast
  have "[1..<totalPages (length ms) + 1] = map Suc [0..<totalPages (length ms)]" by (simp add: map_Suc_upt)
  then show "concat (map (\<lambda>p. page_rows p ms) [1..<totalPages (length ms) + 1]) = ms"
    using pages_concat [of ms "totalPages (length ms)"] totalPages_bounds(2) [of "length ms"] by (simp add: comp_def)
  show "length (page_rows p ms) \<le> itemsPerPage" for p by (simp add: page_rows_def Let_def)
  fix p assume "turns_to (length ms) p" and "ms \<noteq> []"
  then have "(p - 1) * itemsPerPage \<le> (totalPages (length ms) - 1) * itemsPerPage" "0 < length ms"
    using turns_to_within by (auto intro: diff_le_mono mult_le_mono1)
  with totalPages_bounds(3) have "(p - 1) * itemsPerPage < length ms" by (meson le_less_trans)
  then show "page_rows p ms \<noteq> []" by (simp add: page_rows_def Let_def itemsPerPage_def)
qed

theorem registry_pages_cover_witness: "turns_to 7 2 \<and> page_rows 2 [1 :: int, 2, 3, 4, 5, 6, 7] = [6, 7]"
proof -
  have "page_rows 2 [1 :: int, 2, 3, 4, 5, 6, 7] = [6, 7]" "totalPages 7 = 2" by code_simp+
  moreover have l: "length [1 :: int, 2, 3, 4, 5, 6, 7] = 7" by simp
  ultimately show ?thesis
    using registry_pages_cover [of "[1 :: int, 2, 3, 4, 5, 6, 7]", THEN conjunct1, unfolded l, rule_format, of 2] by simp
qed

text \<open>
  The page is not checked again when the list changes: once rows are gone from under the last
  page the table is empty, its caption runs backwards, and the button for the next page is not
  disabled and leads back.
\<close>

lemma shrunk_registry_blank:
  assumes "totalPages (length ms) < p"
  shows "page_rows p ms = []" "fst (page_caption p (length ms)) > fst (snd (page_caption p (length ms)))"
    "next_page (length ms) p = totalPages (length ms)"
proof -
  have "totalPages (length ms) * itemsPerPage \<le> (p - 1) * itemsPerPage" using assms by (intro mult_le_mono1) simp
  with totalPages_bounds(2) have "length ms \<le> (p - 1) * itemsPerPage" by (rule le_trans)
  then show "page_rows p ms = []" "fst (page_caption p (length ms)) > fst (snd (page_caption p (length ms)))"
    by (simp_all add: page_rows_def page_caption_def Let_def)
  show "next_page (length ms) p = totalPages (length ms)" using assms by (simp add: next_page_def)
qed

subsection \<open>Distribution\<close>

record distribution =
  di_up :: nat
  di_down :: nat
  di_paused :: nat

definition status_distribution :: "row list \<Rightarrow> distribution" where
  "status_distribution ms =
     \<lparr>di_up = length (filter (\<lambda>m. row_status m = ''UP'') ms), di_down = length (filter (\<lambda>m. row_status m = ''DOWN'') ms),
      di_paused = length (filter (\<lambda>m. row_status m = ''PAUSED'') ms)\<rparr>"

text \<open>
  A stored status is up or down, and being paused is a field of its own; so of the monitors the
  server lists none is ever counted as inactive, and a paused one counts as what it was last.
\<close>

lemma listed_status: "row_status (listed_monitor m) = (case m_status m of None \<Rightarrow> '''' | Some st \<Rightarrow> status_name st)"
proof -
  have "upper ''UP'' = ''UP''" "upper ''DOWN'' = ''DOWN''" by code_simp+
  then have "upper (status_name st) = status_name st" for st by (cases st) (simp_all add: status_name_def)
  then show ?thesis by (simp add: row_status_def listed_monitor_def get_def split: option.split)
qed

lemma nobody_inactive:
  "status_distribution (map listed_monitor ms) =
     \<lparr>di_up = length (filter (\<lambda>m. m_status m = Some UP) ms), di_down = length (filter (\<lambda>m. m_status m = Some DOWN) ms),
      di_paused = 0\<rparr>"
proof -
  have "row_status (listed_monitor m) = ''UP'' \<longleftrightarrow> m_status m = Some UP" "row_status (listed_monitor m) = ''DOWN'' \<longleftrightarrow> m_status m = Some DOWN"
    "row_status (listed_monitor m) \<noteq> ''PAUSED''" for m
    by (auto simp: listed_status status_name_def split: option.splits status.splits)
  then show ?thesis by (simp add: status_distribution_def filter_map comp_def)
qed

subsection \<open>Ages\<close>

text \<open>\<open>timeAgo\<close> of the dashboard's table and of the registry's; dates of the API parse.\<close>

definition coarse_age :: "int \<Rightarrow> string" where
  "coarse_age seconds =
     (let minutes = seconds div 60; hours = minutes div 60; days = hours div 24
      in if minutes < 60 then show_int minutes @ ''m ago''
         else if hours < 24 then show_int hours @ ''h ago'' else show_int days @ ''d ago'')"

definition dashboard_age :: "time \<Rightarrow> time option \<Rightarrow> string" where
  "dashboard_age now date =
     (case date of
        None \<Rightarrow> ''Just now''
      | Some d \<Rightarrow> let seconds = (now - d) div 1000
                  in if seconds < 60 then show_int (max 0 seconds) @ ''s ago'' else coarse_age seconds)"

definition registry_age :: "time \<Rightarrow> time option \<Rightarrow> string" where
  "registry_age now date =
     (case date of
        None \<Rightarrow> ''N/A''
      | Some d \<Rightarrow> let seconds = (now - d) div 1000 in if seconds < 60 then ''Just now'' else coarse_age seconds)"

text \<open>
  The same words for opposite facts: a monitor never checked reads on the dashboard as the
  registry has it for one checked within the minute.
\<close>

lemma never_checked_just_now:
  assumes "now - d < 60000"
  shows "dashboard_age now' None = registry_age now (Some d)"
proof -
  have "(now - d) div 1000 < 60" using assms by linarith
  then show ?thesis by (simp add: dashboard_age_def registry_age_def Let_def)
qed

subsection \<open>Removing a monitor\<close>

record removal_dialog =
  rd_isOpen :: bool
  rd_monitorId :: "string option"
  rd_monitorName :: "string option"
  rd_isDeleting :: bool
  rd_success :: "string option"

definition handleDeleteClick :: "string \<Rightarrow> string \<Rightarrow> removal_dialog \<Rightarrow> removal_dialog" where
  "handleDeleteClick i nm d = d\<lparr>rd_isOpen := True, rd_monitorId := Some i, rd_monitorName := Some nm\<rparr>"

definition handleCancelDelete :: "removal_dialog \<Rightarrow> removal_dialog" where
  "handleCancelDelete d = d\<lparr>rd_isOpen := False, rd_monitorId := None, rd_monitorName := None\<rparr>"

text \<open>The dialog while the request runs, and the handler started; nothing without an identifier.\<close>

definition handleConfirmDelete :: "removal_dialog \<Rightarrow> removal_dialog \<times> unit response task option" where
  "handleConfirmDelete d =
     (case rd_monitorId d of
        None \<Rightarrow> (d, None)
      | Some i \<Rightarrow> if i = '''' then (d, None) else (d\<lparr>rd_isDeleting := True\<rparr>, Some (handleDeleteMonitor i)))"

text \<open>A failure reaches the dialog because the handler throws it again.\<close>

definition removal_settled :: "unit response task \<Rightarrow> client_error + unit response \<Rightarrow> removal_dialog \<Rightarrow> removal_dialog" where
  "removal_settled t r d =
     (if is_Inl r \<and> rethrows t then handleCancelDelete d
      else handleCancelDelete (d\<lparr>rd_success := Some ''Registry entry removed successfully''\<rparr>))\<lparr>rd_isDeleting := False\<rparr>"

text \<open>
  A removal is announced only when it happened. Whatever else the store has seen meanwhile,
  the answer to a confirmed removal closes the dialog and takes down both flags; on success the
  monitor is gone from the list, every other row is there, and the screen says so; on failure
  the list is untouched, the error is in the store, and nothing is announced.
\<close>

theorem removal_announced_truly:
  assumes "handleConfirmDelete d = (d1, Some t)" and "rd_monitorId d = Some i"
  shows "let d2 = removal_settled t r d1; st' = dispatch_all now (after t r) st in
    \<not> rd_isOpen d2 \<and> \<not> rd_isDeleting d2 \<and> \<not> loading (monitor st') \<and>
    (case r of
       Inr _ \<Rightarrow> monitors (monitor st') = filter (\<lambda>m. row_id m \<noteq> JStr i) (monitors (monitor st)) \<and>
         rd_success d2 = Some ''Registry entry removed successfully''
     | Inl e \<Rightarrow> monitors (monitor st') = monitors (monitor st) \<and>
         error (monitor st') = Some (error_text e ''Failed to delete monitor'') \<and> rd_success d2 = rd_success d)"
proof -
  have t: "t = handleDeleteMonitor i" and d1: "d1 = d\<lparr>rd_isDeleting := True\<rparr>"
    using assms by (auto simp: handleConfirmDelete_def split: if_splits)
  show ?thesis
    by (cases r)
      (simp_all add: t d1 handleDeleteMonitor_def removal_settled_def handleCancelDelete_def appReducer_def rootReducer_def
        set_loading_def fail_request_def Let_def)
qed

definition asked_removal :: removal_dialog where
  "asked_removal = handleDeleteClick ''m1'' ''Shop''
     \<lparr>rd_isOpen = False, rd_monitorId = None, rd_monitorName = None, rd_isDeleting = False, rd_success = None\<rparr>"

theorem removal_announced_truly_witness:
  "rd_success (removal_settled (handleDeleteMonitor ''m1'') (Inr (ApiResponse 200 () '''')) (fst (handleConfirmDelete asked_removal)))
     = Some ''Registry entry removed successfully''"
  using removal_announced_truly [of asked_removal "fst (handleConfirmDelete asked_removal)" "handleDeleteMonitor ''m1''" "''m1''"
      "Inr (ApiResponse 200 () '''')"]
  by (simp add: asked_removal_def handleDeleteClick_def handleConfirmDelete_def Let_def)

text \<open>The refresh button asks without force, so it asks for nothing while the list is fresh.\<close>

lemma refresh_idle_while_fresh:
  "monitors seen \<noteq> [] \<Longrightarrow> is_fresh (lastFetched seen) now \<Longrightarrow> handleGetMonitors seen now False = None"
  by (simp add: handleGetMonitors_def)

end
