(* ===== verification/Auth_Forms.thy ===== *)
theory Auth_Forms
  imports Account_Flows Screens Client_Api
begin

text \<open>
  The account screens, \<open>Frontend/src/features/auth/pages\<close>: \<open>Register.jsx\<close>, \<open>Login.jsx\<close>,
  \<open>ForgotPassword.jsx\<close> and \<open>ResetPassword.jsx\<close>, as their state, what a submission does before
  its request, and what the answer does; then what registering comes to against the server's
  handlers. Where a screen navigates to is an outcome.
\<close>

subsection \<open>Registering\<close>

datatype step = Register_step | Otp_step

datatype page_outcome = Stay | Go string

record register_page =
  rp_step :: step
  rp_form :: register_form
  rp_otp :: string
  rp_errors :: "(string \<times> string) list"

text \<open>The reply of a registration, with the flag the screen also looks for.\<close>

record registration = session_reply +
  otpSent :: bool

definition register_body :: "register_form \<Rightarrow> fields" where
  "register_body f =
     [(''fullname'', JStr (f_fullname f)), (''username'', JStr (f_username f)), (''email'', JStr (f_email f)),
      (''password'', JStr (f_password f))]"

definition handleRegisterSubmit :: "client_env \<Rightarrow> register_page \<Rightarrow> register_page \<times> (string + http_call) option" where
  "handleRegisterSubmit E p =
     (let errors = register_errors (rp_form p)
      in (p\<lparr>rp_errors := errors\<rparr>, if errors = [] then Some (api_register E (JObj (register_body (rp_form p)))) else None))"

text \<open>\<open>sent\<close> is the flag of the slice the screen had rendered.\<close>

definition register_settled :: "bool \<Rightarrow> client_error + registration response \<Rightarrow> register_page \<Rightarrow> register_page \<times> page_outcome" where
  "register_settled sent r p =
     (case r of
        Inl _ \<Rightarrow> (p, Stay)
      | Inr resp \<Rightarrow>
          if truthy_str (sr_token (data resp)) then (p, Go ''/dashboard'')
          else if sent \<or> otpSent (data resp) then (p\<lparr>rp_step := Otp_step\<rparr>, Stay)
          else (p, Stay))"

definition handleOtpSubmit :: "(string \<Rightarrow> nat) \<Rightarrow> string \<Rightarrow> register_page \<Rightarrow> register_page \<times> http_call option" where
  "handleOtpSubmit len user p =
     (if len (rp_otp p) \<noteq> 6 then (p\<lparr>rp_errors := [(''otp'', ''Please enter a valid 6-digit OTP'')]\<rparr>, None)
      else (p, Some (api_verifyOtp user (JStr (rp_otp p)))))"

definition otp_settled :: "client_error + registration response \<Rightarrow> action list \<times> page_outcome" where
  "otp_settled r =
     (case r of
        Inl _ \<Rightarrow> ([], Stay)
      | Inr resp \<Rightarrow>
          if truthy_str (sr_token (data resp))
          then ([Auth (SetUser (JObj (sr_user (data resp)))), Auth (SetAuthenticated True)], Go ''/dashboard'')
          else ([], Go ''/login''))"

subsection \<open>Signing in\<close>

definition login_submit :: "client_env \<Rightarrow> string \<Rightarrow> string \<Rightarrow> (string \<times> string) list \<times> (string + http_call) option" where
  "login_submit E email pw =
     (let errors = login_errors email pw
      in (errors, if errors = [] then Some (api_login E (JObj [(''email'', JStr email), (''password'', JStr pw)])) else None))"

subsection \<open>A forgotten password\<close>

record forgot_page =
  fp_email :: string
  fp_loading :: bool
  fp_sent :: bool
  fp_error :: string
  fp_fieldError :: string

definition forgot_submit :: "client_env \<Rightarrow> forgot_page \<Rightarrow> forgot_page \<times> (string + http_call) option" where
  "forgot_submit E p =
     (case email_errors (fp_email p) of
        (_, msg) # _ \<Rightarrow> (p\<lparr>fp_error := '''', fp_fieldError := msg\<rparr>, None)
      | [] \<Rightarrow> (p\<lparr>fp_error := '''', fp_fieldError := '''', fp_loading := True\<rparr>,
               Some (api_forgotPassword E (JStr (trim (fp_email p))))))"

definition forgot_settled :: "client_error + 'a response \<Rightarrow> forgot_page \<Rightarrow> forgot_page" where
  "forgot_settled r p =
     (case r of
        Inr _ \<Rightarrow> p\<lparr>fp_sent := True\<rparr>
      | Inl e \<Rightarrow> p\<lparr>fp_error := str_or (x_reply e) ''Could not send the reset link. Please try again.''\<rparr>)\<lparr>fp_loading := False\<rparr>"

record reset_page_state =
  rs_password :: string
  rs_confirm :: string
  rs_errors :: "(string \<times> string) list"
  rs_error :: string
  rs_loading :: bool
  rs_done :: bool

definition reset_submit ::
    "client_env \<Rightarrow> (string \<Rightarrow> nat) \<Rightarrow> string \<Rightarrow> reset_page_state \<Rightarrow> reset_page_state \<times> (string + http_call) option" where
  "reset_submit E len token p =
     (let errors = reset_errors len (rs_password p) (rs_confirm p); p1 = p\<lparr>rs_error := '''', rs_errors := errors\<rparr>
      in if errors = [] then (p1\<lparr>rs_loading := True\<rparr>, Some (api_resetPassword E token (JStr (rs_password p)))) else (p1, None))"

definition reset_settled :: "client_error + 'a response \<Rightarrow> reset_page_state \<Rightarrow> reset_page_state" where
  "reset_settled r p =
     (case r of
        Inr _ \<Rightarrow> p\<lparr>rs_done := True\<rparr>
      | Inl e \<Rightarrow> p\<lparr>rs_error := str_or (x_reply e) ''Could not reset the password. The link may have expired.''\<rparr>)\<lparr>rs_loading := False\<rparr>"

text \<open>What a submission asks for is one request, made only of a form without a message.\<close>

lemma submits_checked:
  "snd (handleRegisterSubmit E p) \<noteq> None \<longleftrightarrow> register_errors (rp_form p) = []"
  "snd (forgot_submit E q) \<noteq> None \<longleftrightarrow> trim (fp_email q) \<noteq> '''' \<and> client_email (fp_email q)"
  "snd (reset_submit E len token x) \<noteq> None \<longleftrightarrow> MIN_PASSWORD_LENGTH \<le> len (rs_password x) \<and> rs_password x \<noteq> '''' \<and>
     rs_confirm x = rs_password x"
  by (auto simp: handleRegisterSubmit_def forgot_submit_def reset_submit_def reset_errors_def email_errors_def Let_def)

subsection \<open>Nobody is asked for a code\<close>

lemma get_register_body:
  "get ''email'' (register_body f) = JStr (f_email f)" "get ''password'' (register_body f) = JStr (f_password f)"
  "get ''fullname'' (register_body f) = JStr (f_fullname f)" "get ''username'' (register_body f) = JStr (f_username f)"
  by (simp_all add: register_body_def get_def)

text \<open>
  The code step is never entered, and an unverified account is stranded. Every registration
  the server accepts is answered with a session token, so the screen goes to the dashboard
  and never to the step that would ask for the code. Where accounts are not verified
  automatically, signing in afterwards with the same address and password is refused, or fails
  with the database, so once the first session is over its owner cannot get in again.
\<close>

theorem unverified_stranded:
  assumes db: "mongo_atomic U docs user_clash"
    and bcrypt: "\<And>s p. bcrypt_compare A p (bcrypt_hash A s p)" "\<And>s p. bcrypt_hash A s p \<noteq> []" "js_length A [] = 0"
    and jwt: "\<And>cl. jwt_sign A cl \<noteq> []"
    and cast: "\<And>s. C SString (JStr s) = Some (JStr s)"
    and run: "registerUser A C cfg U c env (register_body f) = (c', Inr (resp, cookie))"
    and reply: "sr_token (data reply) = Some (se_token (data resp))"
  shows "register_settled sent (Inr reply) p = (p, Go ''/dashboard'') \<and>
    (\<not> AUTO_VERIFY_USERS cfg \<longrightarrow>
      (case loginUser A C cfg U c' [(''email'', JStr (f_email f)), (''password'', JStr (f_password f))] of
         Inl err \<Rightarrow> isApiError err \<longrightarrow> err = ApiError 401 ''User is not verified. Please verify your email first.''
       | Inr _ \<Rightarrow> False))"
proof -
  from registerUser_success [OF db run] obtain u uname where
    built: "user_build A C env [(''fullname'', JStr (f_fullname f)), (''email'', JStr (f_email f)),
        (''password'', JStr (f_password f)), (''username'', JStr uname)] = Inr u"
    and docs: "docs c' = add_mset (u\<lparr>isVerified := AUTO_VERIFY_USERS cfg\<rparr>) (docs c)" "\<forall>x \<in># docs c. \<not> user_clash u x"
    and token: "se_token (data resp) = generateAccessToken A u"
    by (auto simp: get_register_body)
  note u = register_build [OF built]
  let ?u = "u\<lparr>isVerified := AUTO_VERIFY_USERS cfg\<rparr>"
  have e: "tidy (f_email f) \<noteq> []" "u_email u = tidy (f_email f)"
    and pw: "6 \<le> js_length A (f_password f)" "password u = Some (bcrypt_hash A (ae_salt env) (f_password f))"
    using u(7,8) by (auto simp: cast as_text_def)
  have e': "f_email f \<noteq> []" using e(1) by auto
  have pw': "f_password f \<noteq> []" using pw(1) bcrypt(3) by auto
  have fresh: "\<forall>x \<in># docs c. \<not> user_clash ?u x" using docs(2) by (simp add: user_clash_def)
  have same: "tidy (f_email f) = u_email ?u" "password ?u = Some (bcrypt_hash A (ae_salt env) (f_password f))"
    using e(2) pw(2) by simp_all
  have "truthy_str (sr_token (data reply))"
    unfolding reply token using jwt by (simp add: generateAccessToken_def truthy_str_def)
  then have "register_settled sent (Inr reply) p = (p, Go ''/dashboard'')" by (simp add: register_settled_def)
  moreover note login_outcome [where docs = docs and c = c' and C = C and cfg = cfg, OF mongo_atomic.axioms(1) [OF db]
      docs(1) fresh cast e' same(1) pw' same(2) bcrypt(2) bcrypt(1)]
  ultimately show ?thesis by (auto split: sum.splits)
qed

definition ann_form :: register_form where
  "ann_form = \<lparr>f_fullname = ''Ann Lee'', f_username = ''Ann'', f_email = ''ann@x.io'', f_password = ''secret1'', f_confirm = ''secret1''\<rparr>"

theorem unverified_stranded_witness:
  "let (c', r) = registerUser example_auth plain_cast (example_config False) example_users [] (example_env 0 ''u1'') (register_body ann_form)
   in register_errors ann_form = [] \<and> map isVerified c' = [False] \<and>
     (\<exists>resp cookie. r = Inr (resp, cookie) \<and>
       register_settled False (Inr (ApiResponse 201 \<lparr>sr_user = [], sr_token = Some (se_token (data resp)), otpSent = False\<rparr> ''''))
         \<lparr>rp_step = Register_step, rp_form = ann_form, rp_otp = '''', rp_errors = []\<rparr> =
       (\<lparr>rp_step = Register_step, rp_form = ann_form, rp_otp = '''', rp_errors = []\<rparr>, Go ''/dashboard''))"
proof -
  let ?run = "registerUser example_auth plain_cast (example_config False) example_users [] (example_env 0 ''u1'') (register_body ann_form)"
  have "\<not> is_Inl (snd ?run)" "register_errors ann_form = []" "map isVerified (fst ?run) = [False]" by code_simp+
  moreover obtain c' r where r: "?run = (c', r)" by (cases ?run)
  ultimately obtain resp cookie where run: "?run = (c', Inr (resp, cookie))" and facts: "register_errors ann_form = []" "map isVerified c' = [False]"
    by (cases r) auto
  have jwt: "jwt_sign example_auth cl \<noteq> []" for cl by (rule example_jwt)
  note unverified_stranded [where C = plain_cast and U = example_users and docs = mset and A = example_auth
      and reply = "ApiResponse 201 \<lparr>sr_user = [], sr_token = Some (se_token (data resp)), otpSent = False\<rparr> ''''" and sent = False
      and p = "\<lparr>rp_step = Register_step, rp_form = ann_form, rp_otp = '''', rp_errors = []\<rparr>",
      OF mem_atomic.mongo_atomic_axioms example_auth_laws jwt plain_cast_laws(1) run]
  then show ?thesis unfolding run using facts by simp
qed

end
