(* ===== verification/Indicator.thy ===== *)
theory Indicator
  imports Realtime
begin

text \<open>
  The live connection as the user sees it, \<open>Frontend/src/components/ui/ConnectionStatus.jsx\<close> over
  the hook of \<open>Realtime\<close>: what each state reads, when the attempts are counted, and when a retry
  is offered.
\<close>

record presentation =
  pr_label :: string
  pr_detail :: string
  pr_spin :: bool

definition PRESENTATION :: "connection_state \<Rightarrow> presentation" where
  "PRESENTATION s =
     (case s of
        CONNECTED \<Rightarrow> \<lparr>pr_label = ''Live'', pr_detail = ''Receiving real-time updates'', pr_spin = False\<rparr>
      | CONNECTING \<Rightarrow> \<lparr>pr_label = ''Connecting'', pr_detail = ''Establishing the live connection'', pr_spin = True\<rparr>
      | RECONNECTING \<Rightarrow>
          \<lparr>pr_label = ''Reconnecting'',
           pr_detail = ''Updates are paused '' @ [CHR 0xE2, CHR 0x80, CHR 0x94] @ '' data may be out of date'', pr_spin = True\<rparr>
      | DISCONNECTED \<Rightarrow> \<lparr>pr_label = ''Offline'', pr_detail = ''Not receiving updates'', pr_spin = False\<rparr>
      | UNAUTHORIZED \<Rightarrow>
          \<lparr>pr_label = ''Session expired'', pr_detail = ''Sign in again to resume live updates'', pr_spin = False\<rparr>)"

definition showRetry :: "connection_state \<Rightarrow> bool" where
  "showRetry s \<longleftrightarrow> s = DISCONNECTED \<or> s = RECONNECTING"

definition attempt_shown :: "realtime \<Rightarrow> nat option" where
  "attempt_shown r =
     (if reconnectAttempt r > 0 \<and> rt_state r = RECONNECTING then Some (reconnectAttempt r) else None)"

lemma label_inject [simp]: "pr_label (PRESENTATION s) = pr_label (PRESENTATION s') \<longleftrightarrow> s = s'"
  by (cases s; cases s') (simp_all add: PRESENTATION_def)

text \<open>A socket that is neither connected nor trying never reads as connecting or as live.\<close>

definition recoverable :: "realtime \<Rightarrow> bool" where
  "recoverable r \<longleftrightarrow> connected r \<or> trying r \<or> showRetry (rt_state r) \<or> rt_state r = UNAUTHORIZED"

lemma recoverable_next [inv_intros]: "enabled e r \<Longrightarrow> recoverable r \<Longrightarrow> recoverable (rt_next r e)"
  by (cases e) (auto simp: recoverable_def showRetry_def enabled_def rt_next_defs)

lemma recoverable_mount [inv_intros]: "recoverable (mount live)"
  by (simp add: recoverable_def mount_def connectSocket_def)

lemma recoverable_steps: "rt_steps r es r' \<Longrightarrow> recoverable r \<Longrightarrow> recoverable r'"
  by (induction rule: rt_steps.induct) (auto simp: rt_step_iff intro: inv_intros)

text \<open>
  C21. A lost connection can always be got back. In every run of the hook, whenever the socket is
  not connected the badge does not read live, and unless the session has expired either an
  attempt is under way or a retry is offered; by itself or after that one press the next
  connection makes the badge read live again.
\<close>

theorem lost_connection_recoverable:
  assumes "rt_steps (mount live) es r" and "\<not> connected r"
  shows "pr_label (PRESENTATION (rt_state r)) \<noteq> ''Live'' \<and>
    (rt_state r = UNAUTHORIZED \<or> trying r \<or> showRetry (rt_state r)) \<and>
    (\<exists>r'. rt_steps r (if trying r then [Connect now] else [RetryNow, Connect now]) r' \<and>
       pr_label (PRESENTATION (rt_state r')) = ''Live'')"
proof -
  have live: "pr_label (PRESENTATION s) = ''Live'' \<longleftrightarrow> s = CONNECTED" for s by (cases s) (simp_all add: PRESENTATION_def)
  have "recoverable r" using recoverable_steps [OF assms(1) recoverable_mount] .
  then have rec: "rt_state r = UNAUTHORIZED \<or> trying r \<or> showRetry (rt_state r)" using assms(2) by (auto simp: recoverable_def)
  have "rt_state r \<noteq> CONNECTED" using indicator_ok_steps [OF assms(1) indicator_ok_mount] assms(2) by (auto simp: indicator_ok_def)
  moreover have "rt_steps r (if trying r then [Connect now] else [RetryNow, Connect now])
      (if trying r then rt_next r (Connect now) else rt_next (rt_next r RetryNow) (Connect now))"
    using assms(2) by (simp add: enabled_def rt_next_defs)
  moreover have "rt_state (if trying r then rt_next r (Connect now) else rt_next (rt_next r RetryNow) (Connect now)) = CONNECTED"
    by (simp add: rt_next_defs)
  ultimately show ?thesis unfolding live using rec by blast
qed

text \<open>The server drops the client, which is terminal; the badge offers a retry.\<close>

theorem lost_connection_recoverable_witness:
  "\<exists>r r'. rt_steps (mount False) [Connect 5, Disconnect ''io server disconnect''] r \<and> showRetry (rt_state r) \<and>
     rt_steps r [RetryNow, Connect 9] r' \<and> pr_label (PRESENTATION (rt_state r')) = ''Live''"
proof -
  let ?es = "[Connect 5, Disconnect ''io server disconnect'']"
  let ?r = "rt_next (rt_next (mount False) (Connect 5)) (Disconnect ''io server disconnect'')"
  have s: "rt_steps (mount False) ?es ?r" "\<not> connected ?r" "\<not> trying ?r" "showRetry (rt_state ?r)"
    by (simp_all add: mount_def enabled_def rt_next_defs isTerminalDisconnect_def showRetry_def)
  from lost_connection_recoverable [OF s(1,2), of 9] s show ?thesis by auto
qed

end
