(* ===== verification/Metric_Registry.thy ===== *)
theory Metric_Registry
  imports Operations Channels
begin

text \<open>
  The declarations of \<open>Backend/src/observability/metrics.js\<close>: every metric with its kind, its label
  names and its buckets. The registry refuses a sample whose labels were not declared, so the
  series the program touches are set against them, and the series of the notifications against
  those seeded at startup. Names are those of the exports.
\<close>

datatype metric_kind = Counter | Gauge | Histogram "rat list"

record metric =
  me_export :: string
  me_name :: string
  me_kind :: metric_kind
  me_labelNames :: "string list"

definition METRICS :: "metric list" where
  "METRICS =
     [\<lparr>me_export = ''httpRequestsTotal'', me_name = ''watchtower_http_requests_total'', me_kind = Counter,
       me_labelNames = [''method'', ''route'', ''status'']\<rparr>,
      \<lparr>me_export = ''httpRequestDuration'', me_name = ''watchtower_http_request_duration_seconds'',
       me_kind = Histogram [1 / 200, 1 / 100, 1 / 40, 1 / 20, 1 / 10, 1 / 4, 1 / 2, 1, 5 / 2, 5, 10],
       me_labelNames = [''method'', ''route'', ''status'']\<rparr>,
      \<lparr>me_export = ''checksExecutedTotal'', me_name = ''watchtower_checks_executed_total'', me_kind = Counter,
       me_labelNames = [''status'']\<rparr>,
      \<lparr>me_export = ''checkDurationSeconds'', me_name = ''watchtower_check_duration_seconds'',
       me_kind = Histogram [1 / 20, 1 / 10, 1 / 4, 1 / 2, 1, 5 / 2, 5, 10, 20, 30], me_labelNames = [''status'']\<rparr>,
      \<lparr>me_export = ''checksSkippedTotal'', me_name = ''watchtower_checks_skipped_total'', me_kind = Counter,
       me_labelNames = [''reason'']\<rparr>,
      \<lparr>me_export = ''schedulerLagSeconds'', me_name = ''watchtower_scheduler_lag_seconds'', me_kind = Gauge,
       me_labelNames = []\<rparr>,
      \<lparr>me_export = ''schedulerTickDurationSeconds'', me_name = ''watchtower_scheduler_tick_duration_seconds'',
       me_kind = Histogram [1 / 100, 1 / 20, 1 / 10, 1 / 2, 1, 5 / 2, 5, 10, 30], me_labelNames = []\<rparr>,
      \<lparr>me_export = ''schedulerLastTickTimestamp'', me_name = ''watchtower_scheduler_last_tick_timestamp_seconds'',
       me_kind = Gauge, me_labelNames = []\<rparr>,
      \<lparr>me_export = ''schedulerIsLeader'', me_name = ''watchtower_scheduler_is_leader'', me_kind = Gauge,
       me_labelNames = []\<rparr>,
      \<lparr>me_export = ''schedulerInFlightChecks'', me_name = ''watchtower_scheduler_inflight_checks'', me_kind = Gauge,
       me_labelNames = []\<rparr>,
      \<lparr>me_export = ''incidentsOpenedTotal'', me_name = ''watchtower_incidents_opened_total'', me_kind = Counter,
       me_labelNames = []\<rparr>,
      \<lparr>me_export = ''incidentsClosedTotal'', me_name = ''watchtower_incidents_closed_total'', me_kind = Counter,
       me_labelNames = []\<rparr>,
      \<lparr>me_export = ''notificationsTotal'', me_name = ''watchtower_notifications_total'', me_kind = Counter,
       me_labelNames = [''channel'', ''status'']\<rparr>,
      \<lparr>me_export = ''notificationFailuresTotal'', me_name = ''watchtower_notification_failures_total'', me_kind = Counter,
       me_labelNames = [''channel'']\<rparr>,
      \<lparr>me_export = ''mongoUp'', me_name = ''watchtower_mongodb_up'', me_kind = Gauge, me_labelNames = []\<rparr>]"

definition labels_declared :: "series \<Rightarrow> bool" where
  "labels_declared s \<longleftrightarrow> list_ex (\<lambda>me. me_export me = fst s \<and> me_labelNames me = map fst (snd s)) METRICS"

text \<open>Names are not reused, buckets ascend, and every series seeded at startup is a declared one.\<close>

lemma metrics_declared_once: "distinct (map me_export METRICS)" "distinct (map me_name METRICS)"
  by code_simp+

lemma buckets_ascend: "\<forall>me \<in> set METRICS. case me_kind me of Histogram bs \<Rightarrow> sorted_wrt (<) bs | _ \<Rightarrow> True"
  by (simp add: METRICS_def)

lemma seeded_declared: "list_all labels_declared seeded_series"
  by code_simp

subsection \<open>The series of the notifications\<close>

text \<open>The series a counted result touches: the total, and for a failure the failures as well.\<close>

definition touched :: "string \<times> notif_status \<Rightarrow> series list" where
  "touched r =
     (''notificationsTotal'', [(''channel'', fst r), (''status'', status_text (snd r))]) #
     (if snd r = Failed then [(''notificationFailuresTotal'', [(''channel'', fst r)])] else [])"

lemma touched_seeded: "ch \<in> {''Email'', ''Webhook'', ''Slack''} \<Longrightarrow> set (touched (ch, st)) \<subseteq> set seeded_series"
  by (cases st) (auto simp: touched_def seeded_series_def status_text_def)

lemma email_channel: "email_send fmt cfg net chs c p = Inr oc \<Longrightarrow> r \<in> set (normalise ''Email'' oc) \<Longrightarrow> n_channel r = Some ''Email''"
  by (auto simp: email_send_def normalise_def email_one_def Let_def split: if_splits sum.splits)

lemma webhook_channel:
  assumes db: "mongo chs docs clash" and sent: "webhook_send fmt post chs c p = Inr oc" and r: "r \<in> set (normalise ''Webhook'' oc)"
  shows "n_channel r \<in> {Some ''Webhook'', Some ''Slack''}"
proof -
  let ?P = "\<lambda>ch. ch_userId ch = u_id (p_user p) \<and> ch_type ch \<in> {''Webhook'', ''Slack''} \<and> ch_active ch"
  show ?thesis
  proof (cases "find_many chs c ?P (\<lambda>_. 0) None")
    case (Inl e)
    with sent have "oc = Many []" by (simp add: webhook_send_def)
    with r show ?thesis by (simp add: normalise_def)
  next
    case (Inr cs)
    with sent have "oc = Many (map (\<lambda>ch. Some (webhook_one post (buildBody fmt p) ch)) cs)" by (simp add: webhook_send_def)
    with r obtain ch where ch: "ch \<in> set cs" "n_channel r = Some (ch_type ch)"
      by (auto simp: normalise_def webhook_one_def split: post_answer.splits if_splits)
    with mongo.find_all [OF db Inr] show ?thesis by auto
  qed
qed

text \<open>
  Every series of the notifications exists before its first sample. Whatever the user's
  channels, whatever the mailer and the receivers answer, and whether or not the channels can be
  read, a dispatch by the notifiers the server wires counts its results only in series that
  were seeded with zero at startup, so the set of series is fixed and the first failure shows.
\<close>

theorem notification_series_seeded:
  assumes db: "mongo chs docs clash" and ns: "default_notifiers fmt cfg net post chs c = Inr ns"
    and run: "dispatch ops ns p l = (rs, counted, l')"
  shows "\<forall>r \<in> set counted. set (touched r) \<subseteq> set seeded_series"
proof (cases "incidentAlerts (p_user p)")
  case True
  have wired: "ns = [emailNotifier fmt cfg net chs c, webhookNotifier fmt post chs c]"
    using ns by (simp add: default_notifiers_def register_def emailNotifier_def webhookNotifier_def)
  have counted: "counted = map (\<lambda>r. (str_or (n_channel r) ''unknown'', n_status r)) rs"
    and rs: "rs = concat (map (\<lambda>n. settle p n []) (filter (\<lambda>n. supports n (p_event p)) ns))"
    using run True dispatch_results [of p ops ns l] by (auto simp: dispatch_def Let_def)
  have channel: "n_channel r \<in> {Some ''Email'', Some ''Webhook'', Some ''Slack''}" if "r \<in> set rs" for r
  proof -
    from that wired rs consider "r \<in> set (settle p (emailNotifier fmt cfg net chs c) [])"
      | "r \<in> set (settle p (webhookNotifier fmt post chs c) [])" by (auto split: if_splits)
    then show ?thesis
    proof cases
      case 1
      obtain oc where "email_send fmt cfg net chs c p = Inr oc"
        by (cases "email_recipients chs c (p_user p) = []") (auto simp: email_send_def Let_def)
      with 1 email_channel [OF this] show ?thesis by (auto simp: settle_def emailNotifier_def)
    next
      case 2
      obtain oc where "webhook_send fmt post chs c p = Inr oc" by (cases "webhook_send fmt post chs c p") (auto simp: webhook_send_def split: sum.splits)
      with 2 webhook_channel [OF db this] show ?thesis by (auto simp: settle_def webhookNotifier_def)
    qed
  qed
  show ?thesis
  proof
    fix q assume "q \<in> set counted"
    then obtain r where r: "r \<in> set rs" "q = (str_or (n_channel r) ''unknown'', n_status r)" unfolding counted by auto
    from channel [OF r(1)] have "str_or (n_channel r) ''unknown'' \<in> {''Email'', ''Webhook'', ''Slack''}" by auto
    from touched_seeded [OF this] show "set (touched q) \<subseteq> set seeded_series" by (simp only: r(2))
  qed
qed (use run in \<open>simp add: dispatch_def\<close>)

theorem notification_series_seeded_witness:
  "\<forall>fmt cfg net. \<exists>ns. default_notifiers fmt cfg net (\<lambda>_ _. Answered 500) (list_coll (\<lambda>_ _. False)) [example_channel] = Inr ns \<and>
     (\<forall>r \<in> set (fst (snd (dispatch (list_coll (\<lambda>_ _. False)) ns (example_payload ''Shop'' None) []))). set (touched r) \<subseteq> set seeded_series)"
proof (intro allI)
  fix fmt :: format_api and cfg :: app_config and net :: network
  let ?post = "\<lambda>(_ :: string) (_ :: webhook_body). Answered 500"
  let ?chs = "list_coll (\<lambda>_ _. False) :: (channel list, channel) coll"
  obtain ns where ns: "default_notifiers fmt cfg net ?post ?chs [example_channel] = Inr ns"
    by (simp add: default_notifiers_def register_def emailNotifier_def webhookNotifier_def)
  let ?d = "dispatch (list_coll (\<lambda>_ _. False)) ns (example_payload ''Shop'' None) []"
  obtain rs counted l' where run: "?d = (rs, counted, l')" by (cases ?d)
  from notification_series_seeded [OF mem.mongo_axioms ns run] ns run
  show "\<exists>ns. default_notifiers fmt cfg net ?post ?chs [example_channel] = Inr ns \<and>
     (\<forall>r \<in> set (fst (snd (dispatch (list_coll (\<lambda>_ _. False)) ns (example_payload ''Shop'' None) []))). set (touched r) \<subseteq> set seeded_series)"
    by (intro exI [of _ ns]) simp
qed

end
