(* ===== verification/Audit_Gate.thy ===== *)
theory Audit_Gate
  imports Complex_Main Prelude
begin

text \<open>
  The dependency gate of continuous integration, \<open>scripts/audit-gate.mjs\<close>, over the report of
  \<open>npm audit\<close>: which vulnerabilities block, which are excused by the allow list, when the gate
  passes and with what status the process exits. The report is the input; what is printed is
  not modelled. Beside it the percentile of \<open>scripts/measure-latency.mjs\<close>.
\<close>

subsection \<open>The allow list\<close>

text \<open>An element of \<open>via\<close> is a package name or an advisory.\<close>

datatype via = Through string | Advisory "string option"

record vulnerability =
  vu_name :: string
  vu_severity :: string
  vu_via :: "via list"

record allowance =
  al_package :: string
  al_advisory :: string
  al_reviewBy :: time

definition BLOCKING :: "string list" where
  "BLOCKING = [''high'', ''critical'']"

text \<open>The review date is read as midnight in universal time.\<close>

definition ALLOWLIST :: "allowance list" where
  "ALLOWLIST = [\<lparr>al_package = ''react-router'', al_advisory = ''GHSA-qwww-vcr4-c8h2'', al_reviewBy = 1793404800000\<rparr>]"

definition allowlistFor :: "string \<Rightarrow> string list \<Rightarrow> allowance option" where
  "allowlistFor pkg ids =
     find (\<lambda>e. al_package e = pkg \<and> (al_advisory e \<in> set ids \<or> ids = [])) ALLOWLIST"

definition advisoryIds :: "vulnerability \<Rightarrow> string list" where
  "advisoryIds v =
     filter (\<lambda>s. s \<noteq> '''')
       (map (\<lambda>u. last (split_on CHR ''/'' u))
         (List.map_filter (\<lambda>x. case x of Advisory (Some u) \<Rightarrow> if u = '''' then None else Some u | _ \<Rightarrow> None) (vu_via v)))"

subsection \<open>The gate\<close>

definition sorted_out :: "vulnerability list \<Rightarrow> vulnerability list \<times> (vulnerability \<times> allowance) list" where
  "sorted_out vulns =
     (let severe = filter (\<lambda>v. vu_severity v \<in> set BLOCKING) vulns
      in (filter (\<lambda>v. allowlistFor (vu_name v) (advisoryIds v) = None) severe,
          List.map_filter (\<lambda>v. map_option (Pair v) (allowlistFor (vu_name v) (advisoryIds v))) severe))"

definition gate :: "time \<Rightarrow> vulnerability list \<Rightarrow> bool" where
  "gate now vulns =
     (let (blocking, excused) = sorted_out vulns;
          expired = list_ex (\<lambda>(v, e). al_reviewBy e < now) excused
      in blocking = [] \<and> \<not> expired)"

text \<open>The exit status for the reports of the directories named on the command line.\<close>

definition gate_status :: "time \<Rightarrow> vulnerability list list \<Rightarrow> nat" where
  "gate_status now reports = (if reports = [] then 2 else if list_all (gate now) reports then 0 else 1)"

text \<open>What passes: severe findings in one package only, and before the review date.\<close>

lemma gate_exact:
  "gate now vulns \<longleftrightarrow>
     (\<forall>v \<in> set vulns. vu_severity v \<in> {''high'', ''critical''} \<longrightarrow>
        vu_name v = ''react-router'' \<and> (''GHSA-qwww-vcr4-c8h2'' \<in> set (advisoryIds v) \<or> advisoryIds v = []) \<and>
        now \<le> 1793404800000)"
proof -
  have al: "allowlistFor pkg ids = (if pkg = ''react-router'' \<and> (''GHSA-qwww-vcr4-c8h2'' \<in> set ids \<or> ids = [])
      then Some (hd ALLOWLIST) else None)" for pkg ids
    by (auto simp: allowlistFor_def ALLOWLIST_def)
  have review: "al_reviewBy (hd ALLOWLIST) = 1793404800000" by (simp add: ALLOWLIST_def)
  show ?thesis
    unfolding gate_def sorted_out_def al
    by (auto simp: list_ex_iff filter_empty_conv List.map_filter_def BLOCKING_def review split: if_splits)
qed

text \<open>
  The exception is for the package, not for the advisory: any further advisory of the excused
  package is reported with it and passes along, as does one the report gives no address for;
  and the review date of an entry that excuses nothing fails no build.
\<close>

theorem advisories_ride_along:
  assumes "gate now [v]" and "vu_name v = ''react-router''" and "''GHSA-qwww-vcr4-c8h2'' \<in> set (advisoryIds v)"
    and "now \<le> 1793404800000"
  shows "gate now [v\<lparr>vu_severity := ''critical'', vu_via := vu_via v @ [Advisory (Some url)]\<rparr>]"
    and "gate now' []"
proof -
  have "set (advisoryIds v) \<subseteq> set (advisoryIds (v\<lparr>vu_severity := s, vu_via := vu_via v @ xs\<rparr>))" for s xs
    by (auto simp: advisoryIds_def List.map_filter_def)
  then show "gate now [v\<lparr>vu_severity := ''critical'', vu_via := vu_via v @ [Advisory (Some url)]\<rparr>]"
    using assms unfolding gate_exact by auto
  show "gate now' []" unfolding gate_exact by simp
qed

subsection \<open>Percentiles\<close>

text \<open>Nearest rank, over the samples in ascending order; \<open>p\<close> is in percent, computed exactly.\<close>

definition percentile :: "'a list \<Rightarrow> rat \<Rightarrow> 'a" where
  "percentile xs p = xs ! min (length xs - 1) (nat (\<lceil>p / 100 * of_nat (length xs)\<rceil> - 1))"

text \<open>It is one of the samples, and at least that share of them is no larger.\<close>

lemma percentile_nearest_rank:
  fixes xs :: "int list"
  assumes "xs \<noteq> []" and "sorted xs" and "0 < p" and "p \<le> 100"
  shows "percentile xs p \<in> set xs"
    and "p / 100 * of_nat (length xs) \<le> of_nat (length (filter (\<lambda>x. x \<le> percentile xs p) xs))"
proof -
  let ?n = "length xs" and ?r = "\<lceil>p / 100 * of_nat (length xs)\<rceil>"
  have n: "0 < ?n" using assms(1) by simp
  have "0 < p / 100 * of_nat ?n" using assms(3) n by simp
  then have r1: "1 \<le> ?r" by linarith
  have "p / 100 * of_nat ?n \<le> of_nat ?n" using assms(4) n by (simp add: field_simps)
  then have r2: "?r \<le> int ?n" by (simp add: ceiling_le_iff)
  have k: "min (?n - 1) (nat (?r - 1)) = nat (?r - 1)" using r1 r2 by linarith
  have lt: "nat (?r - 1) < ?n" using r1 r2 n by linarith
  show "percentile xs p \<in> set xs" unfolding percentile_def k using lt by simp
  have "\<forall>i \<in> {0..<nat ?r}. xs ! i \<le> percentile xs p"
    unfolding percentile_def k using sorted_nth_mono [OF assms(2)] lt by auto
  then have "set (take (nat ?r) xs) \<subseteq> {x. x \<le> percentile xs p}"
    using r2 by (auto simp: in_set_conv_nth)
  then have "filter (\<lambda>x. x \<le> percentile xs p) (take (nat ?r) xs) = take (nat ?r) xs" by (auto simp: filter_id_conv)
  then have "length (take (nat ?r) xs) \<le> length (filter (\<lambda>x. x \<le> percentile xs p) xs)"
    by (metis append_take_drop_id filter_append length_append le_add1)
  then have "nat ?r \<le> length (filter (\<lambda>x. x \<le> percentile xs p) xs)" using r2 by simp
  moreover have "p / 100 * of_nat ?n \<le> of_nat (nat ?r)" using r1 by linarith
  ultimately show "p / 100 * of_nat ?n \<le> of_nat (length (filter (\<lambda>x. x \<le> percentile xs p) xs))"
    by (meson of_nat_mono order_trans)
qed

end
