(* ===== verification/Spec2Isabelle.thy ===== *)
theory Spec2Isabelle
  imports Scheduler_Props Assistant Monitors Status_Page Http Account_Recovery Channels Operations
    Client_Routes Request_Metrics Validation Client_Session Realtime Chat_Client Screens Settings_Screen Status_Screens
    Reset_Journey Google_Button Panels Alert_Center Page_Editor Dashboard Auth_Forms Indicator Metric_Registry Audit_Gate
begin

text \<open>
  \<^bold>\<open>WatchTower: a verification development.\<close>

  WatchTower watches HTTP services. \<open>Backend/\<close> is a Node process: an Express API, a scheduler
  that probes the monitors which are due, a Socket.IO server, and MongoDB underneath, shared
  by any number of such processes. \<open>Frontend/\<close> is a React client of the API and the socket.
  This development models the logic of both and states what makes it correct, and, where the
  code does less than its comments or documents say, what it does instead.

  \<^bold>\<open>How the parts interact.\<close> One process at a time leads, through a lease in the database
  (\<open>Lock\<close>). The leader's loop (\<open>Scheduler\<close>) selects the due monitors, asks each one's circuit
  breaker (\<open>Breaker\<close>), runs the probes on a bounded pool (\<open>Pool\<close>, \<open>Probe\<close>), writes the result
  on the monitor and in the check log, and on a threshold crossing opens or closes an incident
  (\<open>Incident\<close>), which notifies the owner (\<open>Notify\<close>, \<open>Templates\<close>, \<open>Mail\<close>) and asks the
  language model for a summary (\<open>Assistant\<close>). Every change is emitted to the owner's room
  (\<open>Sockets\<close>). The API's handlers reach the collections through owner-scoped DAOs (\<open>Dao\<close>,
  \<open>Tenancy\<close>) and answer through one reply and error pipeline (\<open>Http\<close>). The client keeps what
  it was sent in a store (\<open>Store\<close>), asks through one request function (\<open>Client_Api\<close>), and refetches
  when its live connection comes back (\<open>Realtime\<close>).

  \<^bold>\<open>Conventions.\<close> A moment or a duration is an \<open>int\<close> of milliseconds, an identifier a
  \<open>string\<close>, text a list of UTF-8 bytes. \<open>undefined\<close> and \<open>null\<close> are both \<open>None\<close> where the code
  treats them alike; a request body, a filter or a row of the client's store is a value of the
  type \<open>js\<close>, which tells them apart. A handler is a function from the state it reads to the
  state it leaves and its outcome; an exception is the \<open>Inl\<close> of a sum. A collection is a
  record \<open>coll\<close> of the operations the code calls, over an unknown type of states. Definitions
  keep the names of the source, followed by an underscore or a word where the name is taken.

  \<^bold>\<open>The theories.\<close> First what everything uses:

  \<^item> \<open>Prelude\<close>: names of types, the operators of JavaScript on absent values, string
    primitives, generic lemmas on lists and multisets, and the collection \<open>inv_intros\<close> of
    invariant-preservation facts.
  \<^item> \<open>Mongo\<close>: the interface to a collection (below), and a list-backed collection.
  \<^item> \<open>Config\<close> (\<open>config/scheduler.config.js\<close>), \<open>App_Config\<close> (\<open>config/config.js\<close>).
  \<^item> \<open>Monitor_Model\<close>, \<open>User_Model\<close>, \<open>Incident_Model\<close>: the documents of \<open>models/\<close>.

  The checking of monitors, under \<open>Backend/src\<close>:

  \<^item> \<open>Breaker\<close> (\<open>services/circuitBreaker.js\<close>): one function per function of the file; the
    cool-down's growth and cap.
  \<^item> \<open>Pool\<close> (\<open>utils/pool.js\<close>): a step relation over the workers; never more tasks at once than
    the limit, every task's outcome at its own index, termination under every interleaving.
  \<^item> \<open>Lock\<close> (\<open>services/lock.service.js\<close>): acquire, renew, release; then any number of instances,
    the clock and the server's sweep of expired leases as a step relation. One live leader.
  \<^item> \<open>Probe\<close> (\<open>services/monitor.service.js\<close>): a probe as a state machine driven by Node's
    events, and the retry ladder over it. Credentials stay on the monitor's origin, a probe
    settles once and by its deadline, requests, attempts and delays are bounded.
  \<^item> \<open>Incident\<close> (\<open>services/incident.service.js\<close>): the two transitions with all their writes, and
    all interleavings of them over a collection with the partial unique index.
  \<^item> \<open>Templates\<close>, \<open>Mail\<close>, \<open>Notify\<close> (\<open>notifications/\<close>, \<open>services/sendEmail.js\<close>,
    \<open>brevo.provider.js\<close>, \<open>config/mail.js\<close>): what is sent, to whom, and that one failed
    notifier or recipient does not keep the others from being tried.
  \<^item> \<open>Scheduler\<close>, \<open>Scheduler_Props\<close> (\<open>jobs/scheduler.js\<close>): the loop, one tick, one check, the
    shutdown; the flap detector against a reference hysteresis, the rate of checks, agreement
    of status and incident, and where the code departs from its documents.

  The API:

  \<^item> \<open>Crypto\<close> (\<open>utils/crypto.js\<close>): the envelope and its key cache; decryption inverts encryption.
  \<^item> \<open>Http\<close> (\<open>utils/ApiError.js\<close>, \<open>ApiResponse.js\<close>, \<open>asyncHandler.js\<close>, the middlewares):
    what a throw becomes, and the guards before a handler.
  \<^item> \<open>Routes\<close> (\<open>routes/\<close> and \<open>app.js\<close>): the routing table in registration order and what
    Express dispatches a request to; which handlers run without a session.
  \<^item> \<open>Validation\<close> (\<open>validators/monitor.validator.js\<close>) and \<open>Request_Metrics\<close>
    (\<open>middlewares/requestLogger.middleware.js\<close>).
  \<^item> \<open>Dao\<close>, \<open>Tenancy\<close> (\<open>dao/\<close>): scoping of arbitrary filters, every DAO operation; reads refine
    reads of a private collection and writes leave other tenants' documents alone.
  \<^item> \<open>Monitor_Schema\<close>, \<open>Monitors\<close> (\<open>models/monitor.model.js\<close>,
    \<open>controllers/monitor.controller.js\<close>): what a client may write and what it is shown.
  \<^item> \<open>Records\<close>, \<open>Uptime\<close> (incident, logs and metrics controllers, \<open>services/uptime.service.js\<close>):
    reads confined through the monitors owned; the uptime figures against the checks.
  \<^item> \<open>Slug\<close>, \<open>Status_Page\<close> (\<open>models/statusPage.model.js\<close>, \<open>controllers/statusPage.controller.js\<close>).
  \<^item> \<open>Users\<close>, \<open>User_Api\<close>, \<open>Google_Auth\<close> (\<open>models/user.model.js\<close>, \<open>services/user.service.js\<close>,
    \<open>controllers/user.controller.js\<close>, \<open>googleAuth.controller.js\<close>): the account handlers.
    \<open>Accounts\<close>, \<open>Account_Flows\<close>, \<open>Account_Recovery\<close>: the invariant of stored accounts, who gets
    a session, what a reset link is worth, and sequences of requests.
  \<^item> \<open>Channels\<close> (\<open>controllers/channel.controller.js\<close>), \<open>Assistant\<close> (\<open>services/ai.services.js\<close>,
    \<open>sockets/chat.socket.js\<close>), \<open>Sockets\<close> (\<open>sockets/server.socket.js\<close>).
  \<^item> \<open>Operations\<close>: the database connection, health and readiness, metrics, request filters, and
    the shutdown of \<open>server.js\<close>. \<open>Metric_Registry\<close> (\<open>observability/metrics.js\<close>): the declared
    metrics, and that a dispatch of notifications touches only series seeded at startup.

  The client, under \<open>Frontend/src\<close>:

  \<^item> \<open>Uri\<close>: \<open>encodeURIComponent\<close> and its inverse. \<open>Client_Api\<close> (\<open>config/env.js\<close>, \<open>lib/api/\<close>, the
    services): what reaches axios. \<open>Client_Routes\<close>: each service of the client composed with the
    routing table of the server.
  \<^item> \<open>Store\<close> (\<open>app/app.store.js\<close>, the slices): every reducer; the lists as finite maps.
  \<^item> \<open>Client_Session\<close> (the hooks \<open>useAuth\<close>, \<open>useMonitor\<close>, \<open>useIncident\<close>, \<open>useLogs\<close>, \<open>useStatus\<close>):
    a handler is the actions before its request and those after it; a step relation interleaves
    them over the store.
  \<^item> \<open>Realtime\<close> (\<open>lib/socket/\<close>): the connection indicator as a state machine over the browser's and
    the socket's events, as an \<open>inductive\<close> relation simplified by \<open>inductive_simps\<close>.
  \<^item> \<open>Chat_Client\<close> (\<open>features/chat/useChat.js\<close>): composed with the server's \<open>handleSocketChat\<close>.
  \<^item> \<open>Indicator\<close> (\<open>components/ui/ConnectionStatus.jsx\<close>): what the states of the connection read,
    and that a lost one can always be got back.
  \<^item> \<open>Screens\<close>, \<open>Settings_Screen\<close>, \<open>Status_Screens\<close>: the decisions of the forms, of optimistic
    updates, and of the reporting screens.
  \<^item> \<open>Client_Router\<close> (\<open>app/app.routes.jsx\<close>, \<open>ProtectedRoute.jsx\<close>): which page an address shows, and
    that following redirections ends. \<open>Reset_Journey\<close> composes it with the path filter, the server's
    routes and the account handlers: the mail of a forgotten password, opened, leads to a new
    password; some addresses of status pages lead nowhere.
  \<^item> \<open>Auth_Forms\<close> (\<open>features/auth/pages/\<close>) and \<open>Google_Button\<close> (\<open>GoogleSignInButton.jsx\<close>): what a
    submission asks for and what its answer does; the script of the button as a state machine.
  \<^item> \<open>Panels\<close>: the parts that load for themselves (the bell, the journal, an incident, the uptime
    and latency panels, the public page), as machines whose answers come in any order: which of
    them can be overtaken by a late answer, and what they claim when a request fails.
  \<^item> \<open>Alert_Center\<close> (\<open>pages/Alerts.jsx\<close>), \<open>Page_Editor\<close> (\<open>StatusPages.jsx\<close>), \<open>Dashboard\<close>
    (\<open>Dashboard.jsx\<close>, \<open>Monitoring.jsx\<close>): their state and every handler in its two halves, with what
    the server of \<open>Channels\<close>, \<open>Notify\<close> and \<open>Status_Page\<close> makes of the requests.

  Beside the program, \<open>Audit_Gate\<close> (\<open>scripts/audit-gate.mjs\<close>): when the dependency gate passes.

  \<^bold>\<open>Interfaces.\<close> A locale stands wherever a client relies on a provider, and each is
  interpreted on the provider's own definitions:

  \<^item> \<open>mongo\<close>, \<open>mongo_atomic\<close>: what a collection with unique indexes promises, in the multiset of
    its documents. An operation may fail, and \<open>mongo\<close> says nothing of the contents then;
    \<open>mongo_atomic\<close> adds that a single-document write was applied or was not. Interpreted on
    \<open>list_coll\<close>, as \<open>mem\<close> and \<open>mem_atomic\<close>.
  \<^item> \<open>query_language\<close>, \<open>casting_query\<close>: how a filter object is read. Interpreted on the
    evaluator \<open>evalq\<close>.
  \<^item> \<open>circuit_breaker\<close>: what the scheduler needs of a breaker (\<open>cb\<close>). \<open>leader_lock\<close>: what it needs
    of the lock (\<open>sl\<close>).
  \<^item> \<open>aead\<close>: authenticated encryption, a primitive of the platform.
  \<^item> \<open>keyed_rows\<close>: a list of rows behaving as a map, interpreted on the monitors' and the
    incidents' slices (\<open>mon\<close>, \<open>inc\<close>).

  \<^bold>\<open>What is a parameter.\<close> Code outside the repository: MongoDB and Mongoose's casts and \<open>populate\<close>,
  bcrypt, the JWT library, Google's token library, AES and scrypt, the URL and cookie decoders,
  the number and date formatting of the platform, the Unicode normalisation behind a slug, the
  language model, the network's answers, clock readings and random draws. Each property names
  what it needs of them, and its witness runs it on concrete instances.

  \<^bold>\<open>Bounds.\<close> Every recursion ends by itself. The retry ladder recurses on the attempts left, and
  \<open>check_loop\<close> is proved total by that measure; \<open>drain\<close>, the wait of a shutdown, ends at its
  deadline; the connection to the database is bounded by the source's own five attempts,
  which \<open>connect_from\<close> counts down; \<open>dashify\<close> and \<open>remove_all\<close> consume their input. A pool's run is
  a relation, and its termination is a theorem. \<open>visit\<close>, which follows redirections, is a
  \<open>partial_function (option)\<close> and is proved to give a page for every address. No definition takes fuel, so no property is
  conditional on having enough. Numbers of JavaScript that the code uses as counters, codes or
  milliseconds stay far below 2^53 and are unbounded here; intervals and percentages, which may
  be fractional, are \<open>rat\<close>.

  \<^bold>\<open>Not modelled.\<close>

  \<^item> Markup, styling, charts and the wiring of components: of a screen, its state, what it computes
    and which handler it calls. How long a notification stays is left out.
  \<^item> Log lines, the Swagger pages, and the client that talks to the language model.
  \<^item> \<open>validators/user.validator.js\<close> and \<open>config/validate.js\<close>, which no route uses.
  \<^item> The internals of the middleware libraries (helmet, cors, the sanitiser, the rate limiter's
    counters, prom-client's histograms): \<open>Operations\<close> models how they are configured.
  \<^item> Tests, build files, and the scripts other than the dependency gate.
\<close>

end
